(* ===== verification/Prelude.thy ===== *)
theory Prelude
  imports Main "HOL-Library.Monad_Syntax"
begin

text \<open>
  Shared vocabulary of the directory-service development. The Python 2 code of
  \<open>src/gui/common/freenasldap.py\<close> relies on a few builtins whose behaviour the
  claims depend on: \<open>str.split\<close> with a one-character separator, \<open>str(n)\<close> and
  \<open>long(s)\<close> for decimal ports, \<open>str.upper\<close> for cache keys, \<open>"%s" % x\<close> (which
  prints \<open>None\<close> for a missing value) and Python truthiness of optional strings.
  They are modelled here once, with the lemmas (round trips, decompositions) that
  the component theories use. The Python exceptions the code can raise are the
  datatype \<open>py_error\<close>.
\<close>

named_theorems dir_simps "evaluation rules of the directory-service model"

section \<open>Python exceptions\<close>

datatype py_error =
    TypeError      \<comment> \<open>concatenating \<open>None\<close> to a string\<close>
  | KeyError       \<comment> \<open>a missing attribute in a directory entry\<close>
  | IndexError     \<comment> \<open>indexing an empty list of values or results\<close>
  | ValueError     \<comment> \<open>\<open>long(s)\<close> on a string that is not a number\<close>
  | AssertionError \<comment> \<open>\<open>raise AssertionError('user is None')\<close>\<close>
  | AttributeError \<comment> \<open>a method called on a \<open>None\<close> session handle\<close>
  | NameError      \<comment> \<open>an undefined name, or \<open>UnboundLocalError\<close>: a local read before assignment\<close>
  | OSError        \<comment> \<open>\<open>os.listdir\<close> of a path that is not a directory\<close>
  | SystemExit     \<comment> \<open>\<open>sys.exit(1)\<close>\<close>
  | DoesNotExist   \<comment> \<open>\<open>objects.get\<close> without a matching row\<close>
  | MultipleObjectsReturned \<comment> \<open>\<open>objects.get\<close> with several matching rows\<close>
  | ValidationError \<comment> \<open>\<open>forms.ValidationError\<close> of a form's \<open>clean\<close> method\<close>
  | ServiceFailed  \<comment> \<open>\<open>services.exceptions.ServiceFailed\<close>\<close>
  | MiddlewareError \<comment> \<open>\<open>middleware.exceptions.MiddlewareError\<close>\<close>

section \<open>Truthiness and formatting of optional strings\<close>

text \<open>A Python attribute that may be \<open>None\<close> is a \<open>string option\<close>.
  \<open>if s:\<close> holds for a present, non-empty string.\<close>

definition truthy :: "string option \<Rightarrow> bool" where
  "truthy s = (case s of None \<Rightarrow> False | Some x \<Rightarrow> x \<noteq> [])"

text \<open>\<open>"%s" % s\<close>: a missing value prints as \<open>None\<close>.\<close>

definition pyfmt :: "string option \<Rightarrow> string" where
  "pyfmt s = (case s of None \<Rightarrow> ''None'' | Some x \<Rightarrow> x)"

section \<open>\<open>str.split\<close> with a one-character separator\<close>

fun py_split :: "char \<Rightarrow> string \<Rightarrow> string list" where
  "py_split c [] = [[]]"
| "py_split c (x # xs) =
     (let r = py_split c xs in if x = c then [] # r else (x # hd r) # tl r)"

section \<open>Decimal numbers: \<open>str(n)\<close> and \<open>long(s)\<close>\<close>

definition digit_char :: "nat \<Rightarrow> char" where
  "digit_char d = char_of (48 + d)"

definition char_isdigit :: "char \<Rightarrow> bool" where
  "char_isdigit c = ((48::nat) \<le> of_char c \<and> of_char c \<le> (57::nat))"

definition digit_val :: "char \<Rightarrow> nat" where
  "digit_val c = of_char c - (48::nat)"

fun show_nat :: "nat \<Rightarrow> string" where
  "show_nat n = (if n < 10 then [digit_char n] else show_nat (n div 10) @ [digit_char (n mod 10)])"

declare show_nat.simps [simp del]

fun parse_digits :: "nat \<Rightarrow> string \<Rightarrow> nat option" where
  "parse_digits acc [] = Some acc"
| "parse_digits acc (c # cs) =
     (if char_isdigit c then parse_digits (10 * acc + digit_val c) cs else None)"

text \<open>\<open>long(s)\<close> on a string of decimal digits; anything else raises \<open>ValueError\<close>.
  (Python also accepts surrounding blanks and a sign; the ports the code parses
  come from \<open>host:port\<close> strings and the model keeps to plain digits.)\<close>

definition py_long :: "string \<Rightarrow> py_error + nat" where
  "py_long s = (if s = [] then Inl ValueError
                else (case parse_digits 0 s of None \<Rightarrow> Inl ValueError | Some n \<Rightarrow> Inr n))"

text \<open>\<open>'%d' % n\<close> on a Python int or long.\<close>

definition show_int :: "int \<Rightarrow> string" where
  "show_int i = (if i < 0 then ''-'' @ show_nat (nat (- i)) else show_nat (nat i))"

text \<open>\<open>int(s)\<close> on an optionally negative decimal string (directory attributes such as
  \<open>groupType\<close> are signed 32-bit values printed in decimal).\<close>

definition py_int :: "string \<Rightarrow> py_error + int" where
  "py_int s = (if s \<noteq> [] \<and> hd s = CHR ''-''
               then (case py_long (tl s) of Inl e \<Rightarrow> Inl e | Inr n \<Rightarrow> Inr (- int n))
               else (case py_long s of Inl e \<Rightarrow> Inl e | Inr n \<Rightarrow> Inr (int n)))"

section \<open>\<open>str.upper\<close>\<close>

definition upper_char :: "char \<Rightarrow> char" where
  "upper_char c = (if (97::nat) \<le> of_char c \<and> of_char c \<le> (122::nat) then char_of (of_char c - (32::nat)) else c)"

definition py_upper :: "string \<Rightarrow> string" where
  "py_upper s = map upper_char s"

section \<open>Association lists as Python dictionaries\<close>

text \<open>A directory entry's attributes arrive as a dictionary from attribute name to
  the list of values. \<open>d[k]\<close> raises \<open>KeyError\<close> on a missing key, \<open>vs[0]\<close>
  raises \<open>IndexError\<close> on an empty list.\<close>

definition dict_get :: "('k \<times> 'v) list \<Rightarrow> 'k \<Rightarrow> py_error + 'v" where
  "dict_get d k = (case map_of d k of None \<Rightarrow> Inl KeyError | Some v \<Rightarrow> Inr v)"

definition first_value :: "'v list \<Rightarrow> py_error + 'v" where
  "first_value vs = (case vs of [] \<Rightarrow> Inl IndexError | v # _ \<Rightarrow> Inr v)"

text \<open>Sequential statements of a method that threads the connection state: the
  next statement runs on the normal result, an exception propagates unchanged.\<close>

definition then_ok ::
  "('w \<times> 's \<times> (py_error + 'a)) option \<Rightarrow> ('w \<Rightarrow> 's \<Rightarrow> 'a \<Rightarrow> ('w \<times> 's \<times> (py_error + 'b)) option) \<Rightarrow>
   ('w \<times> 's \<times> (py_error + 'b)) option" where
  "then_ok m f = (case m of None \<Rightarrow> None | Some (w, s, Inl e) \<Rightarrow> Some (w, s, Inl e) | Some (w, s, Inr x) \<Rightarrow> f w s x)"

section \<open>Lemmas on the builtins\<close>

lemma truthy_simps [simp, dir_simps]:
  "truthy None = False" "truthy (Some x) = (x \<noteq> [])"
  by (simp_all add: truthy_def)

lemma pyfmt_simps [simp, dir_simps]:
  "pyfmt None = ''None''" "pyfmt (Some x) = x"
  by (simp_all add: pyfmt_def)

lemma py_split_nonempty [simp]: "py_split c s \<noteq> []"
  by (induction s) (auto simp: Let_def)

lemma py_split_no_sep [simp]: "c \<notin> set s \<Longrightarrow> py_split c s = [s]"
  by (induction s) (auto simp: Let_def)

lemma py_split_append_sep:
  "c \<notin> set a \<Longrightarrow> py_split c (a @ c # b) = a # py_split c b"
proof (induction a)
  case Nil
  then show ?case by (simp add: Let_def)
next
  case (Cons x a)
  then show ?case by (auto simp: Let_def)
qed

lemma digit_char_ok: "d < 10 \<Longrightarrow> char_isdigit (digit_char d) \<and> digit_val (digit_char d) = d"
  by (simp add: digit_char_def char_isdigit_def digit_val_def)

lemma digit_char_simps [simp, dir_simps]:
  "digit_char 0 = CHR ''0''" "digit_char 1 = CHR ''1''" "digit_char 2 = CHR ''2''"
  "digit_char 3 = CHR ''3''" "digit_char 4 = CHR ''4''" "digit_char 5 = CHR ''5''"
  "digit_char 6 = CHR ''6''" "digit_char 7 = CHR ''7''" "digit_char 8 = CHR ''8''"
  "digit_char 9 = CHR ''9''"
  by code_simp+

lemma digit_char_Suc_0 [simp, dir_simps]: "digit_char (Suc 0) = CHR ''1''"
  by code_simp

lemma parse_digits_append:
  "parse_digits acc (xs @ ys) = Option.bind (parse_digits acc xs) (\<lambda>a. parse_digits a ys)"
  by (induction acc xs rule: parse_digits.induct) auto

lemma parse_digits_show_nat: "parse_digits acc (show_nat n) = Some (acc * 10 ^ length (show_nat n) + n)"
proof (induction n arbitrary: acc rule: show_nat.induct)
  case (1 n)
  show ?case
  proof (cases "n < 10")
    case True
    then show ?thesis by (simp add: show_nat.simps [of n] digit_char_ok)
  next
    case False
    let ?h = "show_nat (n div 10)"
    have "parse_digits acc (show_nat n) =
          Option.bind (parse_digits acc ?h) (\<lambda>a. parse_digits a [digit_char (n mod 10)])"
      using False by (simp add: show_nat.simps [of n] parse_digits_append)
    also have "\<dots> = Some (10 * (acc * 10 ^ length ?h + n div 10) + n mod 10)"
      using False "1.IH" by (simp add: digit_char_ok)
    also have "\<dots> = Some (acc * 10 ^ length (show_nat n) + n)"
      using False by (simp add: show_nat.simps [of n] algebra_simps)
    finally show ?thesis .
  qed
qed

lemma show_nat_nonempty [simp]: "show_nat n \<noteq> []"
  by (subst show_nat.simps) simp

text \<open>Round trip: \<open>long(str(n)) == n\<close>.\<close>

lemma py_long_show_nat [simp]: "py_long (show_nat n) = Inr n"
  by (simp add: py_long_def parse_digits_show_nat)

lemma show_nat_digits [simp]: "list_all char_isdigit (show_nat n)"
proof (induction n rule: show_nat.induct)
  case (1 n)
  then show ?case by (subst show_nat.simps) (simp add: digit_char_ok)
qed

lemma show_int_of_nat [simp]: "show_int (int n) = show_nat n"
  by (simp add: show_int_def)

lemma show_nat_hd_digit: "hd (show_nat n) \<noteq> CHR ''-''"
proof -
  have "list_all char_isdigit (show_nat n)" by simp
  then have "char_isdigit (hd (show_nat n))" by (cases "show_nat n") simp_all
  then show ?thesis by (auto simp: char_isdigit_def)
qed

text \<open>Round trip: \<open>int('%d' % i) == i\<close>.\<close>

lemma py_int_show_int [simp]: "py_int (show_int i) = Inr i"
  using show_nat_hd_digit [of "nat i"] by (simp add: show_int_def py_int_def)

lemma dict_get_simps [dir_simps]:
  "dict_get ((k, v) # d) k = Inr v"
  "k' \<noteq> k \<Longrightarrow> dict_get ((k', v) # d) k = dict_get d k"
  "dict_get [] k = Inl KeyError"
  by (simp_all add: dict_get_def)

lemma first_value_simps [simp, dir_simps]:
  "first_value [] = Inl IndexError" "first_value (v # vs) = Inr v"
  by (simp_all add: first_value_def)

lemma then_ok_simps [simp]:
  "then_ok None f = None"
  "then_ok (Some (w, s, Inl e)) f = Some (w, s, Inl e)"
  "then_ok (Some (w, s, Inr x)) f = f w s x"
  by (simp_all add: then_ok_def)

lemma then_ok_Some_Inr:
  "then_ok m f = Some (w', s', Inr y) \<longleftrightarrow>
     (\<exists>w s x. m = Some (w, s, Inr x) \<and> f w s x = Some (w', s', Inr y))"
  by (auto simp: then_ok_def split: option.splits sum.splits)

text \<open>A fold that threads an exception keeps the first one raised.\<close>

lemma foldl_Inl_absorb [simp]:
  "foldl (\<lambda>r d. case r of Inl e \<Rightarrow> Inl e | Inr a \<Rightarrow> g a d) (Inl e) ds = Inl e"
  by (induction ds) simp_all

text \<open>\<open>find\<close> on a list extended at the end.\<close>

lemma find_snoc:
  "find P (xs @ [x]) = (case find P xs of None \<Rightarrow> if P x then Some x else None | Some y \<Rightarrow> Some y)"
  by (induction xs) auto

end
