(* ===== verification/Connection.thy ===== *)
theory Connection
  imports Prelude
begin

text \<open>
  The directory connection: class \<open>FreeNAS_LDAP_Directory\<close> of
  \<open>src/gui/common/freenasldap.py\<close> (lines 83--391). Its attributes are the record
  \<open>ldap_directory\<close>; every method that changes them is a function that takes the
  record and the network \<open>net\<close> and returns both updated. The network is the
  environment the code talks to through python-ldap and hashlib: how each server
  answers a bind, a StartTLS request, a plain search and a paged search, the
  SHA-256 digest, and the observable effects of the calls (bound sessions, search
  requests sent, the bind attempts with whether the channel was encrypted).
  The paged-search loop follows the server's cookies and may run forever, so it is
  a \<^theory_text>\<open>partial_function (option)\<close>, and so is everything that calls it.
\<close>

section \<open>Data\<close>

datatype ssl_mode = FREENAS_LDAP_NOSSL | FREENAS_LDAP_USESSL | FREENAS_LDAP_USETLS

datatype ldap_scope = SCOPE_BASE | SCOPE_ONELEVEL | SCOPE_SUBTREE

text \<open>The \<open>ssl\<close> keyword argument: a Python int/long or a string.\<close>

datatype ssl_arg = SslInt int | SslStr string

text \<open>A search result row: the distinguished name (\<open>None\<close> for a referral) and the
  attribute dictionary, attribute name to its list of values.\<close>

type_synonym attrs = "(string \<times> string list) list"
type_synonym entry = "string option \<times> attrs"

text \<open>What \<open>search_ext\<close> sends: the session (its URI), base, scope and filter.
  The attribute list is always \<open>None\<close> (line 280).\<close>

record search_req =
  rq_uri :: string
  rq_base :: "string option"
  rq_scope :: ldap_scope
  rq_filter :: string

text \<open>The messages \<open>result(id, 0)\<close> returns one at a time on a non-paged search;
  \<open>MsgError\<close> is an \<open>LDAPError\<close> raised by \<open>result\<close>.\<close>

datatype ldap_msg = MsgEntry "entry list" | MsgResult "entry list" | MsgError

record net =
  srv_bind :: "string \<Rightarrow> (string \<times> string) option \<Rightarrow> bool"
  srv_starttls :: "string \<Rightarrow> bool"
  srv_search :: "search_req \<Rightarrow> ldap_msg list"
  srv_page :: "search_req \<Rightarrow> nat \<Rightarrow> string \<Rightarrow> entry list \<times> string option"
  sha256 :: "string \<Rightarrow> string"
  sessions :: nat
  requests :: nat
  binds :: "(string \<times> bool \<times> (string \<times> string) option) list"

text \<open>The object's attributes. \<open>handle\<close> is the session handle, identified by
  the URI it was initialised with; \<open>cache\<close> is the query cache
  \<open>FreeNAS_LDAP_QueryCache\<close>, a dictionary from key to result.\<close>

record ldap_directory =
  host :: "string option"
  port :: nat
  binddn :: "string option"
  bindpw :: "string option"
  basedn :: "string option"
  ssl :: ssl_mode
  scope :: ldap_scope
  search_filter :: "string option"
  attributes :: "string list option"
  pagesize :: nat
  flags :: int
  handle :: "string option"
  isopen :: bool
  cache :: "string \<Rightarrow> entry list option"

text \<open>Keyword arguments of the constructor; an absent key and \<open>None\<close> coincide.\<close>

record dir_args =
  a_host :: "string option"
  a_port :: "nat option"
  a_binddn :: "string option"
  a_bindpw :: "string option"
  a_basedn :: "string option"
  a_ssl :: "ssl_arg option"
  a_scope :: "ldap_scope option"
  a_filter :: "string option"
  a_attributes :: "string list option"
  a_pagesize :: "nat option"
  a_flags :: "int option"

section \<open>Module constants\<close>

text \<open>\<open>get_freenas_var\<close> defaults of lines 52, 53 and 66.\<close>

definition FREENAS_LDAP_PORT :: nat where "FREENAS_LDAP_PORT = 389"
definition FREENAS_LDAP_SSL_PORT :: nat where "FREENAS_LDAP_SSL_PORT = 636"
definition FREENAS_LDAP_PAGESIZE :: nat where "FREENAS_LDAP_PAGESIZE = 1024"

section \<open>Construction\<close>

definition str_isdigit :: "string \<Rightarrow> bool" where
  "str_isdigit s = (s \<noteq> [] \<and> list_all char_isdigit s)"

text \<open>\<open>_setssl\<close>: the numeric branch converts the value but never assigns it to
  \<open>tok\<close>.\<close>

definition setssl :: "ssl_arg \<Rightarrow> ssl_mode" where
  "setssl a =
    (let tok = FREENAS_LDAP_NOSSL in
     (case a of
        SslInt n \<Rightarrow> (if n \<notin> {0, 1, 2} then FREENAS_LDAP_NOSSL else tok)
      | SslStr s \<Rightarrow>
          (if str_isdigit s then
             (let n = (case py_long s of Inr k \<Rightarrow> int k | Inl _ \<Rightarrow> 0) in
              if n \<notin> {0, 1, 2} then FREENAS_LDAP_NOSSL else tok)
           else if s = ''start_tls'' then FREENAS_LDAP_USETLS
           else if s = ''on'' then FREENAS_LDAP_USESSL
           else tok)))"

text \<open>\<open>__init__\<close>: the port defaults to 636 for SSL and to 389 otherwise.\<close>

definition ldap_directory_init :: "dir_args \<Rightarrow> ldap_directory" where
  "ldap_directory_init kw =
    (let ssl0 = (case a_ssl kw of None \<Rightarrow> FREENAS_LDAP_NOSSL | Some x \<Rightarrow> setssl x);
         port0 = (case a_port kw of
                    Some p \<Rightarrow> p
                  | None \<Rightarrow> (if ssl0 = FREENAS_LDAP_USESSL
                             then FREENAS_LDAP_SSL_PORT else FREENAS_LDAP_PORT))
     in \<lparr>host = a_host kw, port = port0, binddn = a_binddn kw, bindpw = a_bindpw kw,
         basedn = a_basedn kw, ssl = ssl0,
         scope = (case a_scope kw of None \<Rightarrow> SCOPE_SUBTREE | Some sc \<Rightarrow> sc),
         search_filter = a_filter kw, attributes = a_attributes kw,
         pagesize = (case a_pagesize kw of None \<Rightarrow> 0 | Some n \<Rightarrow> n),
         flags = (case a_flags kw of None \<Rightarrow> 0 | Some f \<Rightarrow> f),
         handle = None, isopen = False, cache = Map.empty\<rparr>)"

section \<open>Session lifecycle\<close>

text \<open>\<open>_geturi\<close>.\<close>

definition geturi :: "'a ldap_directory_scheme \<Rightarrow> string option" where
  "geturi s =
    (case host s of
       None \<Rightarrow> None
     | Some h \<Rightarrow>
         (let proto = (if ssl s = FREENAS_LDAP_USESSL then ''ldaps'' else ''ldap'')
          in Some (proto @ ''://'' @ h @ '':'' @ show_nat (port s))))"

text \<open>The credentials of \<open>simple_bind_s\<close>: both bind DN and password truthy, or an
  anonymous bind.\<close>

definition bind_creds :: "string option \<Rightarrow> string option \<Rightarrow> (string \<times> string) option" where
  "bind_creds dn pw =
    (case (dn, pw) of
       (Some d, Some p) \<Rightarrow> (if d \<noteq> [] \<and> p \<noteq> [] then Some (d, p) else None)
     | _ \<Rightarrow> None)"

text \<open>Whether the bind travels over an encrypted channel: \<open>ldaps://\<close>, or a
  StartTLS that succeeded. A failed \<open>start_tls_s\<close> is logged and swallowed.\<close>

definition tls_channel :: "net \<Rightarrow> ssl_mode \<Rightarrow> string \<Rightarrow> bool" where
  "tls_channel w m u =
    (m = FREENAS_LDAP_USESSL \<or> (m = FREENAS_LDAP_USETLS \<and> srv_starttls w u))"

text \<open>\<open>open\<close>: a no-op on an open connection; otherwise a new handle if the host is
  set, then a bind (with credentials or anonymous) whose failure is swallowed;
  \<open>_isopen\<close> is set only on a successful bind.\<close>

definition ldap_open :: "net \<Rightarrow> 'a ldap_directory_scheme \<Rightarrow> net \<times> 'a ldap_directory_scheme \<times> bool" where
  "ldap_open w s =
    (if isopen s then (w, s, True)
     else
       (let s1 = (if truthy (host s) then s\<lparr>handle := geturi s\<rparr> else s) in
        case handle s1 of
          None \<Rightarrow> (w, s1, False)
        | Some u \<Rightarrow>
            (let cr = bind_creds (binddn s1) (bindpw s1);
                 w1 = w\<lparr>binds := binds w @ [(u, tls_channel w (ssl s1) u, cr)]\<rparr>
             in if srv_bind w u cr
                then (w1\<lparr>sessions := Suc (sessions w1)\<rparr>, s1\<lparr>isopen := True\<rparr>, True)
                else (w1, s1, False))))"

text \<open>\<open>unbind\<close> and \<open>close\<close>.\<close>

definition ldap_unbind :: "net \<Rightarrow> 'a ldap_directory_scheme \<Rightarrow> net" where
  "ldap_unbind w s = (case handle s of None \<Rightarrow> w | Some _ \<Rightarrow> w\<lparr>sessions := sessions w - 1\<rparr>)"

definition ldap_close :: "net \<Rightarrow> 'a ldap_directory_scheme \<Rightarrow> net \<times> 'a ldap_directory_scheme" where
  "ldap_close w s =
    (if isopen s then (ldap_unbind w s, s\<lparr>handle := None, isopen := False\<rparr>) else (w, s))"

text \<open>\<open>_save\<close> and \<open>_restore\<close>: a stack of snapshots of the attribute dictionary.
  The query cache is one dictionary object shared by every snapshot, so what was
  cached in between survives a restore.\<close>

definition dir_save :: "'a ldap_directory_scheme \<Rightarrow> 'a ldap_directory_scheme list \<Rightarrow> 'a ldap_directory_scheme list" where
  "dir_save s st = st @ [s]"

definition dir_restore :: "'a ldap_directory_scheme \<Rightarrow> 'a ldap_directory_scheme list \<Rightarrow> 'a ldap_directory_scheme \<times> 'a ldap_directory_scheme list" where
  "dir_restore s st =
    (if st = [] then (s, st) else (last st\<lparr>cache := cache s\<rparr>, butlast st))"

section \<open>Searching\<close>

text \<open>The cache key: SHA-256 of filter, host, port and base concatenated.\<close>

definition query_key :: "net \<Rightarrow> string \<Rightarrow> string \<Rightarrow> nat \<Rightarrow> string option \<Rightarrow> string" where
  "query_key w f h p b = sha256 w (f @ h @ show_nat p @ (case b of None \<Rightarrow> [] | Some x \<Rightarrow> x))"

text \<open>The non-paged loop: read messages until the final result or an error.\<close>

fun collect_msgs :: "ldap_msg list \<Rightarrow> entry list" where
  "collect_msgs [] = []"
| "collect_msgs (MsgEntry d # ms) = d @ collect_msgs ms"
| "collect_msgs (MsgResult d # ms) = d"
| "collect_msgs (MsgError # ms) = []"

text \<open>The paged loop (lines 307--345): one request per page, the server's cookie
  sent back, until the paged-results control is missing or its cookie is empty.
  Returns the accumulated rows and the final value of the page counter.\<close>

partial_function (option) paged_loop ::
  "net \<Rightarrow> search_req \<Rightarrow> nat \<Rightarrow> string \<Rightarrow> entry list \<Rightarrow> nat \<Rightarrow> (entry list \<times> nat) option" where
  "paged_loop w rq sz ck acc page =
    (case srv_page w rq sz ck of
       (rdata, ctl) \<Rightarrow>
         (case ctl of
            None \<Rightarrow> Some (acc @ rdata, page)
          | Some c \<Rightarrow>
              (if c = [] then Some (acc @ rdata, page)
               else paged_loop w rq sz c (acc @ rdata) (Suc page))))"

text \<open>\<open>_search\<close>: nothing when closed; a \<open>TypeError\<close> when filter or host is
  \<open>None\<close> (the key concatenation); a cached result when the key is cached (for
  paged searches too); otherwise a paged search (not cached) or a plain one
  (cached).\<close>

definition ldap_search_raw ::
  "net \<Rightarrow> 'a ldap_directory_scheme \<Rightarrow> string option \<Rightarrow> ldap_scope \<Rightarrow> string option \<Rightarrow>
   (net \<times> 'a ldap_directory_scheme \<times> (py_error + entry list option)) option" where
  "ldap_search_raw w s b sc flt =
    (if \<not> isopen s then Some (w, s, Inr None)
     else
       (case (flt, host s) of
          (Some f, Some h) \<Rightarrow>
            (let key = query_key w f h (port s) b in
             case cache s key of
               Some r \<Rightarrow> Some (w, s, Inr (Some r))
             | None \<Rightarrow>
                 (case handle s of
                    None \<Rightarrow> Some (w, s, Inl AttributeError)
                  | Some u \<Rightarrow>
                      (let rq = \<lparr>rq_uri = u, rq_base = b, rq_scope = sc, rq_filter = f\<rparr> in
                       if 0 < pagesize s then
                         map_option
                           (\<lambda>(res, page). (w\<lparr>requests := requests w + Suc page\<rparr>, s, Inr (Some res)))
                           (paged_loop w rq (pagesize s) [] [] 0)
                       else
                         (let res = collect_msgs (srv_search w rq) in
                          Some (w\<lparr>requests := Suc (requests w)\<rparr>, s\<lparr>cache := (cache s)(key \<mapsto> res)\<rparr>,
                                Inr (Some res))))))
        | _ \<Rightarrow> Some (w, s, Inl TypeError)))"

text \<open>The public \<open>search\<close>: open if needed, search with the object's own base,
  scope and filter, and close again if it was closed before. An exception of
  \<open>_search\<close> propagates before the close.\<close>

definition ldap_search ::
  "net \<Rightarrow> 'a ldap_directory_scheme \<Rightarrow> (net \<times> 'a ldap_directory_scheme \<times> (py_error + entry list option)) option" where
  "ldap_search w s =
    (let was = isopen s; (w1, s1, _) = ldap_open w s in
     do {
       (w2, s2, r) \<leftarrow> ldap_search_raw w1 s1 (basedn s1) (scope s1) (search_filter s1);
       (case r of
          Inl e \<Rightarrow> Some (w2, s2, r)
        | Inr _ \<Rightarrow> (let (w3, s3) = (if was then (w2, s2) else ldap_close w2 s2) in Some (w3, s3, r)))
     })"


section \<open>A paging server, the invariant and the reachable states\<close>

text \<open>A server that pages a fixed result list honestly: the cookie is the decimal
  offset of the next page, empty when no page follows. It is a model of the
  environment, used to state what the paged loop computes.\<close>

definition pager_offset :: "string \<Rightarrow> nat" where
  "pager_offset ck = (case py_long ck of Inr n \<Rightarrow> n | Inl _ \<Rightarrow> 0)"

definition pager :: "entry list \<Rightarrow> search_req \<Rightarrow> nat \<Rightarrow> string \<Rightarrow> entry list \<times> string option" where
  "pager es rq sz ck =
    (let off = pager_offset ck in
     (take sz (drop off es), Some (if off + sz < length es then show_nat (off + sz) else [])))"

text \<open>The connection invariant: an open connection holds a handle, and the
  servers hold exactly one bound session for it beyond the \<open>n0\<close> present at the start.\<close>

definition conn_inv :: "nat \<Rightarrow> net \<Rightarrow> 'a ldap_directory_scheme \<Rightarrow> bool" where
  "conn_inv n0 w s =
    ((isopen s \<longrightarrow> handle s \<noteq> None) \<and> sessions w = n0 + (if isopen s then 1 else 0))"

text \<open>The life of one connection object: any sequence of \<open>open\<close>, \<open>close\<close>,
  \<open>_search\<close> and \<open>search\<close> calls after construction.\<close>

inductive conn_step :: "net \<times> ldap_directory \<Rightarrow> net \<times> ldap_directory \<Rightarrow> bool" where
  step_open: "ldap_open w s = (w', s', ok) \<Longrightarrow> conn_step (w, s) (w', s')"
| step_close: "ldap_close w s = (w', s') \<Longrightarrow> conn_step (w, s) (w', s')"
| step_raw_search: "ldap_search_raw w s b sc f = Some (w', s', r) \<Longrightarrow> conn_step (w, s) (w', s')"
| step_search: "ldap_search w s = Some (w', s', r) \<Longrightarrow> conn_step (w, s) (w', s')"

inductive conn_reach :: "nat \<Rightarrow> dir_args \<Rightarrow> net \<times> ldap_directory \<Rightarrow> bool" where
  reach_init: "sessions w = n0 \<Longrightarrow> conn_reach n0 kw (w, ldap_directory_init kw)"
| reach_step: "conn_reach n0 kw c \<Longrightarrow> conn_step c c' \<Longrightarrow> conn_reach n0 kw c'"

text \<open>Concrete instances for the witnesses: five user rows, a network that
  accepts every bind and refuses StartTLS, and a connection to \<open>dc1\<close> with page size 2.\<close>

definition example_rows :: "entry list" where
  "example_rows = map (\<lambda>u. (Some (''uid='' @ u @ '',dc=acme''), [(''uid'', [u])]))
                     [''ann'', ''bob'', ''cid'', ''dan'', ''eve'']"

definition example_net :: "entry list \<Rightarrow> net" where
  "example_net es = \<lparr>srv_bind = (\<lambda>u c. True), srv_starttls = (\<lambda>u. False),
      srv_search = (\<lambda>rq. [MsgEntry es, MsgResult []]), srv_page = pager es,
      sha256 = id, sessions = 0, requests = 0, binds = []\<rparr>"

definition example_args :: dir_args where
  "example_args = \<lparr>a_host = Some ''dc1'', a_port = None, a_binddn = Some ''cn=admin'',
      a_bindpw = Some ''secret'', a_basedn = Some ''dc=acme'', a_ssl = Some (SslStr ''start_tls''),
      a_scope = None, a_filter = Some ''(uid=*)'', a_attributes = None, a_pagesize = Some 2,
      a_flags = None\<rparr>"

definition example_dir :: ldap_directory where
  "example_dir = ldap_directory_init example_args"

abbreviation example_w1 :: net where
  "example_w1 \<equiv> (example_net example_rows)\<lparr>binds := [(''ldap://dc1:389'', False, Some (''cn=admin'', ''secret''))],
       sessions := 1\<rparr>"

abbreviation example_s1 :: ldap_directory where
  "example_s1 \<equiv> example_dir\<lparr>handle := Some ''ldap://dc1:389'', isopen := True\<rparr>"

section \<open>Lemmas\<close>

lemma paged_loop_pager:
  assumes sz: "0 < sz" and srv: "srv_page w = pager es"
  shows "pager_offset ck = off \<Longrightarrow>
         paged_loop w rq sz ck acc page = Some (acc @ drop off es, page + (length es - off - 1) div sz)"
proof (induction "length es - off" arbitrary: off ck acc page rule: less_induct)
  case less
  show ?case
  proof (cases "off + sz < length es")
    case True
    let ?ck = "show_nat (off + sz)"
    have off': "pager_offset ?ck = off + sz" by (simp add: pager_offset_def)
    have IH: "paged_loop w rq sz ?ck (acc @ take sz (drop off es)) (Suc page) =
       Some ((acc @ take sz (drop off es)) @ drop (off + sz) es, Suc page + (length es - (off + sz) - 1) div sz)"
      using less.hyps [OF _ off'] True sz by simp
    have e1: "take sz (drop off es) @ drop (off + sz) es = drop off es"
      by (metis append_take_drop_id drop_drop add.commute)
    have e2: "Suc ((length es - (off + sz) - 1) div sz) = (length es - off - 1) div sz"
      using True sz le_div_geq [of sz "length es - off - 1"] by (simp add: diff_diff_add add.commute)
    show ?thesis
      using True IH e1 e2 less.prems by (simp add: paged_loop.simps [of w rq sz ck] srv pager_def)
  next
    case False
    have "length es - off - 1 < sz" using False sz by arith
    then have "(length es - off - 1) div sz = 0" by (rule div_less)
    moreover have "take sz (drop off es) = drop off es" using False by simp
    ultimately show ?thesis
      using False less.prems by (simp add: paged_loop.simps [of w rq sz ck] srv pager_def)
  qed
qed

lemma ldap_open_open [simp]: "isopen s \<Longrightarrow> ldap_open w s = (w, s, True)"
  by (simp add: ldap_open_def)

lemma ldap_close_closed [simp]: "\<not> isopen s \<Longrightarrow> ldap_close w s = (w, s)"
  by (simp add: ldap_close_def)

lemma ldap_open_frame:
  assumes "ldap_open w s = (w', s', ok)"
  shows "isopen s' = ok \<and> (isopen s \<longrightarrow> w' = w \<and> s' = s) \<and>
         (\<not> isopen s \<and> ok \<longrightarrow> handle s' \<noteq> None \<and> sessions w' = Suc (sessions w)) \<and>
         (\<not> ok \<longrightarrow> sessions w' = sessions w) \<and> cache s' = cache s"
  using assms by (auto simp: ldap_open_def Let_def split: if_splits option.splits)

lemma ldap_close_frame:
  "ldap_close w s = (w', s') \<Longrightarrow> \<not> isopen s' \<and> cache s' = cache s \<and>
     sessions w' = (if isopen s \<and> handle s \<noteq> None then sessions w - 1 else sessions w)"
  by (auto simp: ldap_close_def ldap_unbind_def split: if_splits option.splits)

lemma ldap_search_raw_frame:
  "ldap_search_raw w s b sc f = Some (w', s', r) \<Longrightarrow>
     isopen s' = isopen s \<and> handle s' = handle s \<and> sessions w' = sessions w \<and> binds w' = binds w"
  by (auto simp: ldap_search_raw_def Let_def split: if_splits option.splits prod.splits)

lemma conn_inv_open: "conn_inv n0 w s \<Longrightarrow> ldap_open w s = (w', s', ok) \<Longrightarrow> conn_inv n0 w' s'"
  by (drule ldap_open_frame) (auto simp: conn_inv_def split: if_splits)

lemma conn_inv_close: "conn_inv n0 w s \<Longrightarrow> ldap_close w s = (w', s') \<Longrightarrow> conn_inv n0 w' s'"
  by (drule ldap_close_frame) (auto simp: conn_inv_def split: if_splits)

lemma conn_inv_search_raw:
  "conn_inv n0 w s \<Longrightarrow> ldap_search_raw w s b sc f = Some (w', s', r) \<Longrightarrow> conn_inv n0 w' s'"
  by (drule ldap_search_raw_frame) (simp add: conn_inv_def)

lemma ldap_search_cases:
  assumes srch: "ldap_search w s = Some (w', s', r)"
  obtains w1 s1 ok w2 s2 where "ldap_open w s = (w1, s1, ok)"
    "ldap_search_raw w1 s1 (basedn s1) (scope s1) (search_filter s1) = Some (w2, s2, r)"
    "(w', s') = (if isl r \<or> isopen s then (w2, s2) else ldap_close w2 s2)"
proof -
  obtain w1 s1 ok where o: "ldap_open w s = (w1, s1, ok)" by (metis prod_cases3)
  obtain w2 s2 r2 where q: "ldap_search_raw w1 s1 (basedn s1) (scope s1) (search_filter s1) = Some (w2, s2, r2)"
    using srch o by (cases "ldap_search_raw w1 s1 (basedn s1) (scope s1) (search_filter s1)")
                    (auto simp: ldap_search_def)
  have "r2 = r \<and> (w', s') = (if isl r \<or> isopen s then (w2, s2) else ldap_close w2 s2)"
    using srch o q by (cases r2) (auto simp: ldap_search_def split: prod.splits if_splits)
  then show ?thesis using that o q by blast
qed

lemma conn_inv_search:
  assumes inv: "conn_inv n0 w s" and srch: "ldap_search w s = Some (w', s', r)"
  shows "conn_inv n0 w' s'"
  using srch
proof (rule ldap_search_cases)
  fix w1 s1 ok w2 s2
  assume o: "ldap_open w s = (w1, s1, ok)"
    and q: "ldap_search_raw w1 s1 (basedn s1) (scope s1) (search_filter s1) = Some (w2, s2, r)"
    and c: "(w', s') = (if isl r \<or> isopen s then (w2, s2) else ldap_close w2 s2)"
  from inv o have "conn_inv n0 w1 s1" by (rule conn_inv_open)
  from this q have i2: "conn_inv n0 w2 s2" by (rule conn_inv_search_raw)
  show ?thesis
  proof (cases "isl r \<or> isopen s")
    case True
    with c i2 show ?thesis by simp
  next
    case False
    with c have "ldap_close w2 s2 = (w', s')" by simp
    with i2 show ?thesis by (rule conn_inv_close)
  qed
qed

lemma example_dir_simps:
  "host example_dir = Some ''dc1''" "port example_dir = 389" "ssl example_dir = FREENAS_LDAP_USETLS"
  "pagesize example_dir = 2" "isopen example_dir = False" "handle example_dir = None"
  "cache example_dir = Map.empty" "binddn example_dir = Some ''cn=admin''"
  "bindpw example_dir = Some ''secret''" "search_filter example_dir = Some ''(uid=*)''"
  "basedn example_dir = Some ''dc=acme''" "scope example_dir = SCOPE_SUBTREE"
  by (simp_all add: example_dir_def example_args_def ldap_directory_init_def setssl_def
      str_isdigit_def char_isdigit_def FREENAS_LDAP_PORT_def)

lemma pager_offset_Nil [simp]: "pager_offset [] = 0"
  by (simp add: pager_offset_def py_long_def)

text \<open>C1: A paged search (page size P > 0) against a server that pages its n result rows returns exactly those rows, in order, and terminates after (n - 1) div P + 1 page requests; with P = 2 and 5 rows that is 3 requests.\<close>

theorem paged_search_complete:
  assumes "isopen s" "host s = Some h" "handle s = Some u" "0 < pagesize s"
    "cache s (query_key w f h (port s) b) = None" "srv_page w = pager es"
  shows "ldap_search_raw w s b sc (Some f) =
           Some (w\<lparr>requests := requests w + Suc ((length es - 1) div pagesize s)\<rparr>, s, Inr (Some es))"
  using assms paged_loop_pager [of "pagesize s" w es "[]" 0 _ "[]" 0]
  by (simp add: ldap_search_raw_def)

theorem paged_search_complete_witness:
  "ldap_search_raw (example_net example_rows) (example_dir\<lparr>isopen := True, handle := Some ''ldap://dc1:389''\<rparr>)
     (Some ''dc=acme'') SCOPE_SUBTREE (Some ''(uid=*)'') =
   Some ((example_net example_rows)\<lparr>requests := 3\<rparr>,
         example_dir\<lparr>isopen := True, handle := Some ''ldap://dc1:389''\<rparr>, Inr (Some example_rows))"
  using paged_search_complete [of "example_dir\<lparr>isopen := True, handle := Some ''ldap://dc1:389''\<rparr>"
      "''dc1''" "''ldap://dc1:389''" "example_net example_rows" "''(uid=*)''" "Some ''dc=acme''" example_rows SCOPE_SUBTREE]
  by (simp add: example_dir_simps example_net_def example_rows_def)

lemma example_open_run: "ldap_open (example_net example_rows) example_dir = (example_w1, example_s1, True)"
  by (simp add: ldap_open_def example_dir_simps geturi_def show_nat.simps
      bind_creds_def tls_channel_def example_net_def)

lemma example_search_raw_run:
  "ldap_search_raw example_w1 example_s1 (Some ''dc=acme'') SCOPE_SUBTREE (Some ''(uid=*)'') =
     Some (example_w1\<lparr>requests := 3\<rparr>, example_s1, Inr (Some example_rows))"
proof -
  have "paged_loop example_w1 \<lparr>rq_uri = ''ldap://dc1:389'', rq_base = Some ''dc=acme'',
          rq_scope = SCOPE_SUBTREE, rq_filter = ''(uid=*)''\<rparr> 2 [] [] 0 = Some (example_rows, 2)"
    using paged_loop_pager [of 2 example_w1 example_rows "[]" 0] by (simp add: example_net_def example_rows_def)
  then show ?thesis by (simp add: ldap_search_raw_def example_dir_simps example_net_def query_key_def)
qed

lemma example_search_run:
  "ldap_search (example_net example_rows) example_dir =
     Some ((example_net example_rows)\<lparr>binds := [(''ldap://dc1:389'', False, Some (''cn=admin'', ''secret''))],
              requests := 3\<rparr>,
           example_dir, Inr (Some example_rows))"
  using example_open_run example_search_raw_run
  by (simp add: ldap_search_def example_dir_simps ldap_close_def ldap_unbind_def example_net_def)

section \<open>Properties of the connection\<close>

text \<open>C2: In every state a connection object reaches by construction followed by any sequence of open, close, _search and search calls, an open connection holds a session handle and the servers hold exactly one bound session for it.\<close>

theorem reachable_conn_inv:
  assumes "conn_reach n0 kw c"
  shows "conn_inv n0 (fst c) (snd c)"
  using assms
proof (induction rule: conn_reach.induct)
  case (reach_init w n0 kw)
  then show ?case by (simp add: conn_inv_def ldap_directory_init_def Let_def)
next
  case (reach_step n0 kw c c')
  from reach_step.hyps(2) reach_step.IH show ?case
    by (cases rule: conn_step.cases)
       (auto intro: conn_inv_open conn_inv_close conn_inv_search_raw conn_inv_search)
qed

theorem reachable_conn_inv_witness:
  "conn_inv 0 (example_net []) example_dir"
proof -
  have "conn_reach 0 example_args (example_net [], example_dir)"
    unfolding example_dir_def by (rule conn_reach.reach_init) (simp add: example_net_def)
  from reachable_conn_inv [OF this] show ?thesis by simp
qed

text \<open>C3: The public search leaves the connection open exactly when it was open before the call and leaves the number of bound sessions unchanged, when the search returns normally.\<close>

theorem search_restores_open_state:
  assumes "conn_inv n0 w s" "ldap_search w s = Some (w', s', Inr r)"
  shows "isopen s' = isopen s \<and> sessions w' = sessions w"
proof (rule ldap_search_cases [OF assms(2)])
  fix w1 s1 ok w2 s2
  assume o: "ldap_open w s = (w1, s1, ok)"
    and q: "ldap_search_raw w1 s1 (basedn s1) (scope s1) (search_filter s1) = Some (w2, s2, Inr r)"
    and c: "(w', s') = (if isl (Inr r :: py_error + entry list option) \<or> isopen s then (w2, s2) else ldap_close w2 s2)"
  have i1: "conn_inv n0 w1 s1" using assms(1) o by (rule conn_inv_open)
  note fo = ldap_open_frame [OF o] and fq = ldap_search_raw_frame [OF q]
  show ?thesis
  proof (cases "isopen s")
    case True
    with fo fq c show ?thesis by auto
  next
    case False
    with c have cl: "ldap_close w2 s2 = (w', s')" by simp
    note fc = ldap_close_frame [OF cl]
    show ?thesis using False fo fq fc i1 by (auto simp: conn_inv_def split: if_splits)
  qed
qed

theorem search_restores_open_state_witness:
  "ldap_search (example_net example_rows) example_dir =
     Some ((example_net example_rows)\<lparr>binds := [(''ldap://dc1:389'', False, Some (''cn=admin'', ''secret''))],
              requests := 3\<rparr>, example_dir, Inr (Some example_rows)) \<and>
   \<not> isopen example_dir \<and> sessions (example_net example_rows) = 0"
proof -
  have i: "conn_inv 0 (example_net example_rows) example_dir"
    by (simp add: conn_inv_def example_dir_simps example_net_def)
  from search_restores_open_state [OF i example_search_run] example_search_run
  show ?thesis by (simp add: example_net_def example_dir_simps)
qed

text \<open>C4: When search opens a closed connection and _search raises (the filter is None), the exception propagates before close: the connection stays open and one more bound session remains on the server.\<close>

theorem search_error_leaks_session:
  assumes "\<not> isopen s" "truthy (host s)" "geturi s = Some u" "search_filter s = None"
    "srv_bind w u (bind_creds (binddn s) (bindpw s))"
  shows "\<exists>w' s'. ldap_search w s = Some (w', s', Inl TypeError) \<and> isopen s' \<and>
                 sessions w' = Suc (sessions w)"
  using assms by (simp add: ldap_search_def ldap_open_def ldap_search_raw_def)

theorem search_error_leaks_session_witness:
  "\<exists>w' s'. ldap_search (example_net []) (example_dir\<lparr>search_filter := None\<rparr>) = Some (w', s', Inl TypeError) \<and>
      isopen s' \<and> sessions w' = 1"
proof -
  have u: "geturi (example_dir\<lparr>search_filter := None\<rparr>) = Some ''ldap://dc1:389''"
    by (simp add: geturi_def example_dir_simps show_nat.simps)
  show ?thesis
    using search_error_leaks_session [of "example_dir\<lparr>search_filter := None\<rparr>" _ "example_net []", OF _ _ u]
    by (simp add: example_dir_simps example_net_def bind_creds_def)
qed

text \<open>Calling open on a connection that open has just opened returns True and changes nothing: no second bind is attempted.\<close>

theorem open_twice_no_rebind:
  assumes "ldap_open w s = (w1, s1, True)"
  shows "ldap_open w1 s1 = (w1, s1, True)"
  using ldap_open_frame [OF assms] by simp

theorem open_twice_no_rebind_witness:
  "ldap_open (example_net []) example_dir =
     ((example_net [])\<lparr>binds := [(''ldap://dc1:389'', False, Some (''cn=admin'', ''secret''))], sessions := 1\<rparr>,
      example_dir\<lparr>handle := Some ''ldap://dc1:389'', isopen := True\<rparr>, True) \<and>
   ldap_open ((example_net [])\<lparr>binds := [(''ldap://dc1:389'', False, Some (''cn=admin'', ''secret''))], sessions := 1\<rparr>)
      (example_dir\<lparr>handle := Some ''ldap://dc1:389'', isopen := True\<rparr>) =
     ((example_net [])\<lparr>binds := [(''ldap://dc1:389'', False, Some (''cn=admin'', ''secret''))], sessions := 1\<rparr>,
      example_dir\<lparr>handle := Some ''ldap://dc1:389'', isopen := True\<rparr>, True)"
proof -
  have o: "ldap_open (example_net []) example_dir =
     ((example_net [])\<lparr>binds := [(''ldap://dc1:389'', False, Some (''cn=admin'', ''secret''))], sessions := 1\<rparr>,
      example_dir\<lparr>handle := Some ''ldap://dc1:389'', isopen := True\<rparr>, True)"
    by (simp add: ldap_open_def example_dir_simps geturi_def show_nat.simps
        bind_creds_def tls_channel_def example_net_def)
  show ?thesis using o open_twice_no_rebind [OF o] by simp
qed

text \<open>After close the connection is closed, and closing it again changes nothing.\<close>

theorem close_idempotent:
  assumes "ldap_close w s = (w1, s1)"
  shows "\<not> isopen s1 \<and> ldap_close w1 s1 = (w1, s1)"
  using ldap_close_frame [OF assms] by simp

theorem close_idempotent_witness:
  "ldap_close (example_net []) example_dir = (example_net [], example_dir) \<and>
   \<not> isopen example_dir \<and> ldap_close (example_net []) example_dir = (example_net [], example_dir)"
proof -
  have c: "ldap_close (example_net []) example_dir = (example_net [], example_dir)"
    by (simp add: example_dir_simps)
  show ?thesis using c close_idempotent [OF c] by simp
qed

text \<open>C7: Without a truthy bind DN and password, open performs an anonymous bind on a handle for the configured URI and the connection is open exactly when that bind succeeds.\<close>

theorem anonymous_bind_fallback:
  assumes "\<not> isopen s" "truthy (host s)" "geturi s = Some u"
    "\<not> (truthy (binddn s) \<and> truthy (bindpw s))"
  shows "ldap_open w s =
     (if srv_bind w u None
      then (w\<lparr>binds := binds w @ [(u, tls_channel w (ssl s) u, None)], sessions := Suc (sessions w)\<rparr>,
            s\<lparr>handle := Some u, isopen := True\<rparr>, True)
      else (w\<lparr>binds := binds w @ [(u, tls_channel w (ssl s) u, None)]\<rparr>, s\<lparr>handle := Some u\<rparr>, False))"
proof -
  have "bind_creds (binddn s) (bindpw s) = None"
    using assms(4) by (auto simp: bind_creds_def truthy_def split: option.splits)
  then show ?thesis using assms(1-3) by (simp add: ldap_open_def)
qed

theorem anonymous_bind_fallback_witness:
  "ldap_open (example_net []) (example_dir\<lparr>binddn := None\<rparr>) =
     ((example_net [])\<lparr>binds := [(''ldap://dc1:389'', False, None)], sessions := 1\<rparr>,
      example_dir\<lparr>binddn := None, handle := Some ''ldap://dc1:389'', isopen := True\<rparr>, True)"
proof -
  have u: "geturi (example_dir\<lparr>binddn := None\<rparr>) = Some ''ldap://dc1:389''"
    by (simp add: geturi_def example_dir_simps show_nat.simps)
  show ?thesis
    using anonymous_bind_fallback [of "example_dir\<lparr>binddn := None\<rparr>", OF _ _ u]
    by (simp add: example_dir_simps example_net_def tls_channel_def)
qed

text \<open>C8: With StartTLS requested, a StartTLS failure is swallowed and open still sends the bind credentials over the unencrypted channel and reports the connection open.\<close>

theorem starttls_failure_binds_in_clear:
  assumes "\<not> isopen s" "truthy (host s)" "geturi s = Some u" "ssl s = FREENAS_LDAP_USETLS"
    "\<not> srv_starttls w u" "bind_creds (binddn s) (bindpw s) = Some cr" "srv_bind w u (Some cr)"
  shows "\<exists>w' s'. ldap_open w s = (w', s', True) \<and> binds w' = binds w @ [(u, False, Some cr)]"
  using assms by (simp add: ldap_open_def tls_channel_def)

theorem starttls_failure_binds_in_clear_witness:
  "\<exists>w' s'. ldap_open (example_net []) example_dir = (w', s', True) \<and>
      binds w' = [(''ldap://dc1:389'', False, Some (''cn=admin'', ''secret''))]"
proof -
  have u: "geturi example_dir = Some ''ldap://dc1:389''"
    by (simp add: geturi_def example_dir_simps show_nat.simps)
  have "\<exists>w' s'. ldap_open (example_net []) example_dir = (w', s', True) \<and>
      binds w' = binds (example_net []) @ [(''ldap://dc1:389'', False, Some (''cn=admin'', ''secret''))]"
    by (rule starttls_failure_binds_in_clear [OF _ _ u])
       (simp_all add: example_dir_simps example_net_def bind_creds_def)
  then show ?thesis by (simp add: example_net_def)
qed

text \<open>C9: Passing the encryption mode as a number (for example 1 for SSL) to the constructor yields no encryption and the plain LDAP port 389, because _setssl never assigns the numeric value.\<close>

theorem numeric_ssl_is_plaintext:
  assumes "a_ssl kw = Some (SslInt n)" "a_port kw = None"
  shows "ssl (ldap_directory_init kw) = FREENAS_LDAP_NOSSL \<and> port (ldap_directory_init kw) = 389"
  using assms by (simp add: ldap_directory_init_def setssl_def FREENAS_LDAP_PORT_def)

theorem numeric_ssl_is_plaintext_witness:
  "ssl (ldap_directory_init (example_args\<lparr>a_ssl := Some (SslInt 1)\<rparr>)) = FREENAS_LDAP_NOSSL \<and>
   port (ldap_directory_init (example_args\<lparr>a_ssl := Some (SslInt 1)\<rparr>)) = 389"
  by (rule numeric_ssl_is_plaintext) (simp_all add: example_args_def)

text \<open>C10: When the query key is cached, _search returns the cached rows for any scope and also for paged searches, without contacting the server.\<close>

theorem cached_result_ignores_scope_and_paging:
  assumes "isopen s" "host s = Some h" "cache s (query_key w f h (port s) b) = Some r"
  shows "ldap_search_raw w s b sc (Some f) = Some (w, s, Inr (Some r))"
  using assms by (simp add: ldap_search_raw_def)

theorem cached_result_ignores_scope_and_paging_witness:
  "ldap_search_raw (example_net []) (example_dir\<lparr>isopen := True,
       cache := [''(uid=*)dc1389'' \<mapsto> example_rows]\<rparr>) None SCOPE_BASE (Some ''(uid=*)'') =
   Some (example_net [], example_dir\<lparr>isopen := True, cache := [''(uid=*)dc1389'' \<mapsto> example_rows]\<rparr>,
         Inr (Some example_rows))"
  by (rule cached_result_ignores_scope_and_paging)
     (simp_all add: example_dir_simps query_key_def example_net_def show_nat.simps)


text \<open>C12: A non-paged search sends one request, returns the rows the server sent, and stores them so that the same filter and base are served from the cache with no further request.\<close>

theorem plain_search_cached_roundtrip:
  assumes "isopen s" "host s = Some h" "handle s = Some u" "pagesize s = 0"
    "cache s (query_key w f h (port s) b) = None"
    "ldap_search_raw w s b sc (Some f) = Some (w1, s1, r1)"
  shows "r1 = Inr (Some (collect_msgs (srv_search w \<lparr>rq_uri = u, rq_base = b, rq_scope = sc, rq_filter = f\<rparr>))) \<and>
         requests w1 = Suc (requests w) \<and>
         ldap_search_raw w1 s1 b sc' (Some f) = Some (w1, s1, r1)"
  using assms by (auto simp: ldap_search_raw_def Let_def query_key_def)

theorem plain_search_cached_roundtrip_witness:
  "\<exists>w1 s1. ldap_search_raw (example_net example_rows)
        (example_dir\<lparr>isopen := True, handle := Some ''u'', pagesize := 0\<rparr>) None SCOPE_SUBTREE (Some ''f'') =
        Some (w1, s1, Inr (Some example_rows)) \<and> requests w1 = 1 \<and>
      ldap_search_raw w1 s1 None SCOPE_BASE (Some ''f'') = Some (w1, s1, Inr (Some example_rows))"
proof -
  let ?s = "example_dir\<lparr>isopen := True, handle := Some ''u'', pagesize := 0\<rparr>"
  obtain w1 s1 r1 where q: "ldap_search_raw (example_net example_rows) ?s None SCOPE_SUBTREE (Some ''f'') = Some (w1, s1, r1)"
    by (simp add: ldap_search_raw_def example_dir_simps Let_def)
  have "r1 = Inr (Some example_rows) \<and> requests w1 = 1 \<and>
        ldap_search_raw w1 s1 None SCOPE_BASE (Some ''f'') = Some (w1, s1, r1)"
    using plain_search_cached_roundtrip [of ?s "''dc1''" "''u''" "example_net example_rows" "''f''" None, OF _ _ _ _ _ q]
    by (simp add: example_dir_simps example_net_def)
  with q show ?thesis by blast
qed

end
