(* ===== verification/LdapBackend.thy ===== *)
theory LdapBackend
  imports Connection
begin

text \<open>
  The LDAP backend: class \<open>FreeNAS_LDAP_Base\<close> of \<open>freenasldap.py\<close> (lines
  394--648). It extends the directory connection, so its attributes are the record
  \<open>ldap_base\<close>, an extension of \<open>ldap_directory\<close>, and the connection's
  operations apply to it unchanged. The two constructors read the configuration
  either from the database row of the LDAP service (\<open>__db_init__\<close>, flag
  \<open>FLAGS_DBINIT\<close>) or from keyword arguments (\<open>__no_db_init__\<close>); both split a
  \<open>host:port\<close> string. The queries build an LDAP filter and a search base and
  keep the rows whose distinguished name is set.
\<close>

section \<open>Data\<close>

record ldap_base = ldap_directory +
  rootbasedn :: "string option"
  rootbindpw :: "string option"
  usersuffix :: "string option"
  groupsuffix :: "string option"
  machinesuffix :: "string option"
  passwordsuffix :: "string option"
  pwencryption :: "string option"
  anonbind :: "bool option"
  ucount :: nat
  gcount :: nat

text \<open>Keyword arguments of \<open>__no_db_init__\<close>. \<open>b_port\<close> distinguishes an absent key
  (\<open>None\<close>) from a key bound to \<open>None\<close> (\<open>Some None\<close>).\<close>

record base_args =
  b_host :: "string option"
  b_port :: "nat option option"
  b_binddn :: "string option"
  b_bindpw :: "string option"
  b_anonbind :: "bool option"
  b_basedn :: "string option"
  b_ssl :: "ssl_arg option"
  b_rootbasedn :: "string option"
  b_rootbindpw :: "string option"
  b_usersuffix :: "string option"
  b_groupsuffix :: "string option"
  b_machinesuffix :: "string option"
  b_passwordsuffix :: "string option"
  b_pwencryption :: "string option"
  b_flags :: "int option"

text \<open>A row of table \<open>services_ldap\<close> as \<open>ldap_objects()\<close> returns it.\<close>

record ldap_row =
  ldap_hostname :: string
  ldap_anonbind :: bool
  ldap_rootbasedn :: "string option"
  ldap_rootbindpw :: "string option"
  ldap_basedn :: "string option"
  ldap_ssl :: string
  ldap_usersuffix :: "string option"
  ldap_groupsuffix :: "string option"
  ldap_machinesuffix :: "string option"
  ldap_passwordsuffix :: "string option"
  ldap_pwencryption :: "string option"

text \<open>A user or group argument: a Python int/long, a string, or \<open>None\<close>.\<close>

datatype ident = IdNone | IdInt int | IdStr string

section \<open>Construction\<close>

definition FLAGS_DBINIT :: nat where "FLAGS_DBINIT = 16"

text \<open>Truthiness of the \<open>ssl\<close> argument (\<open>0\<close> and \<open>''\<close> are false).\<close>

definition ssl_truthy :: "ssl_arg \<Rightarrow> bool" where
  "ssl_truthy a = (case a of SslInt n \<Rightarrow> n \<noteq> 0 | SslStr s \<Rightarrow> s \<noteq> [])"

text \<open>The common tail of both constructors: the arguments handed to
  \<open>FreeNAS_LDAP_Directory.__init__\<close> (host and port only when truthy).\<close>

definition base_dir_args ::
  "string option \<Rightarrow> nat option \<Rightarrow> string option \<Rightarrow> string option \<Rightarrow> string option \<Rightarrow>
   ssl_arg option \<Rightarrow> int option \<Rightarrow> dir_args" where
  "base_dir_args h p dn pw bdn sl fl =
    \<lparr>a_host = (if truthy h then h else None),
     a_port = (if truthy h \<and> p \<noteq> None \<and> p \<noteq> Some 0 then p else None),
     a_binddn = dn, a_bindpw = pw, a_basedn = bdn,
     a_ssl = (case sl of Some x \<Rightarrow> (if ssl_truthy x then Some x else Some (SslInt 0)) | None \<Rightarrow> Some (SslInt 0)),
     a_scope = None, a_filter = None, a_attributes = None, a_pagesize = None, a_flags = fl\<rparr>"

text \<open>The port of \<open>__no_db_init__\<close> (lines 449--460), \<open>Inl\<close> for the exceptions:
  \<open>long(None)\<close> for a port key bound to \<open>None\<close>, \<open>long\<close> of a non-numeric part
  after the colon, and the unbound local \<open>port\<close> when no host is given but a
  port is.\<close>

definition no_db_host_port :: "string option \<Rightarrow> nat option option \<Rightarrow> py_error + (string option \<times> nat option)" where
  "no_db_host_port tmphost kport =
    (if truthy tmphost then
       (let parts = py_split CHR '':'' (pyfmt tmphost);
            p0 = (case kport of None \<Rightarrow> Inr None | Some None \<Rightarrow> Inl TypeError | Some (Some n) \<Rightarrow> Inr (Some n))
        in case p0 of
             Inl e \<Rightarrow> Inl e
           | Inr None \<Rightarrow>
               (if length parts > 1 then
                  (case py_long (parts ! 1) of Inl e \<Rightarrow> Inl e | Inr n \<Rightarrow> Inr (Some (hd parts), Some n))
                else Inr (Some (hd parts), None))
           | Inr (Some n) \<Rightarrow> Inr (Some (hd parts), Some n))
     else (case kport of Some (Some n) \<Rightarrow> (if n \<noteq> 0 then Inl NameError else Inr (None, None))
                       | _ \<Rightarrow> Inr (None, None)))"

definition ldap_base_no_db_init :: "base_args \<Rightarrow> py_error + ldap_base" where
  "ldap_base_no_db_init kw =
    (case no_db_host_port (b_host kw) (b_port kw) of
       Inl e \<Rightarrow> Inl e
     | Inr (h, p) \<Rightarrow>
         (let anon = (b_anonbind kw = Some True);
              d = ldap_directory_init
                    (base_dir_args h p (if anon then None else b_binddn kw) (if anon then None else b_bindpw kw)
                       (b_basedn kw) (b_ssl kw) (b_flags kw))
          in Inr (ldap_directory.extend d
                   \<lparr>rootbasedn = b_rootbasedn kw, rootbindpw = b_rootbindpw kw,
                    usersuffix = b_usersuffix kw, groupsuffix = b_groupsuffix kw,
                    machinesuffix = b_machinesuffix kw, passwordsuffix = b_passwordsuffix kw,
                    pwencryption = b_pwencryption kw, anonbind = b_anonbind kw, ucount = 0, gcount = 0\<rparr>)))"

text \<open>\<open>__db_init__\<close>: the first row of \<open>services_ldap\<close> (\<open>IndexError\<close> when there is
  none); a port only when the part after the colon is non-empty.\<close>

definition ldap_base_db_init :: "ldap_row list \<Rightarrow> int option \<Rightarrow> py_error + ldap_base" where
  "ldap_base_db_init rows fl =
    (case first_value rows of
       Inl e \<Rightarrow> Inl e
     | Inr r \<Rightarrow>
         (let parts = py_split CHR '':'' (ldap_hostname r);
              hp = (if ldap_hostname r \<noteq> [] then
                      (if length parts > 1 \<and> parts ! 1 \<noteq> [] then
                         (case py_long (parts ! 1) of Inl e \<Rightarrow> Inl e | Inr n \<Rightarrow> Inr (Some (hd parts), Some n))
                       else Inr (Some (hd parts), None))
                    else Inr (None, None))
          in case hp of
               Inl e \<Rightarrow> Inl e
             | Inr (h, p) \<Rightarrow>
                 (let anon = ldap_anonbind r;
                      d = ldap_directory_init
                            (base_dir_args h p (if anon then None else ldap_rootbasedn r)
                               (if anon then None else ldap_rootbindpw r) (ldap_basedn r)
                               (Some (SslStr (ldap_ssl r))) fl)
                  in Inr (ldap_directory.extend d
                           \<lparr>rootbasedn = ldap_rootbasedn r, rootbindpw = ldap_rootbindpw r,
                            usersuffix = ldap_usersuffix r, groupsuffix = ldap_groupsuffix r,
                            machinesuffix = ldap_machinesuffix r, passwordsuffix = ldap_passwordsuffix r,
                            pwencryption = ldap_pwencryption r, anonbind = Some anon, ucount = 0, gcount = 0\<rparr>))))"

text \<open>\<open>__init__\<close>: the database path when the flags have \<open>FLAGS_DBINIT\<close>
  (\<open>0x00010000\<close>, bit 16).\<close>

definition ldap_base_init :: "ldap_row list \<Rightarrow> base_args \<Rightarrow> py_error + ldap_base" where
  "ldap_base_init rows kw =
    (case b_flags kw of
       Some f \<Rightarrow> (if bit f FLAGS_DBINIT then ldap_base_db_init rows (Some f) else ldap_base_no_db_init kw)
     | None \<Rightarrow> ldap_base_no_db_init kw)"

section \<open>Queries\<close>

text \<open>A result row is kept when its distinguished name is set (\<open>if r[0]:\<close>);
  referrals come back with \<open>None\<close>.\<close>

definition has_dn :: "entry \<Rightarrow> bool" where
  "has_dn r = truthy (fst r)"

text \<open>The frame every query shares: remember whether the connection was open,
  \<open>open()\<close>, \<open>_search\<close> a subtree with the given base and filter, and close again
  when it was closed before. \<open>None\<close> from \<open>_search\<close> (the open failed) and an empty
  result both iterate as no rows. An exception of \<open>_search\<close> propagates before the
  close.\<close>

definition ldap_query ::
  "net \<Rightarrow> 'a ldap_directory_scheme \<Rightarrow> string option \<Rightarrow> string \<Rightarrow>
   (net \<times> 'a ldap_directory_scheme \<times> (py_error + entry list)) option" where
  "ldap_query w s b f =
    (let was = isopen s; (w1, s1, _) = ldap_open w s in
     do {
       (w2, s2, r) \<leftarrow> ldap_search_raw w1 s1 b SCOPE_SUBTREE (Some f);
       (case r of
          Inl e \<Rightarrow> Some (w2, s2, Inl e)
        | Inr res \<Rightarrow>
            (let (w3, s3) = (if was then (w2, s2) else ldap_close w2 s2)
             in Some (w3, s3, Inr (case res of None \<Rightarrow> [] | Some rows \<Rightarrow> rows))))
     })"

text \<open>Search bases. \<open>get_user\<close> omits the base when \<open>basedn\<close> is not set, so that
  \<open>_search\<close> uses its default \<open>''\<close>; \<open>get_users\<close>, \<open>get_group\<close> and \<open>get_groups\<close>
  format it with \<open>"%s"\<close>, which prints a missing \<open>basedn\<close> as \<open>None\<close>.\<close>

definition get_user_basedn :: "'a ldap_base_scheme \<Rightarrow> string option" where
  "get_user_basedn s =
    (if truthy (usersuffix s) \<and> truthy (basedn s) then Some (pyfmt (usersuffix s) @ '','' @ pyfmt (basedn s))
     else if truthy (basedn s) then Some (pyfmt (basedn s))
     else None)"

definition suffixed_basedn :: "string option \<Rightarrow> string option \<Rightarrow> string" where
  "suffixed_basedn sfx bdn =
    (if truthy sfx then pyfmt sfx @ '','' @ pyfmt bdn else pyfmt bdn)"

definition USER_CLASSES :: string where
  "USER_CLASSES = ''(|(objectclass=person)(objectclass=account))''"

text \<open>\<open>get_user\<close>: \<open>AssertionError\<close> for \<open>None\<close> before anything is sent; a
  \<open>uidnumber\<close> filter for a number or a string of digits, a \<open>uid\<close>/\<open>cn\<close> filter
  otherwise; the first row with a DN, or \<open>None\<close>.\<close>

definition get_user_filter :: "ident \<Rightarrow> string" where
  "get_user_filter u =
    (case u of
       IdInt n \<Rightarrow> ''(&'' @ USER_CLASSES @ ''(uidnumber='' @ show_int n @ ''))''
     | IdStr x \<Rightarrow>
         (if str_isdigit x then ''(&'' @ USER_CLASSES @ ''(uidnumber='' @ x @ ''))''
          else ''(&'' @ USER_CLASSES @ ''(|(uid='' @ x @ '')(cn='' @ x @ '')))'')
     | IdNone \<Rightarrow> [])"

definition get_user ::
  "net \<Rightarrow> 'a ldap_base_scheme \<Rightarrow> ident \<Rightarrow>
   (net \<times> 'a ldap_base_scheme \<times> (py_error + entry option)) option" where
  "get_user w s u =
    (if u = IdNone then Some (w, s, Inl AssertionError)
     else
       (let bd = get_user_basedn s in
        map_option (\<lambda>(w', s', r). (w', s', map_sum id (find has_dn) r))
          (ldap_query w s (if truthy bd then bd else Some []) (get_user_filter u))))"

text \<open>\<open>get_users\<close>: every row with a DN, in the order of the search.\<close>

definition get_users_filter :: string where
  "get_users_filter = ''(&'' @ USER_CLASSES @ ''(uid=*))''"

definition get_users ::
  "net \<Rightarrow> 'a ldap_base_scheme \<Rightarrow> (net \<times> 'a ldap_base_scheme \<times> (py_error + entry list)) option" where
  "get_users w s =
    map_option (\<lambda>(w', s', r). (w', s', map_sum id (filter has_dn) r))
      (ldap_query w s (Some (suffixed_basedn (usersuffix s) (basedn s))) get_users_filter)"

text \<open>\<open>get_group\<close>: the same for \<open>posixgroup\<close> entries and \<open>gidnumber\<close>.\<close>

definition get_group_filter :: "ident \<Rightarrow> string" where
  "get_group_filter g =
    (case g of
       IdInt n \<Rightarrow> ''(&(objectclass=posixgroup)(gidnumber='' @ show_int n @ ''))''
     | IdStr x \<Rightarrow>
         (if str_isdigit x then ''(&(objectclass=posixgroup)(gidnumber='' @ x @ ''))''
          else ''(&(objectclass=posixgroup)(cn='' @ x @ ''))'')
     | IdNone \<Rightarrow> [])"

definition get_group ::
  "net \<Rightarrow> 'a ldap_base_scheme \<Rightarrow> ident \<Rightarrow>
   (net \<times> 'a ldap_base_scheme \<times> (py_error + entry option)) option" where
  "get_group w s g =
    (if g = IdNone then Some (w, s, Inl AssertionError)
     else map_option (\<lambda>(w', s', r). (w', s', map_sum id (find has_dn) r))
            (ldap_query w s (Some (suffixed_basedn (groupsuffix s) (basedn s))) (get_group_filter g)))"

definition get_groups_filter :: string where
  "get_groups_filter = ''(&(objectclass=posixgroup)(gidnumber=*))''"

definition get_groups ::
  "net \<Rightarrow> 'a ldap_base_scheme \<Rightarrow> (net \<times> 'a ldap_base_scheme \<times> (py_error + entry list)) option" where
  "get_groups w s =
    map_option (\<lambda>(w', s', r). (w', s', map_sum id (filter has_dn) r))
      (ldap_query w s (Some (suffixed_basedn (groupsuffix s) (basedn s))) get_groups_filter)"

section \<open>A directory server and concrete instances\<close>

text \<open>A server that answers a plain search with the entries of the subtree below
  the requested base (and every referral), whatever the filter: a model of the
  environment used to observe which base a query searches.\<close>

definition dn_under :: "string \<Rightarrow> string \<Rightarrow> bool" where
  "dn_under b dn = (b = [] \<or> dn = b \<or> (length b < length dn \<and> drop (length dn - Suc (length b)) dn = CHR '','' # b))"

definition subtree_server :: "entry list \<Rightarrow> search_req \<Rightarrow> ldap_msg list" where
  "subtree_server es rq =
     [MsgResult (filter (\<lambda>e. case fst e of None \<Rightarrow> True
                                | Some dn \<Rightarrow> dn_under (case rq_base rq of None \<Rightarrow> [] | Some b \<Rightarrow> b) dn) es)]"

text \<open>The request \<open>get_users\<close> sends.\<close>

definition users_req :: "'a ldap_base_scheme \<Rightarrow> search_req" where
  "users_req s = \<lparr>rq_uri = the (geturi s), rq_base = Some (suffixed_basedn (usersuffix s) (basedn s)),
                  rq_scope = SCOPE_SUBTREE, rq_filter = get_users_filter\<rparr>"

definition example_base_args :: base_args where
  "example_base_args =
    \<lparr>b_host = Some ''ldap.acme.com:389'', b_port = None, b_binddn = Some ''cn=admin,dc=acme'',
     b_bindpw = Some ''secret'', b_anonbind = None, b_basedn = Some ''dc=acme'', b_ssl = None,
     b_rootbasedn = None, b_rootbindpw = None, b_usersuffix = Some ''ou=people'',
     b_groupsuffix = Some ''ou=groups'', b_machinesuffix = None, b_passwordsuffix = None,
     b_pwencryption = None, b_flags = None\<rparr>"

definition example_base :: ldap_base where
  "example_base = projr (ldap_base_no_db_init example_base_args)"

definition example_ldap_row :: ldap_row where
  "example_ldap_row =
    \<lparr>ldap_hostname = ''ldap.acme.com:'', ldap_anonbind = True, ldap_rootbasedn = None,
     ldap_rootbindpw = None, ldap_basedn = Some ''dc=acme'', ldap_ssl = ''off'',
     ldap_usersuffix = None, ldap_groupsuffix = None, ldap_machinesuffix = None,
     ldap_passwordsuffix = None, ldap_pwencryption = None\<rparr>"

section \<open>Lemmas\<close>

lemma geturi_host: "host s = Some h \<Longrightarrow> \<exists>u. geturi s = Some u"
  by (simp add: geturi_def Let_def)

lemma ldap_open_fresh:
  assumes "\<not> isopen s" "host s = Some h" "h \<noteq> []" "geturi s = Some u"
    "srv_bind w u (bind_creds (binddn s) (bindpw s))"
  shows "ldap_open w s =
    (w\<lparr>binds := binds w @ [(u, tls_channel w (ssl s) u, bind_creds (binddn s) (bindpw s))],
       sessions := Suc (sessions w)\<rparr>, s\<lparr>handle := Some u, isopen := True\<rparr>, True)"
  using assms by (simp add: ldap_open_def Let_def)

lemma ldap_query_fresh:
  assumes "\<not> isopen s" "ldap_open w s = (w1, s1, True)"
    "ldap_search_raw w1 s1 b SCOPE_SUBTREE (Some f) = Some (w2, s2, Inr r)"
  shows "ldap_query w s b f =
     Some (fst (ldap_close w2 s2), snd (ldap_close w2 s2), Inr (case r of None \<Rightarrow> [] | Some rows \<Rightarrow> rows))"
  using assms by (simp add: ldap_query_def split: prod.splits)

lemma ldap_search_raw_plain:
  assumes "isopen s" "host s = Some h" "handle s = Some u" "pagesize s = 0"
    "cache s (query_key w f h (port s) b) = None"
  shows "ldap_search_raw w s b sc (Some f) =
    Some (w\<lparr>requests := Suc (requests w)\<rparr>,
          s\<lparr>cache := (cache s)(query_key w f h (port s) b \<mapsto>
                 collect_msgs (srv_search w \<lparr>rq_uri = u, rq_base = b, rq_scope = sc, rq_filter = f\<rparr>))\<rparr>,
          Inr (Some (collect_msgs (srv_search w \<lparr>rq_uri = u, rq_base = b, rq_scope = sc, rq_filter = f\<rparr>))))"
  using assms by (simp add: ldap_search_raw_def Let_def)

lemma ldap_search_raw_cached:
  assumes "isopen s" "host s = Some h" "cache s (query_key w f h (port s) b) = Some r"
  shows "ldap_search_raw w s b sc (Some f) = Some (w, s, Inr (Some r))"
  using assms by (simp add: ldap_search_raw_def)

text \<open>A query on a closed connection whose bind succeeds and whose cache is empty
  sends the plain search and returns what the server sent.\<close>

lemma ldap_query_plain:
  assumes "\<not> isopen s" "host s = Some h" "h \<noteq> []" "pagesize s = 0" "cache s = Map.empty"
    "srv_bind w (the (geturi s)) (bind_creds (binddn s) (bindpw s))"
  shows "\<exists>w' s'. ldap_query w s b f = Some (w', s', Inr (collect_msgs (srv_search w
           \<lparr>rq_uri = the (geturi s), rq_base = b, rq_scope = SCOPE_SUBTREE, rq_filter = f\<rparr>)))"
proof -
  obtain v where v: "geturi s = Some v" using geturi_host assms(2) by blast
  let ?w1 = "w\<lparr>binds := binds w @ [(v, tls_channel w (ssl s) v, bind_creds (binddn s) (bindpw s))],
       sessions := Suc (sessions w)\<rparr>"
  let ?s1 = "s\<lparr>handle := Some v, isopen := True\<rparr>"
  have o: "ldap_open w s = (?w1, ?s1, True)"
    using assms v by (intro ldap_open_fresh) simp_all
  show ?thesis
    using ldap_search_raw_plain [of ?s1 h v ?w1 f b SCOPE_SUBTREE] assms v ldap_query_fresh [OF assms(1) o]
    by simp
qed

lemma ldap_query_conn_inv:
  assumes inv: "conn_inv n0 w s" and q: "ldap_query w s b f = Some (w', s', r)"
  shows "conn_inv n0 w' s'"
proof -
  obtain w1 s1 ok where o: "ldap_open w s = (w1, s1, ok)" by (metis prod_cases3)
  from q o obtain w2 s2 r2 where sr: "ldap_search_raw w1 s1 b SCOPE_SUBTREE (Some f) = Some (w2, s2, r2)"
    by (cases "ldap_search_raw w1 s1 b SCOPE_SUBTREE (Some f)") (auto simp: ldap_query_def)
  have i2: "conn_inv n0 w2 s2"
    using conn_inv_search_raw [OF conn_inv_open [OF inv o] sr] .
  show ?thesis
  proof (cases "isl r2 \<or> isopen s")
    case True
    with q o sr i2 show ?thesis by (auto simp: ldap_query_def split: sum.splits)
  next
    case False
    then obtain w3 s3 where c: "ldap_close w2 s2 = (w3, s3)" and "w' = w3" "s' = s3"
      using q o sr by (cases "ldap_close w2 s2") (auto simp: ldap_query_def split: sum.splits)
    with conn_inv_close [OF i2 c] show ?thesis by simp
  qed
qed

lemma str_isdigit_show_nat [simp]: "str_isdigit (show_nat n)"
  by (simp add: str_isdigit_def)

lemma colon_notin_show_nat [simp]: "CHR '':'' \<notin> set (show_nat n)"
proof
  assume "CHR '':'' \<in> set (show_nat n)"
  with show_nat_digits [of n] have "char_isdigit CHR '':''" by (simp add: list_all_iff)
  then show False by (simp add: char_isdigit_def)
qed

lemma py_split_host_port:
  "CHR '':'' \<notin> set h \<Longrightarrow> py_split CHR '':'' (h @ CHR '':'' # show_nat p) = [h, show_nat p]"
  by (simp add: py_split_append_sep)

lemma py_split_host_colon:
  "CHR '':'' \<notin> set h \<Longrightarrow> py_split CHR '':'' (h @ '':'') = [h, []]"
  using py_split_append_sep [of "CHR '':''" h "[]"] by simp

lemma ldap_directory_init_fresh [simp]:
  "pagesize (ldap_directory_init (base_dir_args h p dn pw bdn sl fl)) = 0"
  "isopen (ldap_directory_init kw) = False" "handle (ldap_directory_init kw) = None"
  "cache (ldap_directory_init kw) = Map.empty"
  by (simp_all add: ldap_directory_init_def base_dir_args_def Let_def)

lemmas base_init_defs = ldap_base_no_db_init_def no_db_host_port_def ldap_base_db_init_def
  Let_def ldap_directory_init_def base_dir_args_def ldap_directory.defs

lemma example_base_simps:
  "host example_base = Some ''ldap.acme.com''" "port example_base = 389" "isopen example_base = False"
  "pagesize example_base = 0" "cache example_base = Map.empty" "handle example_base = None"
  "binddn example_base = Some ''cn=admin,dc=acme''" "bindpw example_base = Some ''secret''"
  "basedn example_base = Some ''dc=acme''" "usersuffix example_base = Some ''ou=people''"
  "ssl example_base = FREENAS_LDAP_NOSSL"
  by (simp_all add: example_base_def example_base_args_def base_init_defs py_long_def setssl_def
      char_isdigit_def digit_val_def)

lemma setssl_usessl: "(setssl (SslStr s) = FREENAS_LDAP_USESSL) = (s = ''on'')"
proof (cases "str_isdigit s")
  case True
  moreover have "\<not> str_isdigit ''on''" by (simp add: str_isdigit_def char_isdigit_def)
  ultimately show ?thesis by (auto simp: setssl_def Let_def)
next
  case False
  then show ?thesis by (simp add: setssl_def)
qed

lemma setssl_int_usessl: "setssl (SslInt n) \<noteq> FREENAS_LDAP_USESSL"
  by (simp add: setssl_def)

lemma db_init_port_default:
  assumes "CHR '':'' \<notin> set h" "h \<noteq> []" "ldap_hostname r = h @ '':''"
  shows "\<exists>d. ldap_base_db_init (r # rows) fl = Inr d \<and> host d = Some h \<and>
              port d = (if ldap_ssl r = ''on'' then FREENAS_LDAP_SSL_PORT else FREENAS_LDAP_PORT)"
  using assms by (simp add: ldap_base_db_init_def py_split_host_colon Let_def
      ldap_directory_init_def base_dir_args_def ldap_directory.defs ssl_truthy_def setssl_usessl setssl_int_usessl)

lemma base_ext_fresh:
  "pagesize (ldap_directory.extend (ldap_directory_init (base_dir_args h p dn pw bdn sl fl)) e) = 0 \<and>
   \<not> isopen (ldap_directory.extend (ldap_directory_init kw) e) \<and>
   handle (ldap_directory.extend (ldap_directory_init kw) e) = None \<and>
   cache (ldap_directory.extend (ldap_directory_init kw) e) = Map.empty"
  by (simp add: ldap_directory.defs)

lemma no_db_init_fresh:
  "ldap_base_no_db_init kw = Inr d \<Longrightarrow>
   pagesize d = 0 \<and> \<not> isopen d \<and> handle d = None \<and> cache d = Map.empty \<and> ucount d = 0 \<and> gcount d = 0"
  unfolding ldap_base_no_db_init_def
  by (auto simp: Let_def base_ext_fresh ldap_directory.defs split: sum.splits)

lemma db_init_fresh:
  "ldap_base_db_init rows fl = Inr d \<Longrightarrow>
   pagesize d = 0 \<and> \<not> isopen d \<and> handle d = None \<and> cache d = Map.empty \<and> ucount d = 0 \<and> gcount d = 0"
  unfolding ldap_base_db_init_def
  by (auto simp: Let_def base_ext_fresh ldap_directory.defs split: sum.splits if_splits)

section \<open>Properties of the LDAP backend\<close>

text \<open>C15: On a closed LDAP connection that does not page (the LDAP backend never pages, \<open>ldap_base_init_fresh\<close>) and has an empty query cache, get_users binds, sends one search and returns the rows of the answer that have a DN, closing again with the session count unchanged; a second get_users on the resulting object rebinds but is answered from the query cache, sending no request and returning the same rows.\<close>

theorem get_users_repeat_from_cache:
  assumes "\<not> isopen s" "host s = Some h" "h \<noteq> []" "pagesize s = 0" "cache s = Map.empty"
    "srv_bind w (the (geturi s)) (bind_creds (binddn s) (bindpw s))"
  shows "\<exists>w' s' w'' s''.
           get_users w s = Some (w', s', Inr (filter has_dn (collect_msgs (srv_search w (users_req s))))) \<and>
           \<not> isopen s' \<and> sessions w' = sessions w \<and> requests w' = Suc (requests w) \<and>
           get_users w' s' = Some (w'', s'', Inr (filter has_dn (collect_msgs (srv_search w (users_req s))))) \<and>
           \<not> isopen s'' \<and> sessions w'' = sessions w \<and> requests w'' = requests w'"
proof -
  obtain u where u: "geturi s = Some u" using geturi_host assms(2) by blast
  let ?b = "Some (suffixed_basedn (usersuffix s) (basedn s))"
  let ?k = "query_key w get_users_filter h (port s) ?b"
  let ?res = "collect_msgs (srv_search w (users_req s))"
  let ?cr = "bind_creds (binddn s) (bindpw s)"
  let ?w1 = "w\<lparr>binds := binds w @ [(u, tls_channel w (ssl s) u, ?cr)], sessions := Suc (sessions w)\<rparr>"
  let ?s1 = "s\<lparr>handle := Some u, isopen := True\<rparr>"
  let ?s2 = "?s1\<lparr>cache := (cache s)(?k \<mapsto> ?res)\<rparr>"
  have o1: "ldap_open w s = (?w1, ?s1, True)"
    using assms u by (intro ldap_open_fresh) simp_all
  have q1: "ldap_search_raw ?w1 ?s1 ?b SCOPE_SUBTREE (Some get_users_filter) =
      Some (?w1\<lparr>requests := Suc (requests w)\<rparr>, ?s2, Inr (Some ?res))"
    using ldap_search_raw_plain [of ?s1 h u ?w1 get_users_filter ?b SCOPE_SUBTREE] assms u
    by (simp add: users_req_def query_key_def)
  define w' where "w' = ldap_unbind (?w1\<lparr>requests := Suc (requests w)\<rparr>) ?s2"
  define s' where "s' = ?s2\<lparr>handle := None, isopen := False\<rparr>"
  have r1: "get_users w s = Some (w', s', Inr (filter has_dn ?res))"
    using ldap_query_fresh [OF assms(1) o1 q1]
    by (simp add: get_users_def ldap_close_def w'_def s'_def)
  have w': "sessions w' = sessions w" "requests w' = Suc (requests w)" "srv_bind w' = srv_bind w"
    "sha256 w' = sha256 w"
    by (simp_all add: w'_def ldap_unbind_def)
  have s': "\<not> isopen s'" "host s' = Some h" "geturi s' = Some u" "binddn s' = binddn s" "bindpw s' = bindpw s"
    "usersuffix s' = usersuffix s" "basedn s' = basedn s" "port s' = port s"
    using assms u by (simp_all add: s'_def geturi_def)
  let ?w3 = "w'\<lparr>binds := binds w' @ [(u, tls_channel w' (ssl s') u, ?cr)], sessions := Suc (sessions w')\<rparr>"
  let ?s3 = "s'\<lparr>handle := Some u, isopen := True\<rparr>"
  have o2: "ldap_open w' s' = (?w3, ?s3, True)"
    using ldap_open_fresh [of s' h u w'] assms s' w' u by simp
  have q2: "ldap_search_raw ?w3 ?s3 ?b SCOPE_SUBTREE (Some get_users_filter) = Some (?w3, ?s3, Inr (Some ?res))"
    using s' w' by (intro ldap_search_raw_cached [where h = h]) (simp_all add: s'_def query_key_def)
  have r2: "get_users w' s' = Some (fst (ldap_close ?w3 ?s3), snd (ldap_close ?w3 ?s3), Inr (filter has_dn ?res))"
    using ldap_query_fresh [OF s'(1) o2] q2 s' by (simp add: get_users_def)
  show ?thesis
    using r1 r2 w' by (simp add: ldap_close_def ldap_unbind_def s'_def)
qed

theorem get_users_repeat_from_cache_witness:
  "\<exists>w' s' w'' s''.
     get_users (example_net example_rows) example_base = Some (w', s', Inr example_rows) \<and>
     \<not> isopen s' \<and> sessions w' = 0 \<and> requests w' = 1 \<and>
     get_users w' s' = Some (w'', s'', Inr example_rows) \<and>
     \<not> isopen s'' \<and> sessions w'' = 0 \<and> requests w'' = 1"
proof -
  have f: "filter has_dn example_rows = example_rows"
    by (simp add: example_rows_def has_dn_def)
  show ?thesis
    using get_users_repeat_from_cache [of example_base "''ldap.acme.com''" "example_net example_rows"]
    by (simp add: example_base_simps example_net_def f) fastforce
qed

text \<open>When basedn is not set (and no user suffix), get_user searches from the empty base, i.e. the whole directory, while get_users formats the base with "%s" and searches below a DN literally named None: against a server answering with the subtree of the requested base, get_users returns only entries under "None" while get_user finds the first user of the directory.\<close>

theorem get_users_none_basedn:
  assumes "basedn s = None" "usersuffix s = None"
    "\<not> isopen s" "host s = Some h" "h \<noteq> []" "pagesize s = 0" "cache s = Map.empty"
    "srv_bind w (the (geturi s)) (bind_creds (binddn s) (bindpw s))" "srv_search w = subtree_server es"
    "u \<noteq> IdNone"
  shows "(\<exists>w' s'. get_users w s = Some (w', s', Inr (filter (\<lambda>e. has_dn e \<and> dn_under ''None'' (the (fst e))) es))) \<and>
         (\<exists>w' s'. get_user w s u = Some (w', s', Inr (find has_dn es)))"
proof
  have f: "filter has_dn (filter (\<lambda>e. case fst e of None \<Rightarrow> True | Some dn \<Rightarrow> dn_under ''None'' dn) es) =
           filter (\<lambda>e. has_dn e \<and> dn_under ''None'' (the (fst e))) es"
    by (auto simp: filter_filter has_dn_def truthy_def intro!: filter_cong split: option.splits)
  have b: "suffixed_basedn (usersuffix s) (basedn s) = ''None''"
    using assms(1,2) by (simp add: suffixed_basedn_def)
  then show "\<exists>w' s'. get_users w s = Some (w', s', Inr (filter (\<lambda>e. has_dn e \<and> dn_under ''None'' (the (fst e))) es))"
    using ldap_query_plain [OF assms(3-8), of "Some ''None''" get_users_filter] assms(9) f
    by (auto simp: get_users_def subtree_server_def cong: option.case_cong)
next
  have "filter (\<lambda>e. case fst e of None \<Rightarrow> True | Some dn \<Rightarrow> dn_under [] dn) es = es"
    by (simp add: dn_under_def split: option.splits)
  then show "\<exists>w' s'. get_user w s u = Some (w', s', Inr (find has_dn es))"
    using ldap_query_plain [OF assms(3-8), of "Some []" "get_user_filter u"] assms(1,9,10)
    by (auto simp: get_user_def get_user_basedn_def subtree_server_def cong: option.case_cong)
qed

theorem get_users_none_basedn_witness:
  "(\<exists>w' s'. get_users ((example_net [])\<lparr>srv_search := subtree_server example_rows\<rparr>)
                (example_base\<lparr>basedn := None, usersuffix := None\<rparr>) = Some (w', s', Inr [])) \<and>
   (\<exists>w' s'. get_user ((example_net [])\<lparr>srv_search := subtree_server example_rows\<rparr>)
                (example_base\<lparr>basedn := None, usersuffix := None\<rparr>) (IdStr ''ann'') =
              Some (w', s', Inr (Some (hd example_rows))))"
  using get_users_none_basedn [of "example_base\<lparr>basedn := None, usersuffix := None\<rparr>" "''ldap.acme.com''"
      "(example_net [])\<lparr>srv_search := subtree_server example_rows\<rparr>" example_rows "IdStr ''ann''"]
  by (simp add: example_base_simps example_net_def example_rows_def has_dn_def dn_under_def geturi_def)



text \<open>C18: Looking up a user or group by a non-negative Python int n and by the string of its decimal digits sends the same filter (uidnumber / gidnumber) and gives the same result.\<close>

theorem get_user_numeric_string:
  "get_user w s (IdInt (int n)) = get_user w s (IdStr (show_nat n)) \<and>
   get_group w s (IdInt (int n)) = get_group w s (IdStr (show_nat n))"
  by (simp add: get_user_def get_group_def get_user_filter_def get_group_filter_def)

text \<open>Get_user(None) and get_group(None) raise AssertionError before opening a connection, leaving the network and the object unchanged.\<close>

theorem get_user_none_asserts:
  "get_user w s IdNone = Some (w, s, Inl AssertionError) \<and>
   get_group w s IdNone = Some (w, s, Inl AssertionError)"
  by (simp add: get_user_def get_group_def)

text \<open>Every FreeNAS_LDAP_Base the constructor builds is closed, has no handle, an empty query cache, zero user and group counts, and page size 0 (so the LDAP backend never uses paged searches).\<close>

theorem ldap_base_init_fresh:
  assumes "ldap_base_init rows kw = Inr d"
  shows "pagesize d = 0 \<and> \<not> isopen d \<and> handle d = None \<and> cache d = Map.empty \<and> ucount d = 0 \<and> gcount d = 0"
  using assms db_init_fresh no_db_init_fresh
  by (auto simp: ldap_base_init_def split: option.splits if_splits)

theorem ldap_base_init_fresh_witness:
  "pagesize example_base = 0 \<and> \<not> isopen example_base \<and> handle example_base = None \<and>
   cache example_base = Map.empty \<and> ucount example_base = 0 \<and> gcount example_base = 0"
proof -
  have "ldap_base_init [] example_base_args = Inr example_base"
    by (simp add: ldap_base_init_def example_base_args_def example_base_def base_init_defs py_long_def
        char_isdigit_def digit_val_def)
  then show ?thesis using ldap_base_init_fresh by blast
qed

text \<open>C21: Both constructors split a "host:port" string: for a host without colon and a positive port p, the object connects to that host on port p.\<close>

theorem host_port_roundtrip:
  assumes "CHR '':'' \<notin> set h" "h \<noteq> []" "0 < p"
  shows "(b_port kw = None \<and> b_host kw = Some (h @ CHR '':'' # show_nat p) \<longrightarrow>
            (\<exists>d. ldap_base_no_db_init kw = Inr d \<and> host d = Some h \<and> port d = p)) \<and>
         (ldap_hostname r = h @ CHR '':'' # show_nat p \<longrightarrow>
            (\<exists>d. ldap_base_db_init (r # rows) fl = Inr d \<and> host d = Some h \<and> port d = p))"
  using assms by (simp add: base_init_defs py_split_host_port)

theorem host_port_roundtrip_witness:
  "\<exists>d. ldap_base_no_db_init (example_base_args\<lparr>b_host := Some (''ldap.acme.com'' @ CHR '':'' # show_nat 3268)\<rparr>) = Inr d \<and>
       host d = Some ''ldap.acme.com'' \<and> port d = 3268"
  using host_port_roundtrip [of "''ldap.acme.com''" 3268
      "example_base_args\<lparr>b_host := Some (''ldap.acme.com'' @ CHR '':'' # show_nat 3268)\<rparr>"]
  by (simp add: example_base_args_def)

text \<open>C22: The two constructors treat "host:" differently: __no_db_init__ raises ValueError (long of the empty string) while __db_init__ ignores the empty port and uses the default port (636 for ssl "on", 389 otherwise).\<close>

theorem empty_port_divergence:
  assumes "CHR '':'' \<notin> set h" "h \<noteq> []" "b_port kw = None" "b_host kw = Some (h @ '':'')"
    "ldap_hostname r = h @ '':''"
  shows "ldap_base_no_db_init kw = Inl ValueError \<and>
         (\<exists>d. ldap_base_db_init (r # rows) fl = Inr d \<and> host d = Some h \<and>
              port d = (if ldap_ssl r = ''on'' then FREENAS_LDAP_SSL_PORT else FREENAS_LDAP_PORT))"
proof
  show "ldap_base_no_db_init kw = Inl ValueError"
    using assms by (simp add: ldap_base_no_db_init_def no_db_host_port_def py_split_host_colon py_long_def)
  show "\<exists>d. ldap_base_db_init (r # rows) fl = Inr d \<and> host d = Some h \<and>
              port d = (if ldap_ssl r = ''on'' then FREENAS_LDAP_SSL_PORT else FREENAS_LDAP_PORT)"
    using assms(1,2,5) by (rule db_init_port_default)
qed

theorem empty_port_divergence_witness:
  "ldap_base_no_db_init (example_base_args\<lparr>b_host := Some ''ldap.acme.com:''\<rparr>) = Inl ValueError \<and>
   (\<exists>d. ldap_base_db_init [example_ldap_row] None = Inr d \<and> host d = Some ''ldap.acme.com'' \<and> port d = 389)"
  using empty_port_divergence [of "''ldap.acme.com''" "example_base_args\<lparr>b_host := Some ''ldap.acme.com:''\<rparr>"
      example_ldap_row "[]" None]
  by (simp add: example_base_args_def example_ldap_row_def FREENAS_LDAP_PORT_def)

text \<open>C23: __no_db_init__ with a non-zero port but no host raises UnboundLocalError (modelled as NameError): the local port is read before it is assigned.\<close>

theorem port_without_host:
  assumes "\<not> truthy (b_host kw)" "b_port kw = Some (Some n)" "n \<noteq> 0"
  shows "ldap_base_no_db_init kw = Inl NameError"
  using assms by (simp add: ldap_base_no_db_init_def no_db_host_port_def)

theorem port_without_host_witness:
  "ldap_base_no_db_init (example_base_args\<lparr>b_host := None, b_port := Some (Some 389)\<rparr>) = Inl NameError"
  using port_without_host [of "example_base_args\<lparr>b_host := None, b_port := Some (Some 389)\<rparr>" 389]
  by (simp add: example_base_args_def)

text \<open>With FLAGS_DBINIT set the constructor reads the services_ldap row and ignores every other keyword argument; with no row it raises IndexError.\<close>

theorem dbinit_ignores_kwargs:
  assumes "b_flags kw = Some f" "bit f FLAGS_DBINIT" "b_flags kw' = Some f"
  shows "ldap_base_init rows kw = ldap_base_init rows kw' \<and> ldap_base_init [] kw = Inl IndexError"
  using assms by (simp add: ldap_base_init_def ldap_base_db_init_def)

theorem dbinit_ignores_kwargs_witness:
  "ldap_base_init [example_ldap_row] (example_base_args\<lparr>b_flags := Some 65536\<rparr>) =
     ldap_base_init [example_ldap_row] (example_base_args\<lparr>b_host := None, b_flags := Some 65536\<rparr>) \<and>
   ldap_base_init [] (example_base_args\<lparr>b_flags := Some 65536\<rparr>) = Inl IndexError"
  using dbinit_ignores_kwargs [of "example_base_args\<lparr>b_flags := Some 65536\<rparr>" 65536
      "example_base_args\<lparr>b_host := None, b_flags := Some 65536\<rparr>" "[example_ldap_row]"]
  by (simp add: example_base_args_def FLAGS_DBINIT_def)

end
