(* ===== verification/Discovery.thy ===== *)
theory Discovery
  imports Connection "HOL-Library.Multiset" "HOL-Library.Product_Lexorder"
begin

text \<open>
  Domain discovery of \<open>FreeNAS_ActiveDirectory_Base\<close> (\<open>freenasldap.py\<close>, lines
  662--746): the SRV lookups \<open>get_domain_controllers\<close> and
  \<open>get_global_catalogs\<close>, which sort the DNS answers by priority and weight and
  return nothing when the lookup fails, and \<open>dc_connect\<close>, which tries the
  controllers in that order and returns the first one that opens. The resolver is a
  function from a query name to its answers, \<open>None\<close> when \<open>resolver.query\<close>
  raises. A controller is tried by opening a connection to it with the bind
  credentials (the model of \<open>ad.open()\<close> on the object \<open>dc_connect\<close> builds).
\<close>

section \<open>Data\<close>

text \<open>An SRV answer (\<open>dns.rdtypes.IN.SRV\<close>): priority, weight, port and target
  (already as \<open>target.to_text(True)\<close>).\<close>

record srv_answer =
  srv_priority :: nat
  srv_weight :: nat
  srv_port :: nat
  srv_target :: string

type_synonym resolver = "string \<Rightarrow> srv_answer list option"

section \<open>SRV lookups\<close>

definition srv_key :: "srv_answer \<Rightarrow> nat \<times> nat" where
  "srv_key a = (srv_priority a, srv_weight a)"

definition get_domain_controllers :: "resolver \<Rightarrow> string option \<Rightarrow> srv_answer list" where
  "get_domain_controllers dns domain =
    (if \<not> truthy domain then []
     else (case dns (''_ldap._tcp.'' @ pyfmt domain) of
             None \<Rightarrow> []
           | Some answers \<Rightarrow> sort_key srv_key answers))"

definition get_global_catalogs :: "resolver \<Rightarrow> string option \<Rightarrow> srv_answer list" where
  "get_global_catalogs dns domain =
    (if \<not> truthy domain then []
     else (case dns (''_gc._tcp.'' @ pyfmt domain) of
             None \<Rightarrow> []
           | Some answers \<Rightarrow> sort_key srv_key answers))"

section \<open>Failover\<close>

text \<open>The constructor arguments of the object tried for one controller.\<close>

definition dc_args :: "string option \<Rightarrow> string option \<Rightarrow> srv_answer \<Rightarrow> dir_args" where
  "dc_args dn pw dc =
    \<lparr>a_host = Some (srv_target dc), a_port = Some (srv_port dc), a_binddn = dn, a_bindpw = pw,
     a_basedn = None, a_ssl = None, a_scope = None, a_filter = None, a_attributes = None,
     a_pagesize = None, a_flags = None\<rparr>"

text \<open>The loop of \<open>dc_connect\<close>: open a connection to each controller in turn;
  stop at the first that opens, returning its host and port; close the others.\<close>

fun dc_try :: "net \<Rightarrow> string option \<Rightarrow> string option \<Rightarrow> srv_answer list \<Rightarrow> net \<times> (string \<times> nat) option" where
  "dc_try w dn pw [] = (w, None)"
| "dc_try w dn pw (dc # dcs) =
    (case ldap_open w (ldap_directory_init (dc_args dn pw dc)) of
       (w1, ad, ok) \<Rightarrow>
         (if ok then (w1, Some (the (host ad), port ad))
          else (case ldap_close w1 ad of (w2, _) \<Rightarrow> dc_try w2 dn pw dcs)))"

text \<open>\<open>dc_connect\<close>: \<open>None\<close> stands for the pair \<open>(None, None)\<close>.\<close>

definition dc_connect :: "resolver \<Rightarrow> net \<Rightarrow> string option \<Rightarrow> string option \<Rightarrow> string option \<Rightarrow> net \<times> (string \<times> nat) option" where
  "dc_connect dns w domain dn pw = dc_try w dn pw (get_domain_controllers dns domain)"

text \<open>Whether a controller accepts the bind: the URI \<open>open\<close> builds for it and the
  credentials it sends.\<close>

definition dc_uri :: "srv_answer \<Rightarrow> string" where
  "dc_uri dc = ''ldap://'' @ srv_target dc @ '':'' @ show_nat (srv_port dc)"

definition dc_accepts :: "net \<Rightarrow> string option \<Rightarrow> string option \<Rightarrow> srv_answer \<Rightarrow> bool" where
  "dc_accepts w dn pw dc = srv_bind w (dc_uri dc) (bind_creds dn pw)"

section \<open>Concrete instances\<close>

definition example_dcs :: "srv_answer list" where
  "example_dcs =
    [\<lparr>srv_priority = 0, srv_weight = 100, srv_port = 389, srv_target = ''dc1.acme.com''\<rparr>,
     \<lparr>srv_priority = 0, srv_weight = 50, srv_port = 389, srv_target = ''dc2.acme.com''\<rparr>,
     \<lparr>srv_priority = 10, srv_weight = 0, srv_port = 389, srv_target = ''dc3.acme.com''\<rparr>]"

definition example_resolver :: resolver where
  "example_resolver q = (if q = ''_ldap._tcp.acme.com'' then Some (rev example_dcs) else None)"

definition example_dc_net :: net where
  "example_dc_net = (example_net [])\<lparr>srv_bind := (\<lambda>u c. u = ''ldap://dc3.acme.com:389'')\<rparr>"

section \<open>Lemmas\<close>

lemma dc_try_step:
  assumes "srv_target dc \<noteq> []"
  shows "dc_try w dn pw (dc # dcs) =
    (if dc_accepts w dn pw dc
     then (w\<lparr>binds := binds w @ [(dc_uri dc, False, bind_creds dn pw)], sessions := Suc (sessions w)\<rparr>,
           Some (srv_target dc, srv_port dc))
     else dc_try (w\<lparr>binds := binds w @ [(dc_uri dc, False, bind_creds dn pw)]\<rparr>) dn pw dcs)"
  using assms
  by (simp add: ldap_open_def ldap_directory_init_def dc_args_def geturi_def dc_uri_def
      dc_accepts_def tls_channel_def Let_def)


lemma dc_try_scan:
  assumes "\<forall>dc\<in>set dcs. srv_target dc \<noteq> []"
  shows "snd (dc_try w dn pw dcs) =
           map_option (\<lambda>dc. (srv_target dc, srv_port dc)) (find (dc_accepts w dn pw) dcs) \<and>
         length (binds (fst (dc_try w dn pw dcs))) = length (binds w) +
           (case find (dc_accepts w dn pw) dcs of
              None \<Rightarrow> length dcs
            | Some _ \<Rightarrow> Suc (length (takeWhile (\<lambda>dc. \<not> dc_accepts w dn pw dc) dcs)))"
  using assms
proof (induction dcs arbitrary: w)
  case Nil
  then show ?case by simp
next
  case (Cons dc dcs)
  have acc: "dc_accepts (w\<lparr>binds := b\<rparr>) dn pw = dc_accepts w dn pw" for b
    by (simp add: dc_accepts_def fun_eq_iff)
  show ?case
  proof (cases "dc_accepts w dn pw dc")
    case True
    with Cons.prems show ?thesis by (simp add: dc_try_step del: dc_try.simps)
  next
    case False
    let ?w = "w\<lparr>binds := binds w @ [(dc_uri dc, False, bind_creds dn pw)]\<rparr>"
    from Cons.prems have "\<forall>dc\<in>set dcs. srv_target dc \<noteq> []" by simp
    from Cons.IH [OF this, of ?w] False Cons.prems show ?thesis
      by (simp add: dc_try_step acc del: dc_try.simps split: option.splits)
  qed
qed

lemma example_controllers:
  "get_domain_controllers example_resolver (Some ''acme.com'') =
     [\<lparr>srv_priority = 0, srv_weight = 50, srv_port = 389, srv_target = ''dc2.acme.com''\<rparr>,
      \<lparr>srv_priority = 0, srv_weight = 100, srv_port = 389, srv_target = ''dc1.acme.com''\<rparr>,
      \<lparr>srv_priority = 10, srv_weight = 0, srv_port = 389, srv_target = ''dc3.acme.com''\<rparr>]"
  by (simp add: get_domain_controllers_def example_resolver_def example_dcs_def srv_key_def)

section \<open>Properties of discovery\<close>




end
