(* ===== verification/AdBackend.thy ===== *)
theory AdBackend
  imports LdapBackend Discovery
begin

text \<open>
  The Active Directory backend: class \<open>FreeNAS_ActiveDirectory_Base\<close> of
  \<open>freenasldap.py\<close> (lines 660--1414), like the LDAP backend an extension of the
  connection record. Modelled here: the user and group queries with their
  \<open>sAMAccountName\<close> filters, the security-principal filtering of \<open>get_users\<close> and
  \<open>get_groups\<close> (an entry is kept when the low bit of its \<open>sAMAccountType\<close> or
  \<open>groupType\<close> is clear), the counters \<open>ucount\<close>/\<open>gcount\<close> they maintain and the
  count accessors \<open>get_user_count\<close>/\<open>get_group_count\<close>, which enumerate once with a
  large page size when no count is cached. An exception raised while the rows are
  filtered propagates before the connection is closed.
\<close>

unbundle bit_operations_syntax

section \<open>Data\<close>

text \<open>The attributes \<open>__set_defaults\<close> and \<open>__get_config\<close> add to those of the
  connection (\<open>unix\<close>, \<open>default\<close> and \<open>trusted\<close> start as \<open>None\<close>).\<close>

record ad_base = ldap_directory +
  adminname :: "string option"
  domain :: "string option"
  dcname :: "string option"
  dchost :: "string option"
  dcport :: "string option"
  gcname :: "string option"
  gchost :: "string option"
  gcport :: "string option"
  netbiosname :: "string option"
  unix :: "bool option"
  ad_default :: "bool option"
  trusted :: "bool option"
  ad_ucount :: nat
  ad_gcount :: nat

section \<open>Filters\<close>

text \<open>\<open>'%s' % user\<close> for the argument of \<open>get_user\<close>/\<open>get_group\<close>.\<close>

definition ident_str :: "ident \<Rightarrow> string" where
  "ident_str u = (case u of IdNone \<Rightarrow> ''None'' | IdInt n \<Rightarrow> show_int n | IdStr x \<Rightarrow> x)"

definition AD_USER_CLASSES :: string where
  "AD_USER_CLASSES = ''(|(objectclass=user)(objectclass=person))''"

definition ad_user_filter :: "ident \<Rightarrow> string" where
  "ad_user_filter u = ''(&'' @ AD_USER_CLASSES @ ''(sAMAccountName='' @ ident_str u @ ''))''"

definition ad_users_filter :: string where
  "ad_users_filter = ''(&'' @ AD_USER_CLASSES @ ''(sAMAccountName=*))''"

definition ad_group_filter :: "ident \<Rightarrow> string" where
  "ad_group_filter g = ''(&(objectclass=group)(sAMAccountName='' @ ident_str g @ ''))''"

definition ad_groups_filter :: string where
  "ad_groups_filter = ''(&(objectclass=group)(sAMAccountName=*))''"

section \<open>Security principals\<close>

text \<open>\<open>int(r[1][key][0]) & 0x1\<close>: the low bit of the first value of an attribute;
  \<open>KeyError\<close>, \<open>IndexError\<close> and \<open>ValueError\<close> as Python raises them.\<close>

definition low_bit_clear :: "attrs \<Rightarrow> string \<Rightarrow> py_error + bool" where
  "low_bit_clear a k =
    (case dict_get a k of
       Inl e \<Rightarrow> Inl e
     | Inr vs \<Rightarrow>
         (case first_value vs of
            Inl e \<Rightarrow> Inl e
          | Inr v \<Rightarrow> (case py_int v of Inl e \<Rightarrow> Inl e | Inr t \<Rightarrow> Inr (t AND 1 = 0))))"

text \<open>The test of the loop of \<open>get_users\<close>: DN set, attributes non-empty and
  holding \<open>sAMAccountType\<close>; of \<open>get_groups\<close>: DN set (a missing \<open>groupType\<close>
  raises).\<close>

definition keep_user :: "entry \<Rightarrow> py_error + bool" where
  "keep_user r =
    (if has_dn r \<and> snd r \<noteq> [] \<and> map_of (snd r) ''sAMAccountType'' \<noteq> None
     then low_bit_clear (snd r) ''sAMAccountType'' else Inr False)"

definition keep_group :: "entry \<Rightarrow> py_error + bool" where
  "keep_group r = (if has_dn r then low_bit_clear (snd r) ''groupType'' else Inr False)"

text \<open>The \<open>for\<close> loop appending the kept rows; the first exception ends it.\<close>

fun filter_py :: "('a \<Rightarrow> py_error + bool) \<Rightarrow> 'a list \<Rightarrow> py_error + 'a list" where
  "filter_py k [] = Inr []"
| "filter_py k (x # xs) =
     (case k x of
        Inl e \<Rightarrow> Inl e
      | Inr b \<Rightarrow> (case filter_py k xs of Inl e \<Rightarrow> Inl e | Inr ys \<Rightarrow> Inr (if b then x # ys else ys)))"

section \<open>Queries\<close>

text \<open>\<open>if self.attributes and a not in self.attributes: self.attributes.append(a)\<close>.\<close>

definition add_attribute :: "string \<Rightarrow> 'a ldap_directory_scheme \<Rightarrow> 'a ldap_directory_scheme" where
  "add_attribute a s =
    (case attributes s of
       Some at \<Rightarrow> (if at \<noteq> [] \<and> a \<notin> set at then s\<lparr>attributes := Some (at @ [a])\<rparr> else s)
     | None \<Rightarrow> s)"

text \<open>The enumeration frame of \<open>get_users\<close> and \<open>get_groups\<close>: open, search the base
  DN with the filter, filter the rows with \<open>k\<close>, close if it was closed. The
  filtering happens before the close, so an exception in it leaves the session
  bound.\<close>

definition ad_enum ::
  "net \<Rightarrow> 'a ad_base_scheme \<Rightarrow> string \<Rightarrow> (entry \<Rightarrow> py_error + bool) \<Rightarrow>
   (net \<times> 'a ad_base_scheme \<times> (py_error + entry list)) option" where
  "ad_enum w s f k =
    (let was = isopen s; (w1, s1, _) = ldap_open w s in
     do {
       (w2, s2, r) \<leftarrow> ldap_search_raw w1 s1 (basedn s1) SCOPE_SUBTREE (Some f);
       (case r of
          Inl e \<Rightarrow> Some (w2, s2, Inl e)
        | Inr res \<Rightarrow>
            (case filter_py k (case res of None \<Rightarrow> [] | Some rows \<Rightarrow> rows) of
               Inl e \<Rightarrow> Some (w2, s2, Inl e)
             | Inr kept \<Rightarrow>
                 (let (w3, s3) = (if was then (w2, s2) else ldap_close w2 s2) in Some (w3, s3, Inr kept))))
     })"

text \<open>\<open>get_users\<close>: the security principals among the users; \<open>ucount\<close> is set to
  their number.\<close>

definition ad_get_users ::
  "net \<Rightarrow> 'a ad_base_scheme \<Rightarrow> (net \<times> 'a ad_base_scheme \<times> (py_error + entry list)) option" where
  "ad_get_users w s =
    map_option (\<lambda>(w', s', r). (case r of Inl e \<Rightarrow> (w', s', r) | Inr us \<Rightarrow> (w', s'\<lparr>ad_ucount := length us\<rparr>, r)))
      (ad_enum w (add_attribute ''sAMAccountType'' s) ad_users_filter keep_user)"

text \<open>\<open>get_groups\<close>: the security groups. The code stores their number in
  \<open>self.ucount\<close> (line 1378), not in \<open>self.gcount\<close>.\<close>

definition ad_get_groups ::
  "net \<Rightarrow> 'a ad_base_scheme \<Rightarrow> (net \<times> 'a ad_base_scheme \<times> (py_error + entry list)) option" where
  "ad_get_groups w s =
    map_option (\<lambda>(w', s', r). (case r of Inl e \<Rightarrow> (w', s', r) | Inr gs \<Rightarrow> (w', s'\<lparr>ad_ucount := length gs\<rparr>, r)))
      (ad_enum w (add_attribute ''groupType'' s) ad_groups_filter keep_group)"

text \<open>\<open>get_user\<close> and \<open>get_group\<close>: the first row with a DN for the account name.\<close>

definition ad_get_user ::
  "net \<Rightarrow> 'a ad_base_scheme \<Rightarrow> ident \<Rightarrow> (net \<times> 'a ad_base_scheme \<times> (py_error + entry option)) option" where
  "ad_get_user w s u =
    (if u = IdNone then Some (w, s, Inl AssertionError)
     else map_option (\<lambda>(w', s', r). (w', s', map_sum id (find has_dn) r))
            (ldap_query w s (basedn s) (ad_user_filter u)))"

definition ad_get_group ::
  "net \<Rightarrow> 'a ad_base_scheme \<Rightarrow> ident \<Rightarrow> (net \<times> 'a ad_base_scheme \<times> (py_error + entry option)) option" where
  "ad_get_group w s g =
    (if g = IdNone then Some (w, s, Inl AssertionError)
     else map_option (\<lambda>(w', s', r). (w', s', map_sum id (find has_dn) r))
            (ldap_query w s (basedn s) (ad_group_filter g)))"

section \<open>Counts\<close>

definition COUNT_PAGESIZE :: nat where "COUNT_PAGESIZE = 32768"

text \<open>\<open>get_user_count\<close>: the cached count when positive; otherwise enumerate with
  page size 32768, restore the page size and read \<open>ucount\<close>. An exception of the
  enumeration propagates with the page size still changed.\<close>

definition get_user_count ::
  "net \<Rightarrow> 'a ad_base_scheme \<Rightarrow> (net \<times> 'a ad_base_scheme \<times> (py_error + nat)) option" where
  "get_user_count w s =
    (if 0 < ad_ucount s then Some (w, s, Inr (ad_ucount s))
     else do {
       (w1, s1, r) \<leftarrow> ad_get_users w (s\<lparr>pagesize := COUNT_PAGESIZE\<rparr>);
       (case r of
          Inl e \<Rightarrow> Some (w1, s1, Inl e)
        | Inr _ \<Rightarrow> Some (w1, s1\<lparr>pagesize := pagesize s\<rparr>, Inr (ad_ucount s1)))
     })"

definition get_group_count ::
  "net \<Rightarrow> 'a ad_base_scheme \<Rightarrow> (net \<times> 'a ad_base_scheme \<times> (py_error + nat)) option" where
  "get_group_count w s =
    (if 0 < ad_gcount s then Some (w, s, Inr (ad_gcount s))
     else do {
       (w1, s1, r) \<leftarrow> ad_get_groups w (s\<lparr>pagesize := COUNT_PAGESIZE\<rparr>);
       (case r of
          Inl e \<Rightarrow> Some (w1, s1, Inl e)
        | Inr _ \<Rightarrow> Some (w1, s1\<lparr>pagesize := pagesize s\<rparr>, Inr (ad_gcount s1)))
     })"

section \<open>Concrete instances\<close>

text \<open>A domain object on \<open>dc1\<close> with page size 0, user entries (a person, a machine account with an odd \<open>sAMAccountType\<close>, a referral) and group entries (two global security groups, the builtin Administrators group and a distribution group).\<close>

definition example_ad :: ad_base where
  "example_ad = ldap_directory.extend (ldap_directory_init (example_args\<lparr>a_pagesize := None\<rparr>))
     \<lparr>adminname = None, domain = Some ''acme.com'', dcname = None, dchost = None, dcport = None,
      gcname = None, gchost = None, gcport = None, netbiosname = Some ''ACME'', unix = Some False,
      ad_default = Some False, trusted = Some False, ad_ucount = 0, ad_gcount = 0\<rparr>"

definition example_ad_users :: "entry list" where
  "example_ad_users =
    [(Some ''CN=ann,DC=acme'', [(''sAMAccountType'', [''805306368'']), (''sAMAccountName'', [''ann''])]),
     (Some ''CN=FS01,DC=acme'', [(''sAMAccountType'', [''805306369'']), (''sAMAccountName'', [''FS01$''])]),
     (None, []),
     (Some ''CN=bob,DC=acme'', [(''sAMAccountType'', [''805306368'']), (''sAMAccountName'', [''bob''])])]"

definition example_ad_groups :: "entry list" where
  "example_ad_groups =
    [(Some ''CN=Domain Admins,DC=acme'', [(''groupType'', [''-2147483646''])]),
     (Some ''CN=Domain Users,DC=acme'', [(''groupType'', [''-2147483646''])]),
     (Some ''CN=Administrators,CN=Builtin,DC=acme'', [(''groupType'', [''-2147483643''])]),
     (Some ''CN=Newsletter,DC=acme'', [(''groupType'', [''2''])])]"

section \<open>Lemmas\<close>

lemma filter_py_ok:
  "\<forall>x\<in>set xs. \<not> isl (k x) \<Longrightarrow> filter_py k xs = Inr (filter (\<lambda>x. k x = Inr True) xs)"
  by (induction xs) (auto split: sum.splits)

lemma filter_py_error:
  "\<exists>x\<in>set xs. isl (k x) \<Longrightarrow> \<exists>e. filter_py k xs = Inl e"
proof (induction xs)
  case Nil
  then show ?case by simp
next
  case (Cons a xs)
  show ?case
  proof (cases "k a")
    case (Inl e)
    then show ?thesis by simp
  next
    case (Inr b)
    with Cons.prems have "\<exists>x\<in>set xs. isl (k x)" by auto
    with Cons.IH Inr show ?thesis by auto
  qed
qed

lemma low_bit_clear_int:
  "low_bit_clear ((a, show_int t # vs) # at) a = Inr (even t)"
  by (simp add: low_bit_clear_def dict_get_def first_value_def and_one_eq even_iff_mod_2_eq_zero)

lemma ldap_search_raw_pager:
  assumes "isopen s" "host s = Some h" "handle s = Some u" "0 < pagesize s"
    "cache s (query_key w f h (port s) b) = None" "srv_page w = pager es"
  shows "ldap_search_raw w s b sc (Some f) =
           Some (w\<lparr>requests := requests w + Suc ((length es - 1) div pagesize s)\<rparr>, s, Inr (Some es))"
  using assms paged_loop_pager [of "pagesize s" w es "[]" 0 _ "[]" 0]
  by (simp add: ldap_search_raw_def)

lemma ad_enum_run:
  assumes "\<not> isopen s" "ldap_open w s = (w1, s1, True)"
    "ldap_search_raw w1 s1 (basedn s1) SCOPE_SUBTREE (Some f) = Some (w2, s2, Inr res)"
    "filter_py k (case res of None \<Rightarrow> [] | Some rows \<Rightarrow> rows) = kept"
  shows "ad_enum w s f k =
     Some (case kept of Inl e \<Rightarrow> (w2, s2, Inl e)
                      | Inr ks \<Rightarrow> (fst (ldap_close w2 s2), snd (ldap_close w2 s2), Inr ks))"
  using assms by (simp add: ad_enum_def split: prod.splits sum.splits)

lemma add_attribute_frame [simp]:
  "isopen (add_attribute a s) = isopen s" "host (add_attribute a s) = host s"
  "port (add_attribute a s) = port s" "ssl (add_attribute a s) = ssl s"
  "pagesize (add_attribute a s) = pagesize s" "cache (add_attribute a s) = cache s"
  "binddn (add_attribute a s) = binddn s" "bindpw (add_attribute a s) = bindpw s"
  "basedn (add_attribute a s) = basedn s" "handle (add_attribute a s) = handle s"
  by (simp_all add: add_attribute_def split: option.splits)

lemma add_attribute_counts [simp]:
  "ad_ucount (add_attribute a s) = ad_ucount s" "ad_gcount (add_attribute a s) = ad_gcount s"
  by (simp_all add: add_attribute_def split: option.splits)

lemma geturi_add_attribute [simp]: "geturi (add_attribute a s) = geturi s"
  by (simp add: geturi_def cong: option.case_cong)

lemma ad_enum_open:
  assumes "\<not> isopen s" "host s = Some h" "h \<noteq> []" "cache s = Map.empty"
    "srv_bind w (the (geturi s)) (bind_creds (binddn s) (bindpw s))"
    "(0 < pagesize s \<and> srv_page w = pager es) \<or> (pagesize s = 0 \<and> (\<forall>rq. collect_msgs (srv_search w rq) = es))"
  shows "\<exists>w2 s2. isopen s2 \<and> handle s2 \<noteq> None \<and> sessions w2 = Suc (sessions w) \<and>
           requests w2 = requests w + (if 0 < pagesize s then Suc ((length es - 1) div pagesize s) else 1) \<and>
           ad_ucount s2 = ad_ucount s \<and> ad_gcount s2 = ad_gcount s \<and> pagesize s2 = pagesize s \<and>
           ad_enum w s f k = Some (case filter_py k es of Inl e \<Rightarrow> (w2, s2, Inl e)
                      | Inr ks \<Rightarrow> (fst (ldap_close w2 s2), snd (ldap_close w2 s2), Inr ks))"
proof -
  obtain u where u: "geturi s = Some u" using geturi_host assms(2) by blast
  let ?w1 = "w\<lparr>binds := binds w @ [(u, tls_channel w (ssl s) u, bind_creds (binddn s) (bindpw s))],
       sessions := Suc (sessions w)\<rparr>"
  let ?s1 = "s\<lparr>handle := Some u, isopen := True\<rparr>"
  have o: "ldap_open w s = (?w1, ?s1, True)"
    using assms u by (intro ldap_open_fresh) simp_all
  have "\<exists>w2 s2. ldap_search_raw ?w1 ?s1 (basedn ?s1) SCOPE_SUBTREE (Some f) = Some (w2, s2, Inr (Some es)) \<and>
          isopen s2 \<and> handle s2 = Some u \<and> sessions w2 = Suc (sessions w) \<and>
          requests w2 = requests w + (if 0 < pagesize s then Suc ((length es - 1) div pagesize s) else 1) \<and>
          ad_ucount s2 = ad_ucount s \<and> ad_gcount s2 = ad_gcount s \<and> pagesize s2 = pagesize s"
    using assms(6)
  proof
    assume "0 < pagesize s \<and> srv_page w = pager es"
    then show ?thesis
      using ldap_search_raw_pager [of ?s1 h u ?w1 f "basedn s" es SCOPE_SUBTREE] assms u by simp
  next
    assume "pagesize s = 0 \<and> (\<forall>rq. collect_msgs (srv_search w rq) = es)"
    then show ?thesis
      using ldap_search_raw_plain [of ?s1 h u ?w1 f "basedn s" SCOPE_SUBTREE] assms u by simp
  qed
  then obtain w2 s2 where q: "ldap_search_raw ?w1 ?s1 (basedn ?s1) SCOPE_SUBTREE (Some f) = Some (w2, s2, Inr (Some es))"
    and p: "isopen s2" "handle s2 = Some u" "sessions w2 = Suc (sessions w)"
      "requests w2 = requests w + (if 0 < pagesize s then Suc ((length es - 1) div pagesize s) else 1)"
      "ad_ucount s2 = ad_ucount s" "ad_gcount s2 = ad_gcount s" "pagesize s2 = pagesize s"
    by blast
  have "ad_enum w s f k = Some (case filter_py k es of Inl e \<Rightarrow> (w2, s2, Inl e)
                      | Inr ks \<Rightarrow> (fst (ldap_close w2 s2), snd (ldap_close w2 s2), Inr ks))"
    using ad_enum_run [OF assms(1) o q refl] by simp
  with p show ?thesis by blast
qed

lemma ldap_close_open:
  "isopen s \<Longrightarrow> handle s \<noteq> None \<Longrightarrow>
     \<not> isopen (snd (ldap_close w s)) \<and> sessions (fst (ldap_close w s)) = sessions w - 1 \<and>
     ad_ucount (snd (ldap_close w s)) = ad_ucount s \<and> ad_gcount (snd (ldap_close w s)) = ad_gcount s \<and>
     pagesize (snd (ldap_close w s)) = pagesize s \<and> requests (fst (ldap_close w s)) = requests w"
  by (auto simp: ldap_close_def ldap_unbind_def)

lemma ldap_open_more: "ldap_open w s = (w', s', ok) \<Longrightarrow> ldap_directory.more s' = ldap_directory.more s \<and> pagesize s' = pagesize s"
  by (auto simp: ldap_open_def Let_def split: if_splits option.splits)

lemma ldap_search_raw_more:
  "ldap_search_raw w s b sc f = Some (w', s', r) \<Longrightarrow> ldap_directory.more s' = ldap_directory.more s \<and> pagesize s' = pagesize s"
  by (auto simp: ldap_search_raw_def Let_def split: if_splits option.splits prod.splits)

lemma ldap_close_more: "ldap_close w s = (w', s') \<Longrightarrow> ldap_directory.more s' = ldap_directory.more s \<and> pagesize s' = pagesize s"
  by (auto simp: ldap_close_def split: if_splits)

lemma ad_counts_more:
  "ldap_directory.more s' = ldap_directory.more s \<Longrightarrow> ad_ucount s' = ad_ucount s \<and> ad_gcount s' = ad_gcount s"
  by (cases s; cases s') auto

lemma ad_enum_frame:
  assumes "ad_enum w s f k = Some (w', s', r)"
  shows "ldap_directory.more s' = ldap_directory.more s \<and> pagesize s' = pagesize s"
proof -
  obtain w1 s1 ok where o: "ldap_open w s = (w1, s1, ok)" by (metis prod_cases3)
  from assms o obtain w2 s2 r2 where sr: "ldap_search_raw w1 s1 (basedn s1) SCOPE_SUBTREE (Some f) = Some (w2, s2, r2)"
    by (cases "ldap_search_raw w1 s1 (basedn s1) SCOPE_SUBTREE (Some f)") (auto simp: ad_enum_def)
  have m2: "ldap_directory.more s2 = ldap_directory.more s \<and> pagesize s2 = pagesize s"
    using ldap_open_more [OF o] ldap_search_raw_more [OF sr] by simp
  obtain w3 s3 where c: "ldap_close w2 s2 = (w3, s3)" by (metis prod.exhaust)
  have "s' = s2 \<or> s' = s3"
    using assms o sr c by (auto simp: ad_enum_def split: sum.splits if_splits)
  then show ?thesis using m2 ldap_close_more [OF c] by auto
qed

lemma example_ad_simps:
  "host example_ad = Some ''dc1''" "isopen example_ad = False" "pagesize example_ad = 0"
  "cache example_ad = Map.empty" "ad_ucount example_ad = 0" "ad_gcount example_ad = 0"
  "binddn example_ad = Some ''cn=admin''" "bindpw example_ad = Some ''secret''"
  "basedn example_ad = Some ''dc=acme''" "port example_ad = 389"
  by (simp_all add: example_ad_def example_args_def ldap_directory_init_def ldap_directory.defs Let_def
      setssl_def str_isdigit_def char_isdigit_def FREENAS_LDAP_PORT_def)

lemma example_keep:
  "keep_user (example_ad_users ! 0) = Inr True" "keep_user (example_ad_users ! 1) = Inr False"
  "keep_user (example_ad_users ! 2) = Inr False" "keep_user (example_ad_users ! 3) = Inr True"
  "keep_group (example_ad_groups ! 0) = Inr True" "keep_group (example_ad_groups ! 1) = Inr True"
  "keep_group (example_ad_groups ! 2) = Inr False" "keep_group (example_ad_groups ! 3) = Inr True"
  by (simp_all add: example_ad_users_def example_ad_groups_def keep_user_def keep_group_def has_dn_def
      low_bit_clear_def dict_get_def py_int_def py_long_def char_isdigit_def digit_val_def and_one_eq)

lemma example_ad_users_filtered:
  "filter (\<lambda>r. keep_user r = Inr True) example_ad_users = [example_ad_users ! 0, example_ad_users ! 3]"
  "\<forall>r\<in>set example_ad_users. \<not> isl (keep_user r)"
  using example_keep by (simp_all add: example_ad_users_def)

lemma ad_get_groups_fresh:
  assumes "\<not> isopen s" "host s = Some h" "h \<noteq> []" "cache s = Map.empty"
    "srv_bind w (the (geturi s)) (bind_creds (binddn s) (bindpw s))"
    "(0 < pagesize s \<and> srv_page w = pager es) \<or> (pagesize s = 0 \<and> (\<forall>rq. collect_msgs (srv_search w rq) = es))"
    "\<forall>r\<in>set es. \<not> isl (keep_group r)"
  shows "\<exists>w' s'. ad_get_groups w s = Some (w', s', Inr (filter (\<lambda>r. keep_group r = Inr True) es)) \<and>
           \<not> isopen s' \<and> pagesize s' = pagesize s \<and> ad_gcount s' = ad_gcount s"
proof -
  obtain w2 s2 where e: "isopen s2" "handle s2 \<noteq> None" "pagesize s2 = pagesize s" "ad_gcount s2 = ad_gcount s"
    "ad_enum w (add_attribute ''groupType'' s) ad_groups_filter keep_group =
       Some (fst (ldap_close w2 s2), snd (ldap_close w2 s2), Inr (filter (\<lambda>r. keep_group r = Inr True) es))"
    using ad_enum_open [of "add_attribute ''groupType'' s" h w es ad_groups_filter keep_group] assms
      filter_py_ok [OF assms(7)]
    by auto
  then show ?thesis
    using ldap_close_open [OF e(1,2), of w2] by (simp add: ad_get_groups_def)
qed

lemma example_ad_groups_filtered:
  "filter (\<lambda>r. keep_group r = Inr True) example_ad_groups = [example_ad_groups ! 0, example_ad_groups ! 1, example_ad_groups ! 3]"
  "\<forall>r\<in>set example_ad_groups. \<not> isl (keep_group r)"
  using example_keep by (simp_all add: example_ad_groups_def)

lemma example_ad_groups_run:
  "\<exists>w' s'. ad_get_groups (example_net example_ad_groups) example_ad =
     Some (w', s', Inr [example_ad_groups ! 0, example_ad_groups ! 1, example_ad_groups ! 3]) \<and> ad_gcount s' = 0"
  using ad_get_groups_fresh [of example_ad "''dc1''" "example_net example_ad_groups" example_ad_groups]
  by (simp add: example_ad_simps example_net_def example_ad_groups_filtered) blast

lemma example_group_count_run:
  "\<exists>w' s'. ad_get_groups (example_net example_ad_groups) (example_ad\<lparr>pagesize := COUNT_PAGESIZE\<rparr>) =
     Some (w', s', Inr [example_ad_groups ! 0, example_ad_groups ! 1, example_ad_groups ! 3])"
  using ad_get_groups_fresh [of "example_ad\<lparr>pagesize := COUNT_PAGESIZE\<rparr>" "''dc1''" "example_net example_ad_groups" example_ad_groups]
  by (simp add: example_ad_simps example_net_def example_ad_groups_filtered COUNT_PAGESIZE_def geturi_def) blast

lemma ad_get_groups_gcount:
  assumes "ad_get_groups w s = Some (w', s', r)"
  shows "ad_gcount s' = ad_gcount s"
proof -
  obtain w1 s1 r1 where e: "ad_enum w (add_attribute ''groupType'' s) ad_groups_filter keep_group = Some (w1, s1, r1)"
    using assms by (cases "ad_enum w (add_attribute ''groupType'' s) ad_groups_filter keep_group")
                   (auto simp: ad_get_groups_def)
  then have s': "s' = s1 \<or> (\<exists>n. s' = s1\<lparr>ad_ucount := n\<rparr>)"
    using assms by (auto simp: ad_get_groups_def split: sum.splits)
  show ?thesis
    using ad_counts_more [OF conjunct1 [OF ad_enum_frame [OF e]]] s' by auto
qed

lemma ad_get_groups_Inr:
  assumes "ad_get_groups w s = Some (w', s', Inr gs)"
  shows "\<exists>s1. ad_enum w (add_attribute ''groupType'' s) ad_groups_filter keep_group = Some (w', s1, Inr gs) \<and>
             s' = s1\<lparr>ad_ucount := length gs\<rparr>"
proof -
  obtain w1 s1 r1 where e: "ad_enum w (add_attribute ''groupType'' s) ad_groups_filter keep_group = Some (w1, s1, r1)"
    using assms by (cases "ad_enum w (add_attribute ''groupType'' s) ad_groups_filter keep_group")
                   (auto simp: ad_get_groups_def)
  with assms show ?thesis by (auto simp: ad_get_groups_def split: sum.splits)
qed

lemma ad_get_groups_filter_error:
  assumes "\<not> isopen s" "host s = Some h" "h \<noteq> []" "pagesize s = 0" "cache s = Map.empty"
    "srv_bind w (the (geturi s)) (bind_creds (binddn s) (bindpw s))"
    "\<forall>rq. collect_msgs (srv_search w rq) = es"
    "filter_py keep_group es = Inl e"
  shows "\<exists>w' s'. ad_get_groups w s = Some (w', s', Inl e) \<and> isopen s' \<and> sessions w' = Suc (sessions w)"
proof -
  let ?s = "add_attribute ''groupType'' s"
  have pre: "\<not> isopen ?s" "host ?s = Some h" "cache ?s = Map.empty"
      "srv_bind w (the (geturi ?s)) (bind_creds (binddn ?s) (bindpw ?s))"
      "(0 < pagesize ?s \<and> srv_page w = pager es) \<or> (pagesize ?s = 0 \<and> (\<forall>rq. collect_msgs (srv_search w rq) = es))"
    using assms(1-7) by simp_all
  obtain w2 s2 where o: "isopen s2" "sessions w2 = Suc (sessions w)"
    "ad_enum w ?s ad_groups_filter keep_group =
       Some (case filter_py keep_group es of Inl e \<Rightarrow> (w2, s2, Inl e)
             | Inr ks \<Rightarrow> (fst (ldap_close w2 s2), snd (ldap_close w2 s2), Inr ks))"
    using ad_enum_open [OF pre(1,2) assms(3) pre(3-5), of ad_groups_filter keep_group] by blast
  have "ad_get_groups w s = Some (w2, s2, Inl e)"
    using o(3) assms(8) by (simp add: ad_get_groups_def)
  with o(1,2) show ?thesis by blast
qed

section \<open>Properties of the Active Directory backend\<close>

text \<open>C25: Security-principal filtering of users: on a closed connection that binds, with an empty query cache, get_users returns exactly the rows of the answer that have a DN, non-empty attributes and an sAMAccountType whose low bit is clear, in server order; it closes again with the session count unchanged and sets ucount to their number.\<close>

theorem ad_get_users_security:
  assumes "\<not> isopen s" "host s = Some h" "h \<noteq> []" "pagesize s = 0" "cache s = Map.empty"
    "srv_bind w (the (geturi s)) (bind_creds (binddn s) (bindpw s))"
    "\<forall>rq. collect_msgs (srv_search w rq) = es" "\<forall>r\<in>set es. \<not> isl (keep_user r)"
  shows "\<exists>w' s'. ad_get_users w s = Some (w', s', Inr (filter (\<lambda>r. keep_user r = Inr True) es)) \<and>
           \<not> isopen s' \<and> sessions w' = sessions w \<and>
           ad_ucount s' = length (filter (\<lambda>r. keep_user r = Inr True) es)"
proof -
  obtain w2 s2 where e: "isopen s2" "handle s2 \<noteq> None" "sessions w2 = Suc (sessions w)"
    "ad_enum w (add_attribute ''sAMAccountType'' s) ad_users_filter keep_user =
       Some (fst (ldap_close w2 s2), snd (ldap_close w2 s2), Inr (filter (\<lambda>r. keep_user r = Inr True) es))"
    using ad_enum_open [of "add_attribute ''sAMAccountType'' s" h w es ad_users_filter keep_user] assms
      filter_py_ok [OF assms(8)]
    by auto
  then show ?thesis
    using ldap_close_open [OF e(1,2), of w2] by (simp add: ad_get_users_def)
qed

theorem ad_get_users_security_witness:
  "\<exists>w' s'. ad_get_users (example_net example_ad_users) example_ad =
      Some (w', s', Inr [example_ad_users ! 0, example_ad_users ! 3]) \<and> ad_ucount s' = 2"
  using ad_get_users_security [of example_ad "''dc1''" "example_net example_ad_users" example_ad_users]
  by (simp add: example_ad_simps example_net_def example_ad_users_filtered numeral_2_eq_2) blast

text \<open>C26: The security test reads the first value of sAMAccountType (users) or groupType (groups) as a Python int and keeps the entry exactly when it is even; negative groupType values are tested in two's complement. So a distribution group (groupType 2) is kept and the builtin Administrators group (groupType -2147483643) is dropped.\<close>

theorem low_bit_security_test:
  assumes "dn \<noteq> []"
  shows "keep_user (Some dn, (''sAMAccountType'', show_int t # vs) # a) = Inr (even t) \<and>
         keep_group (Some dn, (''groupType'', show_int t # vs) # a) = Inr (even t)"
  using assms by (simp add: keep_user_def keep_group_def has_dn_def low_bit_clear_int)

theorem low_bit_security_test_witness:
  "keep_group (Some ''CN=Newsletter'', [(''groupType'', [show_int 2])]) = Inr True \<and>
   keep_group (Some ''CN=Administrators'', [(''groupType'', [show_int (-2147483643)])]) = Inr False"
  using low_bit_security_test [of "''CN=Newsletter''" 2 "[]" "[]"]
    low_bit_security_test [of "''CN=Administrators''" "-2147483643" "[]" "[]"]
  by simp

text \<open>C27: A successful get_groups stores the number of groups in ucount and leaves gcount unchanged.\<close>

theorem ad_get_groups_sets_ucount:
  assumes "ad_get_groups w s = Some (w', s', Inr gs)"
  shows "ad_ucount s' = length gs \<and> ad_gcount s' = ad_gcount s"
proof -
  obtain w1 s1 r1 where e: "ad_enum w (add_attribute ''groupType'' s) ad_groups_filter keep_group = Some (w1, s1, r1)"
    using assms by (cases "ad_enum w (add_attribute ''groupType'' s) ad_groups_filter keep_group")
                   (auto simp: ad_get_groups_def)
  then have s': "s' = s1\<lparr>ad_ucount := length gs\<rparr>"
    using assms by (auto simp: ad_get_groups_def split: sum.splits)
  show ?thesis
    using ad_counts_more [OF conjunct1 [OF ad_enum_frame [OF e]]] s' by simp
qed

theorem ad_get_groups_sets_ucount_witness:
  "\<exists>w' s'. ad_get_groups (example_net example_ad_groups) example_ad =
     Some (w', s', Inr [example_ad_groups ! 0, example_ad_groups ! 1, example_ad_groups ! 3]) \<and>
     ad_ucount s' = 3 \<and> ad_gcount s' = 0"
  using example_ad_groups_run ad_get_groups_sets_ucount by (fastforce simp: example_ad_simps)

text \<open>Get_group_count with no cached group count enumerates the groups and then returns gcount, which that enumeration never sets: the result is 0 and gcount stays 0, so every call enumerates again.\<close>

theorem group_count_stuck_at_zero:
  assumes "ad_gcount s = 0" "get_group_count w s = Some (w', s', Inr c)"
  shows "c = 0 \<and> ad_gcount s' = 0"
proof -
  obtain w1 s1 r where g: "ad_get_groups w (s\<lparr>pagesize := COUNT_PAGESIZE\<rparr>) = Some (w1, s1, r)"
    using assms by (cases "ad_get_groups w (s\<lparr>pagesize := COUNT_PAGESIZE\<rparr>)") (auto simp: get_group_count_def)
  then obtain gs where "r = Inr gs" and c: "c = ad_gcount s1" "s' = s1\<lparr>pagesize := pagesize s\<rparr>"
    using assms by (auto simp: get_group_count_def split: sum.splits)
  have "ad_gcount s1 = 0"
    using ad_get_groups_gcount [OF g] assms(1) by simp
  with c show ?thesis by simp
qed

theorem group_count_stuck_at_zero_witness:
  "\<exists>w' s'. get_group_count (example_net example_ad_groups) example_ad = Some (w', s', Inr 0)"
proof -
  obtain w1 s1 where g: "ad_get_groups (example_net example_ad_groups) (example_ad\<lparr>pagesize := COUNT_PAGESIZE\<rparr>) =
     Some (w1, s1, Inr [example_ad_groups ! 0, example_ad_groups ! 1, example_ad_groups ! 3])"
    using example_group_count_run by blast
  then have r: "get_group_count (example_net example_ad_groups) example_ad =
      Some (w1, s1\<lparr>pagesize := pagesize example_ad\<rparr>, Inr (ad_gcount s1))"
    by (simp add: get_group_count_def example_ad_simps)
  have "ad_gcount s1 = 0"
    using group_count_stuck_at_zero [OF _ r] by (simp add: example_ad_simps)
  with r show ?thesis by auto
qed

text \<open>After a successful get_groups that found groups, get_user_count returns the number of groups, from the cache, without any network traffic.\<close>

theorem user_count_after_groups:
  assumes "ad_get_groups w s = Some (w1, s1, Inr gs)" "gs \<noteq> []"
  shows "get_user_count w1 s1 = Some (w1, s1, Inr (length gs))"
  using ad_get_groups_Inr [OF assms(1)] assms(2) by (auto simp: get_user_count_def)

theorem user_count_after_groups_witness:
  "\<exists>w1 s1. ad_get_groups (example_net example_ad_groups) example_ad =
      Some (w1, s1, Inr [example_ad_groups ! 0, example_ad_groups ! 1, example_ad_groups ! 3]) \<and>
    get_user_count w1 s1 = Some (w1, s1, Inr 3)"
  using example_ad_groups_run user_count_after_groups by fastforce

text \<open>C30: When a group entry with a DN has no groupType attribute, get_groups raises (KeyError) while the connection it opened is still bound: the object is left open and one session more is bound on the servers.\<close>

theorem groups_missing_type_leaks_session:
  assumes "\<not> isopen s" "host s = Some h" "h \<noteq> []" "pagesize s = 0" "cache s = Map.empty"
    "srv_bind w (the (geturi s)) (bind_creds (binddn s) (bindpw s))"
    "\<forall>rq. collect_msgs (srv_search w rq) = es"
    "\<exists>r\<in>set es. has_dn r \<and> map_of (snd r) ''groupType'' = None"
  shows "\<exists>w' s' e. ad_get_groups w s = Some (w', s', Inl e) \<and> isopen s' \<and> sessions w' = Suc (sessions w)"
proof -
  from assms(8) obtain r where r: "r \<in> set es" "has_dn r" "map_of (snd r) ''groupType'' = None" by blast
  then have "\<exists>r\<in>set es. isl (keep_group r)"
    by (intro bexI [of _ r]) (simp_all add: keep_group_def low_bit_clear_def dict_get_def)
  from filter_py_error [OF this] obtain e where "filter_py keep_group es = Inl e" by blast
  from ad_get_groups_filter_error [OF assms(1-7) this] show ?thesis by blast
qed

theorem groups_missing_type_leaks_session_witness:
  "\<exists>w' s' e. ad_get_groups (example_net (example_ad_groups @ [(Some ''CN=Guests,DC=acme'', [])])) example_ad =
      Some (w', s', Inl e) \<and> isopen s' \<and> sessions w' = 1"
  using groups_missing_type_leaks_session [of example_ad "''dc1''"
      "example_net (example_ad_groups @ [(Some ''CN=Guests,DC=acme'', [])])"
      "example_ad_groups @ [(Some ''CN=Guests,DC=acme'', [])]"]
  by (simp add: example_ad_simps example_net_def has_dn_def)

end
