(* ===== verification/IdentityCache.thy ===== *)
theory IdentityCache
  imports AdBackend "HOL-Library.AList"
begin

text \<open>
  The identity cache of the LDAP backend: the bulk enumerations
  \<open>FreeNAS_LDAP_Users\<close> and \<open>FreeNAS_LDAP_Groups\<close> and the single lookups
  \<open>FreeNAS_LDAP_User\<close> and \<open>FreeNAS_LDAP_Group\<close> of \<open>freenasldap.py\<close> (lines
  1426--1523, 1691--1790, 1952--2023, 2128--2201), which resolve directory entries to local
  accounts through \<open>pwd\<close>/\<open>grp\<close> and keep two persistent caches per class: the
  resolved tier (\<open>FreeNAS_UserCache\<close>, key the account name) and the directory
  tier (\<open>FreeNAS_Directory_UserCache\<close>, key the DN), each with its sentinel file
  \<open>.ul\<close>/\<open>.dul\<close> (\<open>.gl\<close>/\<open>.dgl\<close> for groups) that marks it complete.

  The cache classes come from \<open>freenasUI.common.freenascache\<close>, which is not
  part of the sources; they are modelled from the specification as an
  insertion-ordered key/value store with its sentinel (\<open>kvcache\<close>). The caches
  live on disk and are shared by every object of the process and by later
  processes, so they form an explicit store \<open>idstore\<close> threaded through every
  operation, indexed by the cache directory (\<open>None\<close> for the top directory, a
  NetBIOS name for a per-domain directory). The local account database is the
  environment \<open>osdb\<close>.
\<close>

unbundle bit_operations_syntax

section \<open>The persistent caches\<close>

text \<open>A cache directory: its entries in insertion order and whether its sentinel
  file exists.\<close>

record 'v kvcache =
  kv_entries :: "(string \<times> 'v) list"
  kv_loaded :: bool

definition cache_empty :: "'v kvcache" where
  "cache_empty = \<lparr>kv_entries = [], kv_loaded = False\<rparr>"

definition cache_get :: "'v kvcache \<Rightarrow> string \<Rightarrow> 'v option" where
  "cache_get c k = map_of (kv_entries c) k"

definition cache_put :: "string \<Rightarrow> 'v \<Rightarrow> 'v kvcache \<Rightarrow> 'v kvcache" where
  "cache_put k v c = c\<lparr>kv_entries := AList.update k v (kv_entries c)\<rparr>"

text \<open>Iterating over a cache yields its values.\<close>

definition cache_values :: "'v kvcache \<Rightarrow> 'v list" where
  "cache_values c = map snd (kv_entries c)"

definition cache_mark :: "'v kvcache \<Rightarrow> 'v kvcache" where
  "cache_mark c = c\<lparr>kv_loaded := True\<rparr>"

text \<open>The local account database (\<open>pwd\<close>, \<open>grp\<close>): \<open>None\<close> where the call raises
  \<open>KeyError\<close>.\<close>

record passwd =
  pw_name :: string
  pw_uid :: int

record grent =
  gr_name :: string
  gr_gid :: int

record osdb =
  getpwnam :: "string \<Rightarrow> passwd option"
  getpwuid :: "int \<Rightarrow> passwd option"
  getgrnam :: "string \<Rightarrow> grent option"
  getgrgid :: "int \<Rightarrow> grent option"

text \<open>The four cache classes, per cache directory. The directory tiers hold Python
  values: a single lookup stores \<open>None\<close> there when the account is only local.\<close>

record idstore =
  ucache :: "string option \<Rightarrow> passwd kvcache"
  ducache :: "string option \<Rightarrow> entry option kvcache"
  gcache :: "string option \<Rightarrow> grent kvcache"
  dgcache :: "string option \<Rightarrow> entry option kvcache"

definition store_empty :: idstore where
  "store_empty = \<lparr>ucache = (\<lambda>_. cache_empty), ducache = (\<lambda>_. cache_empty),
                  gcache = (\<lambda>_. cache_empty), dgcache = (\<lambda>_. cache_empty)\<rparr>"

text \<open>The cache flags of \<open>freenascache\<close>.\<close>

definition FLAGS_CACHE_READ_USER :: int where "FLAGS_CACHE_READ_USER = 1"
definition FLAGS_CACHE_WRITE_USER :: int where "FLAGS_CACHE_WRITE_USER = 2"
definition FLAGS_CACHE_READ_GROUP :: int where "FLAGS_CACHE_READ_GROUP = 4"
definition FLAGS_CACHE_WRITE_GROUP :: int where "FLAGS_CACHE_WRITE_GROUP = 8"

definition has_flag :: "int \<Rightarrow> int \<Rightarrow> bool" where
  "has_flag fl f = (fl AND f \<noteq> 0)"

section \<open>Bulk enumeration of LDAP users\<close>

text \<open>The loop of \<open>FreeNAS_LDAP_Users.__get_users\<close> (lines 1501--1519), over search
  rows or over the values of the directory tier (where a \<open>None\<close> makes
  \<open>u[0]\<close> raise \<open>TypeError\<close>): record each
  entry under \<open>str(DN)\<close> in the directory tier, read \<open>uid\<close> (\<open>KeyError\<close>,
  \<open>IndexError\<close>), skip accounts \<open>getpwnam\<close> does not know, record the others in the
  resolved tier. The store is updated in place, so an exception keeps what was
  written before it.\<close>

fun users_loop ::
  "osdb \<Rightarrow> bool \<Rightarrow> entry option list \<Rightarrow> idstore \<Rightarrow> passwd list \<Rightarrow> idstore \<times> (py_error + passwd list)" where
  "users_loop os wr [] st acc = (st, Inr acc)"
| "users_loop os wr (None # us) st acc = (st, Inl TypeError)"
| "users_loop os wr (Some u # us) st acc =
     (let st1 = (if wr then st\<lparr>ducache := (ducache st)(None := cache_put (pyfmt (fst u)) (Some u) (ducache st None))\<rparr>
                 else st)
      in case dict_get (snd u) ''uid'' of
           Inl e \<Rightarrow> (st1, Inl e)
         | Inr vs \<Rightarrow>
             (case first_value vs of
                Inl e \<Rightarrow> (st1, Inl e)
              | Inr uid \<Rightarrow>
                  (case getpwnam os uid of
                     None \<Rightarrow> users_loop os wr us st1 acc
                   | Some pw \<Rightarrow>
                       users_loop os wr us
                         (if wr then st1\<lparr>ucache := (ucache st1)(None := cache_put uid pw (ucache st1 None))\<rparr> else st1)
                         (acc @ [pw]))))"

text \<open>The loop followed by the writing of both sentinels.\<close>

definition users_finish ::
  "osdb \<Rightarrow> bool \<Rightarrow> entry option list \<Rightarrow> idstore \<Rightarrow> idstore \<times> (py_error + passwd list)" where
  "users_finish os wr rows st =
    (case users_loop os wr rows st [] of
       (st3, Inl e) \<Rightarrow> (st3, Inl e)
     | (st3, Inr us) \<Rightarrow>
         ((if wr then st3\<lparr>ucache := (ucache st3)(None := cache_mark (ucache st3 None)),
                          ducache := (ducache st3)(None := cache_mark (ducache st3 None))\<rparr>
           else st3), Inr us))"

text \<open>\<open>__get_users\<close>: the resolved tier when reading is enabled and its sentinel
  exists; otherwise the directory tier (same condition) or a paged \<open>get_users\<close>,
  the loop, and both sentinels written when writing is enabled.\<close>

definition ldap_users_fill ::
  "net \<Rightarrow> osdb \<Rightarrow> idstore \<Rightarrow> 'a ldap_base_scheme \<Rightarrow>
   (net \<times> idstore \<times> 'a ldap_base_scheme \<times> (py_error + passwd list)) option" where
  "ldap_users_fill w os st s =
    (let rd = has_flag (flags s) FLAGS_CACHE_READ_USER; wr = has_flag (flags s) FLAGS_CACHE_WRITE_USER in
     if rd \<and> kv_loaded (ucache st None) then Some (w, st, s, Inr (cache_values (ucache st None)))
     else
       (let s1 = s\<lparr>attributes := Some [''uid''], pagesize := FREENAS_LDAP_PAGESIZE\<rparr> in
        do {
          (w2, s2, rows) \<leftarrow> (if rd \<and> kv_loaded (ducache st None)
                              then Some (w, s1, Inr (cache_values (ducache st None)))
                              else map_option (\<lambda>(w', s', r). (w', s', map_sum id (map Some) r)) (get_users w s1));
          (case rows of
             Inl e \<Rightarrow> Some (w2, st, s2, Inl e)
           | Inr ldap_users \<Rightarrow> (case users_finish os wr ldap_users st of (st3, r) \<Rightarrow> Some (w2, st3, s2, r)))
        }))"

text \<open>\<open>FreeNAS_LDAP_Users(**kwargs)\<close>: construct the backend, then enumerate.\<close>

definition ldap_users_new ::
  "net \<Rightarrow> osdb \<Rightarrow> idstore \<Rightarrow> ldap_row list \<Rightarrow> base_args \<Rightarrow>
   (net \<times> idstore \<times> (py_error + passwd list)) option" where
  "ldap_users_new w os st rows kw =
    (case ldap_base_init rows kw of
       Inl e \<Rightarrow> Some (w, st, Inl e)
     | Inr d \<Rightarrow> map_option (\<lambda>(w', st', _, r). (w', st', r)) (ldap_users_fill w os st d))"

section \<open>Bulk enumeration of LDAP groups\<close>

text \<open>\<open>FreeNAS_LDAP_Groups.__get_groups\<close> (lines 1746--1790): the same with
  \<open>cn\<close>, \<open>getgrnam\<close> and the group tiers; the page size is left as it is.\<close>

fun groups_loop ::
  "osdb \<Rightarrow> bool \<Rightarrow> entry option list \<Rightarrow> idstore \<Rightarrow> grent list \<Rightarrow> idstore \<times> (py_error + grent list)" where
  "groups_loop os wr [] st acc = (st, Inr acc)"
| "groups_loop os wr (None # gs) st acc = (st, Inl TypeError)"
| "groups_loop os wr (Some g # gs) st acc =
     (let st1 = (if wr then st\<lparr>dgcache := (dgcache st)(None := cache_put (pyfmt (fst g)) (Some g) (dgcache st None))\<rparr>
                 else st)
      in case dict_get (snd g) ''cn'' of
           Inl e \<Rightarrow> (st1, Inl e)
         | Inr vs \<Rightarrow>
             (case first_value vs of
                Inl e \<Rightarrow> (st1, Inl e)
              | Inr cn \<Rightarrow>
                  (case getgrnam os cn of
                     None \<Rightarrow> groups_loop os wr gs st1 acc
                   | Some gr \<Rightarrow>
                       groups_loop os wr gs
                         (if wr then st1\<lparr>gcache := (gcache st1)(None := cache_put cn gr (gcache st1 None))\<rparr> else st1)
                         (acc @ [gr]))))"

text \<open>The loop followed by the writing of both sentinels.\<close>

definition groups_finish ::
  "osdb \<Rightarrow> bool \<Rightarrow> entry option list \<Rightarrow> idstore \<Rightarrow> idstore \<times> (py_error + grent list)" where
  "groups_finish os wr rows st =
    (case groups_loop os wr rows st [] of
       (st3, Inl e) \<Rightarrow> (st3, Inl e)
     | (st3, Inr gs) \<Rightarrow>
         ((if wr then st3\<lparr>gcache := (gcache st3)(None := cache_mark (gcache st3 None)),
                          dgcache := (dgcache st3)(None := cache_mark (dgcache st3 None))\<rparr>
           else st3), Inr gs))"

definition ldap_groups_fill ::
  "net \<Rightarrow> osdb \<Rightarrow> idstore \<Rightarrow> 'a ldap_base_scheme \<Rightarrow>
   (net \<times> idstore \<times> 'a ldap_base_scheme \<times> (py_error + grent list)) option" where
  "ldap_groups_fill w os st s =
    (let rd = has_flag (flags s) FLAGS_CACHE_READ_GROUP; wr = has_flag (flags s) FLAGS_CACHE_WRITE_GROUP in
     if rd \<and> kv_loaded (gcache st None) then Some (w, st, s, Inr (cache_values (gcache st None)))
     else
       (let s1 = s\<lparr>attributes := Some [''cn'']\<rparr> in
        do {
          (w2, s2, rows) \<leftarrow> (if rd \<and> kv_loaded (dgcache st None)
                              then Some (w, s1, Inr (cache_values (dgcache st None)))
                              else map_option (\<lambda>(w', s', r). (w', s', map_sum id (map Some) r)) (get_groups w s1));
          (case rows of
             Inl e \<Rightarrow> Some (w2, st, s2, Inl e)
           | Inr ldap_groups \<Rightarrow> (case groups_finish os wr ldap_groups st of (st3, r) \<Rightarrow> Some (w2, st3, s2, r)))
        }))"

definition ldap_groups_new ::
  "net \<Rightarrow> osdb \<Rightarrow> idstore \<Rightarrow> ldap_row list \<Rightarrow> base_args \<Rightarrow>
   (net \<times> idstore \<times> (py_error + grent list)) option" where
  "ldap_groups_new w os st rows kw =
    (case ldap_base_init rows kw of
       Inl e \<Rightarrow> Some (w, st, Inl e)
     | Inr d \<Rightarrow> map_option (\<lambda>(w', st', _, r). (w', st', r)) (ldap_groups_fill w os st d))"

section \<open>Single LDAP lookups\<close>

text \<open>The key of the directory tier for one account (lines 1965--1969 and
  2141--2145): \<open>None\<close> where the code leaves \<open>self.__key\<close> unset, so that reading it
  raises \<open>AttributeError\<close>.\<close>

definition dir_key :: "string \<Rightarrow> string \<Rightarrow> string option \<Rightarrow> string option \<Rightarrow> string option" where
  "dir_key attr x sfx bdn =
    (if truthy sfx \<and> truthy bdn then Some (attr @ ''='' @ x @ '','' @ pyfmt sfx @ '','' @ pyfmt bdn)
     else if truthy bdn then Some (attr @ ''='' @ x @ '','' @ pyfmt bdn)
     else None)"

text \<open>The directory entry to resolve: from the directory tier when reading is
  enabled and it holds the key, otherwise from \<open>get_user\<close>/\<open>get_group\<close>.\<close>

definition dir_lookup ::
  "bool \<Rightarrow> entry option kvcache \<Rightarrow> string option \<Rightarrow> net \<Rightarrow>
   (net \<times> (py_error + entry option)) option \<Rightarrow> (net \<times> (py_error + entry option)) option" where
  "dir_lookup rd dc key w remote =
    (if rd then
       (case key of
          None \<Rightarrow> Some (w, Inl AttributeError)
        | Some k \<Rightarrow> (case cache_get dc k of Some v \<Rightarrow> Some (w, Inr v) | None \<Rightarrow> remote))
     else remote)"

text \<open>\<open>FreeNAS_LDAP_User.__get_user\<close> (lines 2153--2201). A hit in the resolved
  tier returns from the method without assigning \<open>self._pw\<close>. A string of digits
  goes to \<open>pwd.getpwuid\<close>, which raises \<open>TypeError\<close> on a string; the exception is
  caught, so the result is \<open>None\<close>. Writing stores the account and the directory
  entry (possibly \<open>None\<close>).\<close>

definition ldap_get_user_cached ::
  "net \<Rightarrow> osdb \<Rightarrow> idstore \<Rightarrow> 'a ldap_base_scheme \<Rightarrow> string \<Rightarrow>
   (net \<times> idstore \<times> (py_error + passwd option)) option" where
  "ldap_get_user_cached w os st s x =
    (let rd = has_flag (flags s) FLAGS_CACHE_READ_USER; wr = has_flag (flags s) FLAGS_CACHE_WRITE_USER;
         s1 = s\<lparr>attributes := Some [''uid'']\<rparr>;
         key = dir_key ''uid'' x (usersuffix s) (basedn s) in
     if rd \<and> cache_get (ucache st None) x \<noteq> None then Some (w, st, Inr None)
     else
       do {
         (w2, r) \<leftarrow> dir_lookup rd (ducache st None) key w
                       (map_option (\<lambda>(w', s', r). (w', r)) (get_user w s1 (IdStr x)));
         (case r of
            Inl e \<Rightarrow> Some (w2, st, Inl e)
          | Inr lu \<Rightarrow>
              (let pwr = (case lu of
                            Some u \<Rightarrow> (case dict_get (snd u) ''uid'' of
                                         Inl e \<Rightarrow> Inl e
                                       | Inr vs \<Rightarrow> (case first_value vs of Inl e \<Rightarrow> Inl e | Inr uid \<Rightarrow> Inr (getpwnam os uid)))
                          | None \<Rightarrow> Inr (if str_isdigit x then None else getpwnam os x))
               in case pwr of
                    Inl e \<Rightarrow> Some (w2, st, Inl e)
                  | Inr None \<Rightarrow> Some (w2, st, Inr None)
                  | Inr (Some pw) \<Rightarrow>
                      (if wr then
                         (case key of
                            None \<Rightarrow> Some (w2, st\<lparr>ucache := (ucache st)(None := cache_put x pw (ucache st None))\<rparr>, Inl AttributeError)
                          | Some k \<Rightarrow> Some (w2, st\<lparr>ucache := (ucache st)(None := cache_put x pw (ucache st None)),
                                                  ducache := (ducache st)(None := cache_put k lu (ducache st None))\<rparr>,
                                            Inr (Some pw)))
                       else Some (w2, st, Inr (Some pw)))))
       })"

text \<open>\<open>FreeNAS_LDAP_User(user, **kwargs)\<close> (lines 2128--2151): a non-zero Python int
  has no \<open>encode\<close> (\<open>AttributeError\<close>); a false argument leaves \<open>_pw\<close> as \<open>None\<close>.
  The result is the object's \<open>_pw\<close>.\<close>

definition ldap_user_new ::
  "net \<Rightarrow> osdb \<Rightarrow> idstore \<Rightarrow> ldap_row list \<Rightarrow> base_args \<Rightarrow> ident \<Rightarrow>
   (net \<times> idstore \<times> (py_error + passwd option)) option" where
  "ldap_user_new w os st rows kw u =
    (if (case u of IdInt n \<Rightarrow> n \<noteq> 0 | _ \<Rightarrow> False) then Some (w, st, Inl AttributeError)
     else
       (case ldap_base_init rows kw of
          Inl e \<Rightarrow> Some (w, st, Inl e)
        | Inr d \<Rightarrow>
            (case u of
               IdStr x \<Rightarrow> (if x = [] then Some (w, st, Inr None) else ldap_get_user_cached w os st d x)
             | _ \<Rightarrow> Some (w, st, Inr None))))"

text \<open>\<open>FreeNAS_LDAP_Group.__get_group\<close> (lines 1977--2023): as for users, except
  that reading \<open>cn\<close> of the entry happens inside the \<open>try\<close>, so a malformed entry
  gives \<open>None\<close> instead of an exception.\<close>

definition ldap_get_group_cached ::
  "net \<Rightarrow> osdb \<Rightarrow> idstore \<Rightarrow> 'a ldap_base_scheme \<Rightarrow> string \<Rightarrow>
   (net \<times> idstore \<times> (py_error + grent option)) option" where
  "ldap_get_group_cached w os st s x =
    (let rd = has_flag (flags s) FLAGS_CACHE_READ_GROUP; wr = has_flag (flags s) FLAGS_CACHE_WRITE_GROUP;
         s1 = s\<lparr>attributes := Some [''cn'']\<rparr>;
         key = dir_key ''cn'' x (groupsuffix s) (basedn s) in
     if rd \<and> cache_get (gcache st None) x \<noteq> None then Some (w, st, Inr None)
     else
       do {
         (w2, r) \<leftarrow> dir_lookup rd (dgcache st None) key w
                       (map_option (\<lambda>(w', s', r). (w', r)) (get_group w s1 (IdStr x)));
         (case r of
            Inl e \<Rightarrow> Some (w2, st, Inl e)
          | Inr lg \<Rightarrow>
              (let gr = (case lg of
                           Some g \<Rightarrow> (case dict_get (snd g) ''cn'' of
                                        Inl e \<Rightarrow> None
                                      | Inr vs \<Rightarrow> (case first_value vs of Inl e \<Rightarrow> None | Inr cn \<Rightarrow> getgrnam os cn))
                         | None \<Rightarrow> (if str_isdigit x then None else getgrnam os x))
               in case gr of
                    None \<Rightarrow> Some (w2, st, Inr None)
                  | Some g \<Rightarrow>
                      (if wr then
                         (case key of
                            None \<Rightarrow> Some (w2, st\<lparr>gcache := (gcache st)(None := cache_put x g (gcache st None))\<rparr>, Inl AttributeError)
                          | Some k \<Rightarrow> Some (w2, st\<lparr>gcache := (gcache st)(None := cache_put x g (gcache st None)),
                                                  dgcache := (dgcache st)(None := cache_put k lg (dgcache st None))\<rparr>,
                                            Inr (Some g)))
                       else Some (w2, st, Inr (Some g)))))
       })"

text \<open>\<open>FreeNAS_LDAP_Group(group, **kwargs)\<close> (lines 1952--1975).\<close>

definition ldap_group_new ::
  "net \<Rightarrow> osdb \<Rightarrow> idstore \<Rightarrow> ldap_row list \<Rightarrow> base_args \<Rightarrow> ident \<Rightarrow>
   (net \<times> idstore \<times> (py_error + grent option)) option" where
  "ldap_group_new w os st rows kw g =
    (if (case g of IdInt n \<Rightarrow> n \<noteq> 0 | _ \<Rightarrow> False) then Some (w, st, Inl AttributeError)
     else
       (case ldap_base_init rows kw of
          Inl e \<Rightarrow> Some (w, st, Inl e)
        | Inr d \<Rightarrow>
            (case g of
               IdStr x \<Rightarrow> (if x = [] then Some (w, st, Inr None) else ldap_get_group_cached w os st d x)
             | _ \<Rightarrow> Some (w, st, Inr None))))"

text \<open>The abstract specification of one enumeration (specification, section 4.3, step
  3): the entries whose \<open>uid\<close> the local database resolves, paired with their
  account, in directory order.\<close>

definition row_attr :: "string \<Rightarrow> entry \<Rightarrow> string option" where
  "row_attr a u = (case map_of (snd u) a of Some (v # _) \<Rightarrow> Some v | _ \<Rightarrow> None)"

definition resolved_pairs :: "osdb \<Rightarrow> entry list \<Rightarrow> (string \<times> passwd) list" where
  "resolved_pairs os rows =
     List.map_filter (\<lambda>u. case row_attr ''uid'' u of None \<Rightarrow> None | Some k \<Rightarrow> map_option (Pair k) (getpwnam os k)) rows"

section \<open>Concrete instances\<close>

text \<open>A local database that knows \<open>ann\<close>, \<open>bob\<close> and \<open>cid\<close> (and uid 1000), and
  the store the enumeration of the five example rows leaves behind.\<close>

definition example_os :: osdb where
  "example_os = \<lparr>getpwnam = (\<lambda>k. if k \<in> {''ann'', ''bob'', ''cid''} then Some \<lparr>pw_name = k, pw_uid = 1000\<rparr> else None),
                 getpwuid = (\<lambda>n. if n = 1000 then Some \<lparr>pw_name = ''ann'', pw_uid = 1000\<rparr> else None),
                 getgrnam = (\<lambda>k. None), getgrgid = (\<lambda>n. None)\<rparr>"

definition example_filled_store :: idstore where
  "example_filled_store =
     store_empty\<lparr>ucache := (ucache store_empty)(None := \<lparr>kv_entries = [(''ann'', \<lparr>pw_name = ''ann'', pw_uid = 1000\<rparr>),
             (''bob'', \<lparr>pw_name = ''bob'', pw_uid = 1000\<rparr>), (''cid'', \<lparr>pw_name = ''cid'', pw_uid = 1000\<rparr>)], kv_loaded = True\<rparr>),
        ducache := (ducache store_empty)(None := \<lparr>kv_entries = map (\<lambda>r. (the (fst r), Some r)) example_rows, kv_loaded = True\<rparr>)\<rparr>"

section \<open>Lemmas\<close>

lemma update_new_key:
  "k \<notin> fst ` set al \<Longrightarrow> AList.update k v al = al @ [(k, v)]"
  by (induction al) auto

lemma foldl_update_distinct:
  "distinct (map fst (al @ ps)) \<Longrightarrow> foldl (\<lambda>a (k, v). AList.update k v a) al ps = al @ ps"
proof (induction ps arbitrary: al)
  case Nil
  then show ?case by simp
next
  case (Cons p ps)
  obtain k v where p: "p = (k, v)" by fastforce
  have "k \<notin> fst ` set al" using Cons.prems p by auto
  then have "AList.update k v al = al @ [(k, v)]" by (rule update_new_key)
  with Cons show ?case using p by simp
qed

lemma users_loop_ok:
  "users_loop os wr rows st acc = (st', Inr us) \<Longrightarrow>
   \<exists>ps. us = acc @ map snd ps \<and> (\<forall>(k, v)\<in>set ps. getpwnam os k = Some v) \<and>
        kv_entries (ucache st' None) =
          (if wr then foldl (\<lambda>a (k, v). AList.update k v a) (kv_entries (ucache st None)) ps
           else kv_entries (ucache st None)) \<and>
        kv_loaded (ucache st' None) = kv_loaded (ucache st None)"
proof (induction rows arbitrary: st acc)
  case Nil
  then show ?case by (intro exI [of _ "[]"]) auto
next
  case (Cons r rows)
  show ?case
  proof (cases r)
    case None
    with Cons.prems show ?thesis by simp
  next
    case (Some u)
    define st1 where "st1 = (if wr then st\<lparr>ducache := (ducache st)(None := cache_put (pyfmt (fst u)) (Some u) (ducache st None))\<rparr>
                 else st)"
    have u1: "ucache st1 = ucache st" by (simp add: st1_def)
    from Cons.prems Some obtain vs uid where d: "dict_get (snd u) ''uid'' = Inr vs" and f: "first_value vs = Inr uid"
      by (auto simp: Let_def st1_def [symmetric] split: sum.splits)
    show ?thesis
    proof (cases "getpwnam os uid")
      case None
      with Cons.prems Some d f have "users_loop os wr rows st1 acc = (st', Inr us)"
        by (simp add: Let_def st1_def [symmetric])
      from Cons.IH [OF this] show ?thesis unfolding u1 .
    next
      case (Some pw)
      define st2 where "st2 = (if wr then st1\<lparr>ucache := (ucache st1)(None := cache_put uid pw (ucache st1 None))\<rparr> else st1)"
      from Cons.prems \<open>r = Some u\<close> d f Some have "users_loop os wr rows st2 (acc @ [pw]) = (st', Inr us)"
        by (simp add: Let_def st1_def [symmetric] st2_def [symmetric])
      from Cons.IH [OF this] obtain ps where
        ps: "us = (acc @ [pw]) @ map snd ps" "\<forall>(k, v)\<in>set ps. getpwnam os k = Some v"
          "kv_entries (ucache st' None) =
            (if wr then foldl (\<lambda>a (k, v). AList.update k v a) (kv_entries (ucache st2 None)) ps
             else kv_entries (ucache st2 None))"
          "kv_loaded (ucache st' None) = kv_loaded (ucache st2 None)"
        by blast
      show ?thesis
        using ps Some u1
        by (intro exI [of _ "(uid, pw) # ps"]) (simp add: st2_def cache_put_def)
    qed
  qed
qed

lemma distinct_keys_of_function:
  "\<forall>(k, v)\<in>set ps. f k = Some v \<Longrightarrow> distinct (map snd ps) \<Longrightarrow> distinct (map fst ps)"
proof (induction ps)
  case Nil
  then show ?case by simp
next
  case (Cons p ps)
  obtain k v where p: "p = (k, v)" by fastforce
  have "k \<notin> fst ` set ps"
  proof
    assume "k \<in> fst ` set ps"
    then obtain v' where "(k, v') \<in> set ps" by force
    with Cons.prems p have "v' = v" by fastforce
    with \<open>(k, v') \<in> set ps\<close> have "v \<in> snd ` set ps" by force
    with Cons.prems p show False by simp
  qed
  with Cons p show ?case by simp
qed

lemma ldap_users_fill_loop:
  assumes "ldap_users_fill w os st s = Some (w1, st1, s1, Inr us)"
    "\<not> (has_flag (flags s) FLAGS_CACHE_READ_USER \<and> kv_loaded (ucache st None))"
  shows "\<exists>rows. users_finish os (has_flag (flags s) FLAGS_CACHE_WRITE_USER) rows st = (st1, Inr us)"
proof -
  let ?wr = "has_flag (flags s) FLAGS_CACHE_WRITE_USER"
  obtain w2 s2 rr where
    c: "(case rr of Inl e \<Rightarrow> Some (w2, st, s2, Inl e)
         | Inr lu \<Rightarrow> (case users_finish os ?wr lu st of (st3, r) \<Rightarrow> Some (w2, st3, s2, r))) =
        Some (w1, st1, s1, Inr us)"
    using assms by (auto simp: ldap_users_fill_def Let_def bind_eq_Some_conv split: if_splits) (metis sum.case(2))
  then obtain rows where "rr = Inr rows" by (cases rr) auto
  with c have "users_finish os ?wr rows st = (st1, Inr us)" by (auto split: prod.splits)
  then show ?thesis by blast
qed

lemma ldap_users_fill_writes:
  assumes fill: "ldap_users_fill w os st s = Some (w1, st1, s1, Inr us)"
    and wr: "has_flag (flags s) FLAGS_CACHE_WRITE_USER"
    and fresh: "kv_entries (ucache st None) = []" "\<not> kv_loaded (ucache st None)"
    and dist: "distinct us"
  shows "kv_loaded (ucache st1 None) \<and> cache_values (ucache st1 None) = us \<and>
         (\<forall>pw\<in>set us. \<exists>k. getpwnam os k = Some pw \<and> cache_get (ucache st1 None) k = Some pw)"
proof -
  obtain rows where "users_finish os True rows st = (st1, Inr us)"
    using ldap_users_fill_loop [OF fill] wr fresh by auto
  then obtain st3 where l: "users_loop os True rows st [] = (st3, Inr us)"
    and st1: "st1 = st3\<lparr>ucache := (ucache st3)(None := cache_mark (ucache st3 None)),
                           ducache := (ducache st3)(None := cache_mark (ducache st3 None))\<rparr>"
    by (auto simp: users_finish_def split: prod.splits sum.splits)
  obtain ps where ps: "us = map snd ps" "\<forall>(k, v)\<in>set ps. getpwnam os k = Some v"
    "kv_entries (ucache st3 None) = foldl (\<lambda>a (k, v). AList.update k v a) [] ps"
    using users_loop_ok [OF l] fresh by auto
  have "distinct (map fst ps)" using distinct_keys_of_function [OF ps(2)] dist ps(1) by simp
  then have e: "kv_entries (ucache st3 None) = ps" using ps(3) foldl_update_distinct [of "[]" ps] by simp
  have "\<forall>pw\<in>set us. \<exists>k. getpwnam os k = Some pw \<and> map_of ps k = Some pw"
    using ps(1,2) \<open>distinct (map fst ps)\<close> by (force intro: map_of_is_SomeI)
  then show ?thesis
    using e ps(1) by (simp add: st1 cache_mark_def cache_values_def cache_get_def)
qed

lemma cache_get_put [simp]: "cache_get (cache_put k v c) = (cache_get c)(k \<mapsto> v)"
  by (simp add: cache_get_def cache_put_def update_conv' fun_eq_iff)

lemma get_users_paged:
  assumes "\<not> isopen s" "host s = Some h" "h \<noteq> []" "0 < pagesize s" "cache s = Map.empty"
    "srv_bind w (the (geturi s)) (bind_creds (binddn s) (bindpw s))" "srv_page w = pager es"
  shows "\<exists>w' s'. get_users w s = Some (w', s', Inr (filter has_dn es))"
proof -
  obtain u where u: "geturi s = Some u" using geturi_host assms(2) by blast
  let ?w1 = "w\<lparr>binds := binds w @ [(u, tls_channel w (ssl s) u, bind_creds (binddn s) (bindpw s))],
       sessions := Suc (sessions w)\<rparr>"
  let ?s1 = "s\<lparr>handle := Some u, isopen := True\<rparr>"
  have o: "ldap_open w s = (?w1, ?s1, True)"
    using assms u by (intro ldap_open_fresh) simp_all
  have q: "ldap_search_raw ?w1 ?s1 b SCOPE_SUBTREE (Some f) =
      Some (?w1\<lparr>requests := requests w + Suc ((length es - 1) div pagesize s)\<rparr>, ?s1, Inr (Some es))" for b f
    using ldap_search_raw_pager [of ?s1 h u ?w1 f b es] assms by simp
  show ?thesis
    using ldap_query_fresh [OF assms(1) o q] by (simp add: get_users_def)
qed

lemma example_users_fill:
  "\<exists>w1 s1. ldap_users_fill (example_net example_rows) example_os store_empty
      (example_base\<lparr>flags := FLAGS_CACHE_WRITE_USER\<rparr>) =
    Some (w1, example_filled_store, s1, Inr [\<lparr>pw_name = ''ann'', pw_uid = 1000\<rparr>, \<lparr>pw_name = ''bob'', pw_uid = 1000\<rparr>, \<lparr>pw_name = ''cid'', pw_uid = 1000\<rparr>])"
proof -
  let ?s = "example_base\<lparr>flags := FLAGS_CACHE_WRITE_USER, attributes := Some [''uid''], pagesize := FREENAS_LDAP_PAGESIZE\<rparr>"
  obtain w' s' where g: "get_users (example_net example_rows) ?s = Some (w', s', Inr (filter has_dn example_rows))"
    using get_users_paged [of ?s "''ldap.acme.com''" "example_net example_rows" example_rows]
    by (auto simp: example_base_simps example_net_def FREENAS_LDAP_PAGESIZE_def)
  show ?thesis
    using g by (simp add: ldap_users_fill_def has_flag_def FLAGS_CACHE_WRITE_USER_def FLAGS_CACHE_READ_USER_def
        users_finish_def example_rows_def has_dn_def store_empty_def cache_empty_def cache_put_def cache_mark_def
        dict_get_def example_os_def example_filled_store_def)
qed

section \<open>Properties of the identity cache\<close>

text \<open>C31: Cache short-circuit: once an enumeration with cache writing has run on an empty store (and resolved distinct accounts), any later FreeNAS_LDAP_Users with cache reading returns the same accounts from the resolved tier, sends nothing to the network and leaves the store unchanged.\<close>

theorem users_cache_short_circuit:
  assumes "ldap_users_fill w os st s = Some (w1, st1, s1, Inr us)"
    "has_flag (flags s) FLAGS_CACHE_WRITE_USER"
    "kv_entries (ucache st None) = []" "\<not> kv_loaded (ucache st None)" "distinct us"
    "has_flag (flags s') FLAGS_CACHE_READ_USER"
  shows "ldap_users_fill w' os' st1 s' = Some (w', st1, s', Inr us)"
  using ldap_users_fill_writes [OF assms(1-5)] assms(6) by (simp add: ldap_users_fill_def)

theorem users_cache_short_circuit_witness:
  "ldap_users_fill (example_net []) example_os example_filled_store (example_base\<lparr>flags := FLAGS_CACHE_READ_USER\<rparr>) =
     Some (example_net [], example_filled_store, example_base\<lparr>flags := FLAGS_CACHE_READ_USER\<rparr>,
           Inr [\<lparr>pw_name = ''ann'', pw_uid = 1000\<rparr>, \<lparr>pw_name = ''bob'', pw_uid = 1000\<rparr>, \<lparr>pw_name = ''cid'', pw_uid = 1000\<rparr>])"
proof -
  obtain w1 s1 where "ldap_users_fill (example_net example_rows) example_os store_empty
      (example_base\<lparr>flags := FLAGS_CACHE_WRITE_USER\<rparr>) =
    Some (w1, example_filled_store, s1, Inr [\<lparr>pw_name = ''ann'', pw_uid = 1000\<rparr>, \<lparr>pw_name = ''bob'', pw_uid = 1000\<rparr>, \<lparr>pw_name = ''cid'', pw_uid = 1000\<rparr>])"
    using example_users_fill by blast
  from users_cache_short_circuit [OF this, of "example_base\<lparr>flags := FLAGS_CACHE_READ_USER\<rparr>" "example_net []" example_os]
  show ?thesis
    by (simp add: has_flag_def FLAGS_CACHE_WRITE_USER_def FLAGS_CACHE_READ_USER_def store_empty_def cache_empty_def)
qed

text \<open>C32: After such an enumeration, looking up with cache reading any account it cached (FreeNAS_LDAP_User with the name the enumeration resolved) returns no account: the cache hit returns from __get_user before _pw is assigned, so FreeNAS_Directory_User yields None for exactly the users that are cached.\<close>

theorem cached_user_lookup_fails:
  assumes "ldap_users_fill w os st s = Some (w1, st1, s1, Inr us)"
    "has_flag (flags s) FLAGS_CACHE_WRITE_USER"
    "kv_entries (ucache st None) = []" "\<not> kv_loaded (ucache st None)" "distinct us"
    "has_flag (flags s') FLAGS_CACHE_READ_USER" "pw \<in> set us"
  shows "\<exists>k. getpwnam os k = Some pw \<and> ldap_get_user_cached w' os st1 s' k = Some (w', st1, Inr None)"
proof -
  obtain k where "getpwnam os k = Some pw" "cache_get (ucache st1 None) k = Some pw"
    using ldap_users_fill_writes [OF assms(1-5)] assms(7) by blast
  with assms(6) show ?thesis by (intro exI [of _ k]) (simp add: ldap_get_user_cached_def Let_def)
qed

theorem cached_user_lookup_fails_witness:
  "getpwnam example_os ''bob'' = Some \<lparr>pw_name = ''bob'', pw_uid = 1000\<rparr> \<and>
   (\<exists>k. getpwnam example_os k = Some \<lparr>pw_name = ''bob'', pw_uid = 1000\<rparr> \<and>
        ldap_get_user_cached (example_net example_rows) example_os example_filled_store
          (example_base\<lparr>flags := FLAGS_CACHE_READ_USER\<rparr>) k =
        Some (example_net example_rows, example_filled_store, Inr None))"
proof -
  obtain w1 s1 where "ldap_users_fill (example_net example_rows) example_os store_empty
      (example_base\<lparr>flags := FLAGS_CACHE_WRITE_USER\<rparr>) =
    Some (w1, example_filled_store, s1, Inr [\<lparr>pw_name = ''ann'', pw_uid = 1000\<rparr>, \<lparr>pw_name = ''bob'', pw_uid = 1000\<rparr>, \<lparr>pw_name = ''cid'', pw_uid = 1000\<rparr>])"
    using example_users_fill by blast
  from cached_user_lookup_fails [OF this, of "example_base\<lparr>flags := FLAGS_CACHE_READ_USER\<rparr>"
      "\<lparr>pw_name = ''bob'', pw_uid = 1000\<rparr>" "example_net example_rows"] show ?thesis
    by (simp add: has_flag_def FLAGS_CACHE_WRITE_USER_def FLAGS_CACHE_READ_USER_def store_empty_def cache_empty_def
        example_os_def)
qed

text \<open>C33: Refinement of the enumeration loop: on entries that all carry a uid, the loop returns exactly the accounts of the abstract specification resolved_pairs (entries whose uid the local database resolves, in directory order), and, read as a map, the resolved tier after the loop is the tier before it updated with those pairs in order.\<close>

theorem users_loop_refines:
  assumes "\<forall>u\<in>set rows. row_attr ''uid'' u \<noteq> None"
    and "users_loop os wr (map Some rows) st acc = (st', r)"
  shows "r = Inr (acc @ map snd (resolved_pairs os rows)) \<and>
         cache_get (ucache st' None) =
           (if wr then foldl (\<lambda>m (k, v). m(k \<mapsto> v)) (cache_get (ucache st None)) (resolved_pairs os rows)
            else cache_get (ucache st None))"
  using assms
proof (induction rows arbitrary: st acc)
  case Nil
  then show ?case by (simp add: resolved_pairs_def map_filter_simps)
next
  case (Cons u rows)
  obtain k vs where k: "map_of (snd u) ''uid'' = Some (k # vs)"
    using Cons.prems(1) by (auto simp: row_attr_def split: option.splits list.splits)
  define st1 where "st1 = (if wr then st\<lparr>ducache := (ducache st)(None := cache_put (pyfmt (fst u)) (Some u) (ducache st None))\<rparr>
                 else st)"
  have u1: "ucache st1 = ucache st" by (simp add: st1_def)
  have ra: "row_attr ''uid'' u = Some k" using k by (simp add: row_attr_def)
  show ?case
  proof (cases "getpwnam os k")
    case None
    with Cons.prems k have "users_loop os wr (map Some rows) st1 acc = (st', r)"
      by (simp add: Let_def st1_def [symmetric] dict_get_def)
    from Cons.IH [OF _ this] Cons.prems(1) None ra show ?thesis
      unfolding u1 by (simp add: resolved_pairs_def map_filter_simps)
  next
    case (Some pw)
    define st2 where "st2 = (if wr then st1\<lparr>ucache := (ucache st1)(None := cache_put k pw (ucache st1 None))\<rparr> else st1)"
    from Cons.prems k Some have "users_loop os wr (map Some rows) st2 (acc @ [pw]) = (st', r)"
      by (simp add: Let_def st1_def [symmetric] st2_def [symmetric] dict_get_def)
    from Cons.IH [OF _ this] Cons.prems(1) Some ra show ?thesis
      by (simp add: resolved_pairs_def map_filter_simps st2_def u1)
  qed
qed

theorem users_loop_refines_witness:
  "users_loop example_os False (map Some example_rows) store_empty [] =
     (store_empty, Inr [\<lparr>pw_name = ''ann'', pw_uid = 1000\<rparr>, \<lparr>pw_name = ''bob'', pw_uid = 1000\<rparr>, \<lparr>pw_name = ''cid'', pw_uid = 1000\<rparr>])"
proof -
  obtain st' r where l: "users_loop example_os False (map Some example_rows) store_empty [] = (st', r)" by fastforce
  have "\<forall>u\<in>set example_rows. row_attr ''uid'' u \<noteq> None"
    by (simp add: example_rows_def row_attr_def)
  from users_loop_refines [OF this l] l show ?thesis
    by (simp add: example_rows_def resolved_pairs_def row_attr_def example_os_def dict_get_def)
qed


text \<open>C34: A single LDAP user lookup by a string of digits that the directory does not
  know never finds the local account with that uid: the code passes the string to
  pwd.getpwuid, which raises TypeError on a string, and the exception is swallowed.
  The result is no account whatever the local database holds.\<close>

theorem numeric_user_lookup_ignores_uid:
  assumes "str_isdigit x" "\<not> has_flag (flags s) FLAGS_CACHE_READ_USER"
    "get_user w (s\<lparr>attributes := Some [''uid'']\<rparr>) (IdStr x) = Some (w', s', Inr None)"
  shows "ldap_get_user_cached w os st s x = Some (w', st, Inr None)"
  using assms by (simp add: ldap_get_user_cached_def dir_lookup_def Let_def)

theorem numeric_user_lookup_ignores_uid_witness:
  "getpwuid example_os 1000 = Some \<lparr>pw_name = ''ann'', pw_uid = 1000\<rparr> \<and>
   (\<exists>w'. ldap_get_user_cached (example_net []) example_os store_empty example_base ''1000'' =
           Some (w', store_empty, Inr None))"
proof -
  let ?s = "example_base\<lparr>attributes := Some [''uid'']\<rparr>"
  obtain w' s' where q: "ldap_query (example_net []) ?s (Some ''ou=people,dc=acme'')
      (get_user_filter (IdStr ''1000'')) = Some (w', s', Inr [])"
    using ldap_query_plain [of ?s "''ldap.acme.com''" "example_net []" "Some ''ou=people,dc=acme''"
        "get_user_filter (IdStr ''1000'')"]
    by (auto simp: example_base_simps example_net_def)
  have "get_user (example_net []) ?s (IdStr ''1000'') = Some (w', s', Inr None)"
    using q by (simp add: get_user_def get_user_basedn_def example_base_simps)
  from numeric_user_lookup_ignores_uid [OF _ _ this, of example_os store_empty] show ?thesis
    by (simp add: str_isdigit_def char_isdigit_def has_flag_def FLAGS_CACHE_READ_USER_def example_base_def
        example_base_args_def base_init_defs py_long_def char_isdigit_def digit_val_def example_os_def)
qed

end
