(* ===== verification/AdDomains.thy ===== *)
theory AdDomains
  imports AdBackend "HOL-Library.AList"
begin

text \<open>
  The directory lookups of \<open>FreeNAS_ActiveDirectory_Base\<close> (\<open>freenasldap.py\<close>,
  lines 970--1247 and 1301--1328): the rootDSE and its naming contexts, the
  NetBIOS name of the domain, the partitions of the configuration container, the
  root and other domains of the forest (through a global catalog) and the DN of
  a user or group. Every method follows one frame: remember \<open>_isopen\<close>, \<open>open()\<close>,
  run its statements, and \<open>close()\<close> if the object was closed. The lookups call
  each other, so a failed \<open>open\<close> is retried by each nested call. Exceptions are
  caught only where the code has \<open>try/except\<close>.
\<close>

section \<open>The open/close frame\<close>

text \<open>\<open>isopen = self._isopen; self.open(); \<dots>; if not isopen: self.close()\<close>; an
  exception of the statements propagates before the close.\<close>

definition with_open ::
  "net \<Rightarrow> 'a ldap_directory_scheme \<Rightarrow>
   (net \<Rightarrow> 'a ldap_directory_scheme \<Rightarrow> (net \<times> 'a ldap_directory_scheme \<times> (py_error + 'r)) option) \<Rightarrow>
   (net \<times> 'a ldap_directory_scheme \<times> (py_error + 'r)) option" where
  "with_open w s body =
    (let was = isopen s; (w1, s1, _) = ldap_open w s in
     then_ok (body w1 s1)
       (\<lambda>w2 s2 x. let (w3, s3) = (if was then (w2, s2) else ldap_close w2 s2) in Some (w3, s3, Inr x)))"

section \<open>Reading a search result\<close>

text \<open>\<open>results[0][1][k][0]\<close> without a handler: \<open>TypeError\<close> on \<open>None\<close>,
  \<open>IndexError\<close> on an empty list, \<open>KeyError\<close> on a missing attribute.\<close>

definition strict_attr :: "entry list option \<Rightarrow> string \<Rightarrow> py_error + string" where
  "strict_attr res k =
    (case res of
       None \<Rightarrow> Inl TypeError
     | Some rows \<Rightarrow>
         (case first_value rows of
            Inl e \<Rightarrow> Inl e
          | Inr r \<Rightarrow> (case dict_get (snd r) k of Inl e \<Rightarrow> Inl e | Inr vs \<Rightarrow> first_value vs)))"

text \<open>The same inside \<open>try: \<dots> except: results = None\<close>.\<close>

definition caught_attr :: "entry list option \<Rightarrow> string \<Rightarrow> string option" where
  "caught_attr res k = (case strict_attr res k of Inl _ \<Rightarrow> None | Inr v \<Rightarrow> Some v)"

section \<open>rootDSE and naming contexts\<close>

text \<open>\<open>get_rootDSE\<close> (lines 970--980): a base search of the empty DN; \<open>None\<close> when
  the object could not be opened.\<close>

definition ad_get_rootDSE ::
  "net \<Rightarrow> 'a ldap_directory_scheme \<Rightarrow> (net \<times> 'a ldap_directory_scheme \<times> (py_error + entry list option)) option" where
  "ad_get_rootDSE w s =
    with_open w s (\<lambda>w1 s1. ldap_search_raw w1 s1 (Some []) SCOPE_BASE (Some ''(objectclass=*)''))"

text \<open>\<open>get_rootDN\<close>, \<open>get_baseDN\<close> and \<open>get_config\<close> (lines 982--1034): one
  attribute of the rootDSE, \<open>None\<close> when it cannot be read.\<close>

definition ad_naming_context ::
  "string \<Rightarrow> net \<Rightarrow> 'a ldap_directory_scheme \<Rightarrow> (net \<times> 'a ldap_directory_scheme \<times> (py_error + string option)) option" where
  "ad_naming_context k w s =
    with_open w s (\<lambda>w1 s1. then_ok (ad_get_rootDSE w1 s1) (\<lambda>w2 s2 res. Some (w2, s2, Inr (caught_attr res k))))"

definition ad_get_rootDN ::
  "net \<Rightarrow> 'a ldap_directory_scheme \<Rightarrow> (net \<times> 'a ldap_directory_scheme \<times> (py_error + string option)) option" where
  "ad_get_rootDN = ad_naming_context ''rootDomainNamingContext''"

definition ad_get_baseDN ::
  "net \<Rightarrow> 'a ldap_directory_scheme \<Rightarrow> (net \<times> 'a ldap_directory_scheme \<times> (py_error + string option)) option" where
  "ad_get_baseDN = ad_naming_context ''defaultNamingContext''"

definition ad_get_config ::
  "net \<Rightarrow> 'a ldap_directory_scheme \<Rightarrow> (net \<times> 'a ldap_directory_scheme \<times> (py_error + string option)) option" where
  "ad_get_config = ad_naming_context ''configurationNamingContext''"

text \<open>\<open>get_netbios_name\<close> (lines 1036--1057): the \<open>crossRef\<close> object of the base
  DN under the configuration container; both are formatted with \<open>%s\<close>.\<close>

definition crossref_filter :: "string \<Rightarrow> string \<Rightarrow> string" where
  "crossref_filter k v = ''(&(objectcategory=crossref)('' @ k @ ''='' @ v @ ''))''"

definition ad_get_netbios_name ::
  "net \<Rightarrow> 'a ldap_directory_scheme \<Rightarrow> (net \<times> 'a ldap_directory_scheme \<times> (py_error + string option)) option" where
  "ad_get_netbios_name w s =
    with_open w s (\<lambda>w1 s1.
      then_ok (ad_get_baseDN w1 s1) (\<lambda>w2 s2 bdn.
      then_ok (ad_get_config w2 s2) (\<lambda>w3 s3 cfg.
      then_ok (ldap_search_raw w3 s3 cfg SCOPE_SUBTREE (Some (crossref_filter ''nCName'' (pyfmt bdn))))
        (\<lambda>w4 s4 res. Some (w4, s4, Inr (caught_attr res ''nETBIOSName''))))))"

section \<open>Partitions and domains\<close>

text \<open>The keyword arguments of \<open>get_partitions\<close> and \<open>get_domains\<close>, tried in
  this order; the first present one makes the filter.\<close>

definition PARTITION_KEYS :: "string list" where
  "PARTITION_KEYS = [''netbiosname'', ''name'', ''cn'', ''dn'', ''distinguishedname'', ''ncname'']"

definition first_key :: "(string \<times> string) list \<Rightarrow> string option" where
  "first_key kw = find (\<lambda>k. map_of kw k \<noteq> None) PARTITION_KEYS"

definition partition_filter :: "(string \<times> string) list \<Rightarrow> string" where
  "partition_filter kw =
    (case first_key kw of None \<Rightarrow> ''(cn=*)'' | Some k \<Rightarrow> ''('' @ k @ ''='' @ the (map_of kw k) @ '')'')"

text \<open>\<open>get_partitions\<close> (lines 1059--1088): the rows with a DN below
  \<open>CN=Partitions,\<close> of the configuration naming context.\<close>

definition ad_get_partitions ::
  "net \<Rightarrow> 'a ldap_directory_scheme \<Rightarrow> (string \<times> string) list \<Rightarrow>
   (net \<times> 'a ldap_directory_scheme \<times> (py_error + entry list)) option" where
  "ad_get_partitions w s kw =
    with_open w s (\<lambda>w1 s1.
      then_ok (ad_get_config w1 s1) (\<lambda>w2 s2 cfg.
      then_ok (ldap_search_raw w2 s2 (Some (''CN=Partitions,'' @ pyfmt cfg)) SCOPE_SUBTREE (Some (partition_filter kw)))
        (\<lambda>w3 s3 res. Some (w3, s3, Inr (filter has_dn (case res of None \<Rightarrow> [] | Some rows \<Rightarrow> rows))))))"

text \<open>\<open>get_root_domain\<close> (lines 1090--1110): the root naming context is read
  without a handler; the \<open>dnsRoot\<close> of its partition with one.\<close>

definition ad_get_root_domain ::
  "net \<Rightarrow> 'a ldap_directory_scheme \<Rightarrow> (net \<times> 'a ldap_directory_scheme \<times> (py_error + string option)) option" where
  "ad_get_root_domain w s =
    with_open w s (\<lambda>w1 s1.
      then_ok (ad_get_rootDSE w1 s1) (\<lambda>w2 s2 dse.
        (case strict_attr dse ''rootDomainNamingContext'' of
           Inl e \<Rightarrow> Some (w2, s2, Inl e)
         | Inr rdnc \<Rightarrow>
             then_ok (ad_get_partitions w2 s2 [(''ncname'', rdnc)])
               (\<lambda>w3 s3 parts. Some (w3, s3, Inr (caught_attr (Some parts) ''dnsRoot''))))))"

text \<open>\<open>get_domain\<close> (lines 1112--1129).\<close>

definition ad_get_domain ::
  "net \<Rightarrow> 'a ldap_directory_scheme \<Rightarrow> (string \<times> string) list \<Rightarrow>
   (net \<times> 'a ldap_directory_scheme \<times> (py_error + string option)) option" where
  "ad_get_domain w s kw =
    with_open w s (\<lambda>w1 s1.
      then_ok (ad_get_partitions w1 s1 kw)
        (\<lambda>w2 s2 parts. Some (w2, s2, Inr (caught_attr (Some parts) ''dnsRoot''))))"

section \<open>Distinguished names of accounts\<close>

text \<open>\<open>get_userDN\<close> and \<open>get_groupDN\<close> (lines 1220--1247, 1301--1328): \<open>None\<close>
  without credentials or base DN; the \<open>distinguishedName\<close> of the first row.\<close>

definition ad_get_dn ::
  "net \<Rightarrow> 'a ad_base_scheme \<Rightarrow> ident \<Rightarrow> string \<Rightarrow> (net \<times> 'a ad_base_scheme \<times> (py_error + string option)) option" where
  "ad_get_dn w s u f =
    (if u = IdNone then Some (w, s, Inl AssertionError)
     else if \<not> truthy (binddn s) \<or> \<not> truthy (bindpw s) \<or> \<not> truthy (basedn s) then Some (w, s, Inr None)
     else with_open w s (\<lambda>w1 s1.
            then_ok (ldap_search_raw w1 s1 (basedn s1) SCOPE_SUBTREE (Some f))
              (\<lambda>w2 s2 res. Some (w2, s2, Inr (caught_attr res ''distinguishedName'')))))"

definition ad_get_userDN ::
  "net \<Rightarrow> 'a ad_base_scheme \<Rightarrow> ident \<Rightarrow> (net \<times> 'a ad_base_scheme \<times> (py_error + string option)) option" where
  "ad_get_userDN w s u = ad_get_dn w s u (ad_user_filter u)"

definition ad_get_groupDN ::
  "net \<Rightarrow> 'a ad_base_scheme \<Rightarrow> ident \<Rightarrow> (net \<times> 'a ad_base_scheme \<times> (py_error + string option)) option" where
  "ad_get_groupDN w s g = ad_get_dn w s g (ad_group_filter g)"

section \<open>The domains of the forest\<close>

text \<open>A domain as \<open>get_domains\<close> returns it: the first value of each attribute
  of its \<open>crossRef\<close> object (\<open>nETBIOSName\<close>, \<open>dnsRoot\<close>, \<open>nCName\<close>, \<dots>).\<close>

type_synonym domain_desc = "(string \<times> string) list"

text \<open>\<open>r[k] = results[0][1][k][0]\<close> for every attribute; an empty value list
  raises \<open>IndexError\<close>.\<close>

fun first_values :: "attrs \<Rightarrow> py_error + domain_desc" where
  "first_values [] = Inr []"
| "first_values ((k, vs) # a) =
     (case first_value vs of
        Inl e \<Rightarrow> Inl e
      | Inr v \<Rightarrow> (case first_values a of Inl e \<Rightarrow> Inl e | Inr r \<Rightarrow> Inr ((k, v) # r)))"

text \<open>The loop over the global catalogs (lines 1143--1155): a fresh connection
  object per server, kept when it opens, closed and dropped otherwise.\<close>

fun gc_try :: "net \<Rightarrow> string option \<Rightarrow> string option \<Rightarrow> srv_answer list \<Rightarrow> net \<times> ldap_directory option" where
  "gc_try w dn pw [] = (w, None)"
| "gc_try w dn pw (g # gs) =
     (case ldap_open w (ldap_directory_init (dc_args dn pw g)) of
        (w1, gc, _) \<Rightarrow>
          (if isopen gc then (w1, Some gc)
           else (case ldap_close w1 gc of (w2, _) \<Rightarrow> gc_try w2 dn pw gs)))"

text \<open>Choosing the global catalog (lines 1140--1163): the SRV records of the
  root domain unless \<open>gchost\<close> is set; then \<open>long(self.gcport)\<close>, which raises
  on \<open>None\<close> or a non-number, and one object that is opened.\<close>

definition ad_gc_connect ::
  "resolver \<Rightarrow> net \<Rightarrow> 'a ad_base_scheme \<Rightarrow> string option \<Rightarrow> net \<times> (py_error + ldap_directory option)" where
  "ad_gc_connect dns w s root =
    (if \<not> truthy (gchost s)
     then (case gc_try w (binddn s) (bindpw s) (get_global_catalogs dns root) of (w1, g) \<Rightarrow> (w1, Inr g))
     else (case gcport s of
             None \<Rightarrow> (w, Inl TypeError)
           | Some p \<Rightarrow>
               (case py_long p of
                  Inl e \<Rightarrow> (w, Inl e)
                | Inr n \<Rightarrow>
                    (case ldap_open w (ldap_directory_init
                            \<lparr>a_host = gchost s, a_port = Some n, a_binddn = binddn s, a_bindpw = bindpw s,
                             a_basedn = None, a_ssl = None, a_scope = None, a_filter = None, a_attributes = None,
                             a_pagesize = None, a_flags = None\<rparr>) of
                       (w1, gc, _) \<Rightarrow> (w1, Inr (Some gc))))))"

text \<open>The DNs of the \<open>domain\<close> objects of the catalog (lines 1166--1176), read
  only when the catalog is open, which is closed afterwards.\<close>

definition gc_domain_dns ::
  "net \<Rightarrow> ldap_directory option \<Rightarrow> (net \<times> (py_error + string option list)) option" where
  "gc_domain_dns w g =
    (case g of
       None \<Rightarrow> Some (w, Inr [])
     | Some gc \<Rightarrow>
         (if \<not> isopen gc then Some (w, Inr [])
          else (case ldap_search_raw w gc (Some []) SCOPE_SUBTREE (Some ''(objectclass=domain)'') of
                  None \<Rightarrow> None
                | Some (w1, gc1, Inl e) \<Rightarrow> Some (w1, Inl e)
                | Some (w1, gc1, Inr res) \<Rightarrow>
                    Some (fst (ldap_close w1 gc1), Inr (map fst (case res of None \<Rightarrow> [] | Some rows \<Rightarrow> rows))))))"

text \<open>The keyword arguments after line 1187: the object's NetBIOS name is added
  when trusted domains are not allowed.\<close>

definition domains_kwargs :: "'a ad_base_scheme \<Rightarrow> (string \<times> string) list \<Rightarrow> (string \<times> string) list" where
  "domains_kwargs s kw =
    (if trusted s \<noteq> Some True \<and> truthy (netbiosname s)
     then AList.update ''netbiosname'' (the (netbiosname s)) kw else kw)"

text \<open>The loop over the domain DNs (lines 1190--1212): with keyword arguments
  the filter is the first key's and the loop stops after one search.\<close>

fun domains_loop ::
  "net \<Rightarrow> 'a ad_base_scheme \<Rightarrow> string option \<Rightarrow> (string \<times> string) list \<Rightarrow> string option list \<Rightarrow> domain_desc list \<Rightarrow>
   (net \<times> 'a ad_base_scheme \<times> (py_error + domain_desc list)) option" where
  "domains_loop w s b kw [] acc = Some (w, s, Inr acc)"
| "domains_loop w s b kw (d # ds) acc =
     (let f = (case (if kw \<noteq> [] then first_key kw else None) of
                 Some k \<Rightarrow> crossref_filter k (the (map_of kw k))
               | None \<Rightarrow> crossref_filter ''nCName'' (pyfmt d)) in
      then_ok (ldap_search_raw w s b SCOPE_SUBTREE (Some f)) (\<lambda>w1 s1 res.
        (case (case res of Some (r # _) \<Rightarrow> (if has_dn r then Some r else None) | _ \<Rightarrow> None) of
           None \<Rightarrow> (if kw \<noteq> [] then Some (w1, s1, Inr acc) else domains_loop w1 s1 b kw ds acc)
         | Some r \<Rightarrow>
             (case first_values (snd r) of
                Inl e \<Rightarrow> Some (w1, s1, Inl e)
              | Inr dd \<Rightarrow> (if kw \<noteq> [] then Some (w1, s1, Inr (acc @ [dd]))
                           else domains_loop w1 s1 b kw ds (acc @ [dd]))))))"

text \<open>\<open>get_domains\<close> (lines 1131--1218).\<close>

definition ad_get_domains ::
  "resolver \<Rightarrow> net \<Rightarrow> 'a ad_base_scheme \<Rightarrow> (string \<times> string) list \<Rightarrow>
   (net \<times> 'a ad_base_scheme \<times> (py_error + domain_desc list)) option" where
  "ad_get_domains dns w s kw =
    with_open w s (\<lambda>w1 s1.
      then_ok (ad_get_root_domain w1 s1) (\<lambda>w2 s2 root.
        (case ad_gc_connect dns w2 s2 root of
           (w3, Inl e) \<Rightarrow> Some (w3, s2, Inl e)
         | (w3, Inr g) \<Rightarrow>
             (case gc_domain_dns w3 g of
                None \<Rightarrow> None
              | Some (w4, Inl e) \<Rightarrow> Some (w4, s2, Inl e)
              | Some (w4, Inr doms) \<Rightarrow>
                  then_ok (ad_get_rootDSE w4 s2) (\<lambda>w5 s3 dse.
                    (case strict_attr dse ''configurationNamingContext'' of
                       Inl e \<Rightarrow> Some (w5, s3, Inl e)
                     | Inr b \<Rightarrow> domains_loop w5 s3 (Some b) (domains_kwargs s3 kw) doms []))))))"

section \<open>The invariant and a concrete directory\<close>

text \<open>The connection invariant of \<open>Connection\<close> (when \<open>C\<close> holds) together with
  the endpoint (host and port) and the attributes of the extension (\<open>more\<close>)
  being left alone.\<close>

definition conn_frame ::
  "bool \<Rightarrow> nat \<Rightarrow> string option \<times> nat \<times> 'a \<Rightarrow> net \<Rightarrow> 'a ldap_directory_scheme \<Rightarrow> bool" where
  "conn_frame C n0 M w s = ((C \<longrightarrow> conn_inv n0 w s) \<and> (host s, port s, ldap_directory.more s) = M)"

text \<open>A rootDSE that also carries the partition attributes; every search of
  \<open>example_net example_dse\<close> returns it.\<close>

definition example_dse :: "entry list" where
  "example_dse = [(Some ''DC=acme,DC=com'',
     [(''rootDomainNamingContext'', [''DC=acme,DC=com'']), (''defaultNamingContext'', [''DC=acme,DC=com'']),
      (''configurationNamingContext'', [''CN=Configuration,DC=acme,DC=com'']),
      (''dnsRoot'', [''acme.com'']), (''nETBIOSName'', [''ACME''])])]"

section \<open>Frames and the connection invariant\<close>

lemma then_ok_preserve:
  assumes "then_ok m f = Some (w', s', r)"
    and "\<And>w1 s1 r1. m = Some (w1, s1, r1) \<Longrightarrow> Q w1 s1"
    and "\<And>w1 s1 x. m = Some (w1, s1, Inr x) \<Longrightarrow> Q w1 s1 \<Longrightarrow> f w1 s1 x = Some (w', s', r) \<Longrightarrow> Q w' s'"
  shows "Q w' s'"
  using assms by (auto simp: then_ok_def split: option.splits sum.splits)

lemma with_open_preserve:
  assumes wo: "with_open w s body = Some (w', s', r)" and q: "Q w s"
    and op: "\<And>w s w' s' ok. ldap_open w s = (w', s', ok) \<Longrightarrow> Q w s \<Longrightarrow> Q w' s'"
    and cl: "\<And>w s w' s'. ldap_close w s = (w', s') \<Longrightarrow> Q w s \<Longrightarrow> Q w' s'"
    and bd: "\<And>w1 s1 w2 s2 r. Q w1 s1 \<Longrightarrow> body w1 s1 = Some (w2, s2, r) \<Longrightarrow> Q w2 s2"
  shows "Q w' s'"
proof -
  obtain w1 s1 ok where o: "ldap_open w s = (w1, s1, ok)" by (metis prod_cases3)
  have q1: "Q w1 s1" using op [OF o q] .
  have t: "then_ok (body w1 s1)
       (\<lambda>w2 s2 x. let (w3, s3) = (if isopen s then (w2, s2) else ldap_close w2 s2) in Some (w3, s3, Inr x))
     = Some (w', s', r)"
    using wo o by (simp add: with_open_def)
  show ?thesis
  proof (rule then_ok_preserve [OF t])
    fix w2 s2 r2 assume "body w1 s1 = Some (w2, s2, r2)"
    then show "Q w2 s2" using bd [OF q1] by blast
  next
    fix w2 s2 x assume "Q w2 s2"
      and f: "(let (w3, s3) = (if isopen s then (w2, s2) else ldap_close w2 s2) in Some (w3, s3, Inr x)) = Some (w', s', r)"
    show "Q w' s'"
    proof (cases "isopen s")
      case True
      then show ?thesis using f \<open>Q w2 s2\<close> by simp
    next
      case False
      obtain w3 s3 where c: "ldap_close w2 s2 = (w3, s3)" by fastforce
      then show ?thesis using f False cl [OF c \<open>Q w2 s2\<close>] by simp
    qed
  qed
qed


lemma ldap_endpoint_steps:
  "ldap_open w s = (w', s', ok) \<Longrightarrow> host s' = host s \<and> port s' = port s"
  "ldap_close w s = (w', s') \<Longrightarrow> host s' = host s \<and> port s' = port s"
  "ldap_search_raw w s b sc f = Some (w', s', r) \<Longrightarrow> host s' = host s \<and> port s' = port s"
  by (auto simp: ldap_open_def ldap_close_def ldap_search_raw_def Let_def split: if_splits option.splits prod.splits)

lemma conn_more_open:
  "ldap_open w s = (w', s', ok) \<Longrightarrow> conn_frame C n0 M w s \<Longrightarrow>
   conn_frame C n0 M w' s'"
  unfolding conn_frame_def using conn_inv_open ldap_open_more ldap_endpoint_steps(1) by (metis prod.inject)

lemma conn_more_close:
  "ldap_close w s = (w', s') \<Longrightarrow> conn_frame C n0 M w s \<Longrightarrow>
   conn_frame C n0 M w' s'"
  unfolding conn_frame_def using conn_inv_close ldap_close_more ldap_endpoint_steps(2) by (metis prod.inject)

lemma conn_more_search_raw:
  "ldap_search_raw w s b sc f = Some (w', s', r) \<Longrightarrow> conn_frame C n0 M w s \<Longrightarrow>
   conn_frame C n0 M w' s'"
  unfolding conn_frame_def using conn_inv_search_raw ldap_search_raw_more ldap_endpoint_steps(3) by (metis prod.inject)

lemmas conn_more_steps = conn_more_open conn_more_close

lemma rootDSE_conn_more:
  "ad_get_rootDSE w s = Some (w', s', r) \<Longrightarrow> conn_frame C n0 M w s \<Longrightarrow>
   conn_frame C n0 M w' s'"
  unfolding ad_get_rootDSE_def
  by (erule with_open_preserve) (auto dest: conn_more_steps conn_more_search_raw)

lemma naming_context_conn_more:
  "ad_naming_context k w s = Some (w', s', r) \<Longrightarrow> conn_frame C n0 M w s \<Longrightarrow>
   conn_frame C n0 M w' s'"
  unfolding ad_naming_context_def
  by (erule with_open_preserve) (auto dest: conn_more_steps elim!: then_ok_preserve dest: rootDSE_conn_more)


lemma config_conn_more:
  "ad_get_config w s = Some (w', s', r) \<Longrightarrow> conn_frame C n0 M w s \<Longrightarrow>
   conn_frame C n0 M w' s'"
  "ad_get_baseDN w s = Some (w', s', r) \<Longrightarrow> conn_frame C n0 M w s \<Longrightarrow>
   conn_frame C n0 M w' s'"
  unfolding ad_get_config_def ad_get_baseDN_def by (erule naming_context_conn_more; assumption)+

lemma netbios_conn_more:
  "ad_get_netbios_name w s = Some (w', s', r) \<Longrightarrow> conn_frame C n0 M w s \<Longrightarrow>
   conn_frame C n0 M w' s'"
  unfolding ad_get_netbios_name_def
  by (erule with_open_preserve)
     (auto dest: conn_more_steps conn_more_search_raw config_conn_more elim!: then_ok_preserve)

lemma partitions_conn_more:
  "ad_get_partitions w s kw = Some (w', s', r) \<Longrightarrow> conn_frame C n0 M w s \<Longrightarrow>
   conn_frame C n0 M w' s'"
  unfolding ad_get_partitions_def
  by (erule with_open_preserve)
     (auto dest: conn_more_steps conn_more_search_raw config_conn_more elim!: then_ok_preserve)

lemma root_domain_conn_more:
  "ad_get_root_domain w s = Some (w', s', r) \<Longrightarrow> conn_frame C n0 M w s \<Longrightarrow>
   conn_frame C n0 M w' s'"
  unfolding ad_get_root_domain_def
  by (erule with_open_preserve)
     (auto dest: conn_more_steps rootDSE_conn_more partitions_conn_more elim!: then_ok_preserve split: sum.splits)

lemma domain_conn_more:
  "ad_get_domain w s kw = Some (w', s', r) \<Longrightarrow> conn_frame C n0 M w s \<Longrightarrow>
   conn_frame C n0 M w' s'"
  unfolding ad_get_domain_def
  by (erule with_open_preserve) (auto dest: conn_more_steps partitions_conn_more elim!: then_ok_preserve)

lemma get_dn_conn_more:
  assumes "ad_get_dn w s u f = Some (w', s', r)" "conn_frame C n0 M w s"
  shows "conn_frame C n0 M w' s'"
proof (cases "u = IdNone \<or> \<not> truthy (binddn s) \<or> \<not> truthy (bindpw s) \<or> \<not> truthy (basedn s)")
  case True
  then show ?thesis using assms by (auto simp: ad_get_dn_def split: if_splits)
next
  case False
  then have wo: "with_open w s (\<lambda>w1 s1. then_ok (ldap_search_raw w1 s1 (basedn s1) SCOPE_SUBTREE (Some f))
                   (\<lambda>w2 s2 res. Some (w2, s2, Inr (caught_attr res ''distinguishedName'')))) = Some (w', s', r)"
    using assms(1) by (simp add: ad_get_dn_def)
  show ?thesis
    by (rule with_open_preserve [where Q = "conn_frame C n0 M", OF wo assms(2)])
       (auto dest: conn_more_steps conn_more_search_raw elim!: then_ok_preserve)
qed


text \<open>A fresh connection object satisfies the invariant relative to the sessions
  bound when it is created.\<close>

lemma conn_inv_init: "conn_inv (sessions w) w (ldap_directory_init kw)"
  by (simp add: conn_inv_def)

lemma gc_try_sessions:
  "gc_try w dn pw gs = (w', g) \<Longrightarrow>
   (g = None \<and> sessions w' = sessions w) \<or> (\<exists>gc. g = Some gc \<and> conn_inv (sessions w) w' gc)"
proof (induction gs arbitrary: w)
  case Nil
  then show ?case by simp
next
  case (Cons a gs)
  obtain w1 gc ok where o: "ldap_open w (ldap_directory_init (dc_args dn pw a)) = (w1, gc, ok)"
    by (metis prod_cases3)
  have i1: "conn_inv (sessions w) w1 gc" using conn_inv_open [OF conn_inv_init o] .
  show ?case
  proof (cases "isopen gc")
    case True
    then show ?thesis using Cons.prems o i1 by auto
  next
    case False
    obtain w2 gc2 where c: "ldap_close w1 gc = (w2, gc2)" by fastforce
    have "sessions w2 = sessions w"
      using conn_inv_close [OF i1 c] ldap_close_frame [OF c] False
      by (auto simp: conn_inv_def ldap_close_def split: if_splits)
    moreover have "gc_try w2 dn pw gs = (w', g)" using Cons.prems o c False by simp
    ultimately show ?thesis using Cons.IH by metis
  qed
qed


lemma with_open_Inr:
  "with_open w s body = Some (w', s', Inr y) \<longleftrightarrow>
   (\<exists>w1 s1 ok w2 s2. ldap_open w s = (w1, s1, ok) \<and> body w1 s1 = Some (w2, s2, Inr y) \<and>
      (w', s') = (if isopen s then (w2, s2) else ldap_close w2 s2))"
  by (auto simp: with_open_def then_ok_def split: option.splits sum.splits prod.splits)


lemma with_open_preserve_ok:
  assumes wo: "with_open w s body = Some (w', s', Inr y)" and q: "Q w s"
    and op: "\<And>w s w' s' ok. ldap_open w s = (w', s', ok) \<Longrightarrow> Q w s \<Longrightarrow> Q w' s'"
    and cl: "\<And>w s w' s'. ldap_close w s = (w', s') \<Longrightarrow> Q w s \<Longrightarrow> Q w' s'"
    and bd: "\<And>w1 s1 w2 s2 x. Q w1 s1 \<Longrightarrow> body w1 s1 = Some (w2, s2, Inr x) \<Longrightarrow> Q w2 s2"
  shows "Q w' s'"
proof -
  from wo obtain w1 s1 ok w2 s2 where o: "ldap_open w s = (w1, s1, ok)"
    and b: "body w1 s1 = Some (w2, s2, Inr y)"
    and c: "(w', s') = (if isopen s then (w2, s2) else ldap_close w2 s2)"
    unfolding with_open_Inr by blast
  have q2: "Q w2 s2" using bd [OF op [OF o q] b] .
  show ?thesis
    using c q2 cl by (cases "isopen s") auto
qed

lemma ad_gc_connect_sessions:
  "ad_gc_connect dns w s root = (w', Inr g) \<Longrightarrow>
   (g = None \<and> sessions w' = sessions w) \<or> (\<exists>gc. g = Some gc \<and> conn_inv (sessions w) w' gc)"
  unfolding ad_gc_connect_def
  by (auto split: if_splits option.splits sum.splits prod.splits
           dest: gc_try_sessions conn_inv_open [OF conn_inv_init])

lemma gc_domain_dns_sessions:
  assumes "gc_domain_dns w g = Some (w', Inr d)"
    and "(g = None \<and> sessions w = n) \<or> (\<exists>gc. g = Some gc \<and> conn_inv n w gc)"
  shows "sessions w' = n"
proof (cases g)
  case None
  then show ?thesis using assms by (simp add: gc_domain_dns_def)
next
  case (Some gc)
  then have i: "conn_inv n w gc" using assms(2) by simp
  show ?thesis
  proof (cases "isopen gc")
    case False
    then show ?thesis using assms(1) i Some by (simp add: gc_domain_dns_def conn_inv_def)
  next
    case True
    then obtain w1 gc1 res where sr: "ldap_search_raw w gc (Some []) SCOPE_SUBTREE (Some ''(objectclass=domain)'') = Some (w1, gc1, Inr res)"
      and w': "w' = fst (ldap_close w1 gc1)"
      using assms(1) Some by (auto simp: gc_domain_dns_def split: option.splits sum.splits)
    obtain w2 gc2 where c: "ldap_close w1 gc1 = (w2, gc2)" by fastforce
    have "conn_inv n w2 gc2" using conn_inv_close [OF conn_inv_search_raw [OF i sr] c] .
    then show ?thesis using w' c ldap_close_frame [OF c] by (simp add: conn_inv_def)
  qed
qed

lemma domains_loop_conn_more:
  "domains_loop w s b kw ds acc = Some (w', s', r) \<Longrightarrow> conn_frame C n0 M w s \<Longrightarrow>
   conn_frame C n0 M w' s'"
proof (induction ds arbitrary: w s acc)
  case Nil
  then show ?case by simp
next
  case (Cons d ds)
  show ?case
    apply (rule then_ok_preserve [where Q = "conn_frame C n0 M"])
      apply (rule Cons.prems(1) [unfolded domains_loop.simps Let_def])
     apply (erule conn_more_search_raw, rule Cons.prems(2))
    apply (auto split: option.splits sum.splits if_splits)
    apply (metis Cons.IH)+
    done
qed

lemma domains_loop_keyed:
  assumes "domains_loop w s b kw ds acc = Some (w', s', Inr r)" "kw \<noteq> []"
  shows "length r \<le> Suc (length acc)"
proof (cases ds)
  case Nil
  then show ?thesis using assms by simp
next
  case (Cons d ds')
  let ?f = "case first_key kw of Some k \<Rightarrow> crossref_filter k (the (map_of kw k))
              | None \<Rightarrow> crossref_filter ''nCName'' (pyfmt d)"
  have "then_ok (ldap_search_raw w s b SCOPE_SUBTREE (Some ?f)) (\<lambda>w1 s1 res.
        (case (case res of Some (r # _) \<Rightarrow> (if has_dn r then Some r else None) | _ \<Rightarrow> None) of
           None \<Rightarrow> Some (w1, s1, Inr acc)
         | Some r \<Rightarrow>
             (case first_values (snd r) of
                Inl e \<Rightarrow> Some (w1, s1, Inl e)
              | Inr dd \<Rightarrow> Some (w1, s1, Inr (acc @ [dd]))))) = Some (w', s', Inr r)"
    using assms Cons by (simp add: Let_def cong: option.case_cong sum.case_cong)
  then obtain w1 s1 res where
    k: "(case (case res of Some (r # _) \<Rightarrow> (if has_dn r then Some r else None) | _ \<Rightarrow> None) of
           None \<Rightarrow> Some (w1, s1, Inr acc)
         | Some r \<Rightarrow>
             (case first_values (snd r) of
                Inl e \<Rightarrow> Some (w1, s1, Inl e)
              | Inr dd \<Rightarrow> Some (w1, s1, Inr (acc @ [dd])))) = Some (w', s', Inr r)"
    unfolding then_ok_Some_Inr by blast
  then show ?thesis by (auto split: option.splits sum.splits)
qed


lemma conn_frame_sessions_eq: "conn_frame C n0 M w s \<Longrightarrow> sessions w' = sessions w \<Longrightarrow> conn_frame C n0 M w' s"
  by (simp add: conn_frame_def conn_inv_def)

lemma get_domains_body_loop:
  assumes q: "conn_frame C n0 M w1 s1"
    and b: "then_ok (ad_get_root_domain w1 s1) (\<lambda>w2 s2 root.
        (case ad_gc_connect dns w2 s2 root of
           (w3, Inl e) \<Rightarrow> Some (w3, s2, Inl e)
         | (w3, Inr g) \<Rightarrow>
             (case gc_domain_dns w3 g of
                None \<Rightarrow> None
              | Some (w4, Inl e) \<Rightarrow> Some (w4, s2, Inl e)
              | Some (w4, Inr doms) \<Rightarrow>
                  then_ok (ad_get_rootDSE w4 s2) (\<lambda>w5 s3 dse.
                    (case strict_attr dse ''configurationNamingContext'' of
                       Inl e \<Rightarrow> Some (w5, s3, Inl e)
                     | Inr b \<Rightarrow> domains_loop w5 s3 (Some b) (domains_kwargs s3 kw) doms []))))) = Some (w', s', Inr x)"
  shows "\<exists>w5 s3 bb doms. (conn_frame C n0 M w5 s3) \<and>
           domains_loop w5 s3 (Some bb) (domains_kwargs s3 kw) doms [] = Some (w', s', Inr x)"
proof -
  from b obtain w2 s2 root where rd: "ad_get_root_domain w1 s1 = Some (w2, s2, Inr root)"
    and rest: "(case ad_gc_connect dns w2 s2 root of
           (w3, Inl e) \<Rightarrow> Some (w3, s2, Inl e)
         | (w3, Inr g) \<Rightarrow>
             (case gc_domain_dns w3 g of
                None \<Rightarrow> None
              | Some (w4, Inl e) \<Rightarrow> Some (w4, s2, Inl e)
              | Some (w4, Inr doms) \<Rightarrow>
                  then_ok (ad_get_rootDSE w4 s2) (\<lambda>w5 s3 dse.
                    (case strict_attr dse ''configurationNamingContext'' of
                       Inl e \<Rightarrow> Some (w5, s3, Inl e)
                     | Inr b \<Rightarrow> domains_loop w5 s3 (Some b) (domains_kwargs s3 kw) doms [])))) = Some (w', s', Inr x)"
    unfolding then_ok_Some_Inr by blast
  have q2: "conn_frame C n0 M w2 s2" using root_domain_conn_more [OF rd q] .
  obtain w3 gr where gcc: "ad_gc_connect dns w2 s2 root = (w3, gr)" by fastforce
  then obtain g where gr: "gr = Inr g" using rest by (cases gr) auto
  obtain w4 doms where gd: "gc_domain_dns w3 g = Some (w4, Inr doms)"
    using rest gcc gr by (auto split: option.splits sum.splits)
  have "sessions w4 = sessions w2"
    using gc_domain_dns_sessions [OF gd ad_gc_connect_sessions [OF gcc [unfolded gr]]] .
  then have q4: "conn_frame C n0 M w4 s2" using conn_frame_sessions_eq [OF q2] by blast
  have "then_ok (ad_get_rootDSE w4 s2) (\<lambda>w5 s3 dse.
                    (case strict_attr dse ''configurationNamingContext'' of
                       Inl e \<Rightarrow> Some (w5, s3, Inl e)
                     | Inr b \<Rightarrow> domains_loop w5 s3 (Some b) (domains_kwargs s3 kw) doms [])) = Some (w', s', Inr x)"
    using rest gcc gr gd by simp
  then obtain w5 s3 dse where rt: "ad_get_rootDSE w4 s2 = Some (w5, s3, Inr dse)"
    and l: "(case strict_attr dse ''configurationNamingContext'' of
                       Inl e \<Rightarrow> Some (w5, s3, Inl e)
                     | Inr b \<Rightarrow> domains_loop w5 s3 (Some b) (domains_kwargs s3 kw) doms []) = Some (w', s', Inr x)"
    unfolding then_ok_Some_Inr by blast
  have q5: "conn_frame C n0 M w5 s3" using rootDSE_conn_more [OF rt q4] .
  from l obtain bb where "domains_loop w5 s3 (Some bb) (domains_kwargs s3 kw) doms [] = Some (w', s', Inr x)"
    by (auto split: sum.splits)
  then show ?thesis using q5 by blast
qed

lemma get_domains_body_conn_more:
  assumes q: "conn_frame C n0 M w1 s1"
    and b: "then_ok (ad_get_root_domain w1 s1) (\<lambda>w2 s2 root.
        (case ad_gc_connect dns w2 s2 root of
           (w3, Inl e) \<Rightarrow> Some (w3, s2, Inl e)
         | (w3, Inr g) \<Rightarrow>
             (case gc_domain_dns w3 g of
                None \<Rightarrow> None
              | Some (w4, Inl e) \<Rightarrow> Some (w4, s2, Inl e)
              | Some (w4, Inr doms) \<Rightarrow>
                  then_ok (ad_get_rootDSE w4 s2) (\<lambda>w5 s3 dse.
                    (case strict_attr dse ''configurationNamingContext'' of
                       Inl e \<Rightarrow> Some (w5, s3, Inl e)
                     | Inr b \<Rightarrow> domains_loop w5 s3 (Some b) (domains_kwargs s3 kw) doms []))))) = Some (w', s', Inr x)"
  shows "conn_frame C n0 M w' s'"
  using get_domains_body_loop [OF q b] domains_loop_conn_more by blast

lemma get_domains_conn_more:
  "ad_get_domains dns w s kw = Some (w', s', Inr ds) \<Longrightarrow> conn_frame C n0 M w s \<Longrightarrow>
   conn_frame C n0 M w' s'"
  unfolding ad_get_domains_def
  apply (erule with_open_preserve_ok [where Q = "conn_frame C n0 M"], assumption)
    apply (erule (1) conn_more_open)
   apply (erule (1) conn_more_close)
  apply (erule (1) get_domains_body_conn_more)
  done


lemma ad_trusted_more:
  "ldap_directory.more s' = ldap_directory.more s \<Longrightarrow>
   trusted s' = trusted s \<and> netbiosname s' = netbiosname s \<and> domain s' = domain s"
  by (cases s; cases s') auto

lemma update_nonempty: "AList.update k v kw \<noteq> []"
  by (induction kw) auto

lemma domains_kwargs_nonempty:
  "kw \<noteq> [] \<or> (trusted s \<noteq> Some True \<and> truthy (netbiosname s)) \<Longrightarrow> domains_kwargs s kw \<noteq> []"
  by (auto simp: domains_kwargs_def update_nonempty)

lemma ex_geturi: "geturi example_ad = Some ''ldap://dc1:389''"
  by (simp add: geturi_def example_ad_simps example_ad_def example_args_def ldap_directory_init_def ldap_directory.defs Let_def setssl_def str_isdigit_def char_isdigit_def FREENAS_LDAP_PORT_def show_nat.simps)

lemma ex_ad_fields:
  "gchost example_ad = None" "trusted example_ad = Some False" "netbiosname example_ad = Some ''ACME''"
  by (simp_all add: example_ad_def ldap_directory.defs)

lemma rootDSE_run:
  "\<exists>w' s' r. ad_get_rootDSE (example_net example_dse) example_ad = Some (w', s', r)"
  by (simp add: ad_get_rootDSE_def with_open_def ldap_open_def ldap_search_raw_def ldap_close_def
      example_ad_simps ex_geturi example_net_def Let_def)

lemma domains_run:
  "\<exists>w' s'. ad_get_domains (\<lambda>_. None) (example_net example_dse) example_ad [] = Some (w', s', Inr [])"
  by (simp add: ad_get_domains_def ad_get_root_domain_def ad_get_partitions_def ad_get_config_def ad_naming_context_def
      ad_get_rootDSE_def with_open_def ldap_open_def ldap_search_raw_def ldap_close_def ldap_unbind_def
      example_ad_simps ex_ad_fields ex_geturi example_net_def Let_def example_dse_def strict_attr_def caught_attr_def
      ad_gc_connect_def get_global_catalogs_def gc_domain_dns_def query_key_def dict_get_def first_value_def)


section \<open>Properties\<close>

text \<open>C37: every directory lookup of the AD backend (rootDSE, naming contexts,
  NetBIOS name, partitions, root domain, domain, user and group DN) preserves the
  connection invariant whatever its outcome, and \<open>get_domains\<close> preserves it when
  it returns normally: the global catalog connection it opens is closed again.\<close>

theorem ad_lookups_conn_inv:
  assumes "conn_inv n0 w s"
  shows "(ad_get_rootDSE w s = Some (w', s', r1) \<longrightarrow> conn_inv n0 w' s') \<and>
         (ad_naming_context k w s = Some (w', s', r2) \<longrightarrow> conn_inv n0 w' s') \<and>
         (ad_get_netbios_name w s = Some (w', s', r2) \<longrightarrow> conn_inv n0 w' s') \<and>
         (ad_get_partitions w s kw = Some (w', s', r3) \<longrightarrow> conn_inv n0 w' s') \<and>
         (ad_get_root_domain w s = Some (w', s', r2) \<longrightarrow> conn_inv n0 w' s') \<and>
         (ad_get_domain w s kw = Some (w', s', r2) \<longrightarrow> conn_inv n0 w' s') \<and>
         (ad_get_userDN w s u = Some (w', s', r2) \<longrightarrow> conn_inv n0 w' s') \<and>
         (ad_get_groupDN w s u = Some (w', s', r2) \<longrightarrow> conn_inv n0 w' s') \<and>
         (ad_get_domains dns w s kw = Some (w', s', Inr ds) \<longrightarrow> conn_inv n0 w' s')"
proof -
  have q: "conn_frame True n0 (host s, port s, ldap_directory.more s) w s" using assms by (simp add: conn_frame_def)
  show ?thesis
    using rootDSE_conn_more [OF _ q] naming_context_conn_more [OF _ q] netbios_conn_more [OF _ q]
      partitions_conn_more [OF _ q] root_domain_conn_more [OF _ q] domain_conn_more [OF _ q]
      get_dn_conn_more [OF _ q] get_domains_conn_more [OF _ q]
    by (auto simp: conn_frame_def ad_get_userDN_def ad_get_groupDN_def)
qed

theorem ad_lookups_conn_inv_witness:
  "\<exists>w' s' r. ad_get_rootDSE (example_net example_dse) example_ad = Some (w', s', r) \<and> conn_inv 0 w' s'"
proof -
  obtain w' s' r where run: "ad_get_rootDSE (example_net example_dse) example_ad = Some (w', s', r)"
    using rootDSE_run by blast
  have "conn_inv 0 (example_net example_dse) example_ad"
    by (simp add: conn_inv_def example_ad_simps example_net_def)
  from ad_lookups_conn_inv [OF this, of w' s' r] run show ?thesis by blast
qed

text \<open>C38: when keyword arguments are given, or when the object does not allow
  trusted domains and has a NetBIOS name (which \<open>get_domains\<close> then adds as a
  keyword), \<open>get_domains\<close> returns at most one domain.\<close>

theorem get_domains_single_domain:
  assumes r: "ad_get_domains dns w s kw = Some (w', s', Inr ds)"
    and k: "kw \<noteq> [] \<or> (trusted s \<noteq> Some True \<and> truthy (netbiosname s))"
  shows "length ds \<le> 1"
proof -
  from r obtain w1 s1 ok w2 s2 where o: "ldap_open w s = (w1, s1, ok)"
    and b: "then_ok (ad_get_root_domain w1 s1) (\<lambda>w2 s2 root.
        (case ad_gc_connect dns w2 s2 root of
           (w3, Inl e) \<Rightarrow> Some (w3, s2, Inl e)
         | (w3, Inr g) \<Rightarrow>
             (case gc_domain_dns w3 g of
                None \<Rightarrow> None
              | Some (w4, Inl e) \<Rightarrow> Some (w4, s2, Inl e)
              | Some (w4, Inr doms) \<Rightarrow>
                  then_ok (ad_get_rootDSE w4 s2) (\<lambda>w5 s3 dse.
                    (case strict_attr dse ''configurationNamingContext'' of
                       Inl e \<Rightarrow> Some (w5, s3, Inl e)
                     | Inr b \<Rightarrow> domains_loop w5 s3 (Some b) (domains_kwargs s3 kw) doms []))))) = Some (w2, s2, Inr ds)"
    unfolding ad_get_domains_def with_open_Inr by blast
  have "conn_frame False 0 (host s1, port s1, ldap_directory.more s) w1 s1"
    using ldap_open_more [OF o] by (simp add: conn_frame_def)
  from get_domains_body_loop [OF this b] obtain w5 s3 bb doms
    where m0: "conn_frame False 0 (host s1, port s1, ldap_directory.more s) w5 s3"
      and l: "domains_loop w5 s3 (Some bb) (domains_kwargs s3 kw) doms [] = Some (w2, s2, Inr ds)"
    by blast
  have m: "ldap_directory.more s3 = ldap_directory.more s" using m0 by (simp add: conn_frame_def)
  have "domains_kwargs s3 kw \<noteq> []" using k ad_trusted_more [OF m] domains_kwargs_nonempty by metis
  then show ?thesis using domains_loop_keyed [OF l] by simp
qed

theorem get_domains_single_domain_witness:
  "\<exists>w' s'. ad_get_domains (\<lambda>_. None) (example_net example_dse) example_ad [] = Some (w', s', Inr []) \<and>
     trusted example_ad \<noteq> Some True \<and> truthy (netbiosname example_ad) \<and> length ([] :: domain_desc list) \<le> 1"
proof -
  obtain w' s' where run: "ad_get_domains (\<lambda>_. None) (example_net example_dse) example_ad [] = Some (w', s', Inr [])"
    using domains_run by blast
  have k: "[] \<noteq> [] \<or> (trusted example_ad \<noteq> Some True \<and> truthy (netbiosname example_ad))"
    by (simp add: ex_ad_fields truthy_def)
  show ?thesis using get_domains_single_domain [OF run k] run k by blast
qed

end
