(* ===== verification/ServiceModels.thy ===== *)
theory ServiceModels
  imports Prelude
begin

text \<open>
  The directory-service settings of the web interface, the Django models of
  \<open>src/gui/services/models.py\<close> that the directory layer reads from the database:
  \<open>services\<close> (lines 50--70), \<open>NT4\<close> (1497--1540), \<open>ActiveDirectory\<close> (1543--1669),
  \<open>NIS\<close> (1672--1704) and \<open>DomainController\<close> (1989--2043). A model is a record of
  its columns (the implicit \<open>id\<close> is kept beside the row in a table); its
  defaults are a record value; \<open>full_clean\<close> checks the maximal lengths and the
  required fields. The constructors of \<open>NT4\<close> and \<open>ActiveDirectory\<close> replace the
  NetBIOS name by a prefix of the host name of the newest global network
  configuration, matched with a regular expression.
\<close>

section \<open>Tables\<close>

text \<open>A table as the ORM sees it: the rows with their \<open>id\<close>. \<open>ORDER BY -id\<close> and
  \<open>order_by('-id')\<close> list the rows newest first.\<close>

type_synonym 'r table = "(nat \<times> 'r) list"

definition order_by_neg_id :: "'r table \<Rightarrow> 'r list" where
  "order_by_neg_id t = map snd (sort_key (\<lambda>(i, _). - int i) t)"

section \<open>Models\<close>

record services =
  srv_service :: string
  srv_enable :: bool

record nt4 =
  nt4_dcname :: string
  nt4_netbiosname :: string
  nt4_workgroup :: string
  nt4_adminname :: string
  nt4_adminpw :: string

record activedirectory =
  ad_domainname :: string
  ad_netbiosname :: string
  ad_workgroup :: string
  ad_bindname :: string
  ad_bindpw :: string
  ad_use_keytab :: bool
  ad_keytab :: "string option"
  ad_verbose_logging :: bool
  ad_unix_extensions :: bool
  ad_allow_trusted_doms :: bool
  ad_use_default_domain :: bool
  ad_dcname :: string
  ad_gcname :: string
  ad_krbname :: string
  ad_kpwdname :: string
  ad_timeout :: int
  ad_dns_timeout :: int

record nis =
  nis_domain :: string
  nis_servers :: string
  nis_secure_mode :: bool
  nis_manycast :: bool

record domaincontroller =
  dc_realm :: string
  dc_domain :: string
  dc_role :: string
  dc_dns_backend :: string
  dc_dns_forwarder :: string
  dc_forest_level :: string
  dc_passwd :: string

section \<open>Defaults and validation\<close>

text \<open>A new \<open>ActiveDirectory\<close> with the given required fields and the declared
  defaults of the others (\<open>''\<close> for a blank \<open>CharField\<close>, \<open>None\<close> for the
  nullable \<open>ad_keytab\<close>).\<close>

definition activedirectory_new :: "string \<Rightarrow> string \<Rightarrow> string \<Rightarrow> string \<Rightarrow> string \<Rightarrow> activedirectory" where
  "activedirectory_new dn nb wg bn pw =
    \<lparr>ad_domainname = dn, ad_netbiosname = nb, ad_workgroup = wg, ad_bindname = bn, ad_bindpw = pw,
     ad_use_keytab = False, ad_keytab = None, ad_verbose_logging = False, ad_unix_extensions = False,
     ad_allow_trusted_doms = False, ad_use_default_domain = True, ad_dcname = [], ad_gcname = [],
     ad_krbname = [], ad_kpwdname = [], ad_timeout = 10, ad_dns_timeout = 10\<rparr>"

definition nis_new :: "string \<Rightarrow> nis" where
  "nis_new d = \<lparr>nis_domain = d, nis_servers = [], nis_secure_mode = False, nis_manycast = False\<rparr>"

definition domaincontroller_new :: "string \<Rightarrow> string \<Rightarrow> string \<Rightarrow> string \<Rightarrow> domaincontroller" where
  "domaincontroller_new realm dn fwd pw =
    \<lparr>dc_realm = realm, dc_domain = dn, dc_role = ''dc'', dc_dns_backend = ''SAMBA_INTERNAL'',
     dc_dns_forwarder = fwd, dc_forest_level = ''2003'', dc_passwd = pw\<rparr>"

text \<open>A \<open>CharField(max_length=n)\<close>, required unless \<open>blank=True\<close>.\<close>

definition char_field_ok :: "nat \<Rightarrow> bool \<Rightarrow> string \<Rightarrow> bool" where
  "char_field_ok n blank v = (length v \<le> n \<and> (blank \<or> v \<noteq> []))"

definition nt4_valid :: "nt4 \<Rightarrow> bool" where
  "nt4_valid r = list_all (char_field_ok 120 False)
     [nt4_dcname r, nt4_netbiosname r, nt4_workgroup r, nt4_adminname r, nt4_adminpw r]"

definition activedirectory_valid :: "activedirectory \<Rightarrow> bool" where
  "activedirectory_valid r =
    (list_all (char_field_ok 120 False) [ad_domainname r, ad_netbiosname r, ad_workgroup r, ad_bindname r, ad_bindpw r] \<and>
     list_all (char_field_ok 120 True) [ad_dcname r, ad_gcname r, ad_krbname r, ad_kpwdname r])"

definition nis_valid :: "nis \<Rightarrow> bool" where
  "nis_valid r = (char_field_ok 120 False (nis_domain r) \<and> char_field_ok 8192 True (nis_servers r))"

definition domaincontroller_valid :: "domaincontroller \<Rightarrow> bool" where
  "domaincontroller_valid r = list_all (char_field_ok 120 False)
     [dc_realm r, dc_domain r, dc_role r, dc_dns_backend r, dc_dns_forwarder r, dc_forest_level r, dc_passwd r]"

section \<open>The NetBIOS name from the host name\<close>

definition is_alpha :: "char \<Rightarrow> bool" where
  "is_alpha c = ((97::nat) \<le> of_char c \<and> of_char c \<le> (122::nat) \<or> (65::nat) \<le> of_char c \<and> of_char c \<le> (90::nat))"

definition is_alnum :: "char \<Rightarrow> bool" where
  "is_alnum c = (is_alpha c \<or> char_isdigit c)"

text \<open>\<open>re.match(r"^([a-zA-Z][k]+)", h).group(0)\<close> for a character class \<open>k\<close>:
  a letter followed by the longest non-empty run of characters of \<open>k\<close>.\<close>

definition re_name_prefix :: "(char \<Rightarrow> bool) \<Rightarrow> string \<Rightarrow> string option" where
  "re_name_prefix k h =
    (case h of
       [] \<Rightarrow> None
     | c # cs \<Rightarrow> (if is_alpha c \<and> takeWhile k cs \<noteq> [] then Some (c # takeWhile k cs) else None))"

text \<open>\<open>str.strip()\<close>.\<close>

definition is_space :: "char \<Rightarrow> bool" where
  "is_space c = (c \<in> {CHR '' '', CHR 0x09, CHR 0x0A, CHR 0x0B, CHR 0x0C, CHR 0x0D})"

definition py_strip :: "string \<Rightarrow> string" where
  "py_strip s = rev (dropWhile is_space (rev (dropWhile is_space s)))"

text \<open>The constructors (lines 1524--1535 and 1637--1646): the host name of the
  newest \<open>GlobalConfiguration\<close> (\<open>IndexError\<close> when there is none); when it is
  non-empty and matches, its upper-cased prefix replaces the NetBIOS name. NT4
  allows letters and digits after the first letter, Active Directory also dots
  and dashes.\<close>

definition netbios_from_hostname :: "(char \<Rightarrow> bool) \<Rightarrow> string table \<Rightarrow> string \<Rightarrow> py_error + string" where
  "netbios_from_hostname k gcs nb =
    (case order_by_neg_id gcs of
       [] \<Rightarrow> Inl IndexError
     | h # _ \<Rightarrow>
         (if h = [] then Inr nb
          else (case re_name_prefix k h of None \<Rightarrow> Inr nb | Some m \<Rightarrow> Inr (py_strip (py_upper m)))))"

definition nt4_init :: "string table \<Rightarrow> nt4 \<Rightarrow> py_error + nt4" where
  "nt4_init gcs r =
    map_sum id (\<lambda>nb. r\<lparr>nt4_netbiosname := nb\<rparr>) (netbios_from_hostname is_alnum gcs (nt4_netbiosname r))"

definition activedirectory_init :: "string table \<Rightarrow> activedirectory \<Rightarrow> py_error + activedirectory" where
  "activedirectory_init gcs r =
    map_sum id (\<lambda>nb. r\<lparr>ad_netbiosname := nb\<rparr>)
      (netbios_from_hostname (\<lambda>c. is_alnum c \<or> c = CHR ''.'' \<or> c = CHR ''-'') gcs (ad_netbiosname r))"

end
