(* ===== verification/AdInit.thy ===== *)
theory AdInit
  imports AdDomains ServiceModels
begin

text \<open>
  Construction of an Active Directory object, \<open>FreeNAS_ActiveDirectory_Base.__init__\<close>
  (\<open>freenasldap.py\<close>, lines 748--966): \<open>__set_defaults\<close>, \<open>__get_config\<close> (the
  shell-style configuration file of the AD service, when it exists), then
  \<open>__db_init__\<close> (the \<open>services_activedirectory\<close> row, with \<open>FLAGS_DBINIT\<close>) or
  \<open>__no_db_init__\<close> (the keyword arguments). Both locate a domain controller
  with \<open>dc_connect\<close> unless a controller host is configured, run the connection
  constructor (which resets \<open>basedn\<close>), and fill the base DN and the NetBIOS name
  from the directory itself, which opens and closes a session for each. The
  integers of the database row are read with \<open>long()\<close>.
\<close>

section \<open>Inputs\<close>

text \<open>The keyword arguments \<open>__no_db_init__\<close> reads; an absent key and \<open>None\<close>
  coincide. A port is kept as the text \<open>long()\<close> is applied to.\<close>

record ad_args =
  ad_a_domain :: "string option"
  ad_a_netbiosname :: "string option"
  ad_a_host :: "string option"
  ad_a_port :: "string option"
  ad_a_binddn :: "string option"
  ad_a_bindpw :: "string option"
  ad_a_flags :: "int option"

text \<open>The configuration file: \<open>None\<close> when \<open>os.access\<close> fails, otherwise what
  \<open>get_freenas_var_by_file\<close> prints for a variable (\<open>''\<close> when it is unset).\<close>

type_synonym ad_config = "(string \<Rightarrow> string) option"

section \<open>Defaults and configuration\<close>

text \<open>\<open>adset(val, default)\<close> (lines 748--753).\<close>

definition adset :: "string option \<Rightarrow> string option \<Rightarrow> string option" where
  "adset v d = (if truthy v then v else d)"

text \<open>\<open>__set_defaults\<close> (lines 765--784). The connection attributes the object
  does not have yet are those of a connection built without arguments; the
  connection constructor replaces them all.\<close>

definition ad_defaults :: ad_base where
  "ad_defaults = ldap_directory.extend
     (ldap_directory_init \<lparr>a_host = None, a_port = None, a_binddn = None, a_bindpw = None, a_basedn = None,
        a_ssl = None, a_scope = None, a_filter = None, a_attributes = None, a_pagesize = None, a_flags = None\<rparr>)
     \<lparr>adminname = None, domain = None, dcname = None, dchost = None, dcport = None,
      gcname = None, gchost = None, gcport = None, netbiosname = None, unix = None,
      ad_default = None, trusted = None, ad_ucount = 0, ad_gcount = 0\<rparr>"

text \<open>\<open>parts = name.split(':')\<close>: the host and, when present, the port.\<close>

definition split_hostport :: "string \<Rightarrow> string \<times> string option" where
  "split_hostport x = (let ps = py_split CHR '':'' x in (hd ps, if 1 < length ps then Some (ps ! 1) else None))"

text \<open>\<open>__get_config\<close> (lines 786--845) for one server kind (\<open>dc\<close> or \<open>gc\<close>):
  name, host and port, the port defaulting to \<open>389\<close> or \<open>3268\<close>.\<close>

definition cfg_server :: "(string \<Rightarrow> string) \<Rightarrow> string \<Rightarrow> string \<Rightarrow> string option \<times> string option \<times> string option" where
  "cfg_server c k dflt =
    (let name = adset (Some (c (''ad_'' @ k @ ''name''))) None;
         (h, p) = (case name of Some x \<Rightarrow> (if truthy name then (let (h, p) = split_hostport x in (Some h, p)) else (None, None))
                              | None \<Rightarrow> (None, None));
         h2 = adset h (Some (c (''ad_'' @ k @ ''host'')));
         p2 = adset (adset p (Some (c (''ad_'' @ k @ ''port'')))) (Some dflt)
     in (name, h2, p2))"

definition ad_read_config :: "ad_config \<Rightarrow> 'a ad_base_scheme \<Rightarrow> 'a ad_base_scheme" where
  "ad_read_config cfg s =
    (case cfg of
       None \<Rightarrow> s
     | Some c \<Rightarrow>
         (let (dn, dh, dp) = cfg_server c ''dc'' ''389''; (gn, gh, gp) = cfg_server c ''gc'' ''3268'' in
          s\<lparr>adminname := adset (Some (c ''ad_adminname'')) None, basedn := adset (Some (c ''ad_basedn'')) None,
            domain := adset (Some (c ''ad_domainname'')) None,
            dcname := dn, dchost := dh, dcport := dp, gcname := gn, gchost := gh, gcport := gp\<rparr>))"

section \<open>The common tail of both initialisations\<close>

text \<open>\<open>self.basedn = self.adset(self.basedn, self.get_baseDN())\<close> and
  \<open>self.netbiosname = self.adset(self.netbiosname, self.get_netbios_name())\<close>
  (lines 885--886, 949--950): both lookups run whatever the current values.\<close>

definition ad_fill_names :: "net \<Rightarrow> ad_base \<Rightarrow> (net \<times> (py_error + ad_base)) option" where
  "ad_fill_names w s1 =
    do {
      (w2, s2, rb) \<leftarrow> ad_get_baseDN w s1;
      (case rb of
         Inl e \<Rightarrow> Some (w2, Inl e)
       | Inr b \<Rightarrow>
           (let s3 = s2\<lparr>basedn := adset (basedn s2) b\<rparr> in
            do {
              (w3, s4, rn) \<leftarrow> ad_get_netbios_name w2 s3;
              (case rn of
                 Inl e \<Rightarrow> Some (w3, Inl e)
               | Inr nb \<Rightarrow> Some (w3, Inr (s4\<lparr>netbiosname := adset (netbiosname s4) nb\<rparr>)))
            }))
    }"

text \<open>The controller: \<open>dc_connect\<close> when no \<open>dchost\<close> is set, otherwise
  \<open>dchost\<close> and \<open>dcport\<close>; then the connection constructor with \<open>binddn\<close>,
  \<open>bindpw\<close>, host, port (\<open>long(port)\<close>) and the flags (lines 868--883,
  935--947), which resets \<open>basedn\<close> and the other connection attributes.\<close>

definition ad_connect_init ::
  "resolver \<Rightarrow> net \<Rightarrow> int option \<Rightarrow> ad_base \<Rightarrow> (net \<times> (py_error + ad_base)) option" where
  "ad_connect_init dns w fl s =
    (let (w1, hp) = (if \<not> truthy (dchost s)
                     then (case dc_connect dns w (domain s) (binddn s) (bindpw s) of
                             (w1, None) \<Rightarrow> (w1, Inr (None, None))
                           | (w1, Some (h, p)) \<Rightarrow> (w1, Inr (Some h, Some p)))
                     else (w, (case dcport s of
                                 None \<Rightarrow> Inr (dchost s, None)
                               | Some p \<Rightarrow> (case py_long p of Inl e \<Rightarrow> Inl e | Inr n \<Rightarrow> Inr (dchost s, Some n)))))
     in case hp of
          Inl e \<Rightarrow> Some (w1, Inl e)
        | Inr (h, p) \<Rightarrow>
            ad_fill_names w1
              (ldap_directory.extend
                 (ldap_directory_init \<lparr>a_host = h, a_port = p, a_binddn = binddn s, a_bindpw = bindpw s,
                    a_basedn = None, a_ssl = None, a_scope = None, a_filter = None, a_attributes = None,
                    a_pagesize = None, a_flags = fl\<rparr>)
                 (ldap_directory.more s)))"

section \<open>The two initialisations\<close>

text \<open>\<open>True if x else False\<close> followed by \<open>adset\<close> of a database flag.\<close>

definition db_flag :: "bool option \<Rightarrow> int \<Rightarrow> bool" where
  "db_flag v n = (let b = (v = Some True) in if b then b else n \<noteq> 0)"

text \<open>\<open>__db_init__\<close> (lines 848--886): the newest row of
  \<open>services_activedirectory\<close> as \<open>activedirectory_objects()\<close> returns it
  (\<open>IndexError\<close> when there is none); its booleans are read with \<open>long()\<close>.\<close>

definition ad_db_init ::
  "resolver \<Rightarrow> net \<Rightarrow> activedirectory list \<Rightarrow> int option \<Rightarrow> ad_base \<Rightarrow> (net \<times> (py_error + ad_base)) option" where
  "ad_db_init dns w rows fl s =
    (case rows of
       [] \<Rightarrow> Some (w, Inl IndexError)
     | ad # _ \<Rightarrow>
         (let dom = adset (domain s) (Some (ad_domainname ad)); nb = adset (netbiosname s) (Some (ad_workgroup ad)) in
          case dom of
            None \<Rightarrow> Some (w, Inl AttributeError)
          | Some d \<Rightarrow>
              ad_connect_init dns w fl
                (s\<lparr>domain := dom, netbiosname := nb,
                   binddn := adset (binddn s) (Some (ad_bindname ad @ ''@'' @ py_upper d)),
                   bindpw := adset (bindpw s) (Some (ad_bindpw ad)),
                   trusted := Some (db_flag (trusted s) (of_bool (ad_allow_trusted_doms ad))),
                   ad_default := Some (db_flag (ad_default s) (of_bool (ad_use_default_domain ad))),
                   unix := Some (db_flag (unix s) (of_bool (ad_unix_extensions ad)))\<rparr>)))"

text \<open>The host and port \<open>__no_db_init__\<close> derives from its keyword arguments
  (lines 903--913). The values are overwritten before they are used, but the
  conversions with \<open>long()\<close> still raise.\<close>

definition ad_kw_host_port :: "ad_args \<Rightarrow> py_error + string option \<times> nat option" where
  "ad_kw_host_port kw =
    (let r = (case ad_a_host kw of
                Some th \<Rightarrow>
                  (if th = [] then Inr (None, None)
                   else (let (h, tp) = split_hostport th in
                         case ad_a_port kw of
                           Some p \<Rightarrow> (case py_long p of Inl e \<Rightarrow> Inl e | Inr n \<Rightarrow> Inr (Some h, Some n))
                         | None \<Rightarrow> (case tp of
                                      None \<Rightarrow> Inr (Some h, None)
                                    | Some q \<Rightarrow> (case py_long q of Inl e \<Rightarrow> Inl e | Inr n \<Rightarrow> Inr (Some h, Some n)))))
              | None \<Rightarrow> Inr (None, None))
     in case r of
          Inl e \<Rightarrow> Inl e
        | Inr (h, p) \<Rightarrow>
            (if truthy (ad_a_port kw) \<and> (p = None \<or> p = Some 0)
             then (case py_long (the (ad_a_port kw)) of Inl e \<Rightarrow> Inl e | Inr n \<Rightarrow> Inr (h, Some n))
             else Inr (h, p)))"

text \<open>\<open>__no_db_init__\<close> (lines 890--950). \<open>dchost\<close> takes the \<open>host\<close> argument
  as it is, port included; a configured \<open>dcname\<close> is split again.\<close>

definition ad_no_db_init ::
  "resolver \<Rightarrow> net \<Rightarrow> ad_args \<Rightarrow> ad_base \<Rightarrow> (net \<times> (py_error + ad_base)) option" where
  "ad_no_db_init dns w kw s =
    (let s1 = s\<lparr>domain := adset (domain s) (ad_a_domain kw), netbiosname := adset (netbiosname s) (ad_a_netbiosname kw),
                trusted := Some False, ad_default := Some False, unix := Some False,
                dchost := adset (dchost s) (ad_a_host kw), dcport := adset (dcport s) (ad_a_port kw)\<rparr> in
     case ad_kw_host_port kw of
       Inl e \<Rightarrow> Some (w, Inl e)
     | Inr _ \<Rightarrow>
         (let s2 = s1\<lparr>binddn := adset (binddn s1) (ad_a_binddn kw), bindpw := adset (bindpw s1) (ad_a_bindpw kw)\<rparr>;
              s3 = (case dcname s2 of
                      Some x \<Rightarrow> (if x \<noteq> [] then (let (h, p) = split_hostport x in
                                                  s2\<lparr>dchost := Some h, dcport := (case p of None \<Rightarrow> dcport s2 | Some _ \<Rightarrow> p)\<rparr>)
                                 else s2)
                    | None \<Rightarrow> s2)
          in ad_connect_init dns w (ad_a_flags kw) s3))"

text \<open>\<open>__init__\<close> (lines 954--966).\<close>

definition ad_base_init ::
  "resolver \<Rightarrow> net \<Rightarrow> ad_config \<Rightarrow> activedirectory list \<Rightarrow> ad_args \<Rightarrow> (net \<times> (py_error + ad_base)) option" where
  "ad_base_init dns w cfg rows kw =
    (let s = ad_read_config cfg ad_defaults in
     map_option (\<lambda>(w', r). (w', map_sum id (\<lambda>d. d\<lparr>ad_ucount := 0, ad_gcount := 0\<rparr>) r))
       (case ad_a_flags kw of
          Some f \<Rightarrow> (if bit f FLAGS_DBINIT then ad_db_init dns w rows (Some f) s else ad_no_db_init dns w kw s)
        | None \<Rightarrow> ad_no_db_init dns w kw s))"

section \<open>A concrete construction\<close>

text \<open>Keyword arguments naming a controller with a port in the host string.\<close>

definition example_ad_args :: ad_args where
  "example_ad_args = \<lparr>ad_a_domain = Some ''acme.com'', ad_a_netbiosname = None, ad_a_host = Some ''dc1:636'',
     ad_a_port = None, ad_a_binddn = Some ''cn=admin'', ad_a_bindpw = Some ''secret'', ad_a_flags = None\<rparr>"

section \<open>Lemmas\<close>

lemma bind_Inr_pair:
  assumes that: "(m \<bind> (\<lambda>(w2, s2, rb). case rb of Inl e \<Rightarrow> Some (w2, Inl e) | Inr b \<Rightarrow> f w2 s2 b)) = Some (w', Inr y)"
  shows "\<exists>w2 s2 b. m = Some (w2, s2, Inr b) \<and> f w2 s2 b = Some (w', Inr y)"
proof (cases m)
  case (Some t)
  obtain a b c where t: "t = (a, b, c)" by (cases t) auto
  show ?thesis using that Some t by (cases c) auto
qed (use that in simp)

lemma ad_fill_names_endpoint:
  assumes r: "ad_fill_names w s = Some (w', Inr s')"
  shows "host s' = host s \<and> port s' = port s"
proof -
  from bind_Inr_pair [OF r [unfolded ad_fill_names_def Let_def]] obtain w2 s2 b
    where bd: "ad_get_baseDN w s = Some (w2, s2, Inr b)"
      and rest: "(ad_get_netbios_name w2 (s2\<lparr>basedn := adset (basedn s2) b\<rparr>) \<bind>
                 (\<lambda>(w3, s4, rn). case rn of Inl e \<Rightarrow> Some (w3, Inl e)
                     | Inr nb \<Rightarrow> Some (w3, Inr (s4\<lparr>netbiosname := adset (netbiosname s4) nb\<rparr>)))) = Some (w', Inr s')"
    by blast
  from bind_Inr_pair [OF rest] obtain w3 s4 nb
    where nbn: "ad_get_netbios_name w2 (s2\<lparr>basedn := adset (basedn s2) b\<rparr>) = Some (w3, s4, Inr nb)"
      and s': "Some (w3, Inr (s4\<lparr>netbiosname := adset (netbiosname s4) nb\<rparr>)) = Some (w', Inr s')"
    by blast
  have f0: "conn_frame False 0 (host s, port s, ldap_directory.more s) w s"
    by (simp add: conn_frame_def)
  have f2: "conn_frame False 0 (host s, port s, ldap_directory.more s) w2 s2"
    using config_conn_more(2) [OF bd f0] .
  then have "conn_frame False 0 (host s, port s, ldap_directory.more s) w2 (s2\<lparr>basedn := adset (basedn s2) b\<rparr>)"
    by (simp add: conn_frame_def)
  from netbios_conn_more [OF nbn this] show ?thesis using s' by (auto simp: conn_frame_def)
qed

lemma ad_connect_init_endpoint:
  assumes r: "ad_connect_init dns w fl s = Some (w', Inr s')" and h: "truthy (dchost s)" and p: "dcport s = None"
  shows "host s' = dchost s \<and> port s' = FREENAS_LDAP_PORT"
proof -
  let ?s1 = "ldap_directory.extend
               (ldap_directory_init \<lparr>a_host = dchost s, a_port = None, a_binddn = binddn s, a_bindpw = bindpw s,
                  a_basedn = None, a_ssl = None, a_scope = None, a_filter = None, a_attributes = None,
                  a_pagesize = None, a_flags = fl\<rparr>) (ldap_directory.more s)"
  have e: "host ?s1 = dchost s" "port ?s1 = FREENAS_LDAP_PORT"
    by (simp_all add: ldap_directory_init_def ldap_directory.defs)
  from r h p have "ad_fill_names w ?s1 = Some (w', Inr s')" by (simp add: ad_connect_init_def)
  from ad_fill_names_endpoint [OF this] e show ?thesis by simp
qed

lemma adset_None: "adset None d = d"
  by (simp add: adset_def truthy_def)

lemma ad_no_db_init_endpoint:
  assumes r: "ad_no_db_init dns w kw s = Some (w', Inr s')"
    and c: "dcname s = None" "dcport s = None" "ad_a_port kw = None" "truthy (adset (dchost s) (ad_a_host kw))"
  shows "host s' = adset (dchost s) (ad_a_host kw) \<and> port s' = FREENAS_LDAP_PORT"
proof -
  from r obtain hp where "ad_kw_host_port kw = Inr hp"
    by (cases "ad_kw_host_port kw") (auto simp: ad_no_db_init_def Let_def)
  with r c have "ad_connect_init dns w (ad_a_flags kw)
      (s\<lparr>domain := adset (domain s) (ad_a_domain kw), netbiosname := adset (netbiosname s) (ad_a_netbiosname kw),
         trusted := Some False, ad_default := Some False, unix := Some False,
         dchost := adset (dchost s) (ad_a_host kw), dcport := None,
         binddn := adset (binddn s) (ad_a_binddn kw), bindpw := adset (bindpw s) (ad_a_bindpw kw)\<rparr>) = Some (w', Inr s')"
    by (simp add: ad_no_db_init_def Let_def adset_None)
  from ad_connect_init_endpoint [OF this] c show ?thesis by simp
qed

lemma example_ad_args_run:
  "\<exists>w' s'. ad_base_init (\<lambda>_. None) (example_net example_dse) None [] example_ad_args = Some (w', Inr s')"
  by (simp add: ad_base_init_def ad_read_config_def ad_no_db_init_def ad_kw_host_port_def example_ad_args_def
      split_hostport_def ad_connect_init_def ad_fill_names_def ad_get_baseDN_def ad_get_netbios_name_def
      ad_get_config_def ad_naming_context_def ad_get_rootDSE_def with_open_def ldap_open_def ldap_search_raw_def
      ldap_close_def ldap_unbind_def example_net_def example_dse_def strict_attr_def caught_attr_def
      query_key_def dict_get_def first_value_def adset_def truthy_def ad_defaults_def ldap_directory.defs
      ldap_directory_init_def geturi_def py_long_def Let_def FREENAS_LDAP_PORT_def show_nat.simps char_isdigit_def)

section \<open>Properties\<close>

text \<open>C39: without a configuration file and without \<open>FLAGS_DBINIT\<close>, when a
  \<open>host\<close> argument is given and no \<open>port\<close>, the constructed object connects to the
  host argument exactly as given, a \<open>host:port\<close> string included, on port 389:
  \<open>__no_db_init__\<close> splits the argument only into values it then discards.\<close>

theorem ad_host_argument_kept_whole:
  assumes r: "ad_base_init dns w None rows kw = Some (w', Inr s')"
    and k: "ad_a_flags kw = None" "ad_a_host kw = Some x" "x \<noteq> []" "ad_a_port kw = None"
  shows "host s' = Some x \<and> port s' = FREENAS_LDAP_PORT"
proof -
  have d: "dchost ad_defaults = None" "dcport ad_defaults = None" "dcname ad_defaults = None"
    by (simp_all add: ad_defaults_def ldap_directory.defs)
  from r k obtain w1 b where c0: "ad_no_db_init dns w kw ad_defaults = Some (w1, b)"
    and m: "map_sum id (\<lambda>d. d\<lparr>ad_ucount := 0, ad_gcount := 0\<rparr>) b = Inr s'"
    by (auto simp: ad_base_init_def ad_read_config_def)
  from m obtain d0 where b: "b = Inr d0" and s': "s' = d0\<lparr>ad_ucount := 0, ad_gcount := 0\<rparr>"
    by (cases b) auto
  have c: "ad_no_db_init dns w kw ad_defaults = Some (w1, Inr d0)" using c0 b by simp
  have "truthy (adset (dchost ad_defaults) (ad_a_host kw))" using k d by (simp add: adset_def truthy_def)
  from ad_no_db_init_endpoint [OF c d(3) d(2) k(4) this] show ?thesis using s' k d by (simp add: adset_def truthy_def)
qed


theorem ad_host_argument_kept_whole_witness:
  "\<exists>w' s'. ad_base_init (\<lambda>_. None) (example_net example_dse) None [] example_ad_args = Some (w', Inr s') \<and>
     host s' = Some ''dc1:636'' \<and> port s' = FREENAS_LDAP_PORT"
proof -
  obtain w' s' where r: "ad_base_init (\<lambda>_. None) (example_net example_dse) None [] example_ad_args = Some (w', Inr s')"
    using example_ad_args_run by blast
  have k: "ad_a_flags example_ad_args = None" "ad_a_host example_ad_args = Some ''dc1:636''" "''dc1:636'' \<noteq> []"
    "ad_a_port example_ad_args = None"
    by (simp_all add: example_ad_args_def)
  show ?thesis using ad_host_argument_kept_whole [OF r k] r by blast
qed

end
