(* ===== verification/AdIdentity.thy ===== *)
theory AdIdentity
  imports IdentityCache AdInit
begin

text \<open>
  The identity cache of the Active Directory backend: \<open>FreeNAS_ActiveDirectory_Users\<close>
  and \<open>FreeNAS_ActiveDirectory_Groups\<close> of \<open>freenasldap.py\<close> (lines 1527--1669 and
  1793--1930). The enumeration runs once per domain of the forest: it finds a
  controller of the domain with \<open>dc_connect\<close>, repoints the connection at it
  (\<open>_save\<close>, then host, port, base DN, attributes and page size), reconnects,
  enumerates the security principals and resolves each through the local
  database under a name qualified with the domain's NetBIOS name, and finally
  \<open>_restore\<close>s the saved attributes. Each domain has its own cache directory,
  named after its NetBIOS name. A domain is one dictionary of \<open>get_domains\<close>,
  attribute name to value.
\<close>

section \<open>Account names\<close>

text \<open>\<open>FREENAS_AD_SEPARATOR\<close>, default \<open>'\\'\<close> (line 55).\<close>

definition FREENAS_AD_SEPARATOR :: string where
  "FREENAS_AD_SEPARATOR = [CHR 0x5C]"

text \<open>\<open>"%s%s%s" % (n, FREENAS_AD_SEPARATOR, name)\<close> when \<open>q\<close> holds, the bare
  name otherwise.\<close>

definition ad_account_name :: "bool \<Rightarrow> string \<Rightarrow> string \<Rightarrow> string" where
  "ad_account_name q n v = (if q then n @ FREENAS_AD_SEPARATOR @ v else v)"

text \<open>\<open>self.default or self.unix\<close>.\<close>

definition ad_default_or_unix :: "'a ad_base_scheme \<Rightarrow> bool" where
  "ad_default_or_unix s = (ad_default s = Some True \<or> unix s = Some True)"

text \<open>\<open>__loaded(index, n)\<close> of the users class: the sentinel \<open>.ul\<close> or \<open>.dul\<close> of the
  domain's directory; an unknown index raises \<open>KeyError\<close>, which is caught and
  gives \<open>False\<close>. The groups class knows only \<open>'g'\<close> and \<open>'dg'\<close>.\<close>

definition ad_users_loaded :: "idstore \<Rightarrow> string \<Rightarrow> string \<Rightarrow> bool" where
  "ad_users_loaded st idx n =
    (if idx = ''u'' then kv_loaded (ucache st (Some n))
     else if idx = ''du'' then kv_loaded (ducache st (Some n)) else False)"

definition ad_groups_loaded :: "idstore \<Rightarrow> string \<Rightarrow> string \<Rightarrow> bool" where
  "ad_groups_loaded st idx n =
    (if idx = ''g'' then kv_loaded (gcache st (Some n))
     else if idx = ''dg'' then kv_loaded (dgcache st (Some n)) else False)"

section \<open>The per-domain loops\<close>

text \<open>Users (lines 1636--1663): record the entry under \<open>str(DN)\<close>, resolve the
  qualified name, record the account under it.\<close>

fun ad_users_loop ::
  "osdb \<Rightarrow> bool \<Rightarrow> bool \<Rightarrow> string \<Rightarrow> entry option list \<Rightarrow> idstore \<Rightarrow> passwd list \<Rightarrow>
   idstore \<times> (py_error + passwd list)" where
  "ad_users_loop os wr q n [] st acc = (st, Inr acc)"
| "ad_users_loop os wr q n (None # us) st acc = (st, Inl TypeError)"
| "ad_users_loop os wr q n (Some u # us) st acc =
     (let st1 = (if wr then st\<lparr>ducache := (ducache st)(Some n := cache_put (pyfmt (fst u)) (Some u) (ducache st (Some n)))\<rparr>
                 else st)
      in case dict_get (snd u) ''sAMAccountName'' of
           Inl e \<Rightarrow> (st1, Inl e)
         | Inr vs \<Rightarrow>
             (case first_value vs of
                Inl e \<Rightarrow> (st1, Inl e)
              | Inr v \<Rightarrow>
                  (let name = ad_account_name q n v in
                   case getpwnam os name of
                     None \<Rightarrow> ad_users_loop os wr q n us st1 acc
                   | Some pw \<Rightarrow>
                       ad_users_loop os wr q n us
                         (if wr then st1\<lparr>ucache := (ucache st1)(Some n := cache_put name pw (ucache st1 (Some n)))\<rparr>
                          else st1)
                         (acc @ [pw]))))"

text \<open>Groups (lines 1900--1924): the name is read first; it is qualified when
  \<open>default\<close> or \<open>unix\<close> is set, and both tiers are keyed by its upper-case form.\<close>

fun ad_groups_loop ::
  "osdb \<Rightarrow> bool \<Rightarrow> bool \<Rightarrow> string \<Rightarrow> entry option list \<Rightarrow> idstore \<Rightarrow> grent list \<Rightarrow>
   idstore \<times> (py_error + grent list)" where
  "ad_groups_loop os wr q n [] st acc = (st, Inr acc)"
| "ad_groups_loop os wr q n (None # gs) st acc = (st, Inl TypeError)"
| "ad_groups_loop os wr q n (Some g # gs) st acc =
     (case dict_get (snd g) ''sAMAccountName'' of
        Inl e \<Rightarrow> (st, Inl e)
      | Inr vs \<Rightarrow>
          (case first_value vs of
             Inl e \<Rightarrow> (st, Inl e)
           | Inr v \<Rightarrow>
               (let name = ad_account_name q n v;
                    st1 = (if wr then st\<lparr>dgcache := (dgcache st)(Some n := cache_put (py_upper name) (Some g) (dgcache st (Some n)))\<rparr>
                           else st)
                in case getgrnam os name of
                     None \<Rightarrow> ad_groups_loop os wr q n gs st1 acc
                   | Some gr \<Rightarrow>
                       ad_groups_loop os wr q n gs
                         (if wr then st1\<lparr>gcache := (gcache st1)(Some n := cache_put (py_upper name) gr (gcache st1 (Some n)))\<rparr>
                          else st1)
                         (acc @ [gr]))))"

section \<open>Enumeration over the domains\<close>

text \<open>Repointing the connection at one domain (lines 1616--1627): the domain's
  NetBIOS name and DNS root, a controller from \<open>dc_connect\<close> (host and port
  \<open>None\<close> when none opens; a port of \<open>None\<close> is never read without a host, so the
  old port is kept), the naming context as base DN, then \<open>close()\<close> and
  \<open>open()\<close>. The result is the NetBIOS name.\<close>

definition ad_domain_connect ::
  "resolver \<Rightarrow> net \<Rightarrow> 'a ad_base_scheme \<Rightarrow> string \<Rightarrow> domain_desc \<Rightarrow>
   net \<times> 'a ad_base_scheme \<times> (py_error + string)" where
  "ad_domain_connect dns w s attr d =
    (case dict_get d ''nETBIOSName'' of
       Inl e \<Rightarrow> (w, s, Inl e)
     | Inr n \<Rightarrow>
         (case dict_get d ''dnsRoot'' of
            Inl e \<Rightarrow> (w, s, Inl e)
          | Inr root \<Rightarrow>
              (case dc_connect dns w (Some root) (binddn s) (bindpw s) of
                 (w1, hp) \<Rightarrow>
                   (let s1 = s\<lparr>host := map_option fst hp, port := (case hp of Some (h, p) \<Rightarrow> p | None \<Rightarrow> port s)\<rparr> in
                    case dict_get d ''nCName'' of
                      Inl e \<Rightarrow> (w1, s1, Inl e)
                    | Inr nc \<Rightarrow>
                        (let s2 = s1\<lparr>basedn := Some nc, attributes := Some [attr], pagesize := FREENAS_LDAP_PAGESIZE\<rparr>;
                             (w2, s3) = ldap_close w1 s2;
                             (w3, s4, _) = ldap_open w2 s3
                         in (w3, s4, Inr n))))))"

text \<open>One domain of \<open>FreeNAS_ActiveDirectory_Users.__get_users\<close> (lines 1615--1666):
  the directory tier when reading is enabled and its sentinel exists, else
  \<open>get_users\<close>; the loop, qualifying names unless \<open>default\<close> or \<open>unix\<close> is set; the
  domain's sentinels when writing.\<close>

definition ad_users_domain ::
  "resolver \<Rightarrow> net \<Rightarrow> osdb \<Rightarrow> idstore \<Rightarrow> 'a ad_base_scheme \<Rightarrow> domain_desc \<Rightarrow>
   (net \<times> idstore \<times> 'a ad_base_scheme \<times> (py_error + string \<times> passwd list)) option" where
  "ad_users_domain dns w os st s d =
    (let rd = has_flag (flags s) FLAGS_CACHE_READ_USER; wr = has_flag (flags s) FLAGS_CACHE_WRITE_USER in
     case ad_domain_connect dns w s ''sAMAccountName'' d of
       (w3, s4, Inl e) \<Rightarrow> Some (w3, st, s4, Inl e)
     | (w3, s4, Inr n) \<Rightarrow>
         do {
           (w4, s5, rows) \<leftarrow> (if rd \<and> ad_users_loaded st ''du'' n
                               then Some (w3, s4, Inr (cache_values (ducache st (Some n))))
                               else map_option (\<lambda>(w', s', r). (w', s', map_sum id (map Some) r)) (ad_get_users w3 s4));
           (case rows of
              Inl e \<Rightarrow> Some (w4, st, s5, Inl e)
            | Inr rs \<Rightarrow>
                (case ad_users_loop os wr (\<not> ad_default_or_unix s5) n rs st [] of
                   (st1, Inl e) \<Rightarrow> Some (w4, st1, s5, Inl e)
                 | (st1, Inr us) \<Rightarrow>
                     Some (w4, (if wr then st1\<lparr>ucache := (ucache st1)(Some n := cache_mark (ucache st1 (Some n))),
                                              ducache := (ducache st1)(Some n := cache_mark (ducache st1 (Some n)))\<rparr>
                                else st1), s5, Inr (n, us))))
         })"

text \<open>The loop over the domains; \<open>self.__users\<close> is the dictionary \<open>acc\<close>.\<close>

fun ad_users_domains ::
  "resolver \<Rightarrow> net \<Rightarrow> osdb \<Rightarrow> idstore \<Rightarrow> 'a ad_base_scheme \<Rightarrow> domain_desc list \<Rightarrow> (string \<times> passwd list) list \<Rightarrow>
   (net \<times> idstore \<times> 'a ad_base_scheme \<times> (py_error + (string \<times> passwd list) list)) option" where
  "ad_users_domains dns w os st s [] acc = Some (w, st, s, Inr acc)"
| "ad_users_domains dns w os st s (d # ds) acc =
     do {
       (w1, st1, s1, r) \<leftarrow> ad_users_domain dns w os st s d;
       (case r of
          Inl e \<Rightarrow> Some (w1, st1, s1, Inl e)
        | Inr (n, us) \<Rightarrow> ad_users_domains dns w1 os st1 s1 ds (AList.update n us acc))
     }"

text \<open>The cache check of \<open>__get_users\<close> (lines 1599--1612): count the domains whose
  resolved tier is complete and take their accounts from it.\<close>

fun ad_users_cached ::
  "idstore \<Rightarrow> domain_desc list \<Rightarrow> nat \<Rightarrow> (string \<times> passwd list) list \<Rightarrow> py_error + nat \<times> (string \<times> passwd list) list" where
  "ad_users_cached st [] cnt acc = Inr (cnt, acc)"
| "ad_users_cached st (d # ds) cnt acc =
     (case dict_get d ''nETBIOSName'' of
        Inl e \<Rightarrow> Inl e
      | Inr n \<Rightarrow>
          (if ad_users_loaded st ''u'' n
           then ad_users_cached st ds (Suc cnt) (AList.update n (cache_values (ucache st (Some n))) acc)
           else ad_users_cached st ds cnt acc))"

text \<open>\<open>__get_users\<close>: all domains cached, or \<open>_save\<close>, the domains, \<open>_restore\<close>. The
  restore brings back every saved attribute (\<open>_isopen\<close> and \<open>_handle\<close> included)
  except the shared query cache.\<close>

definition ad_users_fill ::
  "resolver \<Rightarrow> net \<Rightarrow> osdb \<Rightarrow> idstore \<Rightarrow> 'a ad_base_scheme \<Rightarrow> domain_desc list \<Rightarrow>
   (net \<times> idstore \<times> 'a ad_base_scheme \<times> (py_error + (string \<times> passwd list) list)) option" where
  "ad_users_fill dns w os st s ds =
    (let rd = has_flag (flags s) FLAGS_CACHE_READ_USER in
     case (if rd then ad_users_cached st ds 0 [] else Inr (0, [])) of
       Inl e \<Rightarrow> Some (w, st, s, Inl e)
     | Inr (cnt, pre) \<Rightarrow>
         (if rd \<and> cnt = length ds then Some (w, st, s, Inr pre)
          else
            do {
              (w1, st1, s1, r) \<leftarrow> ad_users_domains dns w os st s ds pre;
              (case r of
                 Inl e \<Rightarrow> Some (w1, st1, s1, Inl e)
               | Inr us \<Rightarrow> Some (w1, st1, fst (dir_restore s1 (dir_save s [])), Inr us))
            }))"

text \<open>One domain of \<open>FreeNAS_ActiveDirectory_Groups.__get_groups\<close> (lines
  1881--1927).\<close>

definition ad_groups_domain ::
  "resolver \<Rightarrow> net \<Rightarrow> osdb \<Rightarrow> idstore \<Rightarrow> 'a ad_base_scheme \<Rightarrow> domain_desc \<Rightarrow>
   (net \<times> idstore \<times> 'a ad_base_scheme \<times> (py_error + string \<times> grent list)) option" where
  "ad_groups_domain dns w os st s d =
    (let rd = has_flag (flags s) FLAGS_CACHE_READ_GROUP; wr = has_flag (flags s) FLAGS_CACHE_WRITE_GROUP in
     case ad_domain_connect dns w s ''sAMAccountName'' d of
       (w3, s4, Inl e) \<Rightarrow> Some (w3, st, s4, Inl e)
     | (w3, s4, Inr n) \<Rightarrow>
         do {
           (w4, s5, rows) \<leftarrow> (if rd \<and> ad_groups_loaded st ''dg'' n
                               then Some (w3, s4, Inr (cache_values (dgcache st (Some n))))
                               else map_option (\<lambda>(w', s', r). (w', s', map_sum id (map Some) r)) (ad_get_groups w3 s4));
           (case rows of
              Inl e \<Rightarrow> Some (w4, st, s5, Inl e)
            | Inr rs \<Rightarrow>
                (case ad_groups_loop os wr (ad_default_or_unix s5) n rs st [] of
                   (st1, Inl e) \<Rightarrow> Some (w4, st1, s5, Inl e)
                 | (st1, Inr gs) \<Rightarrow>
                     Some (w4, (if wr then st1\<lparr>gcache := (gcache st1)(Some n := cache_mark (gcache st1 (Some n))),
                                              dgcache := (dgcache st1)(Some n := cache_mark (dgcache st1 (Some n)))\<rparr>
                                else st1), s5, Inr (n, gs))))
         })"

fun ad_groups_domains ::
  "resolver \<Rightarrow> net \<Rightarrow> osdb \<Rightarrow> idstore \<Rightarrow> 'a ad_base_scheme \<Rightarrow> domain_desc list \<Rightarrow> (string \<times> grent list) list \<Rightarrow>
   (net \<times> idstore \<times> 'a ad_base_scheme \<times> (py_error + (string \<times> grent list) list)) option" where
  "ad_groups_domains dns w os st s [] acc = Some (w, st, s, Inr acc)"
| "ad_groups_domains dns w os st s (d # ds) acc =
     do {
       (w1, st1, s1, r) \<leftarrow> ad_groups_domain dns w os st s d;
       (case r of
          Inl e \<Rightarrow> Some (w1, st1, s1, Inl e)
        | Inr (n, gs) \<Rightarrow> ad_groups_domains dns w1 os st1 s1 ds (AList.update n gs acc))
     }"

text \<open>The cache check of \<open>__get_groups\<close> (lines 1865--1878) asks the groups'
  \<open>__loaded\<close> for index \<open>'u'\<close>, which it does not know.\<close>

fun ad_groups_cached ::
  "idstore \<Rightarrow> domain_desc list \<Rightarrow> nat \<Rightarrow> (string \<times> grent list) list \<Rightarrow> py_error + nat \<times> (string \<times> grent list) list" where
  "ad_groups_cached st [] cnt acc = Inr (cnt, acc)"
| "ad_groups_cached st (d # ds) cnt acc =
     (case dict_get d ''nETBIOSName'' of
        Inl e \<Rightarrow> Inl e
      | Inr n \<Rightarrow>
          (if ad_groups_loaded st ''u'' n
           then ad_groups_cached st ds (Suc cnt) (AList.update n (cache_values (gcache st (Some n))) acc)
           else ad_groups_cached st ds cnt acc))"

definition ad_groups_fill ::
  "resolver \<Rightarrow> net \<Rightarrow> osdb \<Rightarrow> idstore \<Rightarrow> 'a ad_base_scheme \<Rightarrow> domain_desc list \<Rightarrow>
   (net \<times> idstore \<times> 'a ad_base_scheme \<times> (py_error + (string \<times> grent list) list)) option" where
  "ad_groups_fill dns w os st s ds =
    (let rd = has_flag (flags s) FLAGS_CACHE_READ_GROUP in
     case (if rd then ad_groups_cached st ds 0 [] else Inr (0, [])) of
       Inl e \<Rightarrow> Some (w, st, s, Inl e)
     | Inr (cnt, pre) \<Rightarrow>
         (if rd \<and> cnt = length ds then Some (w, st, s, Inr pre)
          else
            do {
              (w1, st1, s1, r) \<leftarrow> ad_groups_domains dns w os st s ds pre;
              (case r of
                 Inl e \<Rightarrow> Some (w1, st1, s1, Inl e)
               | Inr gs \<Rightarrow> Some (w1, st1, fst (dir_restore s1 (dir_save s [])), Inr gs))
            }))"

text \<open>Iterating over the object (\<open>__iter__\<close>): the accounts of each domain in
  the order of the domains.\<close>

definition ad_iter :: "domain_desc list \<Rightarrow> (string \<times> 'v list) list \<Rightarrow> py_error + 'v list" where
  "ad_iter ds m =
    foldl (\<lambda>r d. case r of
                   Inl e \<Rightarrow> Inl e
                 | Inr acc \<Rightarrow> (case dict_get d ''nETBIOSName'' of
                                Inl e \<Rightarrow> Inl e
                              | Inr n \<Rightarrow> (case dict_get m n of Inl e \<Rightarrow> Inl e | Inr vs \<Rightarrow> Inr (acc @ vs))))
          (Inr []) ds"

section \<open>Concrete instances\<close>

text \<open>An account \<open>jdoe\<close> of domain \<open>ACME\<close>, a local database that knows the
  qualified user and the unqualified group, and one domain whose tiers are marked.\<close>

definition example_jdoe :: entry where
  "example_jdoe = (Some ''CN=jdoe,DC=acme'', [(''sAMAccountName'', [''jdoe''])])"

definition example_ad_os :: osdb where
  "example_ad_os = \<lparr>getpwnam = (\<lambda>k. if k = ''ACME'' @ FREENAS_AD_SEPARATOR @ ''jdoe'' then Some \<lparr>pw_name = k, pw_uid = 10001\<rparr> else None),
                    getpwuid = (\<lambda>n. None),
                    getgrnam = (\<lambda>k. if k = ''jdoe'' then Some \<lparr>gr_name = k, gr_gid = 10001\<rparr> else None),
                    getgrgid = (\<lambda>n. None)\<rparr>"

definition example_domain :: domain_desc where
  "example_domain = [(''nETBIOSName'', ''ACME''), (''dnsRoot'', ''acme.com'')]"

definition example_marked_store :: idstore where
  "example_marked_store = store_empty\<lparr>ucache := (\<lambda>_. cache_mark cache_empty), gcache := (\<lambda>_. cache_mark cache_empty)\<rparr>"

section \<open>Name qualification and the cache checks\<close>

lemma ad_users_loop_names:
  assumes "\<forall>u\<in>set rows. row_attr ''sAMAccountName'' u \<noteq> None"
  shows "snd (ad_users_loop os wr q n (map Some rows) st acc) =
           Inr (acc @ List.map_filter (\<lambda>u. getpwnam os (ad_account_name q n (the (row_attr ''sAMAccountName'' u)))) rows)"
  using assms
proof (induction rows arbitrary: st acc)
  case Nil
  then show ?case by (simp add: map_filter_simps)
next
  case (Cons u rows)
  obtain v vs where v: "map_of (snd u) ''sAMAccountName'' = Some (v # vs)"
    using Cons.prems by (auto simp: row_attr_def split: option.splits list.splits)
  then have ra: "row_attr ''sAMAccountName'' u = Some v" by (simp add: row_attr_def)
  show ?case
    using Cons.IH Cons.prems v ra
    by (cases wr) (simp_all add: Let_def dict_get_def map_filter_simps split: option.split)
qed

lemma ad_groups_loop_names:
  assumes "\<forall>g\<in>set rows. row_attr ''sAMAccountName'' g \<noteq> None"
  shows "snd (ad_groups_loop os wr q n (map Some rows) st acc) =
           Inr (acc @ List.map_filter (\<lambda>g. getgrnam os (ad_account_name q n (the (row_attr ''sAMAccountName'' g)))) rows)"
  using assms
proof (induction rows arbitrary: st acc)
  case Nil
  then show ?case by (simp add: map_filter_simps)
next
  case (Cons g rows)
  obtain v vs where v: "map_of (snd g) ''sAMAccountName'' = Some (v # vs)"
    using Cons.prems by (auto simp: row_attr_def split: option.splits list.splits)
  then have ra: "row_attr ''sAMAccountName'' g = Some v" by (simp add: row_attr_def)
  show ?case
    using Cons.IH Cons.prems v ra
    by (cases wr) (simp_all add: Let_def dict_get_def map_filter_simps split: option.split)
qed

lemma example_ad_not_default:
  "ad_default_or_unix example_ad = False"
  by (simp add: ad_default_or_unix_def example_ad_def example_args_def ldap_directory_init_def ldap_directory.defs Let_def
      setssl_def str_isdigit_def char_isdigit_def)

lemma ad_users_cached_all:
  "\<forall>d\<in>set ds. \<exists>n. map_of d ''nETBIOSName'' = Some n \<and> kv_loaded (ucache st (Some n)) \<Longrightarrow>
   ad_users_cached st ds cnt acc =
     Inr (cnt + length ds,
          foldl (\<lambda>a d. AList.update (the (map_of d ''nETBIOSName'')) (cache_values (ucache st (Some (the (map_of d ''nETBIOSName''))))) a) acc ds)"
  by (induction ds arbitrary: cnt acc) (auto simp: dict_get_def ad_users_loaded_def)

lemma ad_groups_cached_none:
  "\<forall>d\<in>set ds. map_of d ''nETBIOSName'' \<noteq> None \<Longrightarrow> ad_groups_cached st ds cnt acc = Inr (cnt, acc)"
  by (induction ds arbitrary: cnt acc) (auto simp: dict_get_def ad_groups_loaded_def)


text \<open>With cache reading enabled and the resolved tiers of every domain marked
  complete, \<open>FreeNAS_ActiveDirectory_Users\<close> returns the cached accounts with no
  network traffic, while \<open>FreeNAS_ActiveDirectory_Groups\<close> still enumerates every
  domain over the network, because its cache check asks for index \<open>'u'\<close>.\<close>

theorem ad_cache_check_asymmetry:
  assumes "has_flag (flags s) FLAGS_CACHE_READ_USER" "has_flag (flags s) FLAGS_CACHE_READ_GROUP"
    and "\<forall>d\<in>set ds. \<exists>n. map_of d ''nETBIOSName'' = Some n \<and> kv_loaded (ucache st (Some n)) \<and> kv_loaded (gcache st (Some n))"
    and "ds \<noteq> []"
  shows "ad_users_fill dns w os st s ds =
           Some (w, st, s, Inr (foldl (\<lambda>a d. AList.update (the (map_of d ''nETBIOSName''))
                                 (cache_values (ucache st (Some (the (map_of d ''nETBIOSName''))))) a) [] ds)) \<and>
         ad_groups_fill dns w os st s ds =
           do {
             (w1, st1, s1, r) \<leftarrow> ad_groups_domains dns w os st s ds [];
             (case r of
                Inl e \<Rightarrow> Some (w1, st1, s1, Inl e)
              | Inr gs \<Rightarrow> Some (w1, st1, fst (dir_restore s1 (dir_save s [])), Inr gs))
           }"
proof -
  have u: "ad_users_cached st ds 0 [] = Inr (length ds,
             foldl (\<lambda>a d. AList.update (the (map_of d ''nETBIOSName''))
                     (cache_values (ucache st (Some (the (map_of d ''nETBIOSName''))))) a) [] ds)"
    using ad_users_cached_all [of ds st 0 "[]"] assms(3) by auto
  have g: "ad_groups_cached st ds 0 [] = Inr (0, [])"
    using ad_groups_cached_none [of ds st 0 "[]"] assms(3) by auto
  show ?thesis
    using assms(1,2,4) by (simp add: ad_users_fill_def ad_groups_fill_def u g)
qed

theorem ad_cache_check_asymmetry_witness:
  "ad_users_fill example_resolver (example_net []) example_os example_marked_store (example_ad\<lparr>flags := 5\<rparr>) [example_domain] =
     Some (example_net [], example_marked_store, example_ad\<lparr>flags := 5\<rparr>, Inr [(''ACME'', [])]) \<and>
   ad_groups_fill example_resolver (example_net []) example_os example_marked_store (example_ad\<lparr>flags := 5\<rparr>) [example_domain] =
     do {
       (w1, st1, s1, r) \<leftarrow> ad_groups_domains example_resolver (example_net []) example_os example_marked_store (example_ad\<lparr>flags := 5\<rparr>) [example_domain] [];
       (case r of
          Inl e \<Rightarrow> Some (w1, st1, s1, Inl e)
        | Inr gs \<Rightarrow> Some (w1, st1, fst (dir_restore s1 (dir_save (example_ad\<lparr>flags := 5\<rparr>) [])), Inr gs))
     }"
  using ad_cache_check_asymmetry [of "example_ad\<lparr>flags := 5\<rparr>" "[example_domain]" example_marked_store example_resolver "example_net []" example_os]
  by (simp add: has_flag_def FLAGS_CACHE_READ_USER_def FLAGS_CACHE_READ_GROUP_def example_domain_def
      example_marked_store_def store_empty_def cache_mark_def cache_empty_def cache_values_def)

end
