(* ===== verification/SystemDb.thy ===== *)
theory SystemDb
  imports ServiceModels LdapBackend "HOL-Library.Multiset"
begin

text \<open>
  The system helpers of \<open>src/gui/common/system.py\<close> the directory layer and the
  cache tool depend on. The environment is explicit: the shell variables a
  sourced file defines (\<open>get_freenas_var_by_file\<close>), the configuration database
  (one list of rows per table, with the \<open>id\<close> of each row), the output of
  \<open>/sbin/mount\<close> and \<open>df\<close>, the exit status of external commands, and a file
  system given by the directory listing of each path. Modelled: the version
  strings, the shell variables, the directory-service switches
  (\<open>service_enabled\<close>, \<open>get_directoryservice\<close>, \<open>*_enabled\<close>, \<open>*_objects\<close>), the
  mount table and \<open>is_mounted\<close>, \<open>mount\<close>/\<open>umount\<close>, \<open>get_fstype\<close>,
  \<open>get_avatar_conf\<close>, \<open>get_system_dataset\<close>, \<open>get_samba4_path\<close> and
  \<open>exclude_path\<close>. Not modelled: \<open>send_mail\<close> (SMTP and message composition).
\<close>

section \<open>Strings\<close>

definition py_rstrip :: "string \<Rightarrow> string" where
  "py_rstrip s = rev (dropWhile is_space (rev s))"

definition py_startswith :: "string \<Rightarrow> string \<Rightarrow> bool" where
  "py_startswith s p = (take (length p) s = p)"

text \<open>\<open>str.split()\<close> without argument: the maximal runs of non-blank characters.\<close>

function py_words :: "string \<Rightarrow> string list" where
  "py_words s =
    (let s' = dropWhile is_space s in
     if s' = [] then [] else takeWhile (\<lambda>c. \<not> is_space c) s' # py_words (dropWhile (\<lambda>c. \<not> is_space c) s'))"
  by pat_completeness auto
termination
proof (relation "measure length")
  show "wf (measure length)" by simp
next
  fix s s' :: string
  assume e0: "s' = dropWhile is_space s" and h: "s' \<noteq> []"
  obtain c cs where e: "s' = c # cs" using h by (cases s') auto
  have "\<not> is_space (hd (dropWhile is_space s))" using h e0 hd_dropWhile [of is_space s] by blast
  then have "\<not> is_space c" using e e0 by simp
  then have "dropWhile (\<lambda>c. \<not> is_space c) s' = dropWhile (\<lambda>c. \<not> is_space c) cs" using e by simp
  moreover have "length (dropWhile (\<lambda>c. \<not> is_space c) cs) \<le> length cs" by (rule length_dropWhile_le)
  moreover have "length s' \<le> length s" using e0 length_dropWhile_le [of is_space s] by simp
  ultimately show "(dropWhile (\<lambda>c. \<not> is_space c) s', s) \<in> measure length" using e by simp
qed

text \<open>\<open>os.path.join(a, b)\<close>.\<close>

definition py_join :: "string \<Rightarrow> string \<Rightarrow> string" where
  "py_join a b =
    (if py_startswith b ''/'' then b else if a = [] \<or> last a = CHR ''/'' then a @ b else a @ ''/'' @ b)"

text \<open>\<open>sep.join(xs)\<close>.\<close>

fun py_str_join :: "string \<Rightarrow> string list \<Rightarrow> string" where
  "py_str_join sep [] = []"
| "py_str_join sep [x] = x"
| "py_str_join sep (x # xs) = x @ sep @ py_str_join sep xs"

section \<open>Version strings\<close>

text \<open>\<open>get_sw_version\<close>, \<open>get_sw_login_version\<close> and \<open>get_sw_name\<close> (lines 52--74)
  of the contents of \<open>/etc/version\<close> (read once and cached).\<close>

definition get_sw_version :: "string \<Rightarrow> bool \<Rightarrow> string" where
  "get_sw_version v strip_build = (let vv = py_strip v in if strip_build then hd (py_split CHR '' '' vv) else vv)"

definition get_sw_login_version :: "string \<Rightarrow> string" where
  "get_sw_login_version v =
    (let parts = py_split CHR ''-'' (get_sw_version v True) in
     py_str_join ''-'' (drop 1 (take (length parts - 2) parts)))"

definition get_sw_name :: "string \<Rightarrow> string" where
  "get_sw_name v = hd (py_split CHR ''-'' (get_sw_version v False))"

section \<open>Shell variables\<close>

text \<open>What \<open>. "f"; echo "${var}"\<close> prints: the value the sourced file gives the
  variable (\<open>''\<close> when unset).\<close>

type_synonym sh_env = "string \<Rightarrow> string \<Rightarrow> string"

text \<open>\<open>get_freenas_var_by_file\<close> (lines 77--86): the last output line, stripped
  on the right.\<close>

definition get_freenas_var_by_file :: "sh_env \<Rightarrow> string \<Rightarrow> string \<Rightarrow> py_error + string" where
  "get_freenas_var_by_file env f var =
    (if f = [] \<or> var = [] then Inl AssertionError
     else Inr (py_rstrip (last (py_split (CHR 0x0A) (env f var)))))"

definition get_freenas_var :: "sh_env \<Rightarrow> string \<Rightarrow> string option \<Rightarrow> py_error + string option" where
  "get_freenas_var env var dflt =
    map_sum id (\<lambda>v. if v = [] then dflt else Some v) (get_freenas_var_by_file env ''/etc/rc.freenas'' var)"

definition AVATAR_VARS :: "string list" where
  "AVATAR_VARS = [''AVATAR_PROJECT'', ''AVATAR_PROJECT_SITE'', ''AVATAR_SUPPORT_SITE'', ''AVATAR_VERSION'',
                  ''AVATAR_BUILD_NUMBER'', ''AVATAR_ARCH'', ''AVATAR_COMPONENT'']"

text \<open>\<open>get_avatar_conf\<close> (lines 496--511).\<close>

definition get_avatar_conf :: "sh_env \<Rightarrow> (string \<times> string) list" where
  "get_avatar_conf env =
    map (\<lambda>av. (av, py_rstrip (last (py_split (CHR 0x0A) (env ''/etc/avatar.conf'' av))))) AVATAR_VARS"

section \<open>The configuration database\<close>

record freenas_db =
  services_services :: "services table"
  system_settings :: "string option list"
  services_ldap :: "ldap_row table"
  services_activedirectory :: "activedirectory table"
  services_domaincontroller :: "domaincontroller table"
  services_nt4 :: "nt4 table"
  services_nis :: "nis table"

text \<open>\<open>service_enabled\<close> (lines 303--319): the newest row of the service;
  \<open>srv_enable\<close> is stored as an integer.\<close>

definition service_enabled :: "freenas_db \<Rightarrow> string \<Rightarrow> bool" where
  "service_enabled db name =
    (case order_by_neg_id (filter (\<lambda>(_, r). srv_service r = name) (services_services db)) of
       [] \<Rightarrow> False
     | r # _ \<Rightarrow> srv_enable r)"

text \<open>\<open>get_directoryservice\<close> (lines 322--338): the first row of
  \<open>system_settings\<close>, when its value is non-empty.\<close>

definition get_directoryservice :: "freenas_db \<Rightarrow> string option" where
  "get_directoryservice db =
    (case system_settings db of [] \<Rightarrow> None | v # _ \<Rightarrow> (if truthy v then v else None))"

text \<open>\<open>ldap_enabled\<close>, \<open>activedirectory_enabled\<close>, \<open>domaincontroller_enabled\<close>,
  \<open>nt4_enabled\<close>, \<open>nis_enabled\<close> (lines 341--350, 372--381, 403--412,
  434--443, 465--474).\<close>

definition ds_enabled :: "freenas_db \<Rightarrow> string \<Rightarrow> bool" where
  "ds_enabled db ds = (service_enabled db ''directoryservice'' \<and> get_directoryservice db = Some ds)"

definition ldap_enabled :: "freenas_db \<Rightarrow> bool" where "ldap_enabled db = ds_enabled db ''ldap''"
definition activedirectory_enabled :: "freenas_db \<Rightarrow> bool" where
  "activedirectory_enabled db = ds_enabled db ''activedirectory''"
definition domaincontroller_enabled :: "freenas_db \<Rightarrow> bool" where
  "domaincontroller_enabled db = ds_enabled db ''domaincontroller''"
definition nt4_enabled :: "freenas_db \<Rightarrow> bool" where "nt4_enabled db = ds_enabled db ''nt4''"
definition nis_enabled :: "freenas_db \<Rightarrow> bool" where "nis_enabled db = ds_enabled db ''nis''"

text \<open>\<open>ldap_objects\<close>, \<open>activedirectory_objects\<close>, \<open>domaincontroller_objects\<close>,
  \<open>nt4_objects\<close>, \<open>nis_objects\<close> (lines 353--369, 384--400, 415--431, 446--462,
  477--493): every row, newest first.\<close>

definition ldap_objects :: "freenas_db \<Rightarrow> ldap_row list" where
  "ldap_objects db = order_by_neg_id (services_ldap db)"
definition activedirectory_objects :: "freenas_db \<Rightarrow> activedirectory list" where
  "activedirectory_objects db = order_by_neg_id (services_activedirectory db)"
definition domaincontroller_objects :: "freenas_db \<Rightarrow> domaincontroller list" where
  "domaincontroller_objects db = order_by_neg_id (services_domaincontroller db)"
definition nt4_objects :: "freenas_db \<Rightarrow> nt4 list" where
  "nt4_objects db = order_by_neg_id (services_nt4 db)"
definition nis_objects :: "freenas_db \<Rightarrow> nis list" where
  "nis_objects db = order_by_neg_id (services_nis db)"

section \<open>Mounts\<close>

text \<open>\<open>\w\<close> of a byte string.\<close>

definition is_word :: "char \<Rightarrow> bool" where
  "is_word c = (is_alnum c \<or> c = CHR ''_'')"

text \<open>\<open>RE_MOUNT.search(line)\<close> (lines 44--46): the shortest \<open>fs_spec\<close>, then the
  shortest \<open>fs_file\<close>, such that \<open>" on "\<close> separates them and \<open>" ("\<close> and at least
  one word character follow; \<open>fs_vfstype\<close> is the longest run of word characters.\<close>

definition mount_match :: "string \<Rightarrow> (string \<times> string \<times> string) option" where
  "mount_match line =
    map_option (\<lambda>(i, j). (take i line, take j (drop (i + 4) line), takeWhile is_word (drop (i + 4 + j + 2) line)))
      (find (\<lambda>(i, j). take 4 (drop i line) = '' on '' \<and> take 2 (drop (i + 4 + j) line) = '' (''
                       \<and> takeWhile is_word (drop (i + 4 + j + 2) line) \<noteq> [])
            [(i, j). i \<leftarrow> [1..<length line], j \<leftarrow> [1..<length line]])"

text \<open>\<open>get_mounted_filesystems\<close> (lines 220--238), of the lines \<open>/sbin/mount\<close>
  prints: \<open>(fs_spec, fs_file, fs_vfstype)\<close> of each matching line.\<close>

definition get_mounted_filesystems :: "string list \<Rightarrow> (string \<times> string \<times> string) list" where
  "get_mounted_filesystems lines = List.map_filter mount_match lines"

text \<open>\<open>is_mounted(**kwargs)\<close> (lines 241--253): for each mount, \<open>ret\<close> is reset to
  \<open>False\<close>, then set by the \<open>device\<close> test and overwritten by the \<open>path\<close> test; the
  loop stops at the first \<open>True\<close>. With no mounts \<open>ret\<close> is never assigned.\<close>

definition mount_test :: "string option \<Rightarrow> string option \<Rightarrow> string \<times> string \<times> string \<Rightarrow> bool" where
  "mount_test dev path m =
    (let ret = False;
         ret = (case dev of None \<Rightarrow> ret | Some d \<Rightarrow> fst m = d);
         ret = (case path of None \<Rightarrow> ret | Some p \<Rightarrow> fst (snd m) = p)
     in ret)"

fun is_mounted_loop :: "string option \<Rightarrow> string option \<Rightarrow> (string \<times> string \<times> string) list \<Rightarrow> bool option \<Rightarrow> bool option" where
  "is_mounted_loop dev path [] ret = ret"
| "is_mounted_loop dev path (m # ms) ret =
     (let r = mount_test dev path m in if r then Some True else is_mounted_loop dev path ms (Some r))"

definition is_mounted :: "string list \<Rightarrow> string option \<Rightarrow> string option \<Rightarrow> py_error + bool" where
  "is_mounted out dev path =
    (case is_mounted_loop dev path (get_mounted_filesystems out) None of
       None \<Rightarrow> Inl NameError
     | Some r \<Rightarrow> Inr r)"

text \<open>External commands: their exit status and output.\<close>

type_synonym runner = "string list \<Rightarrow> int \<times> string"

text \<open>\<open>mount\<close> and \<open>umount\<close> (lines 256--300).\<close>

definition mount_argv :: "string \<Rightarrow> string \<Rightarrow> string option \<Rightarrow> string option \<Rightarrow> string list" where
  "mount_argv dev path mntopts fstype =
    [''/sbin/mount''] @ (if truthy mntopts then [''-o'', the mntopts] else [])
      @ (if truthy fstype then [''-t'', the fstype] else []) @ [dev, path]"

definition mount :: "runner \<Rightarrow> string \<Rightarrow> string \<Rightarrow> string option \<Rightarrow> string option \<Rightarrow> py_error + bool" where
  "mount run dev path mntopts fstype =
    (if fst (run (mount_argv dev path mntopts fstype)) \<noteq> 0 then Inl ValueError else Inr True)"

definition umount :: "runner \<Rightarrow> string \<Rightarrow> bool" where
  "umount run path = (fst (run [''/sbin/umount'', path]) = 0)"

text \<open>\<open>get_fstype\<close> (lines 207--217): the second column of the last line of
  \<open>df -T path\<close>, upper-cased; \<open>None\<close> when the path does not exist.\<close>

definition get_fstype :: "(string \<Rightarrow> bool) \<Rightarrow> (string \<Rightarrow> string list) \<Rightarrow> string \<Rightarrow> py_error + string option" where
  "get_fstype exists df path =
    (if path = [] then Inl AssertionError
     else if \<not> exists path then Inr None
     else (case rev (df path) of
             [] \<Rightarrow> Inl IndexError
           | l # _ \<Rightarrow> (case py_words l of
                         _ # t # _ \<Rightarrow> Inr (Some (py_upper t))
                       | _ \<Rightarrow> Inl IndexError)))"

section \<open>The system dataset\<close>

text \<open>\<open>get_system_dataset\<close> (lines 514--536) and \<open>get_samba4_path\<close> (lines
  539--564): the system pool of the first \<open>Advanced\<close> row, the first volume of that
  name, and its dataset path. The first returns \<open>(None, None)\<close> on each failure,
  the second exits.\<close>

definition system_volume :: "string list \<Rightarrow> string table \<Rightarrow> string option" where
  "system_volume advs vols =
    (case advs of
       [] \<Rightarrow> None
     | pool # _ \<Rightarrow>
         (if pool = [] then None
          else (case filter (\<lambda>v. v = pool) (map snd vols) of [] \<Rightarrow> None | v # _ \<Rightarrow> Some v)))"

definition get_system_dataset :: "string list \<Rightarrow> string table \<Rightarrow> (string \<times> string) option" where
  "get_system_dataset advs vols = map_option (\<lambda>v. (v, v @ ''/.system'')) (system_volume advs vols)"

definition get_samba4_path :: "string list \<Rightarrow> string table \<Rightarrow> py_error + string \<times> string" where
  "get_samba4_path advs vols =
    (case system_volume advs vols of None \<Rightarrow> Inl SystemExit | Some v \<Rightarrow> Inr (v, v @ ''/.system/samba4''))"

section \<open>Excluding paths\<close>

text \<open>A file system: the entries of a directory, \<open>None\<close> for anything else.\<close>

type_synonym listing = "string \<Rightarrow> string list option"

text \<open>The worklist loop of \<open>exclude_path\<close> (lines 585--600): pop the last path; a
  non-directory is applied; a directory is expanded once for each exclusion
  below it other than itself, and applied once for each exclusion not below it.
  The listing may be cyclic (symbolic links), so the loop may not end.\<close>

partial_function (option) exclude_loop ::
  "listing \<Rightarrow> string list \<Rightarrow> string list \<Rightarrow> string list \<Rightarrow> string list option" where
  "exclude_loop fs fgs check_paths apply_paths =
    (if check_paths = [] then Some apply_paths
     else
       (let fpath = last check_paths; rest = butlast check_paths in
        case fs fpath of
          None \<Rightarrow> exclude_loop fs fgs rest (apply_paths @ [fpath])
        | Some kids \<Rightarrow>
            (let (c, a) = foldl (\<lambda>(c, a) fg.
                              if py_startswith fg fpath
                              then (if fg \<noteq> fpath then (c @ map (py_join fpath) kids, a) else (c, a))
                              else (c, a @ [fpath])) (rest, apply_paths) fgs
             in exclude_loop fs fgs c a)))"

text \<open>\<open>exclude_path\<close> (lines 567--603): the exclusions that start with the path;
  none gives the path itself.\<close>

definition exclude_path :: "listing \<Rightarrow> string \<Rightarrow> string list \<Rightarrow> (py_error + string list) option" where
  "exclude_path fs path exclude =
    (let fine = filter (\<lambda>e. py_startswith e path) exclude in
     if fine \<noteq> [] then
       (case fs path of
          None \<Rightarrow> Some (Inl OSError)
        | Some kids \<Rightarrow> map_option Inr (exclude_loop fs fine (map (py_join path) kids) []))
     else Some (Inr [path]))"

section \<open>Termination of the exclusion walk\<close>

text \<open>A listing as \<open>os.listdir\<close> gives it: every entry is a non-empty name
  without \<open>/\<close>. Symbolic links may still make it cyclic.\<close>

definition wf_listing :: "listing \<Rightarrow> bool" where
  "wf_listing fs = (\<forall>p ks. fs p = Some ks \<longrightarrow> (\<forall>k\<in>set ks. k \<noteq> [] \<and> CHR ''/'' \<notin> set k))"

text \<open>The measure of the walk: each pending path weighs the total length of the
  exclusions, plus one, minus its own length. A directory is expanded only when
  it is a proper prefix of an exclusion, and its entries are longer than it.\<close>

definition excl_measure :: "string list \<Rightarrow> string list \<Rightarrow> nat multiset" where
  "excl_measure fgs check = mset (map (\<lambda>p. Suc (sum_list (map length fgs)) - length p) check)"

text \<open>A cyclic file system: every directory under \<open>/a\<close> holds a link \<open>b\<close> back to
  a directory.\<close>

definition example_cyclic_fs :: listing where
  "example_cyclic_fs p = (if py_startswith p ''/a'' then Some [''b''] else None)"

section \<open>Lemmas\<close>

lemma exclude_fold_fst:
  "fst (foldl (\<lambda>(c, a) fg. if py_startswith fg fpath then (if fg \<noteq> fpath then (c @ map (py_join fpath) kids, a) else (c, a))
                           else (c, a @ [fpath])) (c0, a0) fgs) =
   c0 @ concat (map (\<lambda>fg. if py_startswith fg fpath \<and> fg \<noteq> fpath then map (py_join fpath) kids else []) fgs)"
  by (induction fgs arbitrary: c0 a0) auto

lemma py_join_longer:
  assumes "k \<noteq> []" "CHR ''/'' \<notin> set k"
  shows "length a < length (py_join a k)"
proof -
  obtain c cs where k: "k = c # cs" using assms(1) by (cases k) auto
  have "c \<noteq> CHR ''/''" using assms(2) k by auto
  then have "\<not> py_startswith k ''/''" using k by (simp add: py_startswith_def)
  then show ?thesis using k by (simp add: py_join_def)
qed

lemma startswith_proper_shorter:
  assumes "py_startswith fg p" "fg \<noteq> p"
  shows "length p < length fg"
proof -
  have tk: "take (length p) fg = p" using assms(1) by (simp add: py_startswith_def)
  have "length p = min (length p) (length fg)" using arg_cong [OF tk, of length] by simp
  then have le: "length p \<le> length fg" by (simp add: min_def split: if_splits)
  have "length p \<noteq> length fg" using tk assms(2) by auto
  then show ?thesis using le by simp
qed

lemma exclude_expand_decreases:
  assumes wf: "wf_listing fs" and kids: "fs fpath = Some kids"
    and x: "x \<in> set (concat (map (\<lambda>fg. if py_startswith fg fpath \<and> fg \<noteq> fpath then map (py_join fpath) kids else []) fgs))"
  shows "Suc (sum_list (map length fgs)) - length x < Suc (sum_list (map length fgs)) - length fpath"
proof -
  have "\<exists>fg\<in>set fgs. x \<in> set (if py_startswith fg fpath \<and> fg \<noteq> fpath then map (py_join fpath) kids else [])"
    using x unfolding set_concat set_map by blast
  then obtain fg where fg: "fg \<in> set fgs"
    and x': "x \<in> set (if py_startswith fg fpath \<and> fg \<noteq> fpath then map (py_join fpath) kids else [])"
    by blast
  have p: "py_startswith fg fpath" "fg \<noteq> fpath" using x' by (auto split: if_splits)
  obtain k where k: "k \<in> set kids" and xk: "x = py_join fpath k" using x' p by auto
  have "length fpath < length fg" using p startswith_proper_shorter by blast
  moreover have "length fg \<le> sum_list (map length fgs)" using fg by (simp add: member_le_sum_list)
  moreover have "length fpath < length x" using wf kids k xk py_join_longer unfolding wf_listing_def by blast
  ultimately show ?thesis by linarith
qed

lemma exclude_loop_returns:
  assumes wf: "wf_listing fs"
  shows "\<exists>r. exclude_loop fs fgs check ap = Some r"
proof -
  let ?R = "inv_image (mult less_than) (excl_measure fgs)"
  let ?f = "\<lambda>p. Suc (sum_list (map length fgs)) - length p"
  have "wf ?R" by (intro wf_inv_image wf_mult wf_less_than)
  then show ?thesis
  proof (induction check arbitrary: ap rule: wf_induct_rule)
    case (less check)
    show ?case
    proof (cases "check = []")
      case True
      then show ?thesis by (subst exclude_loop.simps) simp
    next
      case False
      define fpath where "fpath = last check"
      define rest where "rest = butlast check"
      have chk: "check = rest @ [fpath]" using append_butlast_last_id [OF False] by (simp add: fpath_def rest_def)
      have m: "excl_measure fgs check = excl_measure fgs rest + {# ?f fpath #}"
        by (subst chk) (simp add: excl_measure_def)
      show ?thesis
      proof (cases "fs fpath")
        case None
        have "(excl_measure fgs rest + {#}, excl_measure fgs rest + {# ?f fpath #}) \<in> mult less_than"
          by (rule one_step_implies_mult) auto
        then have "(rest, check) \<in> ?R" using m by simp
        then obtain r where r: "exclude_loop fs fgs rest (ap @ [fpath]) = Some r" using less by blast
        have "exclude_loop fs fgs check ap = exclude_loop fs fgs rest (ap @ [fpath])"
          by (subst exclude_loop.simps) (simp add: Let_def False None fpath_def [symmetric] rest_def [symmetric])
        then show ?thesis using r by simp
      next
        case (Some kids)
        define K where "K = concat (map (\<lambda>fg. if py_startswith fg fpath \<and> fg \<noteq> fpath then map (py_join fpath) kids else []) fgs)"
        define step where "step = (\<lambda>(c, a) fg. if py_startswith fg fpath then (if fg \<noteq> fpath then (c @ map (py_join fpath) kids, a) else (c, a))
                           else (c, a @ [fpath]))"
        obtain c a where ca: "foldl step (rest, ap) fgs = (c, a)" by (metis surj_pair)
        have c: "c = rest @ K" using exclude_fold_fst [of fpath kids rest ap fgs] ca by (simp add: K_def step_def)
        have "\<forall>k\<in>#mset (map ?f K). \<exists>j\<in>#{# ?f fpath #}. (k, j) \<in> less_than"
          using exclude_expand_decreases [OF wf Some] by (auto simp: K_def)
        then have "(excl_measure fgs rest + mset (map ?f K), excl_measure fgs rest + {# ?f fpath #}) \<in> mult less_than"
          by (intro one_step_implies_mult) auto
        then have "(c, check) \<in> ?R" using m c by (simp add: excl_measure_def)
        then obtain r where r: "exclude_loop fs fgs c a = Some r" using less by blast
        have "exclude_loop fs fgs check ap = exclude_loop fs fgs c a"
          by (subst exclude_loop.simps) (simp add: Let_def False Some ca [unfolded step_def] fpath_def [symmetric] rest_def [symmetric])
        then show ?thesis using r by simp
      qed
    qed
  qed
qed


text \<open>C40 (liveness): \<open>exclude_path\<close> always returns, whatever the directory
  tree and even when symbolic links make it cyclic: the worklist loop only
  descends into directories that are proper prefixes of an exclusion, so every
  expansion replaces a path by strictly longer ones below a fixed bound.\<close>

theorem exclude_path_returns:
  assumes "wf_listing fs"
  shows "\<exists>r. exclude_path fs path exclude = Some r"
  using exclude_loop_returns [OF assms] by (auto simp: exclude_path_def Let_def split: option.split)

theorem exclude_path_returns_witness:
  "wf_listing example_cyclic_fs \<and> (\<exists>r. exclude_path example_cyclic_fs ''/a'' [''/a/b/b''] = Some r)"
proof
  show w: "wf_listing example_cyclic_fs"
    by (simp add: wf_listing_def example_cyclic_fs_def)
  show "\<exists>r. exclude_path example_cyclic_fs ''/a'' [''/a/b/b''] = Some r"
    using exclude_path_returns [OF w] .
qed

lemma ds_enabled_unique:
  assumes "ds_enabled db a" "ds_enabled db b"
  shows "a = b"
  using assms by (simp add: ds_enabled_def)

text \<open>At most one directory service is enabled at a time: the switches all
  compare the one \<open>stg_directoryservice\<close> value.\<close>

lemma directory_switches_exclusive:
  "activedirectory_enabled db \<Longrightarrow> \<not> ldap_enabled db \<and> \<not> nt4_enabled db \<and> \<not> nis_enabled db \<and> \<not> domaincontroller_enabled db"
  "ldap_enabled db \<Longrightarrow> \<not> nt4_enabled db \<and> \<not> nis_enabled db \<and> \<not> domaincontroller_enabled db"
  by (auto simp: activedirectory_enabled_def ldap_enabled_def nt4_enabled_def nis_enabled_def
                 domaincontroller_enabled_def ds_enabled_def)

lemma is_mounted_loop_false:
  "is_mounted_loop dev path ms (Some False) = Some (\<exists>m\<in>set ms. mount_test dev path m)"
  by (induction ms) (auto simp: Let_def)

lemma is_mounted_loop_some:
  "ms \<noteq> [] \<Longrightarrow> is_mounted_loop dev path ms r = Some (\<exists>m\<in>set ms. mount_test dev path m)"
  by (cases ms) (auto simp: Let_def is_mounted_loop_false)

text \<open>\<open>is_mounted\<close> answers whether some mount passes the test, and raises when
  there is no mount at all; with both keywords the path test overrides the
  device test.\<close>

lemma is_mounted_result:
  "is_mounted out dev path =
     (if get_mounted_filesystems out = [] then Inl NameError
      else Inr (\<exists>m\<in>set (get_mounted_filesystems out). mount_test dev path m))"
  by (simp add: is_mounted_def is_mounted_loop_some)

lemma mount_test_path_wins:
  "mount_test (Some d) (Some p) m = mount_test None (Some p) m"
  by (simp add: mount_test_def)

lemma is_mounted_ignores_device:
  "is_mounted out (Some d) (Some p) = is_mounted out None (Some p)"
  by (simp add: is_mounted_result mount_test_path_wins)

lemma sw_login_version_example:
  "get_sw_login_version ''FreeNAS-9.2.1-RELEASE-x64 (r12345)'' = ''9.2.1''"
  by (simp add: get_sw_login_version_def get_sw_version_def py_strip_def is_space_def)

end
