(* ===== verification/Dispatch.thy ===== *)
theory Dispatch
  imports AdIdentity SystemDb
begin

text \<open>
  The classes through which the rest of the system reaches a directory
  (\<open>src/gui/common/freenasldap.py\<close>): the Active Directory collections
  \<open>FreeNAS_ActiveDirectory_Users\<close>/\<open>_Groups\<close> (construction, \<open>__len__\<close>,
  \<open>__iter__\<close>), the single-account classes \<open>FreeNAS_ActiveDirectory_User\<close>/\<open>_Group\<close>
  (\<open>__new__\<close>, \<open>__init__\<close>, \<open>__get_user\<close>/\<open>__get_group\<close>), and the factories
  \<open>FreeNAS_Directory_Users\<close>, \<open>_Groups\<close>, \<open>_User\<close> and \<open>_Group\<close>, which pick the
  LDAP or the Active Directory class from the \<open>dflags\<close> keyword. The factories
  pass one keyword dictionary to either class; the model takes it as the LDAP
  classes read it (\<open>base_args\<close>) and as the Active Directory classes read it
  (\<open>ad_args\<close>), and takes the rows of both backends from the configuration
  database of \<open>SystemDb\<close>.
\<close>

section \<open>Flags\<close>

text \<open>Lines 72--73.\<close>

definition FLAGS_AD_ENABLED :: int where "FLAGS_AD_ENABLED = 1"
definition FLAGS_LDAP_ENABLED :: int where "FLAGS_LDAP_ENABLED = 2"

text \<open>\<open>dflags = kwargs['dflags']\<close> when the key is present, else \<open>0\<close>.\<close>

definition dflags_of :: "int option \<Rightarrow> int" where
  "dflags_of d = (case d of None \<Rightarrow> 0 | Some f \<Rightarrow> f)"

section \<open>The Active Directory collections\<close>

text \<open>\<open>self.get_domains(netbiosname=kwargs['netbiosname'])\<close> when the keyword is
  present and true, \<open>self.get_domains()\<close> otherwise.\<close>

definition ad_domains_kw :: "ad_args \<Rightarrow> (string \<times> string) list" where
  "ad_domains_kw kw = (if truthy (ad_a_netbiosname kw) then [(''netbiosname'', the (ad_a_netbiosname kw))] else [])"

text \<open>\<open>n = d['nETBIOSName']\<close> for each domain, in order.\<close>

fun domain_names :: "domain_desc list \<Rightarrow> py_error + string list" where
  "domain_names [] = Inr []"
| "domain_names (d # ds) =
     (case dict_get d ''nETBIOSName'' of
        Inl e \<Rightarrow> Inl e
      | Inr n \<Rightarrow> map_sum id (Cons n) (domain_names ds))"

text \<open>\<open>FreeNAS_ActiveDirectory_Users.__init__\<close> (lines 1527--1552): the
  connection, the domains, the per-domain cache directories when a cache flag
  is set (reading \<open>nETBIOSName\<close> of every domain), then \<open>__get_users\<close>. The
  object is the list of domains and the accounts of each.\<close>

definition ad_users_new ::
  "resolver \<Rightarrow> net \<Rightarrow> osdb \<Rightarrow> idstore \<Rightarrow> ad_config \<Rightarrow> activedirectory list \<Rightarrow> ad_args \<Rightarrow>
   (net \<times> idstore \<times> (py_error + domain_desc list \<times> (string \<times> passwd list) list)) option" where
  "ad_users_new dns w os st cfg rows kw =
    (case ad_base_init dns w cfg rows kw of
       None \<Rightarrow> None
     | Some (w1, Inl e) \<Rightarrow> Some (w1, st, Inl e)
     | Some (w1, Inr s) \<Rightarrow>
         (case ad_get_domains dns w1 s (ad_domains_kw kw) of
            None \<Rightarrow> None
          | Some (w2, s2, Inl e) \<Rightarrow> Some (w2, st, Inl e)
          | Some (w2, s2, Inr ds) \<Rightarrow>
              (case (if has_flag (flags s2) FLAGS_CACHE_READ_USER \<or> has_flag (flags s2) FLAGS_CACHE_WRITE_USER
                     then domain_names ds else Inr []) of
                 Inl e \<Rightarrow> Some (w2, st, Inl e)
               | Inr _ \<Rightarrow> map_option (\<lambda>(w3, st3, _, r). (w3, st3, map_sum id (Pair ds) r))
                            (ad_users_fill dns w2 os st s2 ds))))"

text \<open>\<open>FreeNAS_ActiveDirectory_Groups.__init__\<close> (lines 1793--1818).\<close>

definition ad_groups_new ::
  "resolver \<Rightarrow> net \<Rightarrow> osdb \<Rightarrow> idstore \<Rightarrow> ad_config \<Rightarrow> activedirectory list \<Rightarrow> ad_args \<Rightarrow>
   (net \<times> idstore \<times> (py_error + domain_desc list \<times> (string \<times> grent list) list)) option" where
  "ad_groups_new dns w os st cfg rows kw =
    (case ad_base_init dns w cfg rows kw of
       None \<Rightarrow> None
     | Some (w1, Inl e) \<Rightarrow> Some (w1, st, Inl e)
     | Some (w1, Inr s) \<Rightarrow>
         (case ad_get_domains dns w1 s (ad_domains_kw kw) of
            None \<Rightarrow> None
          | Some (w2, s2, Inl e) \<Rightarrow> Some (w2, st, Inl e)
          | Some (w2, s2, Inr ds) \<Rightarrow>
              (case (if has_flag (flags s2) FLAGS_CACHE_READ_GROUP \<or> has_flag (flags s2) FLAGS_CACHE_WRITE_GROUP
                     then domain_names ds else Inr []) of
                 Inl e \<Rightarrow> Some (w2, st, Inl e)
               | Inr _ \<Rightarrow> map_option (\<lambda>(w3, st3, _, r). (w3, st3, map_sum id (Pair ds) r))
                            (ad_groups_fill dns w2 os st s2 ds))))"

text \<open>\<open>__len__\<close> of the collections (lines 1585--1589 and 1846--1850): the sum
  of the lengths of each domain's accounts.\<close>

definition ad_len :: "domain_desc list \<Rightarrow> (string \<times> 'v list) list \<Rightarrow> py_error + nat" where
  "ad_len ds m =
    foldl (\<lambda>r d. case r of
                   Inl e \<Rightarrow> Inl e
                 | Inr l \<Rightarrow> (case dict_get d ''nETBIOSName'' of
                              Inl e \<Rightarrow> Inl e
                            | Inr n \<Rightarrow> (case dict_get m n of Inl e \<Rightarrow> Inl e | Inr vs \<Rightarrow> Inr (l + length vs))))
          (Inr 0) ds"

text \<open>A collection as the factories return it: the accounts of the LDAP class,
  or the domains and per-domain accounts of the Active Directory class.\<close>

datatype 'v dir_coll = LdapColl "'v list" | AdColl "domain_desc list" "(string \<times> 'v list) list"

definition coll_iter :: "'v dir_coll \<Rightarrow> py_error + 'v list" where
  "coll_iter c = (case c of LdapColl vs \<Rightarrow> Inr vs | AdColl ds m \<Rightarrow> ad_iter ds m)"

definition coll_len :: "'v dir_coll \<Rightarrow> py_error + nat" where
  "coll_len c = (case c of LdapColl vs \<Rightarrow> Inr (length vs) | AdColl ds m \<Rightarrow> ad_len ds m)"

section \<open>Single Active Directory accounts\<close>

text \<open>\<open>__new__\<close> of \<open>FreeNAS_ActiveDirectory_User\<close>/\<open>_Group\<close> (lines 2205--2217 and
  2027--2039): an object only for a true argument whose second part, split at
  the separator, is non-empty; \<open>encode\<close> of a non-zero integer raises. The
  result is the NetBIOS name and the account name \<open>__init__\<close> takes from the
  first two parts.\<close>

definition ad_split_account :: "ident \<Rightarrow> py_error + (string \<times> string) option" where
  "ad_split_account a =
    (case a of
       IdInt n \<Rightarrow> (if n \<noteq> 0 then Inl AttributeError else Inr None)
     | IdNone \<Rightarrow> Inr None
     | IdStr x \<Rightarrow>
         (if x = [] then Inr None
          else (let parts = py_split (hd FREENAS_AD_SEPARATOR) x in
                if 1 < length parts \<and> parts ! 1 \<noteq> [] then Inr (Some (parts ! 0, parts ! 1)) else Inr None)))"

text \<open>\<open>self.__key\<close>: the upper-cased qualified name, set only when a cache flag is
  set.\<close>

definition ad_key :: "bool \<Rightarrow> string \<Rightarrow> string \<Rightarrow> string option" where
  "ad_key c nb x = (if c then Some (py_upper (nb @ FREENAS_AD_SEPARATOR @ x)) else None)"

text \<open>The account name to resolve: \<open>sAMAccountName\<close> of the entry, or the
  argument when there is none; qualified unless \<open>default\<close> or \<open>unix\<close> is set.
  The attribute is read outside the \<open>try\<close>.\<close>

definition ad_lookup_name :: "'a ad_base_scheme \<Rightarrow> string \<Rightarrow> string \<Rightarrow> entry option \<Rightarrow> py_error + string" where
  "ad_lookup_name s nb x e =
    map_sum id (ad_account_name (\<not> ad_default_or_unix s) nb)
      (case e of
         None \<Rightarrow> Inr x
       | Some u \<Rightarrow> (case dict_get (snd u) ''sAMAccountName'' of Inl err \<Rightarrow> Inl err | Inr vs \<Rightarrow> first_value vs))"

text \<open>The entry to resolve (lines 2251--2261 and 2073--2083): the base DN is
  re-read and the attributes set; the entry comes from the domain's directory
  tier when reading is enabled and it holds the key, otherwise from
  \<open>get_user\<close>/\<open>get_group\<close> (\<open>g\<close>).\<close>

definition ad_fetch_entry ::
  "bool \<Rightarrow> entry option kvcache \<Rightarrow> string option \<Rightarrow>
   (net \<Rightarrow> 'a ad_base_scheme \<Rightarrow> (net \<times> 'a ad_base_scheme \<times> (py_error + entry option)) option) \<Rightarrow>
   net \<Rightarrow> 'a ad_base_scheme \<Rightarrow> (net \<times> 'a ad_base_scheme \<times> (py_error + entry option)) option" where
  "ad_fetch_entry rd dc key g w s =
    (case ad_get_baseDN w s of
       None \<Rightarrow> None
     | Some (w1, s1, Inl e) \<Rightarrow> Some (w1, s1, Inl e)
     | Some (w1, s1, Inr bdn) \<Rightarrow>
         (let s2 = s1\<lparr>basedn := bdn, attributes := Some [''sAMAccountName'']\<rparr> in
          case (if rd then map_option (cache_get dc) key else None) of
            Some (Some e) \<Rightarrow> Some (w1, s2, Inr e)
          | _ \<Rightarrow> g w1 s2))"

text \<open>Resolving the entry's name (lines 2263--2279 and 2085--2101): the account, and when it
  resolves and writing is enabled, the account stored in the default resolved
  tier under the bare name and the entry in the domain's directory tier under
  the key.\<close>

definition ad_user_finish ::
  "osdb \<Rightarrow> idstore \<Rightarrow> 'a ad_base_scheme \<Rightarrow> bool \<Rightarrow> string \<Rightarrow> string \<Rightarrow> string option \<Rightarrow> entry option \<Rightarrow>
   idstore \<times> (py_error + passwd option)" where
  "ad_user_finish os st s wr nb x key au =
    (case ad_lookup_name s nb x au of
       Inl e \<Rightarrow> (st, Inl e)
     | Inr u \<Rightarrow>
         (case getpwnam os u of
            None \<Rightarrow> (st, Inr None)
          | Some pw \<Rightarrow>
              ((if wr then st\<lparr>ucache := (ucache st)(None := cache_put x pw (ucache st None)),
                             ducache := (ducache st)(Some nb := cache_put (the key) au (ducache st (Some nb)))\<rparr>
                else st), Inr (Some pw))))"

definition ad_group_finish ::
  "osdb \<Rightarrow> idstore \<Rightarrow> 'a ad_base_scheme \<Rightarrow> bool \<Rightarrow> string \<Rightarrow> string \<Rightarrow> string option \<Rightarrow> entry option \<Rightarrow>
   idstore \<times> (py_error + grent option)" where
  "ad_group_finish os st s wr nb x key ag =
    (case ad_lookup_name s nb x ag of
       Inl e \<Rightarrow> (st, Inl e)
     | Inr g \<Rightarrow>
         (case getgrnam os g of
            None \<Rightarrow> (st, Inr None)
          | Some gr \<Rightarrow>
              ((if wr then st\<lparr>gcache := (gcache st)(None := cache_put x gr (gcache st None)),
                             dgcache := (dgcache st)(Some nb := cache_put (the key) ag (dgcache st (Some nb)))\<rparr>
                else st), Inr (Some gr))))"

text \<open>The lookup proper: fetch the entry, then resolve and store it.\<close>

definition ad_user_lookup ::
  "net \<Rightarrow> osdb \<Rightarrow> idstore \<Rightarrow> 'a ad_base_scheme \<Rightarrow> string \<Rightarrow> string \<Rightarrow> bool \<Rightarrow> bool \<Rightarrow> string option \<Rightarrow>
   (net \<times> idstore \<times> 'a ad_base_scheme \<times> (py_error + passwd option)) option" where
  "ad_user_lookup w os st s nb x rd wr key =
    map_option (\<lambda>(w2, s3, r). case r of
                                Inl e \<Rightarrow> (w2, st, s3, Inl e)
                              | Inr e \<Rightarrow> (case ad_user_finish os st s3 wr nb x key e of (st1, r1) \<Rightarrow> (w2, st1, s3, r1)))
      (ad_fetch_entry rd (ducache st (Some nb)) key (\<lambda>w1 s2. ad_get_user w1 s2 (IdStr x)) w s)"

text \<open>\<open>FreeNAS_ActiveDirectory_User.__get_user\<close> (lines 2241--2280). A hit in the
  default (not per-domain) resolved tier returns without assigning
  \<open>self._pw\<close>, so the result is \<open>None\<close>. The result is \<open>self._pw\<close>.\<close>

definition ad_get_user_cached ::
  "net \<Rightarrow> osdb \<Rightarrow> idstore \<Rightarrow> 'a ad_base_scheme \<Rightarrow> string \<Rightarrow> string \<Rightarrow>
   (net \<times> idstore \<times> 'a ad_base_scheme \<times> (py_error + passwd option)) option" where
  "ad_get_user_cached w os st s nb x =
    (let rd = has_flag (flags s) FLAGS_CACHE_READ_USER; wr = has_flag (flags s) FLAGS_CACHE_WRITE_USER;
         key = ad_key (rd \<or> wr) nb x in
     if rd \<and> cache_get (ucache st None) x \<noteq> None then Some (w, st, s, Inr None)
     else
       ad_user_lookup w os st s nb x rd wr key)"

text \<open>The lookup proper: fetch the entry, then resolve and store it.\<close>

definition ad_group_lookup ::
  "net \<Rightarrow> osdb \<Rightarrow> idstore \<Rightarrow> 'a ad_base_scheme \<Rightarrow> string \<Rightarrow> string \<Rightarrow> bool \<Rightarrow> bool \<Rightarrow> string option \<Rightarrow>
   (net \<times> idstore \<times> 'a ad_base_scheme \<times> (py_error + grent option)) option" where
  "ad_group_lookup w os st s nb x rd wr key =
    map_option (\<lambda>(w2, s3, r). case r of
                                Inl e \<Rightarrow> (w2, st, s3, Inl e)
                              | Inr e \<Rightarrow> (case ad_group_finish os st s3 wr nb x key e of (st1, r1) \<Rightarrow> (w2, st1, s3, r1)))
      (ad_fetch_entry rd (dgcache st (Some nb)) key (\<lambda>w1 s2. ad_get_group w1 s2 (IdStr x)) w s)"

text \<open>\<open>FreeNAS_ActiveDirectory_Group.__get_group\<close> (lines 2063--2102).\<close>

definition ad_get_group_cached ::
  "net \<Rightarrow> osdb \<Rightarrow> idstore \<Rightarrow> 'a ad_base_scheme \<Rightarrow> string \<Rightarrow> string \<Rightarrow>
   (net \<times> idstore \<times> 'a ad_base_scheme \<times> (py_error + grent option)) option" where
  "ad_get_group_cached w os st s nb x =
    (let rd = has_flag (flags s) FLAGS_CACHE_READ_GROUP; wr = has_flag (flags s) FLAGS_CACHE_WRITE_GROUP;
         key = ad_key (rd \<or> wr) nb x in
     if rd \<and> cache_get (gcache st None) x \<noteq> None then Some (w, st, s, Inr None)
     else
       ad_group_lookup w os st s nb x rd wr key)"

text \<open>\<open>FreeNAS_ActiveDirectory_User(user, **kwargs)\<close> (lines 2204--2239): the
  split, the connection built with \<open>netbiosname\<close> set to the first part, and
  the lookup of the second. \<open>Inr None\<close> is both "no object" and \<open>_pw = None\<close>.\<close>

definition ad_user_new ::
  "resolver \<Rightarrow> net \<Rightarrow> osdb \<Rightarrow> idstore \<Rightarrow> ad_config \<Rightarrow> activedirectory list \<Rightarrow> ad_args \<Rightarrow> ident \<Rightarrow>
   (net \<times> idstore \<times> (py_error + passwd option)) option" where
  "ad_user_new dns w os st cfg rows kw u =
    (case ad_split_account u of
       Inl e \<Rightarrow> Some (w, st, Inl e)
     | Inr None \<Rightarrow> Some (w, st, Inr None)
     | Inr (Some (nb, x)) \<Rightarrow>
         (case ad_base_init dns w cfg rows (kw\<lparr>ad_a_netbiosname := Some nb\<rparr>) of
            None \<Rightarrow> None
          | Some (w1, Inl e) \<Rightarrow> Some (w1, st, Inl e)
          | Some (w1, Inr s) \<Rightarrow> map_option (\<lambda>(w2, st2, _, r). (w2, st2, r)) (ad_get_user_cached w1 os st s nb x)))"

text \<open>\<open>FreeNAS_ActiveDirectory_Group(group, **kwargs)\<close> (lines 2026--2061).\<close>

definition ad_group_new ::
  "resolver \<Rightarrow> net \<Rightarrow> osdb \<Rightarrow> idstore \<Rightarrow> ad_config \<Rightarrow> activedirectory list \<Rightarrow> ad_args \<Rightarrow> ident \<Rightarrow>
   (net \<times> idstore \<times> (py_error + grent option)) option" where
  "ad_group_new dns w os st cfg rows kw g =
    (case ad_split_account g of
       Inl e \<Rightarrow> Some (w, st, Inl e)
     | Inr None \<Rightarrow> Some (w, st, Inr None)
     | Inr (Some (nb, x)) \<Rightarrow>
         (case ad_base_init dns w cfg rows (kw\<lparr>ad_a_netbiosname := Some nb\<rparr>) of
            None \<Rightarrow> None
          | Some (w1, Inl e) \<Rightarrow> Some (w1, st, Inl e)
          | Some (w1, Inr s) \<Rightarrow> map_option (\<lambda>(w2, st2, _, r). (w2, st2, r)) (ad_get_group_cached w1 os st s nb x)))"

section \<open>The factories\<close>

text \<open>\<open>FreeNAS_Directory_Users(**kwargs)\<close> (lines 1672--1688): the LDAP class
  when \<open>FLAGS_LDAP_ENABLED\<close> is set, else the Active Directory class when
  \<open>FLAGS_AD_ENABLED\<close> is set, else \<open>None\<close>. Each class reads its row from the
  configuration database.\<close>

definition directory_users ::
  "resolver \<Rightarrow> net \<Rightarrow> osdb \<Rightarrow> idstore \<Rightarrow> freenas_db \<Rightarrow> ad_config \<Rightarrow> base_args \<Rightarrow> ad_args \<Rightarrow> int option \<Rightarrow>
   (net \<times> idstore \<times> (py_error + passwd dir_coll option)) option" where
  "directory_users dns w os st db cfg kwl kwa df =
    (let d = dflags_of df in
     if has_flag d FLAGS_LDAP_ENABLED then
       map_option (\<lambda>(w', st', r). (w', st', map_sum id (Some \<circ> LdapColl) r))
         (ldap_users_new w os st (ldap_objects db) kwl)
     else if has_flag d FLAGS_AD_ENABLED then
       map_option (\<lambda>(w', st', r). (w', st', map_sum id (\<lambda>(ds, m). Some (AdColl ds m)) r))
         (ad_users_new dns w os st cfg (activedirectory_objects db) kwa)
     else Some (w, st, Inr None))"

text \<open>\<open>FreeNAS_Directory_Groups(**kwargs)\<close> (lines 1933--1949).\<close>

definition directory_groups ::
  "resolver \<Rightarrow> net \<Rightarrow> osdb \<Rightarrow> idstore \<Rightarrow> freenas_db \<Rightarrow> ad_config \<Rightarrow> base_args \<Rightarrow> ad_args \<Rightarrow> int option \<Rightarrow>
   (net \<times> idstore \<times> (py_error + grent dir_coll option)) option" where
  "directory_groups dns w os st db cfg kwl kwa df =
    (let d = dflags_of df in
     if has_flag d FLAGS_LDAP_ENABLED then
       map_option (\<lambda>(w', st', r). (w', st', map_sum id (Some \<circ> LdapColl) r))
         (ldap_groups_new w os st (ldap_objects db) kwl)
     else if has_flag d FLAGS_AD_ENABLED then
       map_option (\<lambda>(w', st', r). (w', st', map_sum id (\<lambda>(ds, m). Some (AdColl ds m)) r))
         (ad_groups_new dns w os st cfg (activedirectory_objects db) kwa)
     else Some (w, st, Inr None))"

text \<open>\<open>FreeNAS_Directory_User(user, **kwargs)\<close> (lines 2283--2303): the class
  chosen as above; an object whose \<open>_pw\<close> is \<open>None\<close> is dropped, so the result is
  the account or \<open>None\<close>.\<close>

definition directory_user ::
  "resolver \<Rightarrow> net \<Rightarrow> osdb \<Rightarrow> idstore \<Rightarrow> freenas_db \<Rightarrow> ad_config \<Rightarrow> base_args \<Rightarrow> ad_args \<Rightarrow> int option \<Rightarrow> ident \<Rightarrow>
   (net \<times> idstore \<times> (py_error + passwd option)) option" where
  "directory_user dns w os st db cfg kwl kwa df u =
    (let d = dflags_of df in
     if has_flag d FLAGS_LDAP_ENABLED then ldap_user_new w os st (ldap_objects db) kwl u
     else if has_flag d FLAGS_AD_ENABLED then ad_user_new dns w os st cfg (activedirectory_objects db) kwa u
     else Some (w, st, Inr None))"

text \<open>\<open>FreeNAS_Directory_Group(group, **kwargs)\<close> (lines 2105--2125).\<close>

definition directory_group ::
  "resolver \<Rightarrow> net \<Rightarrow> osdb \<Rightarrow> idstore \<Rightarrow> freenas_db \<Rightarrow> ad_config \<Rightarrow> base_args \<Rightarrow> ad_args \<Rightarrow> int option \<Rightarrow> ident \<Rightarrow>
   (net \<times> idstore \<times> (py_error + grent option)) option" where
  "directory_group dns w os st db cfg kwl kwa df g =
    (let d = dflags_of df in
     if has_flag d FLAGS_LDAP_ENABLED then ldap_group_new w os st (ldap_objects db) kwl g
     else if has_flag d FLAGS_AD_ENABLED then ad_group_new dns w os st cfg (activedirectory_objects db) kwa g
     else Some (w, st, Inr None))"

section \<open>Properties\<close>

lemma ad_len_iter_fold:
  "foldl (\<lambda>r d. case r of Inl e \<Rightarrow> Inl e
                 | Inr l \<Rightarrow> (case dict_get d ''nETBIOSName'' of Inl e \<Rightarrow> Inl e
                            | Inr n \<Rightarrow> (case dict_get m n of Inl e \<Rightarrow> Inl e | Inr vs \<Rightarrow> Inr (l + length vs))))
         (map_sum id length r) ds =
   map_sum id length
     (foldl (\<lambda>r d. case r of Inl e \<Rightarrow> Inl e
                    | Inr acc \<Rightarrow> (case dict_get d ''nETBIOSName'' of Inl e \<Rightarrow> Inl e
                                 | Inr n \<Rightarrow> (case dict_get m n of Inl e \<Rightarrow> Inl e | Inr vs \<Rightarrow> Inr (acc @ vs))))
            r ds)"
proof (induction ds arbitrary: r)
  case (Cons a ds)
  show ?case
  proof (cases r)
    case (Inl e)
    then show ?thesis by simp
  next
    case (Inr acc)
    then show ?thesis using Cons.IH [of "case dict_get a ''nETBIOSName'' of Inl e \<Rightarrow> Inl e
        | Inr n \<Rightarrow> (case dict_get m n of Inl e \<Rightarrow> Inl e | Inr vs \<Rightarrow> Inr (acc @ vs))"]
      by (auto split: sum.splits)
  qed
qed simp


text \<open>\<open>__new__\<close> splits a name qualified with the separator back into its
  NetBIOS name and account name.\<close>

lemma ad_split_account_qualified:
  assumes "hd FREENAS_AD_SEPARATOR \<notin> set nb" "hd FREENAS_AD_SEPARATOR \<notin> set x" "x \<noteq> []"
  shows "ad_split_account (IdStr (ad_account_name True nb x)) = Inr (Some (nb, x))"
proof -
  have sep: "FREENAS_AD_SEPARATOR = [hd FREENAS_AD_SEPARATOR]" by (simp add: FREENAS_AD_SEPARATOR_def)
  have "py_split (hd FREENAS_AD_SEPARATOR) (nb @ FREENAS_AD_SEPARATOR @ x) = [nb, x]"
    using assms by (subst sep) (simp add: py_split_append_sep)
  then show ?thesis using assms(3) by (simp add: ad_split_account_def ad_account_name_def)
qed

text \<open>The write tier: a lookup that resolves an account with the write flag set
  leaves it in the per-process cache, so a later lookup with the read flag is
  answered from there without touching the directory.\<close>

lemma ad_user_finish_writes:
  assumes "ad_user_finish os st s wr nb x key au = (st', Inr (Some pw))" and "wr"
  shows "cache_get (ucache st' None) x = Some pw"
  using assms by (auto simp: ad_user_finish_def cache_get_def cache_put_def update_conv' split: sum.splits option.splits)

lemma finish_after_fetch:
  assumes "map_option (\<lambda>(w2, s3, r). case r of Inl e \<Rightarrow> (w2, st, s3, Inl e)
                                   | Inr au \<Rightarrow> (case fin s3 au of (st1, r1) \<Rightarrow> (w2, st1, s3, r1))) m
           = Some (w', st', s', Inr v)"
  shows "\<exists>au. fin s' au = (st', Inr v)"
proof -
  obtain w2 s3 r where m: "m = Some (w2, s3, r)" using assms by (cases m) auto
  show ?thesis
  proof (cases r)
    case (Inl e)
    then show ?thesis using assms m by simp
  next
    case (Inr au)
    obtain st1 r1 where f: "fin s3 au = (st1, r1)" by (cases "fin s3 au") auto
    then show ?thesis using assms m Inr by auto
  qed
qed

lemma ad_user_lookup_writes:
  assumes "ad_user_lookup w os st s nb x rd wr key = Some (w', st', s', Inr (Some pw))" and "wr"
  shows "cache_get (ucache st' None) x = Some pw"
proof -
  have "\<exists>au. ad_user_finish os st s' wr nb x key au = (st', Inr (Some pw))"
    by (rule finish_after_fetch) (use assms(1) in \<open>simp only: ad_user_lookup_def\<close>)
  then obtain au where "ad_user_finish os st s' wr nb x key au = (st', Inr (Some pw))" by blast
  then show ?thesis using assms(2) ad_user_finish_writes by blast
qed

lemma ad_get_user_cached_writes:
  assumes r: "ad_get_user_cached w os st s nb x = Some (w', st', s', Inr (Some pw))"
    and wr: "has_flag (flags s) FLAGS_CACHE_WRITE_USER"
  shows "cache_get (ucache st' None) x = Some pw"
proof (cases "has_flag (flags s) FLAGS_CACHE_READ_USER \<and> cache_get (ucache st None) x \<noteq> None")
  case True
  then have "ad_get_user_cached w os st s nb x = Some (w, st, s, Inr None)"
    by (simp only: ad_get_user_cached_def Let_def simp_thms if_True)
  then show ?thesis using r by simp
next
  case False
  then have "ad_user_lookup w os st s nb x (has_flag (flags s) FLAGS_CACHE_READ_USER) (has_flag (flags s) FLAGS_CACHE_WRITE_USER)
               (ad_key (has_flag (flags s) FLAGS_CACHE_READ_USER \<or> has_flag (flags s) FLAGS_CACHE_WRITE_USER) nb x)
             = Some (w', st', s', Inr (Some pw))"
    using r by (simp only: ad_get_user_cached_def Let_def if_False)
  then show ?thesis using wr ad_user_lookup_writes by blast
qed

lemma ad_cached_user_lookup_fails:
  assumes "ad_get_user_cached w os st s nb x = Some (w', st', s', Inr (Some pw))"
    and "has_flag (flags s) FLAGS_CACHE_WRITE_USER" "has_flag (flags s2) FLAGS_CACHE_READ_USER"
  shows "ad_get_user_cached w2 os st' s2 nb2 x = Some (w2, st', s2, Inr None)"
proof -
  have "has_flag (flags s2) FLAGS_CACHE_READ_USER \<and> cache_get (ucache st' None) x \<noteq> None"
    using ad_get_user_cached_writes [OF assms(1,2)] assms(3) by simp
  then show ?thesis by (simp only: ad_get_user_cached_def Let_def simp_thms if_True)
qed

end
