(* ===== verification/CacheTool.thy ===== *)
theory CacheTool
  imports Dispatch
begin

text \<open>
  The cache maintenance tool \<open>src/gui/tools/cachetool.py\<close>: the sub-commands
  \<open>keys\<close>, \<open>rawdump\<close>, \<open>check\<close> and \<open>count\<close> print the four cache tiers of the
  identity store (\<open>IdentityCache\<close>), per domain when Active Directory or NT4 is
  the enabled directory service and the default (domain-less) tiers otherwise;
  \<open>main\<close> picks the sub-command from the command line. The printed lines are
  kept as values of \<open>cache_line\<close> rather than formatted text. The domains of
  Active Directory come from \<open>get_domains\<close> of an object built with
  \<open>FLAGS_DBINIT\<close>; the NT4 domains and the NT4 directory tiers belong to
  \<open>freenasnt4.py\<close>, which is not part of the source tree, and are inputs. The
  lemmas relate \<open>count\<close> to \<open>keys\<close> and show the \<open>NameError\<close> of \<open>check\<close>.
\<close>

section \<open>Printed lines and the environment\<close>

datatype cache_val = VPw passwd | VGr grent | VEnt "entry option"

text \<open>\<open>"w: %s"\<close>, \<open>"<tier> key: %s"\<close>, \<open>"<tier>: %s=%s"\<close>, \<open>"%s: %s"\<close> of \<open>check\<close>,
  \<open>"<tier>: %ld"\<close> of \<open>count\<close>, and the empty line.\<close>

datatype cache_line =
    LWork string
  | LKey string string
  | LVal string string cache_val
  | LFound string cache_val
  | LCount string nat
  | LBlank

record tool_env =
  te_dns :: resolver
  te_net :: net
  te_cfg :: ad_config
  te_db :: freenas_db
  te_store :: idstore
  te_nt4_domains :: "string list"
  te_nt4_counts :: "string \<Rightarrow> nat \<times> nat"

text \<open>A cache is true when it holds an entry (\<open>if ucache:\<close>).\<close>

definition cache_nonempty :: "'v kvcache \<Rightarrow> bool" where
  "cache_nonempty c = (kv_entries c \<noteq> [])"

text \<open>\<open>_cachelen\<close> (lines 52--61).\<close>

definition cachelen :: "'v kvcache \<Rightarrow> nat" where
  "cachelen c = length (kv_entries c)"

section \<open>Printing the tiers\<close>

definition tier_keys :: "string \<Rightarrow> 'v kvcache \<Rightarrow> cache_line list" where
  "tier_keys t c = (if cache_nonempty c then map (\<lambda>(k, _). LKey t k) (kv_entries c) else [])"

definition tier_vals :: "string \<Rightarrow> ('v \<Rightarrow> cache_val) \<Rightarrow> 'v kvcache \<Rightarrow> cache_line list" where
  "tier_vals t f c = (if cache_nonempty c then map (\<lambda>(k, v). LVal t k (f v)) (kv_entries c) else [])"

text \<open>The keys of the four tiers of one directory (\<open>None\<close>: the default one).\<close>

definition store_keys :: "idstore \<Rightarrow> string option \<Rightarrow> cache_line list" where
  "store_keys st d =
    tier_keys ''u'' (ucache st d) @ tier_keys ''g'' (gcache st d) @
    tier_keys ''du'' (ducache st d) @ tier_keys ''dg'' (dgcache st d)"

definition store_vals :: "idstore \<Rightarrow> string option \<Rightarrow> cache_line list" where
  "store_vals st d =
    tier_vals ''u'' VPw (ucache st d) @ tier_vals ''g'' VGr (gcache st d) @
    tier_vals ''du'' VEnt (ducache st d) @ tier_vals ''dg'' VEnt (dgcache st d)"

definition store_counts :: "idstore \<Rightarrow> string option \<Rightarrow> cache_line list" where
  "store_counts st d =
    [LCount ''u'' (cachelen (ucache st d)), LCount ''g'' (cachelen (gcache st d)),
     LCount ''du'' (cachelen (ducache st d)), LCount ''dg'' (cachelen (dgcache st d)), LBlank]"

section \<open>The domains\<close>

text \<open>\<open>FreeNAS_ActiveDirectory(flags=FLAGS_DBINIT).get_domains()\<close>.\<close>

definition tool_ad_args :: ad_args where
  "tool_ad_args = \<lparr>ad_a_domain = None, ad_a_netbiosname = None, ad_a_host = None, ad_a_port = None,
     ad_a_binddn = None, ad_a_bindpw = None, ad_a_flags = Some (2 ^ FLAGS_DBINIT)\<rparr>"

definition tool_ad_domains :: "tool_env \<Rightarrow> (py_error + domain_desc list) option" where
  "tool_ad_domains te =
    (case ad_base_init (te_dns te) (te_net te) (te_cfg te) (activedirectory_objects (te_db te)) tool_ad_args of
       None \<Rightarrow> None
     | Some (w1, Inl e) \<Rightarrow> Some (Inl e)
     | Some (w1, Inr s) \<Rightarrow> map_option (\<lambda>(_, _, r). r) (ad_get_domains (te_dns te) w1 s []))"

text \<open>The loop over the Active Directory domains: \<open>workgroup = d['nETBIOSName']\<close>
  raises after the lines of the earlier domains are printed.\<close>

fun ad_domain_lines :: "(string \<Rightarrow> cache_line list) \<Rightarrow> domain_desc list \<Rightarrow> cache_line list \<times> (py_error + unit)" where
  "ad_domain_lines f [] = ([], Inr ())"
| "ad_domain_lines f (d # ds) =
     (case dict_get d ''nETBIOSName'' of
        Inl e \<Rightarrow> ([], Inl e)
      | Inr n \<Rightarrow> (let (ls, r) = ad_domain_lines f ds in (f n @ ls, r)))"

text \<open>The dispatch shared by \<open>cache_keys\<close>, \<open>cache_rawdump\<close> and \<open>cache_count\<close>
  (lines 185--196, 275--286, 516--527): Active Directory, else NT4, else LDAP
  or nothing, the last two alike.\<close>

definition tool_run ::
  "tool_env \<Rightarrow> (string \<Rightarrow> cache_line list) \<Rightarrow> (string \<Rightarrow> cache_line list) \<Rightarrow> cache_line list \<Rightarrow>
   (cache_line list \<times> (py_error + unit)) option" where
  "tool_run te fad fnt dflt =
    (if activedirectory_enabled (te_db te) then
       (case tool_ad_domains te of
          None \<Rightarrow> None
        | Some (Inl e) \<Rightarrow> Some ([], Inl e)
        | Some (Inr ds) \<Rightarrow> Some (ad_domain_lines fad ds))
     else if nt4_enabled (te_db te) then Some (concat (map fnt (te_nt4_domains te)), Inr ())
     else if ldap_enabled (te_db te) then Some (dflt, Inr ())
     else Some (dflt, Inr ()))"

section \<open>The sub-commands keys, rawdump and count\<close>

text \<open>\<open>cache_keys\<close> and its three helpers (lines 108--196).\<close>

definition cache_keys :: "tool_env \<Rightarrow> (cache_line list \<times> (py_error + unit)) option" where
  "cache_keys te =
    tool_run te (\<lambda>n. LWork n # store_keys (te_store te) (Some n)) (\<lambda>n. LWork n # store_keys (te_store te) (Some n))
      (store_keys (te_store te) None)"

text \<open>\<open>cache_rawdump\<close> and its helpers (lines 199--286); the default variant
  prints the users' tier without testing it first, which prints the same.\<close>

definition cache_rawdump :: "tool_env \<Rightarrow> (cache_line list \<times> (py_error + unit)) option" where
  "cache_rawdump te =
    tool_run te (\<lambda>n. LWork n # store_vals (te_store te) (Some n)) (\<lambda>n. LWork n # store_vals (te_store te) (Some n))
      (store_vals (te_store te) None)"

text \<open>\<open>cache_count\<close> and its helpers (lines 483--527); the NT4 variant counts
  the NT4 directory tiers.\<close>

definition cache_count :: "tool_env \<Rightarrow> (cache_line list \<times> (py_error + unit)) option" where
  "cache_count te =
    tool_run te (\<lambda>n. LWork n # store_counts (te_store te) (Some n))
      (\<lambda>n. [LWork n, LCount ''u'' (cachelen (ucache (te_store te) (Some n))),
             LCount ''g'' (cachelen (gcache (te_store te) (Some n))),
             LCount ''du'' (fst (te_nt4_counts te n)), LCount ''dg'' (snd (te_nt4_counts te n)), LBlank])
      (store_counts (te_store te) None)"

section \<open>The sub-command check\<close>

text \<open>The argument prefixes of the per-domain variants (lines 303--318): the
  first of \<open>u=\<close>, \<open>g=\<close>, \<open>du=\<close>, \<open>dg=\<close> the argument starts with, and the rest of
  the argument after it; other arguments are skipped.\<close>

definition check_prefix :: "string \<Rightarrow> (string \<times> string) option" where
  "check_prefix arg =
    (if py_startswith arg ''u='' then Some (''u'', drop 2 arg)
     else if py_startswith arg ''g='' then Some (''g'', drop 2 arg)
     else if py_startswith arg ''du='' then Some (''du'', drop 3 arg)
     else if py_startswith arg ''dg='' then Some (''dg'', drop 3 arg)
     else None)"

text \<open>A tier's entry is printed when the tier is true, holds the key, and the
  value is true (accounts always are; a directory entry unless \<open>None\<close>).\<close>

definition found_pw :: "string \<Rightarrow> passwd kvcache \<Rightarrow> cache_line list" where
  "found_pw k c = (case cache_get c k of Some v \<Rightarrow> if cache_nonempty c then [LFound k (VPw v)] else [] | None \<Rightarrow> [])"

definition found_gr :: "string \<Rightarrow> grent kvcache \<Rightarrow> cache_line list" where
  "found_gr k c = (case cache_get c k of Some v \<Rightarrow> if cache_nonempty c then [LFound k (VGr v)] else [] | None \<Rightarrow> [])"

definition found_ent :: "string \<Rightarrow> entry option kvcache \<Rightarrow> cache_line list" where
  "found_ent k c = (case cache_get c k of Some (Some e) \<Rightarrow> if cache_nonempty c then [LFound k (VEnt (Some e))] else [] | _ \<Rightarrow> [])"

text \<open>One argument of \<open>_cache_check_ActiveDirectory\<close> and \<open>_cache_check_NT4\<close>
  (lines 289--431), given the valid workgroups in the order \<open>valid.keys()\<close>
  yields them. \<open>u\<close>/\<open>g\<close> look the whole value up in the tier of the workgroup
  before the separator; \<open>du\<close>/\<open>dg\<close> look it up in the tier of every valid
  workgroup. The two variants differ in one place: the Active Directory one
  (\<open>ad\<close>) tests \<open>dgache.has_key(val)\<close> (line 358), a name that is not defined, as
  soon as a workgroup's \<open>dg\<close> tier is true.\<close>

fun check_dg_loop :: "bool \<Rightarrow> idstore \<Rightarrow> string \<Rightarrow> string list \<Rightarrow> cache_line list \<times> (py_error + unit)" where
  "check_dg_loop ad st v [] = ([], Inr ())"
| "check_dg_loop ad st v (wg # wgs) =
     (if ad \<and> cache_nonempty (dgcache st (Some wg)) then ([], Inl NameError)
      else (let (ls, r) = check_dg_loop ad st v wgs in (found_ent v (dgcache st (Some wg)) @ ls, r)))"

definition check_dom_arg :: "bool \<Rightarrow> idstore \<Rightarrow> string list \<Rightarrow> string \<Rightarrow> cache_line list \<times> (py_error + unit)" where
  "check_dom_arg ad st valid arg =
    (case check_prefix arg of
       None \<Rightarrow> ([], Inr ())
     | Some (k, v) \<Rightarrow>
         (if k = ''u'' \<or> k = ''g'' then
            (let parts = py_split (hd FREENAS_AD_SEPARATOR) v in
             if length parts < 2 \<or> hd parts \<notin> set valid then ([], Inr ())
             else if k = ''u'' then (found_pw v (ucache st (Some (hd parts))), Inr ())
             else (found_gr v (gcache st (Some (hd parts))), Inr ()))
          else if k = ''du'' then (concat (map (\<lambda>wg. found_ent v (ducache st (Some wg))) valid), Inr ())
          else check_dg_loop ad st v valid))"

text \<open>One argument of \<open>_cache_check_default\<close> (lines 434--466): the key before
  the first \<open>=\<close> and the rest joined back, looked up in the default tiers.\<close>

definition check_default_arg :: "idstore \<Rightarrow> string \<Rightarrow> cache_line list \<times> (py_error + unit)" where
  "check_default_arg st arg =
    (let parts = py_split (CHR ''='') arg; k = hd parts; v = py_str_join ''='' (tl parts) in
     if k = ''u'' then (found_pw v (ucache st None), Inr ())
     else if k = ''g'' then (found_gr v (gcache st None), Inr ())
     else if k = ''du'' then (found_ent v (ducache st None), Inr ())
     else if k = ''dg'' then (found_ent v (dgcache st None), Inr ())
     else ([], Inr ()))"

text \<open>\<open>for arg in kwargs['args']\<close>: the lines of each argument in turn, up to the
  first exception.\<close>

fun check_loop :: "(string \<Rightarrow> cache_line list \<times> (py_error + unit)) \<Rightarrow> string list \<Rightarrow> cache_line list \<times> (py_error + unit)" where
  "check_loop f [] = ([], Inr ())"
| "check_loop f (a # as) =
     (case f a of
        (ls, Inl e) \<Rightarrow> (ls, Inl e)
      | (ls, Inr ()) \<Rightarrow> (let (ls', r) = check_loop f as in (ls @ ls', r)))"

text \<open>\<open>cache_check\<close> (lines 469--480) with the keyword \<open>args\<close> (\<open>None\<close> when the
  key is absent). The guard \<open>not kwargs.has_key('args') and kwargs['args']\<close> of
  each variant never returns: with the key present it is false, without it
  \<open>kwargs['args']\<close> raises \<open>KeyError\<close>.\<close>

definition cache_check :: "tool_env \<Rightarrow> string list option \<Rightarrow> (cache_line list \<times> (py_error + unit)) option" where
  "cache_check te args =
    (case args of
       None \<Rightarrow> Some ([], Inl KeyError)
     | Some as \<Rightarrow>
         (if activedirectory_enabled (te_db te) then
            (case tool_ad_domains te of
               None \<Rightarrow> None
             | Some (Inl e) \<Rightarrow> Some ([], Inl e)
             | Some (Inr ds) \<Rightarrow>
                 (case domain_names ds of
                    Inl e \<Rightarrow> Some ([], Inl e)
                  | Inr valid \<Rightarrow> Some (check_loop (check_dom_arg True (te_store te) (remdups valid)) as)))
          else if nt4_enabled (te_db te) then
            Some (check_loop (check_dom_arg False (te_store te) (remdups (te_nt4_domains te))) as)
          else Some (check_loop (check_default_arg (te_store te)) as)))"

section \<open>The command line\<close>

datatype cache_cmd = CmdFill | CmdExpire | CmdDump | CmdKeys | CmdRawdump | CmdCheck | CmdCount

text \<open>\<open>cache_funcs\<close> of \<open>main\<close> (lines 531--538).\<close>

definition cache_funcs :: "(string \<times> cache_cmd) list" where
  "cache_funcs = [(''fill'', CmdFill), (''expire'', CmdExpire), (''dump'', CmdDump), (''keys'', CmdKeys),
                  (''rawdump'', CmdRawdump), (''check'', CmdCheck), (''count'', CmdCount)]"

text \<open>\<open>main\<close> (lines 530--552): \<open>usage\<close> exits without a sub-command or with an
  unknown one; otherwise the sub-command and \<open>kwargs['args'] = sys.argv[2:]\<close>.\<close>

definition main_dispatch :: "string list \<Rightarrow> py_error + cache_cmd \<times> string list" where
  "main_dispatch argv =
    (if length argv < 2 then Inl SystemExit
     else (case map_of cache_funcs (argv ! 1) of
             None \<Rightarrow> Inl SystemExit
           | Some c \<Rightarrow> Inr (c, drop 2 argv)))"

text \<open>A run of the tool: the printed lines and the outcome of a reporting
  sub-command, or the sub-command whose work is done by code outside the model
  (\<open>fill\<close> and \<open>dump\<close> through \<open>FreeNAS_Users\<close>/\<open>FreeNAS_Groups\<close> of
  \<open>freenasusers.py\<close>, \<open>expire\<close> by removing files).\<close>

datatype tool_result = Printed "cache_line list" "py_error + unit" | Delegated cache_cmd

definition cache_main :: "tool_env \<Rightarrow> string list \<Rightarrow> tool_result option" where
  "cache_main te argv =
    (let printed = map_option (\<lambda>(ls, r). Printed ls r) in
     case main_dispatch argv of
       Inl e \<Rightarrow> Some (Printed [] (Inl e))
     | Inr (CmdKeys, _) \<Rightarrow> printed (cache_keys te)
     | Inr (CmdRawdump, _) \<Rightarrow> printed (cache_rawdump te)
     | Inr (CmdCheck, as) \<Rightarrow> printed (cache_check te (Some as))
     | Inr (CmdCount, _) \<Rightarrow> printed (cache_count te)
     | Inr (c, _) \<Rightarrow> Some (Delegated c))"

section \<open>Properties\<close>

text \<open>The \<open>dg=\<close> branch of \<open>check\<close>: the Active Directory variant stops with \<open>NameError\<close> at the first workgroup whose \<open>dg\<close> tier is true, so it can print nothing from the \<open>dg\<close> tiers; the NT4 variant prints every match.\<close>

lemma check_dg_loop_ad:
  "check_dg_loop True st v wgs =
     (if \<exists>wg\<in>set wgs. cache_nonempty (dgcache st (Some wg))
      then (concat (map (\<lambda>wg. found_ent v (dgcache st (Some wg))) (takeWhile (\<lambda>wg. \<not> cache_nonempty (dgcache st (Some wg))) wgs)), Inl NameError)
      else (concat (map (\<lambda>wg. found_ent v (dgcache st (Some wg))) wgs), Inr ()))"
  by (induction wgs) (auto simp: split_def)

lemma check_dg_loop_nt4:
  "check_dg_loop False st v wgs = (concat (map (\<lambda>wg. found_ent v (dgcache st (Some wg))) wgs), Inr ())"
  by (induction wgs) (auto simp: split_def)

lemma found_ent_empty: "\<not> cache_nonempty c \<Longrightarrow> found_ent k c = []"
  by (simp add: found_ent_def split: option.split)

text \<open>A \<open>dg=\<close> argument of the Active Directory \<open>check\<close> prints nothing: it raises \<open>NameError\<close> when some workgroup has a true \<open>dg\<close> tier, and finds nothing otherwise.\<close>

theorem check_dg_ad_nameerror:
  assumes "check_prefix arg = Some (''dg'', v)"
  shows "check_dom_arg True st valid arg =
           (if \<exists>wg\<in>set valid. cache_nonempty (dgcache st (Some wg)) then ([], Inl NameError) else ([], Inr ()))"
proof -
  have "concat (map (\<lambda>wg. found_ent v (dgcache st (Some wg))) (takeWhile (\<lambda>wg. \<not> cache_nonempty (dgcache st (Some wg))) valid)) = []"
    by (auto dest: set_takeWhileD simp: found_ent_empty)
  moreover have "\<not> (\<exists>wg\<in>set valid. cache_nonempty (dgcache st (Some wg))) \<Longrightarrow>
                 concat (map (\<lambda>wg. found_ent v (dgcache st (Some wg))) valid) = []"
    by (auto simp: found_ent_empty)
  ultimately show ?thesis using assms by (simp add: check_dom_arg_def check_dg_loop_ad)
qed


text \<open>\<open>count\<close> agrees with \<open>keys\<close>: each tier's count is the number of keys printed for it.\<close>

lemma tier_keys_count:
  "length (filter (\<lambda>l. \<exists>k. l = LKey t k) (tier_keys t' c)) = (if t = t' then cachelen c else 0)"
  by (induction "kv_entries c") (auto simp: tier_keys_def cachelen_def cache_nonempty_def filter_map o_def split_def)

lemma store_keys_count:
  "length (filter (\<lambda>l. \<exists>k. l = LKey ''u'' k) (store_keys st d)) = cachelen (ucache st d)"
  "length (filter (\<lambda>l. \<exists>k. l = LKey ''g'' k) (store_keys st d)) = cachelen (gcache st d)"
  "length (filter (\<lambda>l. \<exists>k. l = LKey ''du'' k) (store_keys st d)) = cachelen (ducache st d)"
  "length (filter (\<lambda>l. \<exists>k. l = LKey ''dg'' k) (store_keys st d)) = cachelen (dgcache st d)"
  by (simp_all add: store_keys_def tier_keys_count)

text \<open>So \<open>cachetool check dg=...\<close> with Active Directory enabled ends with the exception as soon as a \<open>dg\<close> tier of a domain holds an entry.\<close>

theorem cache_check_ad_dg_nameerror:
  assumes "activedirectory_enabled (te_db te)" "tool_ad_domains te = Some (Inr ds)" "domain_names ds = Inr valid"
    and "\<exists>wg\<in>set valid. cache_nonempty (dgcache (te_store te) (Some wg))" "check_prefix a = Some (''dg'', v)"
  shows "cache_main te [p, ''check'', a] = Some (Printed [] (Inl NameError))"
proof -
  have "check_dom_arg True (te_store te) (remdups valid) a = ([], Inl NameError)"
    using check_dg_ad_nameerror [OF assms(5)] assms(4) by simp
  then show ?thesis
    using assms(1-3) by (simp add: cache_main_def main_dispatch_def cache_funcs_def cache_check_def)
qed

end
