(* ===== verification/ServiceForms.thy ===== *)
theory ServiceForms
  imports SystemDb "HOL-Library.AList"
begin

text \<open>
  The service forms of \<open>src/gui/services/forms.py\<close>: the validation methods
  (\<open>clean_<field>\<close> and \<open>clean\<close>) and the \<open>save\<close> methods that apply a change
  through the middleware notifier. The notifier (\<open>freenasUI.middleware.notifier\<close>,
  not part of the source tree) is an interface: what \<open>start\<close>, \<open>stop\<close>,
  \<open>restart\<close> and \<open>reload\<close> report (\<open>True\<close>, \<open>False\<close> or \<open>None\<close>: whether the
  service runs afterwards), whether a service runs (\<open>started\<close>,
  \<open>_started_<svc>\<close>), and the sequence of calls the form makes. The
  \<open>services\<close> table is that of the configuration database (\<open>ServiceModels\<close>).
  Django calls \<open>clean_<name>\<close> for each field \<open>name\<close> of the form in field order,
  then \<open>clean\<close>; a method whose name matches no field is never called. The
  lemmas show what \<open>servicesForm.save\<close> stores, the FTP umask round trip, and
  two defects of the FTP and SNMP forms.
\<close>

section \<open>The notifier and the services table\<close>

datatype ncall =
    NStartedQ string | NStart string | NStop string | NRestart string | NReload string | NClearAD

record notifier =
  n_running :: "string \<Rightarrow> bool"
  n_start :: "string \<Rightarrow> bool option"
  n_stop :: "string \<Rightarrow> bool option"
  n_restart :: "string \<Rightarrow> bool option"
  n_reload :: "string \<Rightarrow> bool option"

text \<open>\<open>models.services.objects.get(srv_service=name)\<close>.\<close>

definition services_get :: "services table \<Rightarrow> string \<Rightarrow> py_error + services" where
  "services_get t name =
    (case filter (\<lambda>r. srv_service r = name) (map snd t) of
       [] \<Rightarrow> Inl DoesNotExist
     | [r] \<Rightarrow> Inr r
     | _ \<Rightarrow> Inl MultipleObjectsReturned)"

text \<open>The tail shared by the \<open>save\<close> methods of the service forms: apply the
  change with \<open>restart\<close> (\<open>rs\<close>) or \<open>reload\<close>, and raise \<open>ServiceFailed\<close> when the
  service reports \<open>False\<close> while the row of \<open>chk\<close> is enabled (the row is read
  only then).\<close>

definition service_apply ::
  "notifier \<Rightarrow> services table \<Rightarrow> bool \<Rightarrow> string \<Rightarrow> string \<Rightarrow> py_error + ncall list \<times> bool option" where
  "service_apply nt t rs svc chk =
    (let started = (if rs then n_restart nt svc else n_reload nt svc);
         calls = [if rs then NRestart svc else NReload svc] in
     if started = Some False then
       (case services_get t chk of
          Inl e \<Rightarrow> Inl e
        | Inr r \<Rightarrow> (if srv_enable r then Inl ServiceFailed else Inr (calls, started)))
     else Inr (calls, started))"

section \<open>Enabling and disabling a service\<close>

definition DIRECTORY_SERVICES :: "string list" where
  "DIRECTORY_SERVICES = [''activedirectory'', ''domaincontroller'', ''ldap'', ''nt4'', ''nis'']"

text \<open>Every directory service other than \<open>svc\<close> that reports itself running is
  stopped.\<close>

definition stop_others :: "notifier \<Rightarrow> string \<Rightarrow> ncall list" where
  "stop_others nt svc =
    concat (map (\<lambda>ds. if ds \<noteq> svc then NStartedQ ds # (if n_running nt ds then [NStop ds] else []) else [])
                DIRECTORY_SERVICES)"

record services_saved =
  sv_table :: "services table"
  sv_calls :: "ncall list"
  sv_started :: "bool option"
  sv_enabled_svcs :: "string list"
  sv_disabled_svcs :: "string list"

text \<open>The end of \<open>servicesForm.save\<close>: the stored flag follows what the notifier
  reported; a directory service that fails to come up is stopped, as is a
  failing \<open>ups\<close>.\<close>

definition services_settle ::
  "nat \<Rightarrow> services \<Rightarrow> string option \<Rightarrow> services table \<Rightarrow> ncall list \<Rightarrow> bool option \<Rightarrow> services_saved \<Rightarrow> services_saved" where
  "services_settle i obj dsvc t calls started acc =
    (if started = Some True then
       acc\<lparr>sv_table := (if \<not> srv_enable obj then AList.update i (obj\<lparr>srv_enable := True\<rparr>) t else t),
           sv_calls := calls, sv_started := started\<rparr>
     else if started = Some False \<and> srv_enable obj then
       acc\<lparr>sv_table := AList.update i (obj\<lparr>srv_enable := False\<rparr>) t,
           sv_calls := calls @ (if srv_service obj = ''directoryservice'' then [NStop (the dsvc)]
                                else if srv_service obj = ''ups'' then [NStop ''ups''] else []),
           sv_started := started\<rparr>
     else acc\<lparr>sv_table := t, sv_calls := calls, sv_started := started\<rparr>)"

text \<open>\<open>servicesForm.save\<close> (lines 72--128) of the row \<open>i\<close> with the submitted
  values \<open>obj\<close>; \<open>dsvc\<close> is \<open>svc\<close> of the newest \<open>DirectoryService\<close> (\<open>None\<close>: there
  is none, and indexing raises). For the directory service the other directory
  services are stopped, the selected one started or stopped, and \<open>cifs\<close> is
  noted for a later start or stop; \<open>snmp\<close> and \<open>ssh\<close> are started or stopped;
  every other service is restarted.\<close>

definition services_form_save ::
  "notifier \<Rightarrow> string option \<Rightarrow> services table \<Rightarrow> nat \<Rightarrow> services \<Rightarrow> py_error + services_saved" where
  "services_form_save nt dsvc t i obj =
    (let t1 = AList.update i obj t;
         acc = \<lparr>sv_table = t1, sv_calls = [], sv_started = None, sv_enabled_svcs = [], sv_disabled_svcs = []\<rparr> in
     if srv_service obj = ''directoryservice'' then
       (case dsvc of
          None \<Rightarrow> Inl IndexError
        | Some svc \<Rightarrow>
            (let c1 = stop_others nt svc in
             if srv_enable obj then
               (case services_get t1 ''cifs'' of
                  Inl e \<Rightarrow> Inl e
                | Inr cifs \<Rightarrow>
                    Inr (services_settle i obj dsvc t1 (c1 @ [NStart svc]) (n_start nt svc)
                           (acc\<lparr>sv_enabled_svcs := (if srv_enable cifs then [''cifs''] else [])\<rparr>)))
             else
               (case services_get t1 ''cifs'' of
                  Inl e \<Rightarrow> Inl e
                | Inr cifs \<Rightarrow>
                    Inr (services_settle i obj dsvc t1 (c1 @ [NStop svc]) (n_stop nt svc)
                           (acc\<lparr>sv_disabled_svcs := (if \<not> srv_enable cifs then [''cifs''] else [])\<rparr>)))))
     else if srv_service obj \<in> {''snmp'', ''ssh''} then
       (if srv_enable obj then Inr (services_settle i obj dsvc t1 [NStart (srv_service obj)] (n_start nt (srv_service obj)) acc)
        else Inr (services_settle i obj dsvc t1 [NStop (srv_service obj)] (n_stop nt (srv_service obj)) acc))
     else Inr (services_settle i obj dsvc t1 [NRestart (srv_service obj)] (n_restart nt (srv_service obj)) acc))"

section \<open>Applying a form\<close>

text \<open>The \<open>save\<close> methods that end in \<open>service_apply\<close>: \<open>CIFSForm\<close> (lines
  181--192), \<open>AFPForm\<close> (200--208), \<open>NFSForm\<close> (290--300), \<open>FTPForm\<close> (378--386),
  \<open>TFTPForm\<close> (406--416), \<open>SSHForm\<close> (428--437), \<open>RsyncdForm\<close> (445--456),
  \<open>RsyncModForm\<close> (483--493), \<open>DynamicDNSForm\<close> (542--552), \<open>SNMPForm\<close>
  (581--591), \<open>UPSForm\<close> (692--700) and \<open>LDAPForm\<close> (873--878), which tests the
  \<open>directoryservice\<close> row instead of its own.\<close>

definition cifs_form_save :: "notifier \<Rightarrow> services table \<Rightarrow> py_error + ncall list \<times> bool option" where
  "cifs_form_save nt t = service_apply nt t True ''cifs'' ''cifs''"
definition afp_form_save :: "notifier \<Rightarrow> services table \<Rightarrow> py_error + ncall list \<times> bool option" where
  "afp_form_save nt t = service_apply nt t True ''afp'' ''afp''"
definition nfs_form_save :: "notifier \<Rightarrow> services table \<Rightarrow> py_error + ncall list \<times> bool option" where
  "nfs_form_save nt t = service_apply nt t True ''nfs'' ''nfs''"
definition ftp_form_save :: "notifier \<Rightarrow> services table \<Rightarrow> py_error + ncall list \<times> bool option" where
  "ftp_form_save nt t = service_apply nt t False ''ftp'' ''ftp''"
definition tftp_form_save :: "notifier \<Rightarrow> services table \<Rightarrow> py_error + ncall list \<times> bool option" where
  "tftp_form_save nt t = service_apply nt t False ''tftp'' ''tftp''"
definition ssh_form_save :: "notifier \<Rightarrow> services table \<Rightarrow> py_error + ncall list \<times> bool option" where
  "ssh_form_save nt t = service_apply nt t False ''ssh'' ''ssh''"
definition rsyncd_form_save :: "notifier \<Rightarrow> services table \<Rightarrow> py_error + ncall list \<times> bool option" where
  "rsyncd_form_save nt t = service_apply nt t False ''rsync'' ''rsync''"
definition rsyncmod_form_save :: "notifier \<Rightarrow> services table \<Rightarrow> py_error + ncall list \<times> bool option" where
  "rsyncmod_form_save nt t = service_apply nt t False ''rsync'' ''rsync''"
definition ddns_form_save :: "notifier \<Rightarrow> services table \<Rightarrow> py_error + ncall list \<times> bool option" where
  "ddns_form_save nt t = service_apply nt t True ''dynamicdns'' ''dynamicdns''"
definition snmp_form_save :: "notifier \<Rightarrow> services table \<Rightarrow> py_error + ncall list \<times> bool option" where
  "snmp_form_save nt t = service_apply nt t True ''snmp'' ''snmp''"
definition ups_form_save :: "notifier \<Rightarrow> services table \<Rightarrow> py_error + ncall list \<times> bool option" where
  "ups_form_save nt t = service_apply nt t True ''ups'' ''ups''"
definition ldap_form_save :: "notifier \<Rightarrow> services table \<Rightarrow> py_error + ncall list \<times> bool option" where
  "ldap_form_save nt t = service_apply nt t True ''ldap'' ''directoryservice''"

section \<open>Passwords with a confirmation field\<close>

text \<open>\<open>clean_<pw>2\<close> of \<open>NT4\<close> (lines 725--732), \<open>ActiveDirectoryForm\<close> (810--815)
  and \<open>DynamicDNSForm\<close> (527--534): the two entries must be equal (an absent
  entry is \<open>None\<close>). Forms built for the API have no confirmation field, so the
  method is not called.\<close>

definition clean_password2 :: "bool \<Rightarrow> string option \<Rightarrow> string option \<Rightarrow> py_error + unit" where
  "clean_password2 api p1 p2 = (if \<not> api \<and> p1 \<noteq> p2 then Inl ValidationError else Inr ())"

text \<open>\<open>clean\<close> of the same forms (lines 734--739, 835--839, 536--540): an empty
  password keeps the stored one.\<close>

definition keep_password :: "string option \<Rightarrow> string \<Rightarrow> string" where
  "keep_password p stored = (if truthy p then the p else stored)"

section \<open>The directory-service forms\<close>

text \<open>The submitted fields of \<open>NT4\<close>, checked and cleaned (lines 703--739):
  \<open>adminpw\<close> as entered, its confirmation, and the form's instance.\<close>

definition nt4_form_clean :: "bool \<Rightarrow> nt4 \<Rightarrow> nt4 \<Rightarrow> string option \<Rightarrow> string option \<Rightarrow> py_error + nt4" where
  "nt4_form_clean api inst r pw pw2 =
    (case clean_password2 api pw pw2 of
       Inl e \<Rightarrow> Inl e
     | Inr () \<Rightarrow> Inr (r\<lparr>nt4_adminpw := keep_password pw (nt4_adminpw inst)\<rparr>))"

text \<open>\<open>ActiveDirectoryForm.__original_changed\<close> (lines 777--800): one of the
  eleven fields saved by \<open>__original_save\<close> (757--775) differs.\<close>

definition ad_original_changed :: "activedirectory \<Rightarrow> activedirectory \<Rightarrow> bool" where
  "ad_original_changed a r =
    (ad_domainname a \<noteq> ad_domainname r \<or> ad_netbiosname a \<noteq> ad_netbiosname r \<or> ad_workgroup a \<noteq> ad_workgroup r \<or>
     ad_allow_trusted_doms a \<noteq> ad_allow_trusted_doms r \<or> ad_use_default_domain a \<noteq> ad_use_default_domain r \<or>
     ad_unix_extensions a \<noteq> ad_unix_extensions r \<or> ad_verbose_logging a \<noteq> ad_verbose_logging r \<or>
     ad_bindname a \<noteq> ad_bindname r \<or> ad_bindpw a \<noteq> ad_bindpw r \<or> ad_keytab a \<noteq> ad_keytab r \<or>
     ad_use_keytab a \<noteq> ad_use_keytab r)"

definition AD_KEYTAB_FILE :: string where "AD_KEYTAB_FILE = ''/data/krb5.keytab''"

text \<open>\<open>clean_ad_keytab\<close> (lines 817--833): an uploaded file other than the keytab
  path is written there; the cleaned value is the path in every case.\<close>

definition clean_ad_keytab :: "string option \<Rightarrow> string option" where
  "clean_ad_keytab upload = Some AD_KEYTAB_FILE"

text \<open>The cleaning of \<open>ActiveDirectoryForm\<close> (lines 810--839) of the submitted
  row \<open>r\<close>, the entered password and its confirmation, and the upload.\<close>

definition ad_form_clean ::
  "bool \<Rightarrow> activedirectory \<Rightarrow> activedirectory \<Rightarrow> string option \<Rightarrow> string option \<Rightarrow> string option \<Rightarrow>
   py_error + activedirectory" where
  "ad_form_clean api inst r pw pw2 upload =
    (case clean_password2 api pw pw2 of
       Inl e \<Rightarrow> Inl e
     | Inr () \<Rightarrow> Inr (r\<lparr>ad_keytab := clean_ad_keytab upload, ad_bindpw := keep_password pw (ad_bindpw inst)\<rparr>))"

text \<open>\<open>ActiveDirectoryForm.save\<close> (lines 841--856) of the cleaned row against the
  values the form was built with (\<open>orig\<close>): clear the cached configuration when
  a tracked field changed; restart a running service when the directory
  service is enabled; raise when it is then not running and still enabled.\<close>

definition ad_form_save ::
  "notifier \<Rightarrow> services table \<Rightarrow> activedirectory \<Rightarrow> activedirectory \<Rightarrow> py_error + ncall list" where
  "ad_form_save nt t orig r =
    (let c1 = (if ad_original_changed orig r then [NClearAD] else []) @ [NStartedQ ''activedirectory''];
         started = Some (n_running nt ''activedirectory'') in
     (case (if started = Some True
            then map_sum id (\<lambda>d. if srv_enable d then (c1 @ [NRestart ''activedirectory''], n_restart nt ''activedirectory'')
                                 else (c1, started)) (services_get t ''directoryservice'')
            else Inr (c1, started)) of
        Inl e \<Rightarrow> Inl e
      | Inr (c2, st2) \<Rightarrow>
          (if st2 = Some False then
             (case services_get t ''directoryservice'' of
                Inl e \<Rightarrow> Inl e
              | Inr d \<Rightarrow> (if srv_enable d then Inl ServiceFailed else Inr c2))
           else Inr c2)))"

section \<open>Field cleaning\<close>

text \<open>A cleaned value and the cleaned data of a form, in field order.\<close>

datatype fval = FStr string | FInt int | FBool bool | FNone

type_synonym fdata = "(string \<times> fval) list"

text \<open>Django's field loop (\<open>BaseForm._clean_fields\<close>): for each field in order
  whose form defines \<open>clean_<field>\<close>, the method's value replaces the field's; a
  \<open>ValidationError\<close> records an error for the field and drops it from the cleaned
  data; any other exception propagates. The result is the cleaned data and the
  fields in error.\<close>

fun django_clean_fields ::
  "(string \<times> (fdata \<Rightarrow> py_error + fval)) list \<Rightarrow> string list \<Rightarrow> fdata \<Rightarrow> string list \<Rightarrow> py_error + fdata \<times> string list" where
  "django_clean_fields ms [] d errs = Inr (d, errs)"
| "django_clean_fields ms (f # fs) d errs =
     (case map_of ms (''clean_'' @ f) of
        None \<Rightarrow> django_clean_fields ms fs d errs
      | Some m \<Rightarrow>
          (case m d of
             Inl ValidationError \<Rightarrow> django_clean_fields ms fs (AList.delete f d) (errs @ [f])
           | Inl e \<Rightarrow> Inl e
           | Inr v \<Rightarrow> django_clean_fields ms fs (AList.update f v d) errs))"

text \<open>\<open>self.cleaned_data[f]\<close> (\<open>KeyError\<close> when the field was dropped) and
  \<open>self.cleaned_data.get(f)\<close>.\<close>

definition cd_get :: "fdata \<Rightarrow> string \<Rightarrow> py_error + fval" where
  "cd_get d f = dict_get d f"

definition cd_opt :: "fdata \<Rightarrow> string \<Rightarrow> fval" where
  "cd_opt d f = (case map_of d f of None \<Rightarrow> FNone | Some v \<Rightarrow> v)"

section \<open>Octal permission masks\<close>

fun parse_octal :: "nat \<Rightarrow> string \<Rightarrow> nat option" where
  "parse_octal acc [] = Some acc"
| "parse_octal acc (c # cs) =
     (if (48::nat) \<le> of_char c \<and> of_char c \<le> (55::nat) then parse_octal (8 * acc + (of_char c - 48)) cs else None)"

text \<open>\<open>int(v, 8)\<close>: surrounding blanks, a sign, an optional \<open>0o\<close> prefix and at
  least one octal digit; \<open>ValueError\<close> otherwise.\<close>

definition py_int8 :: "string \<Rightarrow> py_error + int" where
  "py_int8 v =
    (let s = py_strip v;
         (neg, r) = (case s of c # cs \<Rightarrow> (if c = CHR ''-'' then (True, cs) else if c = CHR ''+'' then (False, cs) else (False, s))
                             | [] \<Rightarrow> (False, []));
         ds = (if take 2 r \<in> {''0o'', ''0O''} \<and> 2 < length r then drop 2 r else r)
     in if ds = [] then Inl ValueError
        else (case parse_octal 0 ds of None \<Rightarrow> Inl ValueError | Some n \<Rightarrow> Inr (if neg then - int n else int n)))"

fun show_octal :: "nat \<Rightarrow> string" where
  "show_octal n = (if n < 8 then [digit_char n] else show_octal (n div 8) @ [digit_char (n mod 8)])"

declare show_octal.simps [simp del]

text \<open>\<open>"%.3o" % n\<close> for \<open>n \<ge> 0\<close>: at least three octal digits.\<close>

definition fmt_o3 :: "int \<Rightarrow> string" where
  "fmt_o3 n = (let s = show_octal (nat n) in replicate (3 - length s) (CHR ''0'') @ s)"

text \<open>\<open>011777\<close>, \<open>0o666\<close> and \<open>0o777\<close>.\<close>

definition OCT_11777 :: int where "OCT_11777 = 5119"
definition OCT_666 :: int where "OCT_666 = 438"
definition OCT_777 :: int where "OCT_777 = 511"

text \<open>\<open>CIFSForm.__check_octet\<close> (lines 137--142): a mask is empty or an octal
  number with no bit outside \<open>011777\<close>.\<close>

definition check_octet :: "string \<Rightarrow> py_error + unit" where
  "check_octet v =
    (if v = [] then Inr ()
     else (case py_int8 v of
             Inl _ \<Rightarrow> Inl ValidationError
           | Inr n \<Rightarrow> (if and n (not OCT_11777) \<noteq> 0 then Inl ValidationError else Inr ())))"

text \<open>\<open>clean_cifs_srv_filemask\<close> and \<open>clean_cifs_srv_dirmask\<close> (lines 151--159).\<close>

definition clean_cifs_mask :: "string \<Rightarrow> py_error + string" where
  "clean_cifs_mask v = (let v' = py_strip v in map_sum id (\<lambda>_. v') (check_octet v'))"

text \<open>\<open>FTPForm.__init__\<close> (lines 315--332): the stored umask is shown as the
  permission it leaves (\<open>~mask & 0o666\<close> for files, \<open>0o777\<close> for directories);
  a value that is not octal is shown as stored.\<close>

definition ftp_mask_to_perm :: "int \<Rightarrow> string \<Rightarrow> string" where
  "ftp_mask_to_perm bits m = (case py_int8 m of Inl _ \<Rightarrow> m | Inr n \<Rightarrow> fmt_o3 (and (not n) bits))"

text \<open>\<open>clean_ftp_filemask\<close> and \<open>clean_ftp_dirmask\<close> (lines 357--367): the
  entered permission back to the umask; a value that is not octal raises
  \<open>ValueError\<close>, which is not a validation error.\<close>

definition ftp_perm_to_mask :: "int \<Rightarrow> string \<Rightarrow> py_error + string" where
  "ftp_perm_to_mask bits p = map_sum id (\<lambda>n. fmt_o3 (and (not n) bits)) (py_int8 p)"

section \<open>Validation methods\<close>

text \<open>Truth of a cleaned value, an integer field's value, a text field's value
  (\<open>None\<close> has no string methods), and \<open>str.lower\<close>.\<close>

definition fval_truthy :: "fval \<Rightarrow> bool" where
  "fval_truthy v = (case v of FStr x \<Rightarrow> x \<noteq> [] | FInt n \<Rightarrow> n \<noteq> 0 | FBool b \<Rightarrow> b | FNone \<Rightarrow> False)"

definition fval_int :: "fval \<Rightarrow> py_error + int" where
  "fval_int v = (case v of FInt n \<Rightarrow> Inr n | _ \<Rightarrow> Inl TypeError)"

definition fval_str :: "fval \<Rightarrow> py_error + string" where
  "fval_str v = (case v of FStr x \<Rightarrow> Inr x | _ \<Rightarrow> Inl AttributeError)"

definition py_lower :: "string \<Rightarrow> string" where
  "py_lower s = map (\<lambda>c. if (65::nat) \<le> of_char c \<and> of_char c \<le> (90::nat) then char_of (of_char c + (32::nat)) else c) s"

text \<open>\<open>clean_cifs_srv_workgroup\<close> (lines 144--149).\<close>

definition clean_cifs_srv_workgroup :: "fdata \<Rightarrow> py_error + fval" where
  "clean_cifs_srv_workgroup d =
    (case fval_str (cd_opt d ''cifs_srv_workgroup'') of
       Inl e \<Rightarrow> Inl e
     | Inr w \<Rightarrow>
         (let wg = py_strip w; nb = cd_opt d ''cifs_srv_netbiosname'' in
          if fval_truthy nb \<and> (case nb of FStr n \<Rightarrow> py_lower n = py_lower wg | _ \<Rightarrow> False) then Inl ValidationError
          else Inr (FStr wg)))"

text \<open>\<open>CIFSForm.clean\<close> (lines 161--179): home-directory browsing or a home
  directory require home directories; the error is recorded on the enabling
  field, which is dropped. The result is the cleaned data and the messages.\<close>

definition cifs_form_clean :: "fdata \<Rightarrow> py_error + fdata \<times> string list" where
  "cifs_form_clean d =
    (case cd_get d ''cifs_srv_homedir_enable'' of
       Inl e \<Rightarrow> Inl e
     | Inr home \<Rightarrow>
         (case cd_get d ''cifs_srv_homedir_browseable_enable'' of
            Inl e \<Rightarrow> Inl e
          | Inr browse \<Rightarrow>
              (let hdir = cd_opt d ''cifs_srv_homedir'' in
               if (fval_truthy browse \<or> fval_truthy hdir) \<and> \<not> fval_truthy home then
                 Inr (AList.delete ''cifs_srv_homedir_enable'' d,
                      (if fval_truthy browse then [''required for browsing''] else []) @
                      (if fval_truthy hdir then [''required for home directories''] else []))
               else Inr (d, []))))"

text \<open>\<open>AFPForm.clean\<close> (lines 210--226): a home directory requires home
  directories and conversely.\<close>

definition afp_form_clean :: "fdata \<Rightarrow> py_error + fdata \<times> string list" where
  "afp_form_clean d =
    (case cd_get d ''afp_srv_homedir_enable'' of
       Inl e \<Rightarrow> Inl e
     | Inr home \<Rightarrow>
         (let hdir = cd_opt d ''afp_srv_homedir'';
              d1 = (if fval_truthy hdir \<and> \<not> fval_truthy home then AList.delete ''afp_srv_homedir_enable'' d else d);
              e1 = (if fval_truthy hdir \<and> \<not> fval_truthy home then [''afp_srv_homedir_enable''] else []);
              d2 = (if fval_truthy home \<and> \<not> fval_truthy hdir then AList.delete ''afp_srv_homedir'' d1 else d1);
              e2 = (if fval_truthy home \<and> \<not> fval_truthy hdir then [''afp_srv_homedir''] else [])
          in Inr (d2, e1 @ e2)))"

text \<open>\<open>clean_ftp_passiveportsmin\<close> and \<open>clean_ftp_passiveportsmax\<close> (lines
  334--355): a port in \<open>1024..65535\<close> or \<open>0\<close>; the maximum above the minimum.
  The maximum reads \<open>cleaned_data['ftp_passiveportsmin']\<close>, which is absent
  when the minimum was rejected.\<close>

definition port_ok :: "int \<Rightarrow> bool" where
  "port_ok p = (\<not> (p < 1024 \<or> 65535 < p) \<or> p = 0)"

definition clean_ftp_passiveportsmin :: "fdata \<Rightarrow> py_error + fval" where
  "clean_ftp_passiveportsmin d =
    (case cd_get d ''ftp_passiveportsmin'' of
       Inl e \<Rightarrow> Inl e
     | Inr v \<Rightarrow> (case fval_int v of Inl e \<Rightarrow> Inl e | Inr p \<Rightarrow> if port_ok p then Inr (FInt p) else Inl ValidationError))"

definition clean_ftp_passiveportsmax :: "fdata \<Rightarrow> py_error + fval" where
  "clean_ftp_passiveportsmax d =
    (case cd_get d ''ftp_passiveportsmin'' of
       Inl e \<Rightarrow> Inl e
     | Inr mv \<Rightarrow>
         (case cd_get d ''ftp_passiveportsmax'' of
            Inl e \<Rightarrow> Inl e
          | Inr v \<Rightarrow>
              (case fval_int v of
                 Inl e \<Rightarrow> Inl e
               | Inr p \<Rightarrow>
                   (if \<not> port_ok p then Inl ValidationError
                    else (case fval_int mv of
                            Inl e \<Rightarrow> Inl e
                          | Inr m \<Rightarrow> if p \<le> m \<and> p \<noteq> 0 then Inl ValidationError else Inr (FInt p))))))"

definition clean_ftp_mask :: "string \<Rightarrow> int \<Rightarrow> fdata \<Rightarrow> py_error + fval" where
  "clean_ftp_mask f bits d =
    (case cd_get d f of
       Inl e \<Rightarrow> Inl e
     | Inr v \<Rightarrow> (case fval_str v of Inl e \<Rightarrow> Inl e | Inr x \<Rightarrow> map_sum id FStr (ftp_perm_to_mask bits x)))"

text \<open>\<open>clean_ftp_anonpath\<close> (lines 369--376).\<close>

definition clean_ftp_anonpath :: "fdata \<Rightarrow> py_error + fval" where
  "clean_ftp_anonpath d =
    (case cd_get d ''ftp_onlyanonymous'' of
       Inl e \<Rightarrow> Inl e
     | Inr anon \<Rightarrow>
         (case cd_get d ''ftp_anonpath'' of
            Inl e \<Rightarrow> Inl e
          | Inr path \<Rightarrow> if fval_truthy anon \<and> \<not> fval_truthy path then Inl ValidationError else Inr path))"

text \<open>The fields of \<open>FTP\<close> up to the passive ports (\<open>models.py\<close>, lines
  1096--1219; none after them has a \<open>clean_\<close> method) and the methods of
  \<open>FTPForm\<close>.\<close>

definition FTP_FIELDS :: "string list" where
  "FTP_FIELDS = [''ftp_port'', ''ftp_clients'', ''ftp_ipconnections'', ''ftp_loginattempt'', ''ftp_timeout'',
     ''ftp_rootlogin'', ''ftp_onlyanonymous'', ''ftp_anonpath'', ''ftp_onlylocal'', ''ftp_banner'', ''ftp_filemask'',
     ''ftp_dirmask'', ''ftp_fxp'', ''ftp_resume'', ''ftp_defaultroot'', ''ftp_ident'', ''ftp_reversedns'',
     ''ftp_masqaddress'', ''ftp_passiveportsmin'', ''ftp_passiveportsmax'']"

definition ftp_form_methods :: "(string \<times> (fdata \<Rightarrow> py_error + fval)) list" where
  "ftp_form_methods =
    [(''clean_ftp_passiveportsmin'', clean_ftp_passiveportsmin), (''clean_ftp_passiveportsmax'', clean_ftp_passiveportsmax),
     (''clean_ftp_filemask'', clean_ftp_mask ''ftp_filemask'' OCT_666), (''clean_ftp_dirmask'', clean_ftp_mask ''ftp_dirmask'' OCT_777),
     (''clean_ftp_anonpath'', clean_ftp_anonpath)]"

definition ftp_form_clean :: "fdata \<Rightarrow> py_error + fdata \<times> string list" where
  "ftp_form_clean d = django_clean_fields ftp_form_methods FTP_FIELDS d []"

text \<open>\<open>^[-_a-zA-Z0-9\s]+$\<close> of \<open>SNMPForm\<close>.\<close>

definition snmp_word :: "string \<Rightarrow> bool" where
  "snmp_word x = (x \<noteq> [] \<and> (\<forall>c\<in>set x. is_alnum c \<or> c = CHR ''-'' \<or> c = CHR ''_'' \<or> is_space c))"

text \<open>\<open>clean_snmp_contact\<close> (lines 561--570): an e-mail address (checked by
  Django's \<open>validate_email\<close>, the predicate \<open>email_ok\<close>) or a word.\<close>

definition clean_snmp_contact :: "(string \<Rightarrow> bool) \<Rightarrow> fdata \<Rightarrow> py_error + fval" where
  "clean_snmp_contact email_ok d =
    (case cd_get d ''snmp_contact'' of
       Inl e \<Rightarrow> Inl e
     | Inr v \<Rightarrow>
         (case fval_str v of
            Inl e \<Rightarrow> Inl e
          | Inr c \<Rightarrow> (if CHR ''@'' \<in> set c then (if email_ok c then Inr v else Inl ValidationError)
                      else if \<not> snmp_word c then Inl ValidationError else Inr v)))"

text \<open>\<open>clean_snmp_comunity\<close> (lines 572--579) reads the field \<open>snmp_community\<close>.\<close>

definition clean_snmp_comunity :: "fdata \<Rightarrow> py_error + fval" where
  "clean_snmp_comunity d =
    (case cd_get d ''snmp_community'' of
       Inl e \<Rightarrow> Inl e
     | Inr v \<Rightarrow> (case fval_str v of Inl e \<Rightarrow> Inl e | Inr c \<Rightarrow> if snmp_word c then Inr v else Inl ValidationError))"

text \<open>The fields of \<open>SNMP\<close> (\<open>models.py\<close>, lines 936--968) and the methods of
  \<open>SNMPForm\<close>, under their names.\<close>

definition SNMP_FIELDS :: "string list" where
  "SNMP_FIELDS = [''snmp_location'', ''snmp_contact'', ''snmp_community'', ''snmp_traps'', ''snmp_options'']"

definition snmp_form_methods :: "(string \<Rightarrow> bool) \<Rightarrow> (string \<times> (fdata \<Rightarrow> py_error + fval)) list" where
  "snmp_form_methods email_ok =
    [(''clean_snmp_contact'', clean_snmp_contact email_ok), (''clean_snmp_comunity'', clean_snmp_comunity)]"

definition snmp_form_clean :: "(string \<Rightarrow> bool) \<Rightarrow> fdata \<Rightarrow> py_error + fdata \<times> string list" where
  "snmp_form_clean email_ok d = django_clean_fields (snmp_form_methods email_ok) SNMP_FIELDS d []"

text \<open>\<open>clean_rsyncmod_name\<close> (lines 464--471): no \<open>/\<close> and no \<open>]\<close>, then
  stripped; \<open>clean_rsyncmod_hostsallow\<close>/\<open>_hostsdeny\<close> (473--481): newlines
  become blanks, then stripped.\<close>

definition clean_rsyncmod_name :: "string \<Rightarrow> py_error + string" where
  "clean_rsyncmod_name n = (if CHR ''/'' \<in> set n \<or> CHR '']'' \<in> set n then Inl ValidationError else Inr (py_strip n))"

definition clean_rsyncmod_hosts :: "string \<Rightarrow> string" where
  "clean_rsyncmod_hosts h = py_strip (map (\<lambda>c. if c = CHR 0x0A then CHR '' '' else c) h)"

text \<open>The \<open>UPSForm\<close> checks (lines 632--690): a port in master mode, a remote
  host otherwise; an identifier of letters, digits, \<open>.\<close>, \<open>-\<close>, \<open>_\<close> (any case);
  monitor user and password without blank or \<open>#\<close>; every \<open>;\<close>-separated address
  of \<open>toemail\<close> valid.\<close>

definition clean_ups_port :: "string option \<Rightarrow> string option \<Rightarrow> py_error + string option" where
  "clean_ups_port mode pt = (if mode = Some ''master'' \<and> \<not> truthy pt then Inl ValidationError else Inr pt)"

definition clean_ups_remotehost :: "string option \<Rightarrow> string option \<Rightarrow> py_error + string option" where
  "clean_ups_remotehost mode rhost = (if mode \<noteq> Some ''master'' \<and> \<not> truthy rhost then Inl ValidationError else Inr rhost)"

definition clean_ups_identifier :: "string option \<Rightarrow> py_error + string" where
  "clean_ups_identifier ident =
    (case ident of
       None \<Rightarrow> Inl TypeError
     | Some x \<Rightarrow> (if x \<noteq> [] \<and> (\<forall>c\<in>set x. is_alnum c \<or> c \<in> {CHR ''.'', CHR ''-'', CHR ''_''}) then Inr x
                 else Inl ValidationError))"

definition clean_ups_nosharp :: "string option \<Rightarrow> py_error + string" where
  "clean_ups_nosharp v =
    (case v of None \<Rightarrow> Inl TypeError
     | Some x \<Rightarrow> (if CHR '' '' \<in> set x \<or> CHR ''#'' \<in> set x then Inl ValidationError else Inr x))"

definition clean_ups_toemail :: "(string \<Rightarrow> bool) \<Rightarrow> string option \<Rightarrow> py_error + string option" where
  "clean_ups_toemail email_ok e =
    (if truthy e \<and> filter (\<lambda>a. \<not> email_ok a) (map py_strip (py_split (CHR '';'') (the e))) \<noteq> []
     then Inl ValidationError else Inr e)"

text \<open>\<open>clean_nfs_srv_bindip\<close> (lines 275--288): every selected address must parse
  (\<open>ipaddr.IPAddress\<close>, the predicate \<open>ip_ok\<close>); they are joined with commas.\<close>

definition clean_nfs_srv_bindip :: "(string \<Rightarrow> bool) \<Rightarrow> string list \<Rightarrow> py_error + string" where
  "clean_nfs_srv_bindip ip_ok ips =
    (if ips = [] then Inr []
     else if list_all ip_ok ips then Inr (py_str_join '','' ips) else Inl ValidationError)"

text \<open>Inputs for evaluating the forms.\<close>

definition example_notifier :: notifier where
  "example_notifier = \<lparr>n_running = \<lambda>s. False, n_start = \<lambda>s. None, n_stop = \<lambda>s. None,
     n_restart = \<lambda>s. Some False, n_reload = \<lambda>s. None\<rparr>"

definition example_ftp_row :: services where
  "example_ftp_row = \<lparr>srv_service = ''ftp'', srv_enable = True\<rparr>"

definition example_ftp_data :: fdata where
  "example_ftp_data = [(''ftp_onlyanonymous'', FBool False), (''ftp_anonpath'', FStr []), (''ftp_filemask'', FStr ''644''),
     (''ftp_dirmask'', FStr ''755''), (''ftp_passiveportsmin'', FInt 5), (''ftp_passiveportsmax'', FInt 2000)]"

definition example_snmp_data :: fdata where
  "example_snmp_data = [(''snmp_location'', FStr ''rack''), (''snmp_contact'', FStr ''admin''), (''snmp_community'', FStr ''a;b'')]"

section \<open>Properties\<close>

lemma services_settle_row:
  assumes "map_of t i = Some obj"
  shows "map_of (sv_table (services_settle i obj dsvc t calls started acc)) i =
           Some (case started of Some b \<Rightarrow> obj\<lparr>srv_enable := b\<rparr> | None \<Rightarrow> obj)"
    and "sv_started (services_settle i obj dsvc t calls started acc) = started"
  using assms by (auto simp: services_settle_def update_conv' split: option.split)

text \<open>\<open>servicesForm.save\<close> leaves the row it saved with the enable flag the notifier reported: a service that fails to start is stored disabled, one that starts is stored enabled, and with no report the submitted row is stored.\<close>

theorem services_form_save_flag:
  assumes "services_form_save nt dsvc t i obj = Inr r"
  shows "map_of (sv_table r) i = Some (case sv_started r of Some b \<Rightarrow> obj\<lparr>srv_enable := b\<rparr> | None \<Rightarrow> obj)"
proof -
  have t1: "map_of (AList.update i obj t) i = Some obj" by (simp add: update_conv')
  show ?thesis
    using assms services_settle_row [OF t1]
    by (auto simp: services_form_save_def Let_def split: if_splits option.splits sum.splits)
qed

text \<open>A field whose form has no \<open>clean_<field>\<close> method keeps its submitted value.\<close>

lemma django_clean_fields_untouched:
  assumes "django_clean_fields ms fs d errs = Inr (d', errs')" "map_of ms (''clean_'' @ f) = None"
  shows "map_of d' f = map_of d f"
  using assms
proof (induction ms fs d errs rule: django_clean_fields.induct)
  case (2 ms g fs d errs)
  show ?case
  proof (cases "map_of ms (''clean_'' @ g)")
    case None
    then show ?thesis using 2 by simp
  next
    case (Some m)
    then have "g \<noteq> f" using 2(5) by auto
    then show ?thesis using 2 Some
      by (auto simp: delete_conv' update_conv' split: sum.splits py_error.splits)
  qed
qed simp

text \<open>The community validator of \<open>SNMPForm\<close> is named \<open>clean_snmp_comunity\<close>, so Django never calls it: the submitted community is kept whatever it is.\<close>

theorem snmp_community_unchecked:
  assumes "snmp_form_clean email_ok d = Inr (d', errs)"
  shows "map_of d' ''snmp_community'' = map_of d ''snmp_community''"
  using django_clean_fields_untouched [OF assms [unfolded snmp_form_clean_def]]
  by (simp add: snmp_form_methods_def)

text \<open>Octal digits: \<open>int(s, 8)\<close> reads back what \<open>"%.3o"\<close> prints.\<close>

lemma parse_octal_append:
  "parse_octal acc (xs @ ys) = Option.bind (parse_octal acc xs) (\<lambda>a. parse_octal a ys)"
  by (induction acc xs rule: parse_octal.induct) auto

lemma octal_digit_char: "d < 8 \<Longrightarrow> of_char (digit_char d) = 48 + d"
  by (simp add: digit_char_def)

lemma parse_octal_show_octal: "parse_octal acc (show_octal n) = Some (acc * 8 ^ length (show_octal n) + n)"
proof (induction n arbitrary: acc rule: show_octal.induct)
  case (1 n)
  show ?case
  proof (cases "n < 8")
    case True
    then show ?thesis by (simp add: show_octal.simps [of n] octal_digit_char)
  next
    case False
    let ?h = "show_octal (n div 8)"
    have "parse_octal acc (show_octal n) =
          Option.bind (parse_octal acc ?h) (\<lambda>a. parse_octal a [digit_char (n mod 8)])"
      using False by (simp add: show_octal.simps [of n] parse_octal_append)
    also have "\<dots> = Some (8 * (acc * 8 ^ length ?h + n div 8) + n mod 8)"
      using False "1.IH" by (simp add: octal_digit_char)
    also have "\<dots> = Some (acc * 8 ^ length (show_octal n) + n)"
      using False by (simp add: show_octal.simps [of n] algebra_simps)
    finally show ?thesis .
  qed
qed

lemma show_octal_digits: "c \<in> set (show_octal n) \<Longrightarrow> (48::nat) \<le> of_char c \<and> of_char c < (56::nat)"
proof (induction n rule: show_octal.induct)
  case (1 n)
  then show ?case by (subst (asm) show_octal.simps) (auto simp: octal_digit_char split: if_splits)
qed

lemma show_octal_nonempty [simp]: "show_octal n \<noteq> []"
  by (subst show_octal.simps) simp

lemma fmt_o3_digits: "c \<in> set (fmt_o3 k) \<Longrightarrow> (48::nat) \<le> of_char c \<and> of_char c < (56::nat)"
  by (auto simp: fmt_o3_def Let_def dest: show_octal_digits)

lemma parse_octal_zeros: "parse_octal 0 (replicate z (CHR ''0'') @ s) = parse_octal 0 s"
  by (induction z) auto

lemma py_strip_digits:
  assumes "\<forall>c\<in>set s. (48::nat) \<le> of_char c \<and> of_char c < (56::nat)"
  shows "py_strip s = s"
proof -
  have ns: "\<not> is_space c" if "c \<in> set s" for c
    using assms that by (auto simp: is_space_def)
  have d1: "dropWhile is_space s = s"
    using ns by (cases s) fastforce+
  have d2: "dropWhile is_space (rev s) = rev s"
    using ns [OF last_in_set] by (cases "s = []") (auto simp: dropWhile_eq_self_iff hd_rev)
  show ?thesis by (simp add: py_strip_def d1 d2)
qed

lemma py_int8_fmt_o3:
  assumes "0 \<le> k"
  shows "py_int8 (fmt_o3 k) = Inr k"
proof -
  let ?s = "fmt_o3 k"
  have dg: "\<forall>c\<in>set ?s. (48::nat) \<le> of_char c \<and> of_char c < (56::nat)" using fmt_o3_digits by blast
  have ne: "?s \<noteq> []" by (simp add: fmt_o3_def Let_def)
  obtain c cs where cs: "?s = c # cs" using ne by (cases ?s) auto
  have c: "c \<noteq> CHR ''-'' \<and> c \<noteq> CHR ''+''" using dg cs by auto
  have neg: "(case ?s of c # cs \<Rightarrow> (if c = CHR ''-'' then (True, cs) else if c = CHR ''+'' then (False, cs) else (False, ?s))
                       | [] \<Rightarrow> (False, [])) = (False, ?s)"
    using cs c by simp
  have no_o: "\<not> (take 2 ?s \<in> {''0o'', ''0O''})"
  proof
    assume "take 2 ?s \<in> {''0o'', ''0O''}"
    then have "CHR ''o'' \<in> set ?s \<or> CHR ''O'' \<in> set ?s" by (metis in_set_takeD insert_iff list.set_intros(1,2) singletonD)
    then show False using dg by auto
  qed
  have ds: "(if take 2 ?s \<in> {''0o'', ''0O''} \<and> 2 < length ?s then drop 2 ?s else ?s) = ?s"
    using no_o by simp
  have p: "parse_octal 0 ?s = Some (nat k)"
    using parse_octal_show_octal [of 0 "nat k"] parse_octal_zeros by (simp add: fmt_o3_def Let_def)
  have "py_int8 ?s = (if ?s = [] then Inl ValueError
        else (case parse_octal 0 ?s of None \<Rightarrow> Inl ValueError | Some n \<Rightarrow> Inr (if False then - int n else int n)))"
    by (simp only: py_int8_def Let_def py_strip_digits [OF dg] neg prod.case ds)
  then show ?thesis using p ne assms by simp
qed

lemma and_not_and_not_int: "and (or n (not b)) b = and n (b::int)"
  by (rule bit_eqI) (auto simp: bit_simps)

text \<open>The umask stored for FTP is shown as a permission and read back as the same umask, cut to the permission bits.\<close>

theorem ftp_mask_roundtrip:
  assumes "py_int8 m = Inr n" "0 \<le> bits"
  shows "ftp_perm_to_mask bits (ftp_mask_to_perm bits m) = Inr (fmt_o3 (and n bits))"
  using assms py_int8_fmt_o3 [of "and (not n) bits"]
  by (simp add: ftp_mask_to_perm_def ftp_perm_to_mask_def and_not_and_not_int)

lemma django_clean_fields_append:
  "django_clean_fields ms (fs @ gs) d errs =
     (case django_clean_fields ms fs d errs of Inl e \<Rightarrow> Inl e | Inr (d', errs') \<Rightarrow> django_clean_fields ms gs d' errs')"
  by (induction ms fs d errs rule: django_clean_fields.induct) (auto split: option.split sum.split py_error.split)

text \<open>When \<open>clean_ftp_passiveportsmin\<close> rejects the minimum, Django drops it from the cleaned data and \<open>clean_ftp_passiveportsmax\<close> then raises \<open>KeyError\<close> reading it: the form raises instead of reporting the error.\<close>

theorem ftp_min_rejected_raises:
  assumes "django_clean_fields ftp_form_methods (take 18 FTP_FIELDS) d [] = Inr (d1, e1)"
    and "clean_ftp_passiveportsmin d1 = Inl ValidationError"
  shows "ftp_form_clean d = Inl KeyError"
proof -
  have f: "FTP_FIELDS = take 18 FTP_FIELDS @ [''ftp_passiveportsmin'', ''ftp_passiveportsmax'']"
    by (simp add: FTP_FIELDS_def)
  have "django_clean_fields ftp_form_methods [''ftp_passiveportsmin'', ''ftp_passiveportsmax''] d1 e1 = Inl KeyError"
    using assms(2) by (simp add: ftp_form_methods_def clean_ftp_passiveportsmax_def cd_get_def dict_get_def delete_conv')
  then show ?thesis using assms(1) by (subst ftp_form_clean_def, subst f) (simp add: django_clean_fields_append)
qed

theorem ftp_min_rejected_raises_witness:
  "django_clean_fields ftp_form_methods (take 18 FTP_FIELDS) example_ftp_data [] =
     Inr (AList.update ''ftp_dirmask'' (FStr ''022'') (AList.update ''ftp_filemask'' (FStr ''022'')
            (AList.update ''ftp_anonpath'' (FStr []) example_ftp_data)), []) \<and>
   clean_ftp_passiveportsmin (AList.update ''ftp_dirmask'' (FStr ''022'') (AList.update ''ftp_filemask'' (FStr ''022'')
            (AList.update ''ftp_anonpath'' (FStr []) example_ftp_data))) = Inl ValidationError \<and>
   ftp_form_clean example_ftp_data = Inl KeyError"
proof -
  have h1: "django_clean_fields ftp_form_methods (take 18 FTP_FIELDS) example_ftp_data [] =
     Inr (AList.update ''ftp_dirmask'' (FStr ''022'') (AList.update ''ftp_filemask'' (FStr ''022'')
            (AList.update ''ftp_anonpath'' (FStr []) example_ftp_data)), [])"
    by code_simp
  have h2: "clean_ftp_passiveportsmin (AList.update ''ftp_dirmask'' (FStr ''022'') (AList.update ''ftp_filemask'' (FStr ''022'')
            (AList.update ''ftp_anonpath'' (FStr []) example_ftp_data))) = Inl ValidationError"
    by code_simp
  show ?thesis using h1 h2 ftp_min_rejected_raises [OF h1 h2] by blast
qed

theorem services_form_save_flag_witness:
  "services_form_save example_notifier None [(1, example_ftp_row)] 1 example_ftp_row =
     Inr \<lparr>sv_table = [(1, example_ftp_row\<lparr>srv_enable := False\<rparr>)], sv_calls = [NRestart ''ftp''], sv_started = Some False,
          sv_enabled_svcs = [], sv_disabled_svcs = []\<rparr> \<and>
   map_of [(1::nat, example_ftp_row\<lparr>srv_enable := False\<rparr>)] 1 =
     Some (case Some False of Some b \<Rightarrow> example_ftp_row\<lparr>srv_enable := b\<rparr> | None \<Rightarrow> example_ftp_row)"
proof -
  have h: "services_form_save example_notifier None [(1, example_ftp_row)] 1 example_ftp_row =
     Inr \<lparr>sv_table = [(1, example_ftp_row\<lparr>srv_enable := False\<rparr>)], sv_calls = [NRestart ''ftp''], sv_started = Some False,
          sv_enabled_svcs = [], sv_disabled_svcs = []\<rparr>"
    by (simp add: services_form_save_def services_settle_def example_notifier_def example_ftp_row_def)
  show ?thesis using h services_form_save_flag [OF h] by simp
qed

theorem snmp_community_unchecked_witness:
  "snmp_form_clean (\<lambda>a. False) example_snmp_data = Inr (example_snmp_data, []) \<and>
   map_of example_snmp_data ''snmp_community'' = map_of example_snmp_data ''snmp_community'' \<and>
   clean_snmp_comunity example_snmp_data = Inl ValidationError"
proof -
  have h: "snmp_form_clean (\<lambda>a. False) example_snmp_data = Inr (example_snmp_data, [])" by code_simp
  have c: "clean_snmp_comunity example_snmp_data = Inl ValidationError" by code_simp
  show ?thesis using h c snmp_community_unchecked [OF h] by blast
qed

theorem ftp_mask_roundtrip_witness:
  "py_int8 ''022'' = Inr 18 \<and> (0::int) \<le> OCT_666 \<and>
   ftp_perm_to_mask OCT_666 (ftp_mask_to_perm OCT_666 ''022'') = Inr (fmt_o3 (and 18 OCT_666)) \<and>
   fmt_o3 (and 18 OCT_666) = ''022''"
proof -
  have h1: "py_int8 ''022'' = Inr 18" by code_simp
  have h2: "(0::int) \<le> OCT_666" by (simp add: OCT_666_def)
  have h3: "fmt_o3 (and 18 OCT_666) = ''022''" by code_simp
  show ?thesis using h1 h2 h3 ftp_mask_roundtrip [OF h1 h2] by blast
qed

end
