(* ===== verification/IscsiForms.thy ===== *)
theory IscsiForms
  imports ServiceForms
begin

text \<open>
  The iSCSI forms of \<open>src/gui/services/forms.py\<close>: the credential form
  \<open>iSCSITargetAuthCredentialForm\<close> (confirmed secrets and the peer rules of its
  \<open>clean\<close>), the target-to-extent form \<open>iSCSITargetToExtentForm\<close>, and the
  global configuration form \<open>iSCSITargetGlobalConfigurationForm\<close> (range checks,
  the auth groups, the logical unit controller). Field values are those of
  \<open>ServiceForms\<close>; a field missing from the cleaned data failed its own field
  validation. \<open>IPNetwork\<close> of the \<open>netaddr\<close> library is an interface: the
  normalised network it prints, or \<open>None\<close> when it raises.
\<close>

section \<open>Python values of cleaned fields\<close>

text \<open>\<open>cleaned_data.get(f, default)\<close>.\<close>

definition cd_dflt :: "fdata \<Rightarrow> string \<Rightarrow> fval \<Rightarrow> fval" where
  "cd_dflt d f dflt = (case map_of d f of None \<Rightarrow> dflt | Some v \<Rightarrow> v)"

text \<open>\<open>len(v)\<close>: strings only; \<open>TypeError\<close> otherwise.\<close>

definition fval_len :: "fval \<Rightarrow> py_error + nat" where
  "fval_len v = (case v of FStr x \<Rightarrow> Inr (length x) | _ \<Rightarrow> Inl TypeError)"

text \<open>\<open>int(v)\<close> of a cleaned value.\<close>

definition fval_pyint :: "fval \<Rightarrow> py_error + int" where
  "fval_pyint v = (case v of FStr x \<Rightarrow> py_int x | FInt n \<Rightarrow> Inr n | FBool b \<Rightarrow> Inr (if b then 1 else 0) | FNone \<Rightarrow> Inl TypeError)"

text \<open>Python 2 comparison of a value with an integer: \<open>None\<close> is below every
  number, a string above every number, a boolean is \<open>0\<close> or \<open>1\<close>.\<close>

definition py2_lt_int :: "fval \<Rightarrow> int \<Rightarrow> bool" where
  "py2_lt_int v k = (case v of FInt n \<Rightarrow> n < k | FBool b \<Rightarrow> (if b then 1 else 0) < k | FNone \<Rightarrow> True | FStr _ \<Rightarrow> False)"

definition py2_gt_int :: "fval \<Rightarrow> int \<Rightarrow> bool" where
  "py2_gt_int v k = (case v of FInt n \<Rightarrow> k < n | FBool b \<Rightarrow> k < (if b then 1 else 0) | FNone \<Rightarrow> False | FStr _ \<Rightarrow> True)"

section \<open>Credentials\<close>

text \<open>\<open>_clean_secret_common(prefix)\<close> (lines 926--931): the confirmation must
  equal the secret, which defaults to the empty string when it failed its own
  validation.\<close>

definition clean_secret_common :: "string \<Rightarrow> fdata \<Rightarrow> py_error + fval" where
  "clean_secret_common pfx d =
    (let s1 = cd_dflt d pfx (FStr []) in
     case cd_get d (pfx @ ''2'') of
       Inl e \<Rightarrow> Inl e
     | Inr s2 \<Rightarrow> if s1 \<noteq> s2 then Inl ValidationError else Inr s2)"

text \<open>The field order (lines 903--917): the model's fields, with the two
  confirmations after their secrets unless the form serves the API, which
  deletes them.\<close>

definition auth_cred_fields :: "bool \<Rightarrow> string list" where
  "auth_cred_fields api =
    (if api then [''iscsi_target_auth_tag'', ''iscsi_target_auth_user'', ''iscsi_target_auth_secret'',
                  ''iscsi_target_auth_peeruser'', ''iscsi_target_auth_peersecret'']
     else [''iscsi_target_auth_tag'', ''iscsi_target_auth_user'', ''iscsi_target_auth_secret'', ''iscsi_target_auth_secret2'',
           ''iscsi_target_auth_peeruser'', ''iscsi_target_auth_peersecret'', ''iscsi_target_auth_peersecret2''])"

definition auth_cred_methods :: "(string \<times> (fdata \<Rightarrow> py_error + fval)) list" where
  "auth_cred_methods =
    [(''clean_iscsi_target_auth_secret2'', clean_secret_common ''iscsi_target_auth_secret''),
     (''clean_iscsi_target_auth_peersecret2'', clean_secret_common ''iscsi_target_auth_peersecret'')]"

text \<open>The peer-user branch of \<open>clean\<close> (lines 942--961): a peer secret is
  required, and must differ from the user's secret.\<close>

definition auth_peer_set :: "fdata \<Rightarrow> string list \<Rightarrow> py_error + fdata \<times> string list" where
  "auth_peer_set d errs =
    (let ps = cd_dflt d ''iscsi_target_auth_peersecret'' (FStr []) in
     case fval_len ps of
       Inl e \<Rightarrow> Inl e
     | Inr m \<Rightarrow>
         (if m = 0 then Inr (AList.delete ''iscsi_target_auth_peersecret'' d,
                             errs @ [''iscsi_target_auth_peersecret'', ''iscsi_target_auth_peersecret2''])
          else if ps = cd_dflt d ''iscsi_target_auth_secret'' (FStr [])
          then Inr (AList.delete ''iscsi_target_auth_peersecret'' d, errs @ [''iscsi_target_auth_peersecret''])
          else Inr (d, errs)))"

text \<open>The branch without a peer user (lines 962--975): neither peer secret may
  be given.\<close>

definition auth_peer_unset :: "fdata \<Rightarrow> string list \<Rightarrow> py_error + fdata \<times> string list" where
  "auth_peer_unset d errs =
    (case fval_len (cd_dflt d ''iscsi_target_auth_peersecret'' (FStr [])) of
       Inl e \<Rightarrow> Inl e
     | Inr m \<Rightarrow>
         (let (d1, e1) = (if 0 < m then (AList.delete ''iscsi_target_auth_peersecret'' d, errs @ [''iscsi_target_auth_peersecret''])
                          else (d, errs)) in
          case fval_len (cd_dflt d1 ''iscsi_target_auth_peersecret2'' (FStr [])) of
            Inl e \<Rightarrow> Inl e
          | Inr m2 \<Rightarrow> Inr (if 0 < m2 then (AList.delete ''iscsi_target_auth_peersecret2'' d1, e1 @ [''iscsi_target_auth_peersecret2''])
                           else (d1, e1))))"

text \<open>\<open>iSCSITargetAuthCredentialForm.clean\<close> (lines 939--977).\<close>

definition auth_cred_clean :: "fdata \<Rightarrow> string list \<Rightarrow> py_error + fdata \<times> string list" where
  "auth_cred_clean d errs =
    (case fval_len (cd_dflt d ''iscsi_target_auth_peeruser'' (FStr [])) of
       Inl e \<Rightarrow> Inl e
     | Inr n \<Rightarrow> (if 0 < n then auth_peer_set d errs else auth_peer_unset d errs))"

text \<open>The whole validation: the field loop, then \<open>clean\<close>.\<close>

definition auth_cred_validate :: "bool \<Rightarrow> fdata \<Rightarrow> py_error + fdata \<times> string list" where
  "auth_cred_validate api d =
    (case django_clean_fields auth_cred_methods (auth_cred_fields api) d [] of
       Inl e \<Rightarrow> Inl e
     | Inr (d1, e1) \<Rightarrow> auth_cred_clean d1 e1)"

text \<open>\<open>save\<close> (lines 982--999): the two secrets from the cleaned data, then a
  reload of the iSCSI service.\<close>

definition auth_cred_save :: "notifier \<Rightarrow> services table \<Rightarrow> fdata \<Rightarrow> py_error + (fval \<times> fval) \<times> ncall list" where
  "auth_cred_save nt t d =
    map_sum id (\<lambda>(calls, _). ((cd_dflt d ''iscsi_target_auth_secret'' FNone, cd_dflt d ''iscsi_target_auth_peersecret'' FNone), calls))
      (service_apply nt t False ''iscsitarget'' ''iscsitarget'')"

section \<open>Targets and extents\<close>

text \<open>The fields of \<open>iSCSITargetToExtent\<close> (\<open>models.py\<close>, lines 846--856) and
  the method \<open>clean_iscsi_target_lun\<close> of the form (lines 1019--1026), which
  reads a field the model does not have.\<close>

definition TOEXTENT_FIELDS :: "string list" where
  "TOEXTENT_FIELDS = [''iscsi_target'', ''iscsi_extent'']"

definition clean_iscsi_target_lun :: "(fval \<times> fval) list \<Rightarrow> fdata \<Rightarrow> py_error + fval" where
  "clean_iscsi_target_lun rows d =
    (let key = (cd_opt d ''iscsi_target'', cd_opt d ''iscsi_target_lun'') in
     case filter (\<lambda>r. r = key) rows of
       [] \<Rightarrow> Inr (cd_opt d ''iscsi_target_lun'')
     | [_] \<Rightarrow> Inl ValidationError
     | _ \<Rightarrow> Inl MultipleObjectsReturned)"

definition toextent_methods :: "(fval \<times> fval) list \<Rightarrow> (string \<times> (fdata \<Rightarrow> py_error + fval)) list" where
  "toextent_methods rows = [(''clean_iscsi_target_lun'', clean_iscsi_target_lun rows)]"

definition toextent_validate :: "(fval \<times> fval) list \<Rightarrow> fdata \<Rightarrow> py_error + fdata \<times> string list" where
  "toextent_validate rows d = django_clean_fields (toextent_methods rows) TOEXTENT_FIELDS d []"

section \<open>Global configuration\<close>

text \<open>\<open>_clean_number_range(field, start, end)\<close> (lines 1075--1085).\<close>

definition clean_number_range :: "string \<Rightarrow> int \<Rightarrow> int \<Rightarrow> fdata \<Rightarrow> py_error + fval" where
  "clean_number_range f lo hi d =
    (case cd_get d f of
       Inl e \<Rightarrow> Inl e
     | Inr v \<Rightarrow> if py2_lt_int v lo \<or> py2_gt_int v hi then Inl ValidationError else Inr v)"

definition CHAP_METHODS :: "fval list" where
  "CHAP_METHODS = [FStr ''CHAP'', FStr ''CHAP Mutual'']"

text \<open>\<open>clean_iscsi_discoveryauthgroup\<close> (lines 1087--1097): no group is
  \<open>None\<close>; with a CHAP method the group \<open>-1\<close> (none) is refused.\<close>

definition clean_iscsi_discoveryauthgroup :: "fdata \<Rightarrow> py_error + fval" where
  "clean_iscsi_discoveryauthgroup d =
    (case cd_get d ''iscsi_discoveryauthmethod'' of
       Inl e \<Rightarrow> Inl e
     | Inr m \<Rightarrow>
         (case cd_get d ''iscsi_discoveryauthgroup'' of
            Inl e \<Rightarrow> Inl e
          | Inr g \<Rightarrow>
              (if g \<in> {FStr [], FNone} then Inr FNone
               else (case fval_pyint g of
                       Inl e \<Rightarrow> Inl e
                     | Inr n \<Rightarrow> (if m \<in> set CHAP_METHODS then (if n = -1 then Inl ValidationError else Inr g)
                                 else if n = -1 then Inr FNone else Inr g)))))"

text \<open>\<open>clean_iscsi_lucport\<close> (lines 1132--1135): with the controller enabled,
  a port in \<open>1000..2^16\<close>; otherwise \<open>None\<close>.\<close>

definition clean_iscsi_lucport :: "fdata \<Rightarrow> py_error + fval" where
  "clean_iscsi_lucport d =
    (if fval_truthy (cd_dflt d ''iscsi_toggleluc'' (FBool False)) then clean_number_range ''iscsi_lucport'' 1000 (2 ^ 16) d
     else Inr FNone)"

text \<open>\<open>clean_iscsi_luc_authgroup\<close> (lines 1137--1147).\<close>

definition clean_iscsi_luc_authgroup :: "fdata \<Rightarrow> py_error + fval" where
  "clean_iscsi_luc_authgroup d =
    (let m = cd_opt d ''iscsi_luc_authmethod''; g = cd_opt d ''iscsi_luc_authgroup'' in
     if g \<in> {FStr [], FNone} then Inr FNone
     else (case fval_pyint g of
             Inl e \<Rightarrow> Inl e
           | Inr n \<Rightarrow> (if m \<in> set CHAP_METHODS then (if n = -1 then Inl ValidationError else Inr g)
                       else if n = -1 then Inr FNone else Inr g)))"

text \<open>\<open>clean_iscsi_luc_authnetwork\<close> (lines 1149--1158), with \<open>ipnet\<close> for
  \<open>str(IPNetwork(s))\<close>.\<close>

definition clean_iscsi_luc_authnetwork :: "(string \<Rightarrow> string option) \<Rightarrow> fdata \<Rightarrow> py_error + fval" where
  "clean_iscsi_luc_authnetwork ipnet d =
    (if \<not> fval_truthy (cd_opt d ''iscsi_toggleluc'') then Inr (FStr [])
     else (case fval_str (cd_opt d ''iscsi_luc_authnetwork'') of
             Inl e \<Rightarrow> Inl e
           | Inr s \<Rightarrow> (case ipnet (py_strip s) of None \<Rightarrow> Inl ValidationError | Some n \<Rightarrow> Inr (FStr n))))"

text \<open>The fields of \<open>iSCSITargetGlobalConfiguration\<close> (\<open>models.py\<close>, lines
  374--500) in order, and the methods of the form (lines 1099--1158).\<close>

definition GC_FIELDS :: "string list" where
  "GC_FIELDS = [''iscsi_basename'', ''iscsi_discoveryauthmethod'', ''iscsi_discoveryauthgroup'', ''iscsi_iotimeout'',
     ''iscsi_nopinint'', ''iscsi_maxsesh'', ''iscsi_maxconnect'', ''iscsi_r2t'', ''iscsi_maxoutstandingr2t'',
     ''iscsi_firstburst'', ''iscsi_maxburst'', ''iscsi_maxrecdata'', ''iscsi_defaultt2w'', ''iscsi_defaultt2r'',
     ''iscsi_toggleluc'', ''iscsi_lucip'', ''iscsi_lucport'', ''iscsi_luc_authnetwork'', ''iscsi_luc_authmethod'',
     ''iscsi_luc_authgroup'']"

definition gc_methods :: "(string \<Rightarrow> string option) \<Rightarrow> (string \<times> (fdata \<Rightarrow> py_error + fval)) list" where
  "gc_methods ipnet =
    [(''clean_iscsi_discoveryauthgroup'', clean_iscsi_discoveryauthgroup),
     (''clean_iscsi_iotimeout'', clean_number_range ''iscsi_iotimeout'' 0 300),
     (''clean_iscsi_nopinint'', clean_number_range ''iscsi_nopinint'' 0 300),
     (''clean_iscsi_maxsesh'', clean_number_range ''iscsi_maxsesh'' 1 65535),
     (''clean_iscsi_maxconnect'', clean_number_range ''iscsi_maxconnect'' 1 65535),
     (''clean_iscsi_r2t'', clean_number_range ''iscsi_r2t'' 0 256),
     (''clean_iscsi_maxoutstandingr2t'', clean_number_range ''iscsi_maxoutstandingr2t'' 1 65535),
     (''clean_iscsi_firstburst'', clean_number_range ''iscsi_firstburst'' 1 (2 ^ 32)),
     (''clean_iscsi_maxburst'', clean_number_range ''iscsi_maxburst'' 1 (2 ^ 32)),
     (''clean_iscsi_maxrecdata'', clean_number_range ''iscsi_maxrecdata'' 1 (2 ^ 32)),
     (''clean_iscsi_defaultt2w'', clean_number_range ''iscsi_defaultt2w'' 1 3600),
     (''clean_iscsi_defaultt2r'', clean_number_range ''iscsi_defaultt2r'' 1 3600),
     (''clean_iscsi_lucport'', clean_iscsi_lucport),
     (''clean_iscsi_luc_authgroup'', clean_iscsi_luc_authgroup),
     (''clean_iscsi_luc_authnetwork'', clean_iscsi_luc_authnetwork ipnet)]"

text \<open>\<open>clean\<close> (lines 1160--1179): with the controller enabled, each of its
  fields left as the empty string is required; otherwise its address, port and
  group are cleared.\<close>

definition LUC_REQUIRED :: "string list" where
  "LUC_REQUIRED = [''iscsi_lucip'', ''iscsi_luc_authnetwork'', ''iscsi_luc_authmethod'', ''iscsi_luc_authgroup'']"

fun luc_required :: "string list \<Rightarrow> fdata \<Rightarrow> string list \<Rightarrow> fdata \<times> string list" where
  "luc_required [] d errs = (d, errs)"
| "luc_required (f # fs) d errs =
     (if map_of d f = Some (FStr []) then luc_required fs (AList.delete f d) (errs @ [f]) else luc_required fs d errs)"

definition gc_clean :: "fdata \<Rightarrow> string list \<Rightarrow> fdata \<times> string list" where
  "gc_clean d errs =
    (if fval_truthy (cd_dflt d ''iscsi_toggleluc'' (FBool False)) then luc_required LUC_REQUIRED d errs
     else (AList.update ''iscsi_luc_authgroup'' FNone (AList.update ''iscsi_lucport'' FNone
             (AList.update ''iscsi_lucip'' FNone d)), errs))"

definition gc_validate :: "(string \<Rightarrow> string option) \<Rightarrow> fdata \<Rightarrow> py_error + fdata \<times> string list" where
  "gc_validate ipnet d =
    (case django_clean_fields (gc_methods ipnet) GC_FIELDS d [] of
       Inl e \<Rightarrow> Inl e
     | Inr (d1, e1) \<Rightarrow> Inr (gc_clean d1 e1))"

text \<open>\<open>save\<close> (lines 1181--1188): a restart when the controller was switched on
  or off, a reload otherwise.\<close>

definition gc_save :: "notifier \<Rightarrow> services table \<Rightarrow> bool \<Rightarrow> bool \<Rightarrow> py_error + ncall list \<times> bool option" where
  "gc_save nt t luc_before luc_after = service_apply nt t (luc_before \<noteq> luc_after) ''iscsitarget'' ''iscsitarget''"

section \<open>Properties\<close>

text \<open>A method whose name is \<open>clean_\<close> of no field of the form is never called.\<close>

lemma django_clean_fields_unused:
  "(\<forall>f\<in>set fs. ''clean_'' @ f \<noteq> n) \<Longrightarrow> django_clean_fields ((n, m) # ms) fs d errs = django_clean_fields ms fs d errs"
  by (induction ms fs d errs rule: django_clean_fields.induct) (auto split: option.split sum.split py_error.split)

text \<open>\<open>iSCSITargetToExtentForm\<close> validates nothing: its model has no field \<open>iscsi_target_lun\<close>, so \<open>clean_iscsi_target_lun\<close> never runs and two mappings may share a LUN.\<close>

theorem toextent_lun_never_checked: "toextent_validate rows d = Inr (d, [])"
proof -
  have "django_clean_fields (toextent_methods rows) TOEXTENT_FIELDS d [] = django_clean_fields [] TOEXTENT_FIELDS d []"
    unfolding toextent_methods_def by (rule django_clean_fields_unused) (simp add: TOEXTENT_FIELDS_def)
  then show ?thesis by (simp add: toextent_validate_def TOEXTENT_FIELDS_def)
qed

text \<open>The field loop changes only the fields it visits; a visited field holds what its method returned, or is gone.\<close>

lemma django_clean_fields_absent:
  "django_clean_fields ms fs d errs = Inr (d', errs') \<Longrightarrow> f \<notin> set fs \<Longrightarrow> map_of d' f = map_of d f"
proof (induction ms fs d errs rule: django_clean_fields.induct)
  case (2 ms g fs d errs)
  then show ?case by (auto simp: delete_conv' update_conv' split: option.splits sum.splits py_error.splits)
qed simp

lemma django_clean_fields_errs_mono:
  "django_clean_fields ms fs d errs = Inr (d', errs') \<Longrightarrow> set errs \<subseteq> set errs'"
  by (induction ms fs d errs rule: django_clean_fields.induct) (fastforce split: option.splits sum.splits py_error.splits)+

lemma django_clean_fields_method_value:
  assumes "django_clean_fields ms fs d errs = Inr (d', errs')" "distinct fs" "f \<in> set fs"
    and "map_of ms (''clean_'' @ f) = Some m" "\<forall>x. m x \<noteq> Inr v"
  shows "map_of d' f \<noteq> Some v"
  using assms
proof (induction ms fs d errs rule: django_clean_fields.induct)
  case (2 ms g fs d errs)
  note P = "2.prems"
  show ?case
  proof (cases "g = f")
    case True
    then have nf: "f \<notin> set fs" using P(2) by simp
    have mg: "map_of ms (''clean_'' @ g) = Some m" using P(4) True by simp
    show ?thesis
    proof (cases "m d")
      case (Inl e)
      then have "e = ValidationError" and r: "django_clean_fields ms fs (AList.delete f d) (errs @ [f]) = Inr (d', errs')"
        using P(1) mg True by (cases e; simp)+
      then show ?thesis using django_clean_fields_absent [OF r nf] by (simp add: delete_conv')
    next
      case (Inr x)
      then have r: "django_clean_fields ms fs (AList.update f x d) errs = Inr (d', errs')" using P(1) mg True by simp
      have "x \<noteq> v" using P(5) Inr by auto
      then show ?thesis using django_clean_fields_absent [OF r nf] by (simp add: update_conv')
    qed
  next
    case False
    then have f: "f \<in> set fs" and dfs: "distinct fs" using P(2,3) by auto
    show ?thesis
    proof (cases "map_of ms (''clean_'' @ g)")
      case None
      then show ?thesis using "2.IH"(1) P(1,4,5) f dfs by simp
    next
      case (Some m')
      show ?thesis
      proof (cases "m' d")
        case (Inl e)
        then have "e = ValidationError" and r: "django_clean_fields ms fs (AList.delete g d) (errs @ [g]) = Inr (d', errs')"
          using P(1) Some by (cases e; simp)+
        then show ?thesis using "2.IH"(2) [OF Some Inl] P(4,5) f dfs r by simp
      next
        case (Inr x)
        then have r: "django_clean_fields ms fs (AList.update g x d) errs = Inr (d', errs')" using P(1) Some by simp
        then show ?thesis using "2.IH"(3) [OF Some Inr] P(4,5) f dfs by simp
      qed
    qed
  qed
qed simp

lemma clean_iscsi_luc_authgroup_not_empty: "clean_iscsi_luc_authgroup d \<noteq> Inr (FStr [])"
  by (auto simp: clean_iscsi_luc_authgroup_def Let_def split: sum.split)

text \<open>The check of \<open>clean\<close> that the controller auth group is not the empty string can never fire: \<open>clean_iscsi_luc_authgroup\<close> has already turned the empty string into \<open>None\<close>.\<close>

theorem luc_authgroup_required_dead:
  assumes "django_clean_fields (gc_methods ipnet) GC_FIELDS d [] = Inr (d1, e1)"
  shows "map_of d1 ''iscsi_luc_authgroup'' \<noteq> Some (FStr [])"
  by (rule django_clean_fields_method_value [OF assms, of _ clean_iscsi_luc_authgroup])
     (simp_all add: GC_FIELDS_def gc_methods_def clean_iscsi_luc_authgroup_not_empty)

text \<open>With the controller enabled, \<open>clean_iscsi_lucport\<close> accepts exactly the ports \<open>1000..65536\<close>; 65536 is not a TCP port.\<close>

theorem lucport_bound:
  assumes "fval_truthy (cd_dflt d ''iscsi_toggleluc'' (FBool False))" "map_of d ''iscsi_lucport'' = Some (FInt p)"
  shows "clean_iscsi_lucport d = (if 1000 \<le> p \<and> p \<le> 65536 then Inr (FInt p) else Inl ValidationError)"
  using assms by (auto simp: clean_iscsi_lucport_def clean_number_range_def cd_get_def dict_get_def py2_lt_int_def py2_gt_int_def)

text \<open>An accepted credential: a peer user comes with a peer secret that differs from the user's secret.\<close>

lemma fval_len_zero: "fval_len v = Inr 0 \<Longrightarrow> v = FStr []"
  by (cases v) (auto simp: fval_len_def)

lemma auth_peer_set_ok:
  assumes "auth_peer_set d errs = Inr (d', [])"
  shows "d' = d \<and> cd_dflt d ''iscsi_target_auth_peersecret'' (FStr []) \<noteq> FStr [] \<and>
         cd_dflt d ''iscsi_target_auth_peersecret'' (FStr []) \<noteq> cd_dflt d ''iscsi_target_auth_secret'' (FStr [])"
proof -
  let ?ps = "cd_dflt d ''iscsi_target_auth_peersecret'' (FStr [])"
  obtain m where m: "fval_len ?ps = Inr m" using assms by (cases "fval_len ?ps") (auto simp: auth_peer_set_def Let_def)
  have m0: "m \<noteq> 0" and ne: "?ps \<noteq> cd_dflt d ''iscsi_target_auth_secret'' (FStr [])" and dd: "d' = d"
    using assms m by (auto simp: auth_peer_set_def Let_def split: if_splits)
  have "?ps \<noteq> FStr []" using m m0 by (auto simp: fval_len_def)
  then show ?thesis using ne dd by blast
qed

lemma auth_peer_unset_keeps_user:
  assumes "auth_peer_unset d errs = Inr (d', e')"
  shows "map_of d' ''iscsi_target_auth_peeruser'' = map_of d ''iscsi_target_auth_peeruser''"
proof -
  obtain m where m: "fval_len (cd_dflt d ''iscsi_target_auth_peersecret'' (FStr [])) = Inr m"
    using assms by (cases "fval_len (cd_dflt d ''iscsi_target_auth_peersecret'' (FStr []))") (auto simp: auth_peer_unset_def)
  define d1 where "d1 = (if 0 < m then AList.delete ''iscsi_target_auth_peersecret'' d else d)"
  define e1 where "e1 = (if 0 < m then errs @ [''iscsi_target_auth_peersecret''] else errs)"
  have p: "(if 0 < m then (AList.delete ''iscsi_target_auth_peersecret'' d, errs @ [''iscsi_target_auth_peersecret'']) else (d, errs))
           = (d1, e1)" by (simp add: d1_def e1_def)
  obtain m2 where m2: "fval_len (cd_dflt d1 ''iscsi_target_auth_peersecret2'' (FStr [])) = Inr m2"
    using assms m p by (cases "fval_len (cd_dflt d1 ''iscsi_target_auth_peersecret2'' (FStr []))") (auto simp: auth_peer_unset_def)
  have "d' = (if 0 < m2 then AList.delete ''iscsi_target_auth_peersecret2'' d1 else d1)"
    using assms m p m2 by (auto simp: auth_peer_unset_def)
  then show ?thesis by (simp add: d1_def delete_conv')
qed

theorem auth_cred_accepted:
  assumes "auth_cred_validate api d = Inr (d', [])"
    and "cd_dflt d' ''iscsi_target_auth_peeruser'' (FStr []) \<noteq> FStr []"
  shows "cd_dflt d' ''iscsi_target_auth_peersecret'' (FStr []) \<noteq> FStr [] \<and>
         cd_dflt d' ''iscsi_target_auth_peersecret'' (FStr []) \<noteq> cd_dflt d' ''iscsi_target_auth_secret'' (FStr [])"
proof (cases "django_clean_fields auth_cred_methods (auth_cred_fields api) d []")
  case (Inl e)
  then show ?thesis using assms(1) by (simp add: auth_cred_validate_def)
next
  case (Inr p)
  obtain d1 e1 where p: "p = (d1, e1)" by (cases p)
  have cl: "auth_cred_clean d1 e1 = Inr (d', [])" using assms(1) Inr p by (simp add: auth_cred_validate_def)
  obtain n where n: "fval_len (cd_dflt d1 ''iscsi_target_auth_peeruser'' (FStr [])) = Inr n"
    using cl by (cases "fval_len (cd_dflt d1 ''iscsi_target_auth_peeruser'' (FStr []))") (auto simp: auth_cred_clean_def)
  show ?thesis
  proof (cases "0 < n")
    case True
    then have "auth_peer_set d1 e1 = Inr (d', [])" using cl n by (simp add: auth_cred_clean_def)
    then show ?thesis using auth_peer_set_ok by blast
  next
    case False
    then have u: "auth_peer_unset d1 e1 = Inr (d', [])" using cl n by (simp add: auth_cred_clean_def)
    have "fval_len (cd_dflt d1 ''iscsi_target_auth_peeruser'' (FStr [])) = Inr 0" using n False by simp
    then have "cd_dflt d1 ''iscsi_target_auth_peeruser'' (FStr []) = FStr []" by (rule fval_len_zero)
    then have "cd_dflt d' ''iscsi_target_auth_peeruser'' (FStr []) = FStr []"
      using auth_peer_unset_keeps_user [OF u] by (simp add: cd_dflt_def)
    then show ?thesis using assms(2) by simp
  qed
qed

end
