(* ===== verification/JailAddr.thy ===== *)
theory JailAddr
  imports Prelude Complex_Main "HOL-Library.AList" "HOL-Library.Word"
begin

text \<open>
  Address allocation for jails and plugins (\<open>src/gui/jails/utils.py\<close>):
  the dictionaries of addresses the warden's jails already use
  (\<open>get_ipv4_exclude_dict\<close>, \<open>get_ipv6_exclude_dict\<close>), the probe for a free
  address (\<open>get_available_ipv4\<close>, \<open>get_available_ipv6\<close>), the configured jail
  network and its range (\<open>get_jail_ipv4_network*\<close>, \<open>get_jail_ipv6_network*\<close>),
  the guesses built on them (\<open>guess_ipv4_address\<close>, \<open>guess_ipv6_address\<close>,
  \<open>guess_addresses\<close>), the name a new plugin jail gets
  (\<open>new_default_plugin_jail\<close>), and the address split of the \<open>Jails\<close> model
  (\<open>src/gui/jails/models.py\<close>). The address class \<open>sipcalc_type\<close> is imported
  from a module that is not part of the repository; the code reaches it only
  through the attributes collected in the record \<open>sipcalc_ops\<close>, and the model
  is stated over any implementation of them. \<open>ping_host\<close> runs \<open>ping\<close> and is an
  oracle.
\<close>

section \<open>The address class and the warden's jails\<close>

text \<open>What the code uses of a \<open>sipcalc_type\<close> object: construction from a
  string \<open>"addr/mask"\<close>, \<open>str()\<close>, \<open>+= 1\<close>, \<open>int()\<close>, truthiness, the mask
  (\<open>network_mask_bits\<close>, \<open>prefix_length\<close>), the first and last addresses of the
  network as strings (\<open>usable_range\<close>, \<open>network_range\<close>), \<open>network_address\<close>,
  \<open>is_ipv4()\<close> and \<open>in_network\<close>.\<close>

record 'sc sipcalc_ops =
  sc_parse :: "string \<Rightarrow> 'sc"
  sc_str :: "'sc \<Rightarrow> string"
  sc_succ :: "'sc \<Rightarrow> 'sc"
  sc_int :: "'sc \<Rightarrow> int"
  sc_true :: "'sc \<Rightarrow> bool"
  sc_mask_bits :: "'sc \<Rightarrow> int"
  sc_prefix_length :: "'sc \<Rightarrow> int"
  sc_usable_lo :: "'sc \<Rightarrow> string"
  sc_usable_hi :: "'sc \<Rightarrow> string"
  sc_range_lo :: "'sc \<Rightarrow> string"
  sc_range_hi :: "'sc \<Rightarrow> string"
  sc_network_address :: "'sc \<Rightarrow> string"
  sc_is_ipv4 :: "'sc \<Rightarrow> bool"
  sc_in_network :: "'sc \<Rightarrow> 'sc \<Rightarrow> bool"

text \<open>\<open>sipcalc_type("%s/%d" % (a, m))\<close>.\<close>

definition sc_make :: "'sc sipcalc_ops \<Rightarrow> string \<Rightarrow> int \<Rightarrow> 'sc" where
  "sc_make ops a m = sc_parse ops (a @ ''/'' @ show_int m)"

text \<open>A jail as \<open>warden.Warden().list()\<close> describes it: the address fields the
  exclusion dictionaries read; a field may be missing (\<open>None\<close>).\<close>

record warden_jail =
  wj_ipv4 :: "string option"
  wj_bridge_ipv4 :: "string option"
  wj_alias_ipv4 :: "string option"
  wj_alias_bridge_ipv4 :: "string option"
  wj_ipv6 :: "string option"
  wj_bridge_ipv6 :: "string option"
  wj_alias_ipv6 :: "string option"
  wj_alias_bridge_ipv6 :: "string option"

type_synonym 'sc exclude_dict = "(string \<times> 'sc) list"

section \<open>The exclusion dictionaries\<close>

text \<open>One address string \<open>"a[/m]"\<close> of \<open>get_ipv4_exclude_dict\<close> (lines 101--108,
  and the same shape at 111--118, 124--131 and 137--144): split at \<open>/\<close>, take
  the mask from the second part when there are exactly two (\<open>int()\<close> may raise),
  store the object under its \<open>str()\<close>. The mask is returned, since the code
  keeps it for the next address.\<close>

definition excl_addr ::
  "'sc sipcalc_ops \<Rightarrow> int \<Rightarrow> string \<Rightarrow> 'sc exclude_dict \<Rightarrow> py_error + int \<times> 'sc exclude_dict" where
  "excl_addr ops m s d =
    (let parts = py_split CHR ''/'' s in
     case (if length parts = 2 then py_int (parts ! 1) else Inr m) of
       Inl e \<Rightarrow> Inl e
     | Inr m' \<Rightarrow> (let sc = sc_make ops (parts ! 0) m' in Inr (m', AList.update (sc_str ops sc) sc d)))"

text \<open>The loop over the comma-separated aliases (lines 121--131): the alias mask
  starts at the jail's mask and carries from one alias to the next.\<close>

fun excl_aliases ::
  "'sc sipcalc_ops \<Rightarrow> int \<Rightarrow> string list \<Rightarrow> 'sc exclude_dict \<Rightarrow> py_error + 'sc exclude_dict" where
  "excl_aliases ops am [] d = Inr d"
| "excl_aliases ops am (a # as) d =
     (case excl_addr ops am a d of Inl e \<Rightarrow> Inl e | Inr (am', d') \<Rightarrow> excl_aliases ops am' as d')"

text \<open>The body of the loop over the jails (lines 99--144), given the jail's
  address, bridge address, aliases and bridge aliases. The bridge branch splits
  the jail's address field \<open>j['ipv4']\<close>, not \<open>j['bridge_ipv4']\<close>; it raises
  \<open>AttributeError\<close> when that field is \<open>None\<close>.\<close>

definition excl_jail ::
  "'sc sipcalc_ops \<Rightarrow> string option \<times> string option \<times> string option \<times> string option \<Rightarrow>
   'sc exclude_dict \<Rightarrow> py_error + 'sc exclude_dict" where
  "excl_jail ops flds d =
    (case flds of (ip, br, al, abr) \<Rightarrow>
     (case (if truthy ip then excl_addr ops 24 (the ip) d else Inr (24, d)) of
       Inl e \<Rightarrow> Inl e
     | Inr (m1, d1) \<Rightarrow>
       (case (if truthy br then (case ip of None \<Rightarrow> Inl AttributeError | Some s \<Rightarrow> excl_addr ops m1 s d1)
              else Inr (m1, d1)) of
          Inl e \<Rightarrow> Inl e
        | Inr (m2, d2) \<Rightarrow>
          (case (if truthy al then excl_aliases ops m2 (py_split CHR '','' (the al)) d2 else Inr d2) of
             Inl e \<Rightarrow> Inl e
           | Inr d3 \<Rightarrow> (if truthy abr then excl_aliases ops m2 (py_split CHR '','' (the abr)) d3 else Inr d3)))))"

fun excl_jails ::
  "'sc sipcalc_ops \<Rightarrow> (warden_jail \<Rightarrow> string option \<times> string option \<times> string option \<times> string option) \<Rightarrow>
   warden_jail list \<Rightarrow> 'sc exclude_dict \<Rightarrow> py_error + 'sc exclude_dict" where
  "excl_jails ops sel [] d = Inr d"
| "excl_jails ops sel (j # js) d =
     (case excl_jail ops (sel j) d of Inl e \<Rightarrow> Inl e | Inr d' \<Rightarrow> excl_jails ops sel js d')"

text \<open>\<open>get_ipv4_exclude_dict()\<close> (lines 94--146) and \<open>get_ipv6_exclude_dict()\<close>
  (lines 157--209) over the jails \<open>w.list()\<close> returns; the IPv6 version reads
  the IPv6 fields and, like the IPv4 one, starts from the mask 24.\<close>

definition v4_fields :: "warden_jail \<Rightarrow> string option \<times> string option \<times> string option \<times> string option" where
  "v4_fields j = (wj_ipv4 j, wj_bridge_ipv4 j, wj_alias_ipv4 j, wj_alias_bridge_ipv4 j)"

definition v6_fields :: "warden_jail \<Rightarrow> string option \<times> string option \<times> string option \<times> string option" where
  "v6_fields j = (wj_ipv6 j, wj_bridge_ipv6 j, wj_alias_ipv6 j, wj_alias_bridge_ipv6 j)"

definition get_ipv4_exclude_dict :: "'sc sipcalc_ops \<Rightarrow> warden_jail list \<Rightarrow> py_error + 'sc exclude_dict" where
  "get_ipv4_exclude_dict ops js = excl_jails ops v4_fields js []"

definition get_ipv6_exclude_dict :: "'sc sipcalc_ops \<Rightarrow> warden_jail list \<Rightarrow> py_error + 'sc exclude_dict" where
  "get_ipv6_exclude_dict ops js = excl_jails ops v6_fields js []"

section \<open>Probing for a free address\<close>

text \<open>\<open>2**mask\<close>: a Python int for a mask \<open>\<ge> 0\<close>, a float below 1 for a
  negative one; kept exactly as a rational.\<close>

definition py_pow2 :: "int \<Rightarrow> rat" where
  "py_pow2 m = (if 0 \<le> m then of_int (2 ^ nat m) else 1 / of_int (2 ^ nat (- m)))"

text \<open>The number of addresses to probe (lines 224--238): the end minus the
  start when an end is given, else \<open>2**mask\<close> for the mask of the start's
  \<open>str()\<close>, where a missing or unparsable mask (the bare \<open>except\<close>) and a zero
  mask are 24. The IPv6 version (lines 271--285) defaults to 64.\<close>

definition probe_count :: "'sc sipcalc_ops \<Rightarrow> int \<Rightarrow> 'sc \<Rightarrow> 'sc option \<Rightarrow> rat" where
  "probe_count ops dflt start lst =
    (if lst = None \<or> \<not> sc_true ops (the lst) then
       (let parts = py_split CHR ''/'' (sc_str ops start);
            m = (if 1 < length parts then (case py_int (parts ! 1) of Inl _ \<Rightarrow> dflt | Inr m \<Rightarrow> m) else dflt)
        in py_pow2 (if m = 0 then dflt else m))
     else of_int (sc_int ops (the lst) - sc_int ops start))"

text \<open>The host part of an address, \<open>str(addr).split('/')[0]\<close>.\<close>

definition sc_host :: "'sc sipcalc_ops \<Rightarrow> 'sc \<Rightarrow> string" where
  "sc_host ops a = hd (py_split CHR ''/'' (sc_str ops a))"

text \<open>The \<open>while i <= naddrs\<close> loop (lines 240--262). Both branches of the body
  end in \<open>continue\<close> or \<open>break\<close>, so \<open>i += 1\<close> is never reached and \<open>i\<close> stays
  0: the loop probes successive addresses until one is falsy, or is neither
  excluded nor answers a ping. It need not end; not returning is \<open>None\<close>, the
  result \<open>Some a\<close> with \<open>a\<close> the address found or \<open>None\<close>. \<open>ping\<close> is \<open>ping_host\<close>
  with its \<open>ping6\<close> flag.\<close>

partial_function (option) avail_loop ::
  "'sc sipcalc_ops \<Rightarrow> 'sc exclude_dict \<Rightarrow> (string \<Rightarrow> bool) \<Rightarrow> rat \<Rightarrow> int \<Rightarrow> 'sc \<Rightarrow> 'sc option option" where
  "avail_loop ops ex ping naddrs i addr =
    (if of_int i \<le> naddrs then
       (if \<not> sc_true ops addr then Some None
        else if ex \<noteq> [] \<and> map_of ex (sc_str ops addr) \<noteq> None then avail_loop ops ex ping naddrs i (sc_succ ops addr)
        else if ping (sc_host ops addr) then avail_loop ops ex ping naddrs i (sc_succ ops addr)
        else Some (Some addr))
     else Some None)"

text \<open>\<open>get_available_ipv4(ipv4_start, ipv4_end, ipv4_exclude_dict)\<close> (lines
  220--264); an absent dictionary is the empty one, both being false.\<close>

definition get_available_ipv4 ::
  "'sc sipcalc_ops \<Rightarrow> (string \<Rightarrow> bool) \<Rightarrow> 'sc \<Rightarrow> 'sc option \<Rightarrow> 'sc exclude_dict \<Rightarrow> 'sc option option" where
  "get_available_ipv4 ops ping start lst ex = avail_loop ops ex ping (probe_count ops 24 start lst) 0 start"

text \<open>\<open>get_available_ipv6\<close> (lines 267--305): pings with \<open>ping6=True\<close>.\<close>

definition get_available_ipv6 ::
  "'sc sipcalc_ops \<Rightarrow> (string \<Rightarrow> bool) \<Rightarrow> 'sc \<Rightarrow> 'sc option \<Rightarrow> 'sc exclude_dict \<Rightarrow> 'sc option option" where
  "get_available_ipv6 ops ping6 start lst ex = avail_loop ops ex ping6 (probe_count ops 64 start lst) 0 start"

section \<open>The configured jail network\<close>

text \<open>A row of \<open>JailsConfiguration\<close> (\<open>src/gui/jails/models.py\<close>, lines
  328--370): the fields the address code reads.\<close>

record jails_configuration =
  jc_id :: nat
  jc_path :: string
  jc_ipv4_network :: string
  jc_ipv4_network_start :: string
  jc_ipv4_network_end :: string
  jc_ipv6_network :: string
  jc_ipv6_network_start :: string
  jc_ipv6_network_end :: string

text \<open>\<open>JailsConfiguration.objects.order_by("-id")[0]\<close>: the row with the
  greatest id; \<open>IndexError\<close>, caught by every caller, on an empty table.\<close>

definition jc_latest :: "jails_configuration list \<Rightarrow> jails_configuration option" where
  "jc_latest rows = (if rows = [] then None else Some (last (sort_key jc_id rows)))"

text \<open>\<open>get_jail_ipv4_network()\<close> (lines 308--318), \<open>_start()\<close> (321--335) and
  \<open>_end()\<close> (338--352): \<open>None\<close> when the table is empty (the bare \<open>except\<close>).\<close>

definition get_jail_ipv4_network :: "'sc sipcalc_ops \<Rightarrow> jails_configuration list \<Rightarrow> 'sc option" where
  "get_jail_ipv4_network ops rows = map_option (\<lambda>jc. sc_parse ops (jc_ipv4_network jc)) (jc_latest rows)"

definition get_jail_ipv4_network_start :: "'sc sipcalc_ops \<Rightarrow> jails_configuration list \<Rightarrow> 'sc option" where
  "get_jail_ipv4_network_start ops rows =
    (case (get_jail_ipv4_network ops rows, jc_latest rows) of
       (Some n, Some jc) \<Rightarrow> Some (sc_make ops (hd (py_split CHR ''/'' (jc_ipv4_network_start jc))) (sc_mask_bits ops n))
     | _ \<Rightarrow> None)"

definition get_jail_ipv4_network_end :: "'sc sipcalc_ops \<Rightarrow> jails_configuration list \<Rightarrow> 'sc option" where
  "get_jail_ipv4_network_end ops rows =
    (case (get_jail_ipv4_network ops rows, jc_latest rows) of
       (Some n, Some jc) \<Rightarrow> Some (sc_make ops (hd (py_split CHR ''/'' (jc_ipv4_network_end jc))) (sc_mask_bits ops n))
     | _ \<Rightarrow> None)"

text \<open>The IPv6 getters (lines 355--402), with \<open>prefix_length\<close>.\<close>

definition get_jail_ipv6_network :: "'sc sipcalc_ops \<Rightarrow> jails_configuration list \<Rightarrow> 'sc option" where
  "get_jail_ipv6_network ops rows = map_option (\<lambda>jc. sc_parse ops (jc_ipv6_network jc)) (jc_latest rows)"

definition get_jail_ipv6_network_start :: "'sc sipcalc_ops \<Rightarrow> jails_configuration list \<Rightarrow> 'sc option" where
  "get_jail_ipv6_network_start ops rows =
    (case (get_jail_ipv6_network ops rows, jc_latest rows) of
       (Some n, Some jc) \<Rightarrow> Some (sc_make ops (hd (py_split CHR ''/'' (jc_ipv6_network_start jc))) (sc_prefix_length ops n))
     | _ \<Rightarrow> None)"

definition get_jail_ipv6_network_end :: "'sc sipcalc_ops \<Rightarrow> jails_configuration list \<Rightarrow> 'sc option" where
  "get_jail_ipv6_network_end ops rows =
    (case (get_jail_ipv6_network ops rows, jc_latest rows) of
       (Some n, Some jc) \<Rightarrow> Some (sc_make ops (hd (py_split CHR ''/'' (jc_ipv6_network_end jc))) (sc_prefix_length ops n))
     | _ \<Rightarrow> None)"

text \<open>A configured value, or the fallback when it is absent or false.\<close>

definition sc_or :: "'sc sipcalc_ops \<Rightarrow> 'sc option \<Rightarrow> 'sc \<Rightarrow> 'sc" where
  "sc_or ops v fb = (case v of Some a \<Rightarrow> if sc_true ops a then a else fb | None \<Rightarrow> fb)"

section \<open>Guessing addresses\<close>

text \<open>\<open>guess_ipv4_address()\<close> (lines 408--433): with a true configured network,
  the configured start and end or else the ends of its usable range, then the
  probe over them with the current exclusion dictionary.\<close>

definition guess_ipv4_address ::
  "'sc sipcalc_ops \<Rightarrow> jails_configuration list \<Rightarrow> (string \<Rightarrow> bool) \<Rightarrow> warden_jail list \<Rightarrow>
   (py_error + 'sc option) option" where
  "guess_ipv4_address ops rows ping js =
    (case get_jail_ipv4_network ops rows of
       None \<Rightarrow> Some (Inr None)
     | Some n \<Rightarrow>
         (if \<not> sc_true ops n then Some (Inr None)
          else (let st = sc_or ops (get_jail_ipv4_network_start ops rows) (sc_make ops (sc_usable_lo ops n) (sc_mask_bits ops n));
                    en = sc_or ops (get_jail_ipv4_network_end ops rows) (sc_make ops (sc_usable_hi ops n) (sc_mask_bits ops n))
                in case get_ipv4_exclude_dict ops js of
                     Inl e \<Rightarrow> Some (Inl e)
                   | Inr ex \<Rightarrow> map_option Inr (get_available_ipv4 ops ping st (Some en) ex))))"

text \<open>\<open>guess_ipv6_address()\<close> (lines 441--467): computes the range, but the
  probe is commented out and the function returns its variable \<open>ipv4_addr\<close>,
  which is never assigned after \<open>None\<close>.\<close>

definition guess_ipv6_address :: "'sc sipcalc_ops \<Rightarrow> jails_configuration list \<Rightarrow> 'sc option" where
  "guess_ipv6_address ops rows =
    (let ipv4_addr = None in
     case get_jail_ipv6_network ops rows of
       None \<Rightarrow> ipv4_addr
     | Some n \<Rightarrow>
         (if \<not> sc_true ops n then ipv4_addr
          else (let st = sc_or ops (get_jail_ipv6_network_start ops rows) (sc_make ops (sc_range_lo ops n) (sc_prefix_length ops n));
                    en = sc_or ops (get_jail_ipv6_network_end ops rows) (sc_make ops (sc_range_hi ops n) (sc_prefix_length ops n))
                in ipv4_addr)))"

record 'sc addresses =
  high_ipv4 :: "'sc option"
  high_ipv6 :: "'sc option"
  bridge_ipv4 :: "'sc option"
  bridge_ipv6 :: "'sc option"

text \<open>A found address, kept when true (\<open>if ipv4_addr:\<close>).\<close>

definition sc_keep :: "'sc sipcalc_ops \<Rightarrow> 'sc option \<Rightarrow> 'sc option" where
  "sc_keep ops a = (case a of Some x \<Rightarrow> if sc_true ops x then Some x else None | None \<Rightarrow> None)"

text \<open>The bridge address: the first address of the jail network when the
  address found lies outside it (lines 540--544 and 553--557).\<close>

definition bridge_for ::
  "'sc sipcalc_ops \<Rightarrow> 'sc option \<Rightarrow> 'sc option \<Rightarrow> ('sc \<Rightarrow> string) \<Rightarrow> ('sc \<Rightarrow> int) \<Rightarrow> 'sc option" where
  "bridge_for ops net a lo bits =
    (case (net, a) of
       (Some n, Some x) \<Rightarrow> if sc_true ops n \<and> sc_true ops x \<and> \<not> sc_in_network ops n x
                           then Some (sc_make ops (lo n) (bits n)) else None
     | _ \<Rightarrow> None)"

text \<open>\<open>guess_addresses()\<close> (lines 527--561).\<close>

definition guess_addresses ::
  "'sc sipcalc_ops \<Rightarrow> jails_configuration list \<Rightarrow> (string \<Rightarrow> bool) \<Rightarrow> warden_jail list \<Rightarrow>
   (py_error + 'sc addresses) option" where
  "guess_addresses ops rows ping js =
    (case guess_ipv4_address ops rows ping js of
       None \<Rightarrow> None
     | Some (Inl e) \<Rightarrow> Some (Inl e)
     | Some (Inr a4) \<Rightarrow>
         (let n4 = get_jail_ipv4_network ops rows;
              a6 = guess_ipv6_address ops rows;
              n6 = get_jail_ipv6_network ops rows
          in Some (Inr \<lparr>high_ipv4 = sc_keep ops a4, high_ipv6 = sc_keep ops a6,
                        bridge_ipv4 = bridge_for ops n4 a4 (sc_usable_lo ops) (sc_mask_bits ops),
                        bridge_ipv6 = bridge_for ops n6 a6 (sc_range_lo ops) (sc_prefix_length ops)\<rparr>)))"

section \<open>A new plugin jail\<close>

text \<open>The name loop of \<open>new_default_plugin_jail\<close> (lines 569--574): the first
  \<open>basename_i\<close>, \<open>i\<close> from 1 to 999, that no \<open>Jails\<close> row has as its host;
  \<open>None\<close> when all are taken.\<close>

definition pick_jail_name :: "string \<Rightarrow> string list \<Rightarrow> string option" where
  "pick_jail_name b hosts = find (\<lambda>t. t \<notin> set hosts) (map (\<lambda>i. b @ ''_'' @ show_nat i) [1..<1000])"

record 'sc plugin_create =
  pc_jail :: "string option"
  pc_ipv4 :: 'sc
  pc_logfile :: string

text \<open>\<open>new_default_plugin_jail(basename)\<close> up to the arguments of
  \<open>w.create\<close> (lines 564--579 and 624--637): \<open>MiddlewareError\<close> without an IPv4
  address, \<open>IndexError\<close> without a configuration row. The template lookup and
  creation between them (lines 581--622) and the warden calls are not modelled;
  the result is what \<open>w.create\<close> receives when they succeed.\<close>

definition plugin_create_args ::
  "'sc sipcalc_ops \<Rightarrow> jails_configuration list \<Rightarrow> (string \<Rightarrow> bool) \<Rightarrow> warden_jail list \<Rightarrow> string list \<Rightarrow> string \<Rightarrow>
   (py_error + 'sc plugin_create) option" where
  "plugin_create_args ops rows ping js hosts b =
    (case guess_addresses ops rows ping js of
       None \<Rightarrow> None
     | Some (Inl e) \<Rightarrow> Some (Inl e)
     | Some (Inr addrs) \<Rightarrow>
         (case high_ipv4 addrs of
            None \<Rightarrow> Some (Inl MiddlewareError)
          | Some a \<Rightarrow>
              (let jailname = pick_jail_name b hosts in
               case jc_latest rows of
                 None \<Rightarrow> Some (Inl IndexError)
               | Some jc \<Rightarrow> Some (Inr \<lparr>pc_jail = jailname, pc_ipv4 = a, pc_logfile = jc_path jc @ ''/warden.log''\<rparr>))))"

section \<open>Address fields of the models\<close>

text \<open>\<open>Jails.__init__\<close> (\<open>src/gui/jails/models.py\<close>, lines 267--291): each
  address field is cut at \<open>/\<close>, the part after it moved to the netmask or
  prefix field when there is one.\<close>

definition split_addr_field :: "string option \<Rightarrow> string \<Rightarrow> string option \<times> string" where
  "split_addr_field v m =
    (if truthy v then (let parts = py_split CHR ''/'' (the v) in (Some (parts ! 0), if 1 < length parts then parts ! 1 else m))
     else (v, m))"

record jail_addrs =
  jail_ipv4 :: "string option"
  jail_ipv4_netmask :: string
  jail_bridge_ipv4 :: "string option"
  jail_bridge_ipv4_netmask :: string
  jail_ipv6 :: "string option"
  jail_ipv6_prefix :: string
  jail_bridge_ipv6 :: "string option"
  jail_bridge_ipv6_prefix :: string

definition jails_init_addrs :: "jail_addrs \<Rightarrow> jail_addrs" where
  "jails_init_addrs j =
    (let (a, m) = split_addr_field (jail_ipv4 j) (jail_ipv4_netmask j);
         (b, bm) = split_addr_field (jail_bridge_ipv4 j) (jail_bridge_ipv4_netmask j);
         (c, p) = split_addr_field (jail_ipv6 j) (jail_ipv6_prefix j);
         (d, bp) = split_addr_field (jail_bridge_ipv6 j) (jail_bridge_ipv6_prefix j)
     in \<lparr>jail_ipv4 = a, jail_ipv4_netmask = m, jail_bridge_ipv4 = b, jail_bridge_ipv4_netmask = bm,
         jail_ipv6 = c, jail_ipv6_prefix = p, jail_bridge_ipv6 = d, jail_bridge_ipv6_prefix = bp\<rparr>)"

text \<open>\<open>JailsConfiguration.__init__\<close> (lines 383--409), given the object
  \<open>sipcalc_type(iface=...)\<close> of the default interface (\<open>None\<close> when there is no
  interface): for a true IPv4 interface network, an empty network is filled
  from it, and the start and end are cut at \<open>/\<close> or filled from its usable
  range.\<close>

definition jc_init :: "'sc sipcalc_ops \<Rightarrow> 'sc option \<Rightarrow> jails_configuration \<Rightarrow> jails_configuration" where
  "jc_init ops iface jc =
    (case iface of
       None \<Rightarrow> jc
     | Some st \<Rightarrow>
         (if \<not> sc_true ops st \<or> \<not> sc_is_ipv4 ops st then jc
          else jc\<lparr>jc_ipv4_network := (if jc_ipv4_network jc = [] then sc_network_address ops st @ ''/'' @ show_int (sc_mask_bits ops st)
                                      else jc_ipv4_network jc),
                  jc_ipv4_network_start := hd (py_split CHR ''/'' (if jc_ipv4_network_start jc = [] then sc_usable_lo ops st
                                                                 else jc_ipv4_network_start jc)),
                  jc_ipv4_network_end := hd (py_split CHR ''/'' (if jc_ipv4_network_end jc = [] then sc_usable_hi ops st
                                                               else jc_ipv4_network_end jc))\<rparr>))"

section \<open>An IPv4 instance of the address class\<close>

text \<open>For evaluating the model on concrete configurations: an address object is
  a \<open>32 word\<close> with its mask (a negative mask marks an unparsable string, a
  false object), printed in dotted-decimal form. Successors wrap at
  \<open>255.255.255.255\<close>.\<close>

definition octets :: "32 word \<Rightarrow> string" where
  "octets a = (let n = unat a in
     show_nat (n div 2 ^ 24) @ ''.'' @ show_nat (n div 2 ^ 16 mod 256) @ ''.'' @
     show_nat (n div 2 ^ 8 mod 256) @ ''.'' @ show_nat (n mod 256))"

definition parse_octets :: "string \<Rightarrow> 32 word option" where
  "parse_octets s =
    (case map py_long (py_split CHR ''.'' s) of
       [Inr a, Inr b, Inr c, Inr d] \<Rightarrow>
         if a < 256 \<and> b < 256 \<and> c < 256 \<and> d < 256
         then Some (word_of_nat (((a * 256 + b) * 256 + c) * 256 + d)) else None
     | _ \<Rightarrow> None)"

definition v4_parse :: "string \<Rightarrow> 32 word \<times> int" where
  "v4_parse s =
    (let parts = py_split CHR ''/'' s in
     case parse_octets (parts ! 0) of
       None \<Rightarrow> (0, -1)
     | Some a \<Rightarrow> (a, if length parts = 2
                     then (case py_int (parts ! 1) of Inr m \<Rightarrow> if 0 \<le> m \<and> m \<le> 32 then m else -1 | Inl _ \<Rightarrow> -1)
                     else 32))"

definition v4_net :: "32 word \<times> int \<Rightarrow> 32 word" where
  "v4_net x = word_of_nat (unat (fst x) div 2 ^ (32 - nat (snd x)) * 2 ^ (32 - nat (snd x)))"

definition v4_bcast :: "32 word \<times> int \<Rightarrow> 32 word" where
  "v4_bcast x = v4_net x + word_of_nat (2 ^ (32 - nat (snd x)) - 1)"

definition example_v4_ops :: "(32 word \<times> int) sipcalc_ops" where
  "example_v4_ops =
    \<lparr>sc_parse = v4_parse, sc_str = \<lambda>x. octets (fst x) @ ''/'' @ show_int (snd x),
     sc_succ = \<lambda>x. (fst x + 1, snd x), sc_int = \<lambda>x. uint (fst x), sc_true = \<lambda>x. 0 \<le> snd x,
     sc_mask_bits = snd, sc_prefix_length = snd,
     sc_usable_lo = \<lambda>x. octets (v4_net x + 1), sc_usable_hi = \<lambda>x. octets (v4_bcast x - 1),
     sc_range_lo = \<lambda>x. octets (v4_net x), sc_range_hi = \<lambda>x. octets (v4_bcast x),
     sc_network_address = \<lambda>x. octets (v4_net x), sc_is_ipv4 = \<lambda>x. True,
     sc_in_network = \<lambda>n x. v4_net (fst x, snd n) = v4_net n\<rparr>"

definition probe_stop :: "'sc sipcalc_ops \<Rightarrow> 'sc exclude_dict \<Rightarrow> (string \<Rightarrow> bool) \<Rightarrow> 'sc \<Rightarrow> bool" where
  "probe_stop ops ex ping a =
    (\<not> sc_true ops a \<or> \<not> (ex \<noteq> [] \<and> map_of ex (sc_str ops a) \<noteq> None \<or> ping (sc_host ops a)))"

definition ex2 :: "(32 word \<times> int) exclude_dict" where
  "ex2 = [(''10.0.0.1/24'', (0x0A000001, 24)), (''10.0.0.2/24'', (0x0A000002, 24))]"

definition example_jc :: jails_configuration where
  "example_jc = \<lparr>jc_id = 1, jc_path = ''/mnt/jails'', jc_ipv4_network = ''10.0.0.0/24'',
     jc_ipv4_network_start = ''10.0.0.1'', jc_ipv4_network_end = ''10.0.0.2'',
     jc_ipv6_network = [], jc_ipv6_network_start = [], jc_ipv6_network_end = []\<rparr>"

definition example_jail :: "string \<Rightarrow> warden_jail" where
  "example_jail a = \<lparr>wj_ipv4 = Some a, wj_bridge_ipv4 = None, wj_alias_ipv4 = None, wj_alias_bridge_ipv4 = None,
     wj_ipv6 = None, wj_bridge_ipv6 = None, wj_alias_ipv6 = None, wj_alias_bridge_ipv6 = None\<rparr>"

definition example_hosts :: "string list" where
  "example_hosts = map (\<lambda>i. ''p_'' @ show_nat i) [1..<1000]"

definition example_create :: "(32 word \<times> int) plugin_create" where
  "example_create = \<lparr>pc_jail = None, pc_ipv4 = (0x0A000001, 24), pc_logfile = ''/mnt/jails/warden.log''\<rparr>"

section \<open>Properties\<close>

subsection \<open>The probe loop\<close>

text \<open>One turn of the probe loop, while its bound holds: a falsy address ends it with \<open>None\<close>, an excluded or answering address moves on to the next one, any other address is the result.\<close>

lemma avail_loop_unfold:
  "of_int i \<le> n \<Longrightarrow> avail_loop ops ex ping n i a =
     (if \<not> sc_true ops a then Some None
      else if ex \<noteq> [] \<and> map_of ex (sc_str ops a) \<noteq> None \<or> ping (sc_host ops a)
           then avail_loop ops ex ping n i (sc_succ ops a)
      else Some (Some a))"
  by (subst avail_loop.simps) auto

lemma avail_loop_first:
  assumes "of_int i \<le> n" "probe_stop ops ex ping ((sc_succ ops ^^ k) a)"
    and "\<forall>j<k. \<not> probe_stop ops ex ping ((sc_succ ops ^^ j) a)"
  shows "avail_loop ops ex ping n i a =
           Some (if sc_true ops ((sc_succ ops ^^ k) a) then Some ((sc_succ ops ^^ k) a) else None)"
  using assms(2,3)
proof (induction k arbitrary: a)
  case 0
  then show ?case by (subst avail_loop_unfold [OF assms(1)]) (auto simp: probe_stop_def)
next
  case (Suc k)
  have "\<not> probe_stop ops ex ping a" using Suc.prems(2) [rule_format, of 0] by simp
  then have "avail_loop ops ex ping n i a = avail_loop ops ex ping n i (sc_succ ops a)"
    by (subst avail_loop_unfold [OF assms(1)]) (simp add: probe_stop_def)
  moreover have "\<forall>j<k. \<not> probe_stop ops ex ping ((sc_succ ops ^^ j) (sc_succ ops a))"
  proof (intro allI impI)
    fix j assume "j < k"
    then have "Suc j < Suc k" by simp
    then have "\<not> probe_stop ops ex ping ((sc_succ ops ^^ Suc j) a)" using Suc.prems(2) by blast
    then show "\<not> probe_stop ops ex ping ((sc_succ ops ^^ j) (sc_succ ops a))" by (simp only: funpow_Suc_right o_apply simp_thms)
  qed
  ultimately show ?case using Suc.IH Suc.prems(1) by (simp only: funpow_Suc_right o_apply)
qed

text \<open>Since \<open>i\<close> never grows, the bound only matters through its sign: the loop gives the same result for every bound \<open>\<ge> i\<close>, and ends at once with \<open>None\<close> below it.\<close>

lemma avail_loop_some_bound:
  "avail_loop ops ex ping n i a = Some r \<Longrightarrow> of_int i \<le> n \<Longrightarrow> of_int i \<le> n' \<Longrightarrow>
   avail_loop ops ex ping n' i a = Some r"
proof (induction arbitrary: n' rule: avail_loop.raw_induct [rotated, consumes 1])
  case (1 f ops ex ping n i a r n')
  show ?case
  proof (cases "\<not> sc_true ops a \<or> \<not> (ex \<noteq> [] \<and> map_of ex (sc_str ops a) \<noteq> None \<or> ping (sc_host ops a))")
    case True
    then show ?thesis using 1(2,3,4) by (subst avail_loop_unfold [OF 1(4)]) (auto split: if_splits)
  next
    case False
    then have "f ops ex ping n i (sc_succ ops a) = Some r" using 1(2,3) by (auto split: if_splits)
    then show ?thesis using 1(1) 1(3,4) False by (subst avail_loop_unfold [OF 1(4)]) simp
  qed
qed

lemma avail_loop_bound_irrelevant:
  assumes "of_int i \<le> n" "of_int i \<le> n'"
  shows "avail_loop ops ex ping n i a = avail_loop ops ex ping n' i a"
proof (cases "avail_loop ops ex ping n i a")
  case None
  show ?thesis
  proof (cases "avail_loop ops ex ping n' i a")
    case (Some r)
    then show ?thesis using avail_loop_some_bound [OF Some assms(2,1)] None by simp
  qed (simp add: None)
next
  case (Some r)
  then show ?thesis using avail_loop_some_bound [OF Some assms] by simp
qed

lemma avail_loop_below:
  "\<not> of_int i \<le> n \<Longrightarrow> avail_loop ops ex ping n i a = Some None"
  by (subst avail_loop.simps) simp

lemma avail_loop_none_aux:
  "avail_loop ops ex ping n i a = Some r \<Longrightarrow> of_int i \<le> n \<Longrightarrow>
   \<forall>k. sc_true ops ((sc_succ ops ^^ k) a) \<and> ping (sc_host ops ((sc_succ ops ^^ k) a)) \<Longrightarrow> False"
proof (induction rule: avail_loop.raw_induct [rotated, consumes 1])
  case (1 f ops ex ping n i a r)
  have "sc_true ops a \<and> ping (sc_host ops a)" using 1(4) [rule_format, of 0] by simp
  then have "f ops ex ping n i (sc_succ ops a) = Some r" using 1(2,3) by (simp split: if_splits)
  moreover have "\<forall>k. sc_true ops ((sc_succ ops ^^ k) (sc_succ ops a)) \<and> ping (sc_host ops ((sc_succ ops ^^ k) (sc_succ ops a)))"
    using 1(4) by (metis funpow_Suc_right o_apply)
  ultimately show False using 1(1) 1(3) by blast
qed

lemma avail_loop_none:
  assumes "of_int i \<le> n" "\<forall>k. sc_true ops ((sc_succ ops ^^ k) a) \<and> ping (sc_host ops ((sc_succ ops ^^ k) a))"
  shows "avail_loop ops ex ping n i a = None"
proof (cases "avail_loop ops ex ping n i a")
  case (Some r)
  show ?thesis using avail_loop_none_aux [OF Some assms] by simp
qed

lemma py_pow2_pos: "0 < py_pow2 m"
  by (simp add: py_pow2_def)

lemma probe_count_none: "0 \<le> probe_count ops d start None"
  by (simp add: probe_count_def Let_def less_imp_le [OF py_pow2_pos])

lemma probe_count_end: "sc_true ops e \<Longrightarrow> probe_count ops d start (Some e) = of_int (sc_int ops e - sc_int ops start)"
  by (simp add: probe_count_def)

text \<open>Evaluation on the IPv4 instance.\<close>

lemma example_v4_sel:
  "sc_str example_v4_ops x = octets (fst x) @ ''/'' @ show_int (snd x)"
  "sc_true example_v4_ops x = (0 \<le> snd x)"
  "sc_int example_v4_ops x = uint (fst x)"
  "sc_parse example_v4_ops = v4_parse"
  "sc_mask_bits example_v4_ops x = snd x"
  "sc_usable_lo example_v4_ops x = octets (v4_net x + 1)"
  "sc_usable_hi example_v4_ops x = octets (v4_bcast x - 1)"
  "sc_in_network example_v4_ops n x = (v4_net (fst x, snd n) = v4_net n)"
  by (simp_all add: example_v4_ops_def)

lemma example_succ_pow: "(sc_succ example_v4_ops ^^ k) x = (fst x + of_nat k, snd x)"
  by (induction k) (simp_all add: example_v4_ops_def)

lemma example_parses:
  "v4_parse ''10.0.0.0/24'' = (0x0A000000, 24)"
  "v4_parse ''10.0.0.1/24'' = (0x0A000001, 24)"
  "v4_parse ''10.0.0.2/24'' = (0x0A000002, 24)"
  by (simp_all add: v4_parse_def parse_octets_def py_long_def char_isdigit_def digit_val_def py_int_def)

text \<open>C5 (liveness): the probe of \<open>get_available_ipv4\<close> returns, with the first address, counting from the start, that is falsy or neither excluded nor answering a ping, whenever such an address exists and the probe count is not negative; the result is that address when it is true and \<open>None\<close> otherwise.\<close>

theorem get_available_ipv4_first:
  assumes "0 \<le> probe_count ops 24 start lst"
    and "probe_stop ops ex ping ((sc_succ ops ^^ k) start)"
    and "\<forall>j<k. \<not> probe_stop ops ex ping ((sc_succ ops ^^ j) start)"
  shows "get_available_ipv4 ops ping start lst ex =
           Some (if sc_true ops ((sc_succ ops ^^ k) start) then Some ((sc_succ ops ^^ k) start) else None)"
  unfolding get_available_ipv4_def by (rule avail_loop_first [OF _ assms(2,3)]) (use assms(1) in simp)

theorem get_available_ipv4_first_witness:
  "0 \<le> probe_count example_v4_ops 24 (0x0A000001, 24) (Some (0x0A000002, 24)) \<and>
   probe_stop example_v4_ops ex2 (\<lambda>h. False) ((sc_succ example_v4_ops ^^ 2) (0x0A000001, 24)) \<and>
   \<not> probe_stop example_v4_ops ex2 (\<lambda>h. False) ((sc_succ example_v4_ops ^^ 0) (0x0A000001, 24)) \<and>
   \<not> probe_stop example_v4_ops ex2 (\<lambda>h. False) ((sc_succ example_v4_ops ^^ 1) (0x0A000001, 24)) \<and>
   get_available_ipv4 example_v4_ops (\<lambda>h. False) (0x0A000001, 24) (Some (0x0A000002, 24)) ex2 = Some (Some (0x0A000003, 24))"
proof -
  have s: "\<forall>j<2. \<not> probe_stop example_v4_ops ex2 (\<lambda>h. False) ((sc_succ example_v4_ops ^^ j) (0x0A000001, 24))"
    by (auto simp: less_2_cases_iff example_succ_pow probe_stop_def example_v4_sel ex2_def octets_def show_int_def show_nat.simps)
  have p: "probe_stop example_v4_ops ex2 (\<lambda>h. False) ((sc_succ example_v4_ops ^^ 2) (0x0A000001, 24))"
    by (simp add: example_succ_pow probe_stop_def example_v4_sel ex2_def octets_def show_int_def show_nat.simps)
  have c: "0 \<le> probe_count example_v4_ops 24 (0x0A000001, 24) (Some (0x0A000002, 24))"
    by (simp add: probe_count_def example_v4_sel)
  have s01: "\<not> probe_stop example_v4_ops ex2 (\<lambda>h. False) ((sc_succ example_v4_ops ^^ 0) (0x0A000001, 24))"
    "\<not> probe_stop example_v4_ops ex2 (\<lambda>h. False) ((sc_succ example_v4_ops ^^ 1) (0x0A000001, 24))"
    using s [rule_format, of 0] s [rule_format, of 1] by simp_all
  have "get_available_ipv4 example_v4_ops (\<lambda>h. False) (0x0A000001, 24) (Some (0x0A000002, 24)) ex2 =
        Some (Some (0x0A000003, 24))"
    using get_available_ipv4_first [OF c p s] by (simp add: example_succ_pow example_v4_sel)
  then show ?thesis using p c s01 by blast
qed

text \<open>C6 (liveness): the probe never returns when every address from the start on is true and answers a ping: \<open>get_available_ipv4\<close> without an end address does not terminate, since the loop counter never grows and the addresses wrap around.\<close>

theorem get_available_ipv4_diverges:
  assumes "\<forall>k. sc_true ops ((sc_succ ops ^^ k) start) \<and> ping (sc_host ops ((sc_succ ops ^^ k) start))"
  shows "get_available_ipv4 ops ping start None ex = None"
  unfolding get_available_ipv4_def by (rule avail_loop_none [OF _ assms]) (simp add: probe_count_none)

theorem get_available_ipv4_diverges_witness:
  "(\<forall>k. sc_true example_v4_ops ((sc_succ example_v4_ops ^^ k) (0x0A000001, 24)) \<and>
        (\<lambda>h. True) (sc_host example_v4_ops ((sc_succ example_v4_ops ^^ k) (0x0A000001, 24)))) \<and>
   get_available_ipv4 example_v4_ops (\<lambda>h. True) (0x0A000001, 24) None [] = None"
  using get_available_ipv4_diverges [of example_v4_ops "(0x0A000001, 24)" "\<lambda>h. True" "[]"]
  by (simp add: example_succ_pow example_v4_sel)

text \<open>C19 (functional): the end address of \<open>get_available_ipv4\<close> is ignored as soon as it is not below the start: the probe is the same as without an end address.\<close>

theorem get_available_ipv4_ignores_end:
  assumes "sc_true ops e" "sc_int ops start \<le> sc_int ops e"
  shows "get_available_ipv4 ops ping start (Some e) ex = get_available_ipv4 ops ping start None ex"
  unfolding get_available_ipv4_def
  by (rule avail_loop_bound_irrelevant) (use assms probe_count_none in \<open>simp_all add: probe_count_end\<close>)

theorem get_available_ipv4_ignores_end_witness:
  "sc_true example_v4_ops (0x0A000002, 24) \<and> sc_int example_v4_ops (0x0A000001, 24) \<le> sc_int example_v4_ops (0x0A000002, 24) \<and>
   get_available_ipv4 example_v4_ops (\<lambda>h. False) (0x0A000001, 24) (Some (0x0A000002, 24)) ex2 =
   get_available_ipv4 example_v4_ops (\<lambda>h. False) (0x0A000001, 24) None ex2"
proof -
  have h: "sc_true example_v4_ops (0x0A000002, 24)"
    "sc_int example_v4_ops (0x0A000001, 24) \<le> sc_int example_v4_ops (0x0A000002, 24)"
    by (simp_all add: example_v4_sel)
  show ?thesis using h get_available_ipv4_ignores_end [OF h] by blast
qed

text \<open>An end address below the start gives no address, without probing.\<close>

theorem get_available_ipv4_end_below:
  assumes "sc_true ops e" "sc_int ops e < sc_int ops start"
  shows "get_available_ipv4 ops ping start (Some e) ex = Some None"
  unfolding get_available_ipv4_def
  by (rule avail_loop_below) (use assms in \<open>simp add: probe_count_end\<close>)

subsection \<open>Exclusion dictionaries\<close>

lemma alist_update_idem: "AList.update k v (AList.update k v d) = AList.update k v d"
  by (induction d) auto

lemma excl_addr_again:
  assumes "excl_addr ops m s d = Inr (m1, d1)"
  shows "excl_addr ops m1 s d1 = Inr (m1, d1)"
  using assms by (auto simp: excl_addr_def Let_def alist_update_idem split: if_splits sum.splits)

lemma excl_jail_no_bridge:
  assumes "truthy ip"
  shows "excl_jail ops (ip, br, al, abr) d = excl_jail ops (ip, None, al, abr) d"
proof -
  obtain s where ip: "ip = Some s" using assms by (cases ip) (auto simp: truthy_def)
  show ?thesis
  proof (cases "excl_addr ops 24 s d")
    case (Inr p)
    then obtain m1 d1 where e: "excl_addr ops 24 s d = Inr (m1, d1)" by (cases p) auto
    then show ?thesis using assms ip excl_addr_again [OF e] by (simp add: excl_jail_def)
  qed (use assms ip in \<open>simp add: excl_jail_def\<close>)
qed

lemma example_exclude:
  "get_ipv4_exclude_dict example_v4_ops [example_jail ''10.0.0.1/24'', example_jail ''10.0.0.2/24''] = Inr ex2"
proof -
  have o1: "octets 0x0A000001 = ''10.0.0.1''" and o2: "octets 0x0A000002 = ''10.0.0.2''"
    by (simp_all add: octets_def show_nat.simps)
  show ?thesis
    by (simp add: get_ipv4_exclude_dict_def excl_jail_def excl_addr_def example_jail_def v4_fields_def truthy_def
                  sc_make_def example_v4_sel example_parses show_int_def show_nat.simps o1 o2 ex2_def Let_def py_int_def py_long_def
                  char_isdigit_def digit_val_def)
qed

lemma excl_addr_distinct:
  "excl_addr ops m s d = Inr (m', d') \<Longrightarrow> distinct (map fst d) \<Longrightarrow> distinct (map fst d')"
  by (auto simp: excl_addr_def Let_def distinct_update split: if_splits sum.splits)

lemma excl_aliases_distinct:
  "excl_aliases ops am as d = Inr d' \<Longrightarrow> distinct (map fst d) \<Longrightarrow> distinct (map fst d')"
  by (induction as arbitrary: am d) (auto split: sum.splits dest: excl_addr_distinct)

lemma excl_jail_distinct:
  "excl_jail ops f d = Inr d' \<Longrightarrow> distinct (map fst d) \<Longrightarrow> distinct (map fst d')"
  by (auto simp: excl_jail_def split: prod.splits if_splits sum.splits option.splits
           dest!: excl_addr_distinct excl_aliases_distinct)

lemma excl_jails_distinct:
  "excl_jails ops sel js d = Inr d' \<Longrightarrow> distinct (map fst d) \<Longrightarrow> distinct (map fst d')"
  by (induction js arbitrary: d) (auto split: sum.splits dest: excl_jail_distinct)



text \<open>C24 (error): the bridge address of a jail is never excluded: for jails with an IPv4 address, \<open>get_ipv4_exclude_dict\<close> is the same whatever their bridge addresses are, because the bridge branch splits \<open>j['ipv4']\<close> again.\<close>

theorem exclude_dict_ignores_bridge:
  assumes "\<forall>j\<in>set js. truthy (wj_ipv4 j)"
  shows "get_ipv4_exclude_dict ops (map (\<lambda>j. j\<lparr>wj_bridge_ipv4 := b j\<rparr>) js) = get_ipv4_exclude_dict ops js"
proof -
  have "excl_jails ops v4_fields (map (\<lambda>j. j\<lparr>wj_bridge_ipv4 := b j\<rparr>) js) d = excl_jails ops v4_fields js d" for d
    using assms
  proof (induction js arbitrary: d)
    case (Cons j js)
    have "excl_jail ops (v4_fields (j\<lparr>wj_bridge_ipv4 := b j\<rparr>)) d = excl_jail ops (v4_fields j) d"
      using Cons.prems excl_jail_no_bridge [of "wj_ipv4 j" ops] by (simp add: v4_fields_def del: excl_jail_no_bridge) metis
    then show ?case using Cons by (simp split: sum.split)
  qed simp
  then show ?thesis by (simp add: get_ipv4_exclude_dict_def)
qed

theorem exclude_dict_ignores_bridge_witness:
  "truthy (wj_ipv4 (example_jail ''10.0.0.1/24'')) \<and>
   get_ipv4_exclude_dict example_v4_ops (map (\<lambda>j. j\<lparr>wj_bridge_ipv4 := Some ''10.0.0.9/24''\<rparr>) [example_jail ''10.0.0.1/24'']) =
   get_ipv4_exclude_dict example_v4_ops [example_jail ''10.0.0.1/24'']"
proof -
  have h: "\<forall>j\<in>set [example_jail ''10.0.0.1/24'']. truthy (wj_ipv4 j)" by (simp add: example_jail_def truthy_def)
  show ?thesis using h exclude_dict_ignores_bridge [OF h, of example_v4_ops "\<lambda>j. Some ''10.0.0.9/24''"] by simp
qed

subsection \<open>Guessing addresses\<close>


text \<open>\<open>guess_ipv6_address\<close> never finds an address, so \<open>guess_addresses\<close> never proposes an IPv6 address or an IPv6 bridge.\<close>

lemma guess_ipv6_address_none [simp]: "guess_ipv6_address ops rows = None"
  by (simp add: guess_ipv6_address_def Let_def split: option.split)

theorem guess_addresses_no_ipv6:
  assumes "guess_addresses ops rows ping js = Some (Inr r)"
  shows "high_ipv6 r = None \<and> bridge_ipv6 r = None"
  using assms by (auto simp: guess_addresses_def sc_keep_def bridge_for_def Let_def split: option.splits sum.splits)

theorem guess_addresses_no_ipv6_witness:
  "guess_addresses example_v4_ops [] (\<lambda>h. False) [] = Some (Inr \<lparr>high_ipv4 = None, high_ipv6 = None, bridge_ipv4 = None, bridge_ipv6 = None\<rparr>) \<and>
   high_ipv6 (\<lparr>high_ipv4 = None, high_ipv6 = None, bridge_ipv4 = None, bridge_ipv6 = None\<rparr> :: (32 word \<times> int) addresses) = None \<and>
   bridge_ipv6 (\<lparr>high_ipv4 = None, high_ipv6 = None, bridge_ipv4 = None, bridge_ipv6 = None\<rparr> :: (32 word \<times> int) addresses) = None"
  using guess_addresses_no_ipv6 [of example_v4_ops "[]" "\<lambda>h. False" "[]"]
  by (simp add: guess_addresses_def guess_ipv4_address_def get_jail_ipv4_network_def get_jail_ipv6_network_def
                jc_latest_def sc_keep_def bridge_for_def)

subsection \<open>Plugin jail names\<close>

lemma find_map_upt_Some:
  assumes "find P (map f [lo..<hi]) = Some t"
  shows "\<exists>i. lo \<le> i \<and> i < hi \<and> t = f i \<and> P t \<and> (\<forall>j. lo \<le> j \<and> j < i \<longrightarrow> \<not> P (f j))"
  using assms
proof (induction hi arbitrary: t)
  case 0
  then show ?case by simp
next
  case (Suc hi)
  show ?case
  proof (cases "find P (map f [lo..<hi])")
    case None
    then have n: "\<forall>x\<in>set (map f [lo..<hi]). \<not> P x" by (simp add: find_None_iff)
    have "lo \<le> hi" "t = f hi" "P t" using Suc.prems None by (auto split: if_splits simp: find_snoc)
    then show ?thesis using n by auto
  next
    case (Some t')
    then have "t' = t" using Suc.prems by (cases "lo \<le> hi") (auto simp: find_snoc)
    then show ?thesis using Suc.IH Some by fastforce
  qed
qed

text \<open>The name chosen is the first free \<open>basename_i\<close>.\<close>

theorem pick_jail_name_first:
  assumes "pick_jail_name b hosts = Some t"
  shows "\<exists>i. 1 \<le> i \<and> i < 1000 \<and> t = b @ ''_'' @ show_nat i \<and> t \<notin> set hosts \<and>
             (\<forall>j. 1 \<le> j \<and> j < i \<longrightarrow> b @ ''_'' @ show_nat j \<in> set hosts)"
  using find_map_upt_Some [of "\<lambda>t. t \<notin> set hosts" "\<lambda>i. b @ ''_'' @ show_nat i" 1 1000 t] assms
  by (simp add: pick_jail_name_def)

theorem pick_jail_name_first_witness:
  "pick_jail_name ''p'' [''p_1''] = Some ''p_2'' \<and>
   (\<exists>i. 1 \<le> i \<and> i < 1000 \<and> ''p_2'' = ''p'' @ ''_'' @ show_nat i \<and> ''p_2'' \<notin> set [''p_1''] \<and>
        (\<forall>j. 1 \<le> j \<and> j < i \<longrightarrow> ''p'' @ ''_'' @ show_nat j \<in> set [''p_1'']))"
proof -
  have u3: "[1..<3] = [1, 2]" by (simp add: upt_rec)
  have u: "[1..<1000] = [1, 2] @ [3..<1000]"
    using upt_add_eq_append [of 1 3 997] unfolding u3 by simp
  have "pick_jail_name ''p'' [''p_1''] = Some ''p_2''"
    unfolding pick_jail_name_def u by (simp add: show_nat.simps)
  then show ?thesis using pick_jail_name_first [of "''p''" "[''p_1'']" "''p_2''"] by simp
qed

lemma pick_jail_name_None:
  "(\<forall>i\<in>{1..<1000}. b @ ''_'' @ show_nat i \<in> set hosts) \<Longrightarrow> pick_jail_name b hosts = None"
  by (simp add: pick_jail_name_def find_None_iff)

text \<open>C28 (error): when the names \<open>basename_1\<close> to \<open>basename_999\<close> are all taken, \<open>new_default_plugin_jail\<close> does not stop: it goes on to create the jail with the name \<open>None\<close>.\<close>

theorem plugin_jail_name_exhausted:
  assumes "set (map (\<lambda>i. b @ ''_'' @ show_nat i) [1..<1000]) \<subseteq> set hosts"
    and "plugin_create_args ops rows ping js hosts b = Some (Inr pc)"
  shows "pc_jail pc = None"
proof -
  have "pick_jail_name b hosts = None" using assms(1) by (intro pick_jail_name_None) auto
  then show ?thesis using assms(2) by (auto simp: plugin_create_args_def Let_def split: option.splits sum.splits)
qed

theorem plugin_jail_name_exhausted_witness:
  "set (map (\<lambda>i. ''p'' @ ''_'' @ show_nat i) [1..<1000]) \<subseteq> set example_hosts \<and>
   plugin_create_args example_v4_ops [example_jc] (\<lambda>h. False) [] example_hosts ''p'' = Some (Inr example_create) \<and>
   pc_jail example_create = None"
proof -
  have h: "\<forall>i\<in>{1..<1000}. ''p'' @ ''_'' @ show_nat i \<in> set example_hosts" by (simp add: example_hosts_def)
  have h': "set (map (\<lambda>i. ''p'' @ ''_'' @ show_nat i) [1..<1000]) \<subseteq> set example_hosts" by (simp add: example_hosts_def)
  have jl: "jc_latest [example_jc] = Some example_jc" by (simp add: jc_latest_def)
  have jcf: "jc_ipv4_network example_jc = ''10.0.0.0/24''" "jc_ipv4_network_start example_jc = ''10.0.0.1''"
    "jc_ipv4_network_end example_jc = ''10.0.0.2''" "jc_path example_jc = ''/mnt/jails''" by (simp_all add: example_jc_def)
  have net: "get_jail_ipv4_network example_v4_ops [example_jc] = Some (0x0A000000, 24)"
    by (simp add: get_jail_ipv4_network_def jl jcf example_v4_sel example_parses)
  have st: "get_jail_ipv4_network_start example_v4_ops [example_jc] = Some (0x0A000001, 24)"
    by (simp add: get_jail_ipv4_network_start_def net jl jcf sc_make_def example_v4_sel example_parses show_int_def show_nat.simps)
  have en: "get_jail_ipv4_network_end example_v4_ops [example_jc] = Some (0x0A000002, 24)"
    by (simp add: get_jail_ipv4_network_end_def net jl jcf sc_make_def example_v4_sel example_parses show_int_def show_nat.simps)
  have c: "of_int 0 \<le> probe_count example_v4_ops 24 (0x0A000001, 24) (Some (0x0A000002, 24))"
    by (simp add: probe_count_def example_v4_sel)
  have p: "probe_stop example_v4_ops [] (\<lambda>h. False) ((sc_succ example_v4_ops ^^ 0) (0x0A000001, 24))"
    by (simp add: probe_stop_def)
  have g: "guess_ipv4_address example_v4_ops [example_jc] (\<lambda>h. False) [] = Some (Inr (Some (0x0A000001, 24)))"
    using avail_loop_first [OF c p] by (simp add: guess_ipv4_address_def net st en sc_or_def example_v4_sel
                                                  get_ipv4_exclude_dict_def get_available_ipv4_def)
  have ga: "guess_addresses example_v4_ops [example_jc] (\<lambda>h. False) [] =
            Some (Inr \<lparr>high_ipv4 = Some (0x0A000001, 24), high_ipv6 = None,
                       bridge_ipv4 = bridge_for example_v4_ops (Some (0x0A000000, 24)) (Some (0x0A000001, 24))
                                       (sc_usable_lo example_v4_ops) (sc_mask_bits example_v4_ops),
                       bridge_ipv6 = None\<rparr>)"
    by (simp add: guess_addresses_def g net sc_keep_def example_v4_sel bridge_for_def get_jail_ipv6_network_def jl)
  have "plugin_create_args example_v4_ops [example_jc] (\<lambda>h. False) [] example_hosts ''p'' = Some (Inr example_create)"
    using pick_jail_name_None [OF h] by (simp add: plugin_create_args_def ga jl jcf example_create_def)
  then show ?thesis using h' plugin_jail_name_exhausted [OF h'] by blast
qed

subsection \<open>Address fields of the models\<close>

lemma split_hd_no_sep: "c \<notin> set (hd (py_split c s))"
  by (induction s) (auto simp: Let_def)

lemma split_hd_single [simp]: "py_split c (hd (py_split c s)) = [hd (py_split c s)]"
  using split_hd_no_sep py_split_no_sep by metis

lemma py_split_nth_0 [simp]: "py_split c s ! 0 = hd (py_split c s)"
  using py_split_nonempty by (metis hd_conv_nth)



text \<open>\<open>Jails.__init__\<close> is idempotent and splits \<open>a/m\<close> into the address and the netmask.\<close>

lemma split_addr_field_idem:
  "split_addr_field (fst (split_addr_field v m)) (snd (split_addr_field v m)) = split_addr_field v m"
  by (auto simp: split_addr_field_def truthy_def Let_def split: option.split)

theorem jails_init_addrs_idempotent:
  "jails_init_addrs (jails_init_addrs j) = jails_init_addrs j"
  using split_addr_field_idem
  by (simp add: jails_init_addrs_def split_def Let_def)

theorem jails_init_addrs_split:
  assumes "CHR ''/'' \<notin> set a" "CHR ''/'' \<notin> set m" "a \<noteq> []"
  shows "jail_ipv4 (jails_init_addrs (j\<lparr>jail_ipv4 := Some (a @ ''/'' @ m)\<rparr>)) = Some a \<and>
         jail_ipv4_netmask (jails_init_addrs (j\<lparr>jail_ipv4 := Some (a @ ''/'' @ m)\<rparr>)) = m"
proof -
  have "py_split CHR ''/'' (a @ ''/'' @ m) = [a, m]"
    using assms py_split_append_sep [of "CHR ''/''" a m] by simp
  then show ?thesis by (simp add: jails_init_addrs_def split_addr_field_def truthy_def Let_def split_def)
qed


end
