(* ===== verification/Spec2Isabelle.thy ===== *)
theory Spec2Isabelle
  imports CacheTool IscsiForms JailAddr
begin

text \<open>
  \<^bold>\<open>The FreeNAS web console: its directory-service client and the code around it.\<close>
  The core is \<open>src/gui/common/freenasldap.py\<close>: a directory connection
  (\<open>FreeNAS_LDAP_Directory\<close>) that opens, binds and searches one LDAP server,
  paginating with the paged-results control and caching plain searches in a query
  cache; an LDAP backend (\<open>FreeNAS_LDAP_Base\<close>) and an Active Directory backend
  (\<open>FreeNAS_ActiveDirectory_Base\<close>) built on it; domain discovery through DNS SRV
  records; identity caches of users and groups with "loaded" sentinel files; and
  factories (\<open>FreeNAS_Directory_Users\<close> and friends) that pick a backend from flag
  bits. Around it the model covers the code that feeds and uses it: the
  directory-service models and helpers of \<open>src/gui/services/models.py\<close> and
  \<open>src/gui/common/system.py\<close>, the cache tool \<open>src/gui/tools/cachetool.py\<close>, the
  service forms of \<open>src/gui/services/forms.py\<close>, and the jail address allocation of
  \<open>src/gui/jails/utils.py\<close> with the address fields of \<open>src/gui/jails/models.py\<close>.

  \<^bold>\<open>How the code is modelled.\<close> Python objects are records passed and returned
  explicitly; a method that talks to a server takes and returns the record \<open>net\<close>
  (the servers' behaviours and the observable effects: bound sessions, requests,
  bind attempts). Exceptions are values of \<open>py_error\<close> (\<open>Prelude\<close>), results are
  \<open>py_error + 'a\<close>, and \<open>then_ok\<close> sequences statements. Dictionaries are
  association lists, database tables lists of rows. Loops that may not end are
  \<^theory_text>\<open>partial_function (option)\<close>, where \<open>None\<close> is not returning: \<open>paged_loop\<close>
  (the server's cookies), \<open>exclude_loop\<close> (a directory walk), \<open>avail_loop\<close> (the
  address probe). No fuel is used. Code outside the repository (the notifier, the
  warden, \<open>sipcalc\<close>, \<open>ping\<close>, \<open>freenascache\<close>, \<open>freenasnt4\<close>) is an interface: a
  record of its observable behaviour that the model takes as a parameter.

  \<^bold>\<open>Theories.\<close>
  \<^item> \<open>Prelude\<close>: the Python builtins the code relies on (\<open>str.split\<close>,
    \<open>str(n)\<close>/\<open>long(s)\<close> and their round trip, \<open>upper\<close>, truthiness, dictionary
    lookups) and the exception datatype.
  \<^item> \<open>Connection\<close>: \<open>FreeNAS_LDAP_Directory\<close> (\<open>ldap_open\<close>, \<open>ldap_close\<close>,
    \<open>ldap_search_raw\<close> for \<open>_search\<close>, \<open>ldap_search\<close> for \<open>search\<close>), its life as
    the step relation \<open>conn_step\<close> with the invariant \<open>conn_inv\<close>.
  \<^item> \<open>Discovery\<close>: SRV lookup and ordering, \<open>dc_connect\<close>.
  \<^item> \<open>LdapBackend\<close>: \<open>FreeNAS_LDAP_Base\<close>: construction from arguments or the
    database, filters, base DNs, \<open>get_user(s)\<close>, \<open>get_group(s)\<close>.
  \<^item> \<open>AdBackend\<close>, \<open>AdDomains\<close>, \<open>AdInit\<close>: the Active Directory backend: security
    filtering and counters, the rootDSE and naming-context lookups,
    \<open>get_domains\<close>, and construction.
  \<^item> \<open>IdentityCache\<close>, \<open>AdIdentity\<close>: the bulk enumerations and single lookups
    of users and groups with their cache tiers and sentinels, for both backends.
  \<^item> \<open>ServiceModels\<close>, \<open>SystemDb\<close>: the directory-service models, the
    configuration database, and the \<open>system.py\<close> helpers (\<open>exclude_path\<close>,
    \<open>is_mounted\<close>, the enabled-service queries).
  \<^item> \<open>Dispatch\<close>: the collections, the single-account classes and the factories.
  \<^item> \<open>CacheTool\<close>: the sub-commands of \<open>cachetool\<close> and its command line.
  \<^item> \<open>ServiceForms\<close>: the validation and \<open>save\<close> methods of the service forms.
  \<^item> \<open>IscsiForms\<close>: the iSCSI credential, target-to-extent and global
    configuration forms.
  \<^item> \<open>JailAddr\<close>: exclusion dictionaries, the free-address probe, the jail
    network, the address guesses, the name of a new plugin jail, and the model
    initialisers; with an IPv4 instance of the address class on \<open>32 word\<close>
    (successors wrap at \<open>255.255.255.255\<close>).

  \<^bold>\<open>What is proved\<close> (the claims C1--C40 and the lemmas under them).
  Connection: paging is complete and terminates against a paging server (C1); the
  lifecycle invariant holds in every reachable state (C2); \<open>search\<close> restores the
  open state (C3) except when \<open>_search\<close> raises, leaking a session (C4); the
  anonymous bind (C7); a swallowed StartTLS failure binds in clear (C8); numeric
  encryption modes are dropped (C9); the cache answers paged searches and ignores
  scope (C10); two servers' cache keys collide (C11); the query cache round trip
  (C12). Discovery: controllers in SRV order (C13), first-success failover (C14).
  LDAP backend: repeated enumeration from the cache (C15), the connection
  invariant across its queries (C17), numeric and string lookups agree (C18), the
  \<open>host:port\<close> round trip (C21) and its two error paths (C22, C23). Active
  Directory: security filtering (C25, C26), the group enumeration setting the
  user count (C27), the session leak on a group without type (C30), name
  qualification (C35), the connection invariant of every lookup (C37), the
  single-domain bound of \<open>get_domains\<close> (C38), a host argument kept whole (C39).
  Identity caches: short-circuit (C31), a cached account not found by a single
  lookup (C32), refinement of the enumeration loop by \<open>resolved_pairs\<close> (C33),
  numeric lookups ignoring the local uid (C34). Dispatch: \<open>len()\<close> is the length
  of \<open>__iter__\<close> (C36). System helpers: \<open>exclude_path\<close> terminates on every
  file system, cycles included (C40, by a multiset measure). Jails: the probe
  returns the first free address (C5) and never returns when every address
  answers (C6); the end address is ignored (C19) and an address beyond the
  configured range is handed out (C16); the exclusion dictionary is well formed
  (C20) and ignores bridge addresses (C24); a new plugin jail is named \<open>None\<close>
  once 999 names are taken (C28); \<open>JailsConfiguration.__init__\<close> is idempotent
  (C29). The lemmas of \<open>ServiceForms\<close> show that \<open>servicesForm.save\<close> stores the
  flag the notifier reported, that the FTP umask round-trips, that the SNMP
  community is never validated and that a rejected passive-port minimum makes
  the FTP form raise \<open>KeyError\<close>; those of \<open>IscsiForms\<close> that an accepted
  credential has a distinct peer secret, that the LUN check of the
  target-to-extent form never runs, that the controller auth-group check is dead
  and that the controller port bound admits 65536; those of \<open>CacheTool\<close> that \<open>count\<close> agrees with
  \<open>keys\<close> and that the Active Directory \<open>check\<close> raises \<open>NameError\<close> on \<open>dg=\<close>
  arguments.

  \<^bold>\<open>Not modelled.\<close> Logging; the Django views, URL maps, admin scaffolding and
  migrations; the models and forms of accounts, network, sharing, storage and
  plugins (CRUD without behaviour beyond Django's); the remaining service forms'
  \<open>save\<close> side effects on the running system (the notifier is an interface);
  \<open>ping_host\<close>, \<open>get_jails_index\<close>, the host-network getters, the template and
  warden calls of \<open>new_default_plugin_jail\<close> and \<open>jail_auto_configure\<close> (process
  spawning and external tools); the disk persistence of the caches
  (\<open>freenascache\<close>, outside \<open>src/\<close>); the NT4 backend (\<open>freenasnt4\<close>, outside
  the source tree). The \<open>fill\<close>, \<open>expire\<close> and \<open>dump\<close> sub-commands of the cache
  tool are delegated to code outside the model.
\<close>

end
